(* ===== verification/Prelude.thy ===== *)
theory Prelude
  imports Main "HOL-Library.Word"
begin

unbundle bit_operations_syntax

text \<open>
  Shared vocabulary of the development.  Machine integers are words of their C and
  Go width; a C object in memory is the list of its bytes, written with \<open>store\<close> and
  read with \<open>load\<close>; a Go \<open>string\<close> is a HOL string, whose characters are bytes.
  The little-endian codecs \<open>le_put\<close> and \<open>le_get\<close> are what the BPF target writes and
  what Go's \<open>binary.LittleEndian\<close> reads.

  Three collections carry the proofs of the components: \<open>mem_simps\<close> (lengths and
  read-over-write), \<open>codec\<close> (encode and decode) and \<open>return_iff\<close> (inversion of
  successful results).  The locale \<open>simulation\<close> relates two step relations.
\<close>

named_theorems mem_simps
named_theorems codec
named_theorems return_iff

type_synonym byte = "8 word"
type_synonym u16 = "16 word"
type_synonym u32 = "32 word"
type_synonym u64 = "64 word"

section \<open>Little-endian codecs\<close>

text \<open>\<open>le_put n w\<close>: the \<open>n\<close> low bytes of \<open>w\<close>, least significant first.\<close>

definition le_put :: "nat \<Rightarrow> 'a::len word \<Rightarrow> byte list" where
  "le_put n w = map (\<lambda>i. ucast (drop_bit (8 * i) w)) [0..<n]"

fun le_get :: "byte list \<Rightarrow> 'a::len word" where
  "le_get [] = 0"
| "le_get (b # bs) = ucast b OR push_bit 8 (le_get bs)"

lemma length_le_put [simp, mem_simps]: "length (le_put n w) = n"
  by (simp add: le_put_def)

lemma le_put_neq_Nil [simp]: "0 < n \<Longrightarrow> le_put n w \<noteq> []"
  by (simp add: le_put_def)

lemma bit_le_get:
  "bit (le_get bs :: 'a::len word) k \<longleftrightarrow>
     k < LENGTH('a) \<and> k div 8 < length bs \<and> bit (bs ! (k div 8)) (k mod 8)"
proof (induction bs arbitrary: k)
  case Nil
  then show ?case by simp
next
  case (Cons b bs)
  show ?case
  proof (cases "k < 8")
    case True
    then show ?thesis by (auto simp: bit_simps)
  next
    case False
    then have div: "k div 8 = Suc ((k - 8) div 8)" and md: "k mod 8 = (k - 8) mod 8"
      by (simp_all add: le_div_geq le_mod_geq)
    have "\<not> bit b k"
      using False by (auto dest: bit_imp_le_length)
    then show ?thesis
      using False Cons.IH [of "k - 8"] by (auto simp: bit_simps div md)
  qed
qed

lemma le_get_put:
  assumes "LENGTH('a::len) \<le> 8 * n"
  shows "le_get (le_put n (w :: 'a word)) = w"
proof (rule bit_word_eqI)
  fix k assume k: "k < LENGTH('a)"
  then have lt: "k div 8 < n"
    using assms by (metis less_mult_imp_div_less mult.commute order_less_le_trans)
  have "bit (le_put n w ! (k div 8)) (k mod 8) = bit w k"
    using lt by (simp add: le_put_def bit_simps)
  then show "bit (le_get (le_put n w) :: 'a word) k = bit w k"
    using k lt by (simp add: bit_le_get)
qed

lemma le_put_get:
  assumes "8 * length bs \<le> LENGTH('a::len)"
  shows "le_put (length bs) (le_get bs :: 'a word) = bs"
proof (rule nth_equalityI)
  show "length (le_put (length bs) (le_get bs :: 'a word)) = length bs" by simp
next
  fix i assume "i < length (le_put (length bs) (le_get bs :: 'a word))"
  then have i: "i < length bs" by simp
  show "le_put (length bs) (le_get bs :: 'a word) ! i = bs ! i"
  proof (rule bit_word_eqI)
    fix k assume "k < LENGTH(8)"
    then have k: "k < 8" by simp
    then have "(8 * i + k) div 8 = i" and "(8 * i + k) mod 8 = k"
      by simp_all
    moreover have "8 * i + k < LENGTH('a)"
      using i k assms by linarith
    ultimately show "bit (le_put (length bs) (le_get bs :: 'a word) ! i) k = bit (bs ! i) k"
      using i k by (simp add: le_put_def bit_simps bit_le_get)
  qed
qed

lemma le_get_put16 [simp, codec]: "le_get (le_put 2 (w :: u16)) = w"
  by (rule le_get_put) simp

lemma le_get_put32 [simp, codec]: "le_get (le_put 4 (w :: u32)) = w"
  by (rule le_get_put) simp

lemma le_get_put64 [simp, codec]: "le_get (le_put 8 (w :: u64)) = w"
  by (rule le_get_put) simp

lemma le_put_get32 [simp, codec]: "length bs = 4 \<Longrightarrow> le_put 4 (le_get bs :: u32) = bs"
  using le_put_get [of bs, where 'a = 32] by simp

lemma le_put_get16 [simp, codec]: "length bs = 2 \<Longrightarrow> le_put 2 (le_get bs :: u16) = bs"
  using le_put_get [of bs, where 'a = 16] by simp

section \<open>Objects in memory\<close>

definition store :: "nat \<Rightarrow> byte list \<Rightarrow> byte list \<Rightarrow> byte list" where
  "store off bs m = take off m @ bs @ drop (off + length bs) m"

definition load :: "nat \<Rightarrow> nat \<Rightarrow> byte list \<Rightarrow> byte list" where
  "load off n m = take n (drop off m)"

lemma length_store [simp, mem_simps]:
  "off + length bs \<le> length m \<Longrightarrow> length (store off bs m) = length m"
  by (simp add: store_def)

lemma length_load [simp, mem_simps]: "off + n \<le> length m \<Longrightarrow> length (load off n m) = n"
  by (simp add: load_def)

lemma load_store_same [mem_simps]:
  "off + length bs \<le> length m \<Longrightarrow> n = length bs \<Longrightarrow> load off n (store off bs m) = bs"
  by (simp add: load_def store_def)

lemma load_store_below [mem_simps]:
  assumes "off + n \<le> o'" and "o' + length bs \<le> length m"
  shows "load off n (store o' bs m) = load off n m"
  using assms by (simp add: load_def store_def drop_take)

lemma load_store_above [mem_simps]:
  assumes "o' + length bs \<le> off" and "o' + length bs \<le> length m"
  shows "load off n (store o' bs m) = load off n m"
  using assms by (simp add: load_def store_def min_def)

lemma load_replicate [simp, mem_simps]:
  "off + n \<le> k \<Longrightarrow> load off n (replicate k b) = replicate n b"
  by (simp add: load_def min_def)

lemma concat_replicate_replicate [simp]: "concat (replicate k (replicate n x)) = replicate (k * n) x"
  by (induction k) (simp_all add: replicate_add)

text \<open>An object is its slices, one after the other.\<close>

lemma load_all: "load 0 (length e) e = e"
  by (simp add: load_def)

lemma load_split: "load off (n + k) e = load off n e @ load (off + n) k e"
  unfolding load_def take_add drop_drop by (simp add: add.commute)

text \<open>Reading a slice of what a wider read returned.\<close>

lemma load_append1 [mem_simps]: "off + n \<le> length xs \<Longrightarrow> load off n (xs @ ys) = load off n xs"
  by (simp add: load_def)

lemma load_append2 [mem_simps]:
  "length xs \<le> off \<Longrightarrow> load off n (xs @ ys) = load (off - length xs) n ys"
  by (simp add: load_def)

section \<open>Bytes and strings\<close>

definition char_of_byte :: "byte \<Rightarrow> char" where
  "char_of_byte b = char_of (unat b)"

definition byte_of_char :: "char \<Rightarrow> byte" where
  "byte_of_char c = word_of_nat (of_char c)"

definition string_of_bytes :: "byte list \<Rightarrow> string" where
  "string_of_bytes = map char_of_byte"

definition bytes_of_string :: "string \<Rightarrow> byte list" where
  "bytes_of_string = map byte_of_char"

lemma of_char_less_256 [simp]: "of_char c < (256 :: nat)"
  using nat_of_char_less_256 [of c] by simp

lemma char_of_byte_of_char [simp, codec]: "char_of_byte (byte_of_char c) = c"
proof -
  have "unat (word_of_nat (of_char c) :: byte) = of_char c"
    by (simp add: unat_of_nat take_bit_nat_eq_self)
  then show ?thesis by (simp add: char_of_byte_def byte_of_char_def)
qed

lemma byte_of_char_of_byte [simp, codec]: "byte_of_char (char_of_byte b) = b"
proof -
  have "unat b < 256" using unsigned_less [of b, where 'a = nat] by simp
  then show ?thesis by (simp add: char_of_byte_def byte_of_char_def)
qed

lemma string_of_bytes_of_string [simp, codec]: "string_of_bytes (bytes_of_string s) = s"
  by (simp add: string_of_bytes_def bytes_of_string_def comp_def)

lemma bytes_of_string_of_bytes [simp, codec]: "bytes_of_string (string_of_bytes bs) = bs"
  by (simp add: string_of_bytes_def bytes_of_string_def comp_def)

lemma length_string_of_bytes [simp]: "length (string_of_bytes bs) = length bs"
  by (simp add: string_of_bytes_def)

lemma length_bytes_of_string [simp]: "length (bytes_of_string s) = length s"
  by (simp add: bytes_of_string_def)

section \<open>Sums over a finite set of components\<close>

lemma sum_component:
  fixes g :: "'b \<Rightarrow> 'c::comm_monoid_add"
  assumes "finite A" and "l \<in> A"
  shows "(\<Sum>k \<in> A. g ((f(l := p)) k)) + g (f l) = (\<Sum>k \<in> A. g (f k)) + g p"
proof -
  have "(\<Sum>k \<in> A - {l}. g ((f(l := p)) k)) = (\<Sum>k \<in> A - {l}. g (f k))"
    by (rule sum.cong) auto
  then show ?thesis
    using sum.remove [OF assms, of "\<lambda>k. g ((f(l := p)) k)"] sum.remove [OF assms, of "\<lambda>k. g (f k)"]
    by (simp add: ac_simps)
qed

section \<open>Simulations\<close>

text \<open>Each step of the concrete system is some steps of the abstract one, maybe none.\<close>

locale simulation =
  fixes conc :: "'c \<Rightarrow> 'c \<Rightarrow> bool" and abst :: "'a \<Rightarrow> 'a \<Rightarrow> bool" and related :: "'c \<Rightarrow> 'a \<Rightarrow> bool"
  assumes simulates: "conc c c' \<Longrightarrow> related c a \<Longrightarrow> \<exists>a'. abst\<^sup>*\<^sup>* a a' \<and> related c' a'"
begin

lemma runs: "conc\<^sup>*\<^sup>* c c' \<Longrightarrow> related c a \<Longrightarrow> \<exists>a'. abst\<^sup>*\<^sup>* a a' \<and> related c' a'"
proof (induction rule: rtranclp_induct)
  case (step d e)
  then obtain b where "abst\<^sup>*\<^sup>* a b" "related d b" by blast
  with simulates [OF step(2)] show ?case by (meson rtranclp_trans)
qed blast

end

end
