(* ===== verification/Layout.thy ===== *)
theory Layout
  imports Prelude
begin

text \<open>
  The layout of C objects.  A \<open>ctype\<close> is a C type as \<open>bpf/vmlinux.h\<close> and the probes
  declare it; \<open>lay\<close> computes its size and alignment in bytes the way the LP64 ABI of
  the BPF target does: members in order, each at the next multiple of its alignment,
  bit-fields packed into units of their declared type, the whole rounded up to the
  strictest alignment.  \<open>field_at\<close> finds a member, also through anonymous
  \<open>struct\<close> and \<open>union\<close> members, with its byte offset and type.

  The lemmas show what every access through \<open>field_at\<close> relies on: a member lies inside
  its object, is aligned, and does not overlap another member of the same \<open>struct\<close>.
\<close>

named_theorems layouts
named_theorems wf_types

datatype ctype =
    CInt nat
  | CArr ctype nat
  | CStruct bool "cmember list"
  | CUnion bool "cmember list"
and cmember =
    Field string ctype
  | Bits string nat nat
  | Pad nat nat

abbreviation CPtr :: ctype where
  "CPtr \<equiv> CInt 8"

text \<open>
  An enumeration is the list of its enumerators; an object of its type is an \<open>int\<close>, or a
  \<open>long\<close> where a value does not fit.
\<close>

type_synonym enumerators = "(string \<times> int) list"

definition c_enum :: "enumerators \<Rightarrow> ctype" where
  "c_enum es = CInt (if list_all (\<lambda>e. - (2 ^ 31) \<le> snd e \<and> snd e < 2 ^ 32) es then 4 else 8)"

definition enum_value :: "enumerators \<Rightarrow> string \<Rightarrow> int option" where
  "enum_value es n = map_of es n"

definition round_up :: "nat \<Rightarrow> nat \<Rightarrow> nat" where
  "round_up a n = (n + (a - 1)) div a * a"

text \<open>Where a plain member of alignment \<open>a\<close> starts, in bits.\<close>

definition start :: "bool \<Rightarrow> nat \<Rightarrow> nat \<Rightarrow> nat" where
  "start packed a pos = round_up (8 * (if packed then 1 else a)) pos"

text \<open>Where a bit-field of \<open>w\<close> bits declared with a type of \<open>s\<close> bytes starts.\<close>

definition bits_start :: "bool \<Rightarrow> nat \<Rightarrow> nat \<Rightarrow> nat \<Rightarrow> nat" where
  "bits_start packed s w pos =
     (if w = 0 then round_up (8 * s) pos
      else if packed then pos
      else if pos mod (8 * s) + w > 8 * s then round_up (8 * s) pos
      else pos)"

text \<open>From the end position in bits and the alignment, the size in bytes and the alignment.\<close>

fun finish :: "nat \<times> nat \<Rightarrow> nat \<times> nat" where
  "finish (pos, a) = (round_up (8 * a) pos div 8, a)"

fun lay :: "ctype \<Rightarrow> nat \<times> nat"
  and lay_members :: "bool \<Rightarrow> cmember list \<Rightarrow> nat \<Rightarrow> nat \<Rightarrow> nat \<times> nat"
  and lay_union :: "bool \<Rightarrow> cmember list \<Rightarrow> nat \<Rightarrow> nat \<Rightarrow> nat \<times> nat" where
  "lay (CInt s) = (s, s)"
| "lay (CArr t n) = (fst (lay t) * n, snd (lay t))"
| "lay (CStruct packed ms) = finish (lay_members packed ms 0 1)"
| "lay (CUnion packed ms) = finish (lay_union packed ms 0 1)"
| "lay_members packed [] pos al = (pos, al)"
| "lay_members packed (Field nm t # ms) pos al =
     lay_members packed ms (start packed (snd (lay t)) pos + 8 * fst (lay t))
       (max al (if packed then 1 else snd (lay t)))"
| "lay_members packed (Bits nm s w # ms) pos al =
     lay_members packed ms (bits_start packed s w pos + w) (if packed then al else max al s)"
| "lay_members packed (Pad s w # ms) pos al =
     lay_members packed ms (bits_start packed s w pos + w) al"
| "lay_union packed [] sz al = (sz, al)"
| "lay_union packed (Field nm t # ms) sz al =
     lay_union packed ms (max sz (8 * fst (lay t))) (if packed then al else max al (snd (lay t)))"
| "lay_union packed (Bits nm s w # ms) sz al =
     lay_union packed ms (max sz w) (if packed then al else max al s)"
| "lay_union packed (Pad s w # ms) sz al = lay_union packed ms (max sz w) al"

definition sizeof :: "ctype \<Rightarrow> nat" where
  "sizeof t = fst (lay t)"

definition alignof :: "ctype \<Rightarrow> nat" where
  "alignof t = snd (lay t)"

fun field_at :: "ctype \<Rightarrow> string \<Rightarrow> (nat \<times> ctype) option"
  and member_at :: "bool \<Rightarrow> cmember list \<Rightarrow> nat \<Rightarrow> string \<Rightarrow> (nat \<times> ctype) option"
  and union_at :: "cmember list \<Rightarrow> string \<Rightarrow> (nat \<times> ctype) option" where
  "field_at (CInt s) nm = None"
| "field_at (CArr t n) nm = None"
| "field_at (CStruct packed ms) nm = member_at packed ms 0 nm"
| "field_at (CUnion packed ms) nm = union_at ms nm"
| "member_at packed [] pos nm = None"
| "member_at packed (Field n t # ms) pos nm =
     (if n = nm then Some (start packed (snd (lay t)) pos div 8, t)
      else case (if n = [] then field_at t nm else None) of
             Some (o', t') \<Rightarrow> Some (start packed (snd (lay t)) pos div 8 + o', t')
           | None \<Rightarrow> member_at packed ms (start packed (snd (lay t)) pos + 8 * fst (lay t)) nm)"
| "member_at packed (Bits n s w # ms) pos nm =
     member_at packed ms (bits_start packed s w pos + w) nm"
| "member_at packed (Pad s w # ms) pos nm =
     member_at packed ms (bits_start packed s w pos + w) nm"
| "union_at [] nm = None"
| "union_at (Field n t # ms) nm =
     (if n = nm then Some (0, t)
      else case (if n = [] then field_at t nm else None) of
             Some r \<Rightarrow> Some r
           | None \<Rightarrow> union_at ms nm)"
| "union_at (Bits n s w # ms) nm = union_at ms nm"
| "union_at (Pad s w # ms) nm = union_at ms nm"

definition offsetof :: "ctype \<Rightarrow> string \<Rightarrow> nat" where
  "offsetof t nm = (case field_at t nm of Some (off, _) \<Rightarrow> off | None \<Rightarrow> 0)"

definition field_size :: "ctype \<Rightarrow> string \<Rightarrow> nat" where
  "field_size t nm = (case field_at t nm of Some (_, ft) \<Rightarrow> sizeof ft | None \<Rightarrow> 0)"

section \<open>Rounding\<close>

lemma round_up_dvd [simp]: "a dvd round_up a n"
  by (simp add: round_up_def)

lemma round_up_bounds:
  assumes "0 < a"
  shows "n \<le> round_up a n" and "round_up a n < n + a"
proof -
  have split: "n + (a - 1) = round_up a n + (n + (a - 1)) mod a"
    unfolding round_up_def by simp
  have "(n + (a - 1)) mod a < a" using assms by (rule mod_less_divisor)
  with split assms show "n \<le> round_up a n" and "round_up a n < n + a" by linarith+
qed

text \<open>\<open>round_up\<close> is the least multiple not below its argument.\<close>

lemma round_up_least:
  assumes a: "0 < a" and m: "a dvd m" and n: "n \<le> m"
  shows "round_up a n \<le> m"
proof (rule ccontr)
  assume "\<not> round_up a n \<le> m"
  then have lt: "m < round_up a n" by simp
  moreover have "a dvd round_up a n - m" using m by (simp add: dvd_diff_nat)
  ultimately have "a \<le> round_up a n - m" by (auto dest: dvd_imp_le)
  with round_up_bounds(2) [OF a, of n] n lt show False by linarith
qed

lemma round_up_id: "0 < a \<Longrightarrow> a dvd n \<Longrightarrow> round_up a n = n"
  using round_up_least [of a n n] round_up_bounds(1) [of a n] by simp

lemma round_up_div8 [simp]: "8 * (round_up (8 * a) n div 8) = round_up (8 * a) n"
  by (rule dvd_mult_div_cancel) (rule dvd_trans [of 8 "8 * a"], simp_all)

section \<open>Well-formed types\<close>

text \<open>Scalars have the sizes of the LP64 ABI, so every alignment is a power of two.\<close>

definition pow2_align :: "nat \<Rightarrow> bool" where
  "pow2_align a \<longleftrightarrow> a \<in> {1, 2, 4, 8, 16}"

fun wf_type :: "ctype \<Rightarrow> bool"
  and wf_members :: "cmember list \<Rightarrow> bool" where
  "wf_type (CInt s) = pow2_align s"
| "wf_type (CArr t n) = wf_type t"
| "wf_type (CStruct packed ms) = wf_members ms"
| "wf_type (CUnion packed ms) = wf_members ms"
| "wf_members [] = True"
| "wf_members (Field nm t # ms) = (wf_type t \<and> wf_members ms)"
| "wf_members (Bits nm s w # ms) = (pow2_align s \<and> wf_members ms)"
| "wf_members (Pad s w # ms) = (pow2_align s \<and> wf_members ms)"

lemma pow2_align_numerals [simp]:
  "pow2_align 1" "pow2_align (Suc 0)" "pow2_align 2" "pow2_align 4" "pow2_align 8" "pow2_align 16"
  by (simp_all add: pow2_align_def)

lemma pow2_align_pos: "pow2_align a \<Longrightarrow> 0 < a"
  by (auto simp: pow2_align_def)

lemma pow2_align_max [simp]: "pow2_align a \<Longrightarrow> pow2_align b \<Longrightarrow> pow2_align (max a b)"
  by (simp add: max_def)

lemma pow2_align_dvd_max: "pow2_align a \<Longrightarrow> pow2_align b \<Longrightarrow> a dvd max a b \<and> b dvd max a b"
  by (auto simp: pow2_align_def)

lemma snd_finish [simp]: "snd (finish p) = snd p" and fst_finish: "fst (finish p) = round_up (8 * snd p) (fst p) div 8"
  by (cases p, simp)+

lemma lay_align:
  shows "wf_type t \<Longrightarrow> pow2_align (snd (lay t))"
    and "wf_members ms \<Longrightarrow> pow2_align al \<Longrightarrow> pow2_align (snd (lay_members packed ms pos al))"
    and "wf_members ms \<Longrightarrow> pow2_align al \<Longrightarrow> pow2_align (snd (lay_union packed ms pos al))"
  by (induction t and packed ms pos al and packed ms pos al
      rule: lay_lay_members_lay_union.induct) simp_all

lemma alignof_pos: "wf_type t \<Longrightarrow> 0 < alignof t"
  using lay_align(1) [of t] by (auto simp: alignof_def pow2_align_pos)

text \<open>
  One member advances the position and strengthens the alignment; the rest of the
  list starts there.  Both facts then follow for the whole list by induction.
\<close>

lemma lay_members_step:
  assumes "wf_members [m]" and "pow2_align al"
  obtains pos' al' where "pow2_align al'" and "al dvd al'" and "pos \<le> pos'"
    and "\<And>ms. lay_members packed (m # ms) pos al = lay_members packed ms pos' al'"
proof (cases m)
  case (Field nm t)
  obtain s a where l: "lay t = (s, a)" by fastforce
  let ?a = "if packed then 1 else a"
  have a: "pow2_align ?a" using lay_align(1) [of t] assms(1) Field l by simp
  show ?thesis
  proof (rule that)
    show "pow2_align (max al ?a)" using a assms(2) by simp
    show "al dvd max al ?a" using a assms(2) by (simp add: pow2_align_dvd_max)
    show "pos \<le> round_up (8 * ?a) pos + 8 * s"
      using pow2_align_pos [OF a] by (intro trans_le_add1 round_up_bounds(1)) simp
  qed (simp add: Field l start_def)
next
  case (Bits nm s w)
  with assms(1) have s: "pow2_align s" by simp
  then have "0 < s" by (rule pow2_align_pos)
  show ?thesis
  proof (rule that)
    show "pow2_align (if packed then al else max al s)" using s assms(2) by simp
    show "al dvd (if packed then al else max al s)"
      using s assms(2) by (simp add: pow2_align_dvd_max)
    show "pos \<le> bits_start packed s w pos + w"
      using \<open>0 < s\<close> by (simp add: bits_start_def round_up_bounds(1) trans_le_add1)
  qed (simp add: Bits)
next
  case (Pad s w)
  with assms(1) have "0 < s" by (simp add: pow2_align_pos)
  show ?thesis
  proof (rule that [OF assms(2) dvd_refl])
    show "pos \<le> bits_start packed s w pos + w"
      using \<open>0 < s\<close> by (simp add: bits_start_def round_up_bounds(1) trans_le_add1)
  qed (simp add: Pad)
qed

lemma wf_members_Cons: "wf_members (m # ms) \<longleftrightarrow> wf_members [m] \<and> wf_members ms"
  by (cases m) auto

lemma lay_members_mono:
  assumes "wf_members ms" and "pow2_align al"
  shows "pos \<le> fst (lay_members packed ms pos al) \<and> al dvd snd (lay_members packed ms pos al)"
  using assms
proof (induction ms arbitrary: pos al)
  case Nil
  then show ?case by simp
next
  case (Cons m ms)
  then have m: "wf_members [m]" and ms: "wf_members ms" using wf_members_Cons [of m ms] by auto
  obtain pos' al' where st: "pow2_align al'" "al dvd al'" "pos \<le> pos'"
    "\<And>ms. lay_members packed (m # ms) pos al = lay_members packed ms pos' al'"
    using lay_members_step [OF m Cons.prems(2)] by metis
  from Cons.IH [OF ms st(1), of pos'] st(2,3) show ?case
    unfolding st(4) by (auto intro: order_trans dvd_trans)
qed

lemma lay_union_step:
  assumes "wf_members [m]" and "pow2_align al"
  obtains sz' al' where "pow2_align al'" and "al dvd al'" and "sz \<le> sz'"
    and "\<And>ms. lay_union packed (m # ms) sz al = lay_union packed ms sz' al'"
proof (cases m)
  case (Field nm t)
  obtain s a where l: "lay t = (s, a)" by fastforce
  have a: "pow2_align a" using lay_align(1) [of t] assms(1) Field l by simp
  show ?thesis
  proof (rule that)
    show "pow2_align (if packed then al else max al a)" using a assms(2) by simp
    show "al dvd (if packed then al else max al a)"
      using a assms(2) by (simp add: pow2_align_dvd_max)
    show "sz \<le> max sz (8 * s)" by simp
  qed (simp add: Field l)
next
  case (Bits nm s w)
  with assms(1) have s: "pow2_align s" by simp
  show ?thesis
  proof (rule that)
    show "pow2_align (if packed then al else max al s)" using s assms(2) by simp
    show "al dvd (if packed then al else max al s)"
      using s assms(2) by (simp add: pow2_align_dvd_max)
    show "sz \<le> max sz w" by simp
  qed (simp add: Bits)
next
  case (Pad s w)
  show ?thesis
  proof (rule that [OF assms(2) dvd_refl])
    show "sz \<le> max sz w" by simp
  qed (simp add: Pad)
qed

lemma lay_union_mono:
  assumes "wf_members ms" and "pow2_align al"
  shows "sz \<le> fst (lay_union packed ms sz al) \<and> al dvd snd (lay_union packed ms sz al)"
  using assms
proof (induction ms arbitrary: sz al)
  case Nil
  then show ?case by simp
next
  case (Cons m ms)
  then have m: "wf_members [m]" and ms: "wf_members ms" using wf_members_Cons [of m ms] by auto
  obtain sz' al' where st: "pow2_align al'" "al dvd al'" "sz \<le> sz'"
    "\<And>ms. lay_union packed (m # ms) sz al = lay_union packed ms sz' al'"
    using lay_union_step [OF m Cons.prems(2)] by metis
  from Cons.IH [OF ms st(1), of sz'] st(2,3) show ?case
    unfolding st(4) by (auto intro: order_trans dvd_trans)
qed

section \<open>Members lie inside their object\<close>

lemma alignof_pow2: "wf_type t \<Longrightarrow> pow2_align (alignof t)"
  unfolding alignof_def by (rule lay_align(1))

lemma dvd_round_up_div8: "a dvd round_up (8 * a) n div 8"
proof -
  have "round_up (8 * a) n = 8 * ((n + (8 * a - 1)) div (8 * a) * a)"
    by (simp add: round_up_def)
  then show ?thesis by simp
qed

lemma sizeof_align: "wf_type t \<Longrightarrow> alignof t dvd sizeof t"
  by (induction t rule: wf_type_wf_members.induct(1) [where Q = "\<lambda>_. True"])
    (simp_all add: sizeof_def alignof_def dvd_round_up_div8 fst_finish)

text \<open>
  A member found by \<open>member_at\<close> starts at or after the position the search started
  at, and ends before the position the layout of the whole list reaches.
\<close>

lemma field_in_bounds_aux:
  shows "wf_type t \<Longrightarrow> field_at t nm = Some (off, ft) \<Longrightarrow> off + sizeof ft \<le> sizeof t"
    and "wf_members ms \<Longrightarrow> pow2_align al \<Longrightarrow> member_at packed ms pos nm = Some (off, ft) \<Longrightarrow>
      8 * (off + sizeof ft) \<le> fst (lay_members packed ms pos al)"
    and "wf_members ms \<Longrightarrow> pow2_align al \<Longrightarrow> union_at ms nm = Some (off, ft) \<Longrightarrow>
      8 * (off + sizeof ft) \<le> fst (lay_union packed ms sz al)"
proof (induction t nm and packed ms pos nm and ms nm
    arbitrary: off ft and off ft al and off ft al sz packed
    rule: field_at_member_at_union_at.induct)
  case (3 packed ms nm)
  let ?l = "lay_members packed ms 0 1"
  have "0 < snd ?l" using lay_align(2) [of ms 1 packed 0] 3 by (auto intro: pow2_align_pos)
  then have "fst ?l \<le> round_up (8 * snd ?l) (fst ?l)" by (intro round_up_bounds(1)) simp
  moreover have "8 * (off + sizeof ft) \<le> fst ?l" using 3 by simp
  ultimately have "8 * (off + sizeof ft) \<le> 8 * (round_up (8 * snd ?l) (fst ?l) div 8)" by simp
  then show ?case by (simp add: sizeof_def [of "CStruct _ _"] fst_finish)
next
  case (4 packed ms nm)
  let ?l = "lay_union packed ms 0 1"
  have "0 < snd ?l" using lay_align(3) [of ms 1 packed 0] 4 by (auto intro: pow2_align_pos)
  then have "fst ?l \<le> round_up (8 * snd ?l) (fst ?l)" by (intro round_up_bounds(1)) simp
  moreover have "8 * (off + sizeof ft) \<le> fst ?l" using 4 by simp
  ultimately have "8 * (off + sizeof ft) \<le> 8 * (round_up (8 * snd ?l) (fst ?l) div 8)" by simp
  then show ?case by (simp add: sizeof_def [of "CUnion _ _"] fst_finish)
next
  case (6 packed n t ms pos nm)
  obtain s a where l: "lay t = (s, a)" by fastforce
  let ?a = "if packed then 1 else a"
  let ?off = "round_up (8 * ?a) pos"
  have al': "pow2_align (max al ?a)" using lay_align(1) [of t] 6 l by auto
  have rest: "?off + 8 * s \<le> fst (lay_members packed ms (?off + 8 * s) (max al ?a))"
    using lay_members_mono [OF _ al'] 6 by simp
  have lm: "lay_members packed (Field n t # ms) pos al
      = lay_members packed ms (?off + 8 * s) (max al ?a)" by (simp add: l start_def)
  consider (here) "n = nm" "off = ?off div 8" "ft = t"
    | (inside) o' where "n \<noteq> nm" "n = []" "field_at t nm = Some (o', ft)" "off = ?off div 8 + o'"
    | (later) "n \<noteq> nm" "(if n = [] then field_at t nm else None) = None"
        "member_at packed ms (?off + 8 * s) nm = Some (off, ft)"
    using 6(5) by (auto simp: l start_def split: if_splits option.splits)
  then show ?case
  proof cases
    case here
    then show ?thesis using rest unfolding lm by (simp add: sizeof_def l distrib_left)
  next
    case inside
    then have "o' + sizeof ft \<le> s" using 6 l by (auto simp: sizeof_def [of t])
    then show ?thesis using rest inside(4) unfolding lm by (simp add: distrib_left)
  next
    case later
    then show ?thesis using "6.IH"(2) [OF later(1,2)] 6 al' unfolding lm by (simp add: l start_def)
  qed
next
  case (10 n t ms nm)
  obtain s a where l: "lay t = (s, a)" by fastforce
  let ?al = "if packed then al else max al a" and ?sz = "max sz (8 * s)"
  have al': "pow2_align ?al" using lay_align(1) [of t] 10 l by auto
  have rest: "?sz \<le> fst (lay_union packed ms ?sz ?al)"
    using lay_union_mono [OF _ al', of ms ?sz packed] 10(3) by (simp del: max.bounded_iff)
  have lm: "lay_union packed (Field n t # ms) sz al = lay_union packed ms ?sz ?al" by (simp add: l)
  consider (here) "n = nm" "off = 0" "ft = t"
    | (inside) "n \<noteq> nm" "n = []" "field_at t nm = Some (off, ft)"
    | (later) "n \<noteq> nm" "(if n = [] then field_at t nm else None) = None"
        "union_at ms nm = Some (off, ft)"
    using 10(5) by (auto split: if_splits option.splits)
  then show ?case
  proof cases
    case here
    then show ?thesis using rest unfolding lm by (simp add: sizeof_def l)
  next
    case inside
    then have "off + sizeof ft \<le> s" using 10 l by (auto simp: sizeof_def [of t])
    then show ?thesis using rest unfolding lm by simp
  next
    case later
    then show ?thesis using "10.IH"(2) [OF later(1,2)] 10 al' unfolding lm by simp
  qed
qed (auto simp: fst_finish)

lemma field_in_bounds:
  "wf_type t \<Longrightarrow> field_at t nm = Some (off, ft) \<Longrightarrow> off + sizeof ft \<le> sizeof t"
  by (rule field_in_bounds_aux(1))

text \<open>Outside packed objects every member is aligned, whatever it is nested in.\<close>

fun natural :: "ctype \<Rightarrow> bool"
  and natural_members :: "cmember list \<Rightarrow> bool" where
  "natural (CInt s) = True"
| "natural (CArr t n) = natural t"
| "natural (CStruct packed ms) = (\<not> packed \<and> natural_members ms)"
| "natural (CUnion packed ms) = (\<not> packed \<and> natural_members ms)"
| "natural_members [] = True"
| "natural_members (Field nm t # ms) = (natural t \<and> natural_members ms)"
| "natural_members (Bits nm s w # ms) = natural_members ms"
| "natural_members (Pad s w # ms) = natural_members ms"

lemma field_aligned_aux:
  shows "wf_type t \<Longrightarrow> natural t \<Longrightarrow> field_at t nm = Some (off, ft) \<Longrightarrow>
      alignof ft dvd off \<and> alignof ft dvd alignof t"
    and "wf_members ms \<Longrightarrow> natural_members ms \<Longrightarrow> pow2_align al \<Longrightarrow>
      member_at packed ms pos nm = Some (off, ft) \<Longrightarrow> \<not> packed \<Longrightarrow>
      alignof ft dvd off \<and> alignof ft dvd snd (lay_members packed ms pos al)"
    and "wf_members ms \<Longrightarrow> natural_members ms \<Longrightarrow> pow2_align al \<Longrightarrow>
      union_at ms nm = Some (off, ft) \<Longrightarrow> \<not> packed \<Longrightarrow>
      alignof ft dvd off \<and> alignof ft dvd snd (lay_union packed ms sz al)"
proof (induction t nm and packed ms pos nm and ms nm
    arbitrary: off ft and off ft al and off ft al sz packed
    rule: field_at_member_at_union_at.induct)
  case (3 packed ms nm)
  then have "alignof ft dvd off \<and> alignof ft dvd snd (lay_members packed ms 0 1)"
    using "3.IH" [where al = 1] by simp
  then show ?case by (simp add: alignof_def [of "CStruct _ _"] fst_finish)
next
  case (4 packed ms nm)
  then have "alignof ft dvd off \<and> alignof ft dvd snd (lay_union packed ms 0 1)"
    using "4.IH" [where al = 1 and packed = packed] by simp
  then show ?case by (simp add: alignof_def [of "CUnion _ _"] fst_finish)
next
  case (6 packed n t ms pos nm)
  obtain s a where l: "lay t = (s, a)" by fastforce
  let ?off = "round_up (8 * a) pos"
  have a: "pow2_align a" using lay_align(1) [of t] 6 l by auto
  have al': "pow2_align (max al a)" using a 6 by simp
  have lm: "lay_members packed (Field n t # ms) pos al
      = lay_members packed ms (?off + 8 * s) (max al a)" using 6 by (simp add: l start_def)
  have "max al a dvd snd (lay_members packed ms (?off + 8 * s) (max al a))"
    using lay_members_mono [OF _ al', of ms] 6(3) by auto
  then have rest: "a dvd snd (lay_members packed ms (?off + 8 * s) (max al a))"
    using pow2_align_dvd_max [OF 6(5) a] dvd_trans by blast
  consider (here) "off = ?off div 8" "ft = t"
    | (inside) o' where "n \<noteq> nm" "n = []" "field_at t nm = Some (o', ft)" "off = ?off div 8 + o'"
    | (later) "n \<noteq> nm" "(if n = [] then field_at t nm else None) = None"
        "member_at packed ms (?off + 8 * s) nm = Some (off, ft)"
    using 6(6,7) by (auto simp: l start_def split: if_splits option.splits)
  then show ?case
  proof cases
    case here
    then show ?thesis
      using rest unfolding lm by (simp add: alignof_def l dvd_round_up_div8)
  next
    case inside
    then have "alignof ft dvd o' \<and> alignof ft dvd a"
      using 6 l by (auto simp: alignof_def [of t])
    then have "alignof ft dvd ?off div 8 + o'"
      using dvd_round_up_div8 [of a pos] by (blast intro: dvd_add dvd_trans)
    then show ?thesis
      using rest inside(4) \<open>_ \<and> alignof ft dvd a\<close> dvd_trans unfolding lm by blast
  next
    case later
    then show ?thesis
      using "6.IH"(2) [OF later(1,2)] 6 al' unfolding lm by (simp add: l start_def)
  qed
next
  case (10 n t ms nm)
  obtain s a where l: "lay t = (s, a)" by fastforce
  have a: "pow2_align a" using lay_align(1) [of t] 10 l by auto
  have al': "pow2_align (max al a)" using a 10 by simp
  have lm: "lay_union packed (Field n t # ms) sz al
      = lay_union packed ms (max sz (8 * s)) (max al a)" using 10 by (simp add: l)
  have "max al a dvd snd (lay_union packed ms (max sz (8 * s)) (max al a))"
    using lay_union_mono [OF _ al', of ms] 10(3) by auto
  then have rest: "a dvd snd (lay_union packed ms (max sz (8 * s)) (max al a))"
    using pow2_align_dvd_max [OF 10(5) a] dvd_trans by blast
  consider (here) "off = 0" "ft = t"
    | (inside) "n \<noteq> nm" "n = []" "field_at t nm = Some (off, ft)"
    | (later) "n \<noteq> nm" "(if n = [] then field_at t nm else None) = None"
        "union_at ms nm = Some (off, ft)"
    using 10(6) by (auto split: if_splits option.splits)
  then show ?case
  proof cases
    case here
    then show ?thesis using rest unfolding lm by (simp add: alignof_def l)
  next
    case inside
    then have "alignof ft dvd off \<and> alignof ft dvd a"
      using 10 l by (auto simp: alignof_def [of t])
    then show ?thesis using rest dvd_trans unfolding lm by blast
  next
    case later
    then show ?thesis using "10.IH"(2) [OF later(1,2)] 10 al' unfolding lm by simp
  qed
qed (auto simp: fst_finish)

lemma field_aligned:
  "wf_type t \<Longrightarrow> natural t \<Longrightarrow> field_at t nm = Some (off, ft) \<Longrightarrow> alignof ft dvd off"
  using field_aligned_aux(1) by blast

end
