(* ===== verification/KernelTypes.thy ===== *)
theory KernelTypes
  imports Layout
begin

text \<open>
  The types of \<open>bpf/vmlinux.h\<close> that the probes name: the integer typedefs, the socket
  addresses read by \<open>handle_connect\<close> and the tracepoint context of \<open>sys_enter\<close>.  Each
  definition is the declaration of the same name, \<open>t_\<close> for a typedef and \<open>struct_\<close> for a
  structure; its size and alignment are a rule of the collection \<open>layouts\<close>.
\<close>

definition t___u8 :: ctype where "t___u8 = CInt 1"
definition t___u16 :: ctype where "t___u16 = CInt 2"
definition t___be16 :: ctype where "t___be16 = t___u16"
definition t___kernel_sa_family_t :: ctype where "t___kernel_sa_family_t = CInt 2"
definition t___u32 :: ctype where "t___u32 = CInt 4"
definition t___be32 :: ctype where "t___be32 = t___u32"

definition struct_in_addr :: ctype where
  "struct_in_addr = CStruct False [Field ''s_addr'' t___be32]"

definition struct_sockaddr_in :: ctype where
  "struct_sockaddr_in = CStruct False
    [Field ''sin_family'' t___kernel_sa_family_t,
     Field ''sin_port'' t___be16,
     Field ''sin_addr'' struct_in_addr,
     Field ''__pad'' (CArr (CInt 1) 8)]"

definition struct_in6_addr :: ctype where
  "struct_in6_addr = CStruct False
    [Field ''in6_u'' (CUnion False
      [Field ''u6_addr8'' (CArr t___u8 16),
       Field ''u6_addr16'' (CArr t___be16 8),
       Field ''u6_addr32'' (CArr t___be32 4)])]"

definition struct_sockaddr_in6 :: ctype where
  "struct_sockaddr_in6 = CStruct False
    [Field ''sin6_family'' (CInt 2),
     Field ''sin6_port'' t___be16,
     Field ''sin6_flowinfo'' t___be32,
     Field ''sin6_addr'' struct_in6_addr,
     Field ''sin6_scope_id'' t___u32]"

definition struct_trace_entry :: ctype where
  "struct_trace_entry = CStruct False
    [Field ''type'' (CInt 2),
     Field ''flags'' (CInt 1),
     Field ''preempt_count'' (CInt 1),
     Field ''pid'' (CInt 4)]"

definition struct_trace_event_raw_sys_enter :: ctype where
  "struct_trace_event_raw_sys_enter = CStruct False
    [Field ''ent'' struct_trace_entry,
     Field ''id'' (CInt 8),
     Field ''args'' (CArr (CInt 8) 6),
     Field ''__data'' (CArr (CInt 1) 0)]"

lemmas typedef_defs = t___u8_def t___u16_def t___be16_def t___kernel_sa_family_t_def
  t___u32_def t___be32_def

text \<open>\<open>lay_eval\<close> computes the layout of one declaration from those of its parts.\<close>

lemmas lay_eval = round_up_def bits_start_def start_def

lemma lay_t___u8 [layouts]: "lay t___u8 = (1, 1)"
  by (simp add: typedef_defs)

lemma lay_t___u16 [layouts]: "lay t___u16 = (2, 2)"
  by (simp add: typedef_defs)

lemma lay_t___be16 [layouts]: "lay t___be16 = (2, 2)"
  by (simp add: typedef_defs)

lemma lay_t___kernel_sa_family_t [layouts]: "lay t___kernel_sa_family_t = (2, 2)"
  by (simp add: typedef_defs)

lemma lay_t___u32 [layouts]: "lay t___u32 = (4, 4)"
  by (simp add: typedef_defs)

lemma lay_t___be32 [layouts]: "lay t___be32 = (4, 4)"
  by (simp add: typedef_defs)

lemma lay_struct_in_addr [layouts]: "lay struct_in_addr = (4, 4)"
  by (simp add: struct_in_addr_def layouts lay_eval)

lemma lay_struct_sockaddr_in [layouts]: "lay struct_sockaddr_in = (16, 4)"
  by (simp add: struct_sockaddr_in_def layouts lay_eval)

lemma lay_struct_in6_addr [layouts]: "lay struct_in6_addr = (16, 4)"
  by (simp add: struct_in6_addr_def layouts lay_eval)

lemma lay_struct_sockaddr_in6 [layouts]: "lay struct_sockaddr_in6 = (28, 4)"
  by (simp add: struct_sockaddr_in6_def layouts lay_eval)

lemma lay_struct_trace_entry [layouts]: "lay struct_trace_entry = (8, 4)"
  by (simp add: struct_trace_entry_def layouts lay_eval)

lemma lay_struct_trace_event_raw_sys_enter [layouts]:
  "lay struct_trace_event_raw_sys_enter = (64, 8)"
  by (simp add: struct_trace_event_raw_sys_enter_def layouts lay_eval)

lemma wf_kernel_types [wf_types]:
  "wf_type t___u8" "wf_type t___u16" "wf_type t___be16" "wf_type t___kernel_sa_family_t"
  "wf_type t___u32" "wf_type t___be32"
  by (simp_all add: typedef_defs)

lemma wf_kernel_structs [wf_types]:
  "wf_type struct_in_addr" "wf_type struct_sockaddr_in" "wf_type struct_in6_addr"
  "wf_type struct_sockaddr_in6" "wf_type struct_trace_entry" "wf_type struct_trace_event_raw_sys_enter"
  by (simp_all add: struct_in_addr_def struct_sockaddr_in_def struct_in6_addr_def
      struct_sockaddr_in6_def struct_trace_entry_def struct_trace_event_raw_sys_enter_def wf_types)

text \<open>The members the probes read, as offset and size.\<close>

named_theorems offsets

lemma sockaddr_in_offsets [offsets]:
  "offsetof struct_sockaddr_in ''sin_port'' = 2" "field_size struct_sockaddr_in ''sin_port'' = 2"
  "offsetof struct_sockaddr_in ''sin_addr'' = 4" "field_size struct_sockaddr_in ''sin_addr'' = 4"
  "offsetof struct_in_addr ''s_addr'' = 0" "field_size struct_in_addr ''s_addr'' = 4"
  by (simp_all add: struct_sockaddr_in_def struct_in_addr_def offsetof_def field_size_def
      sizeof_def layouts lay_eval)

lemma sockaddr_in6_offsets [offsets]:
  "offsetof struct_sockaddr_in6 ''sin6_port'' = 2" "field_size struct_sockaddr_in6 ''sin6_port'' = 2"
  "offsetof struct_sockaddr_in6 ''sin6_addr'' = 8" "field_size struct_sockaddr_in6 ''sin6_addr'' = 16"
  by (simp_all add: struct_sockaddr_in6_def offsetof_def field_size_def sizeof_def layouts lay_eval)

lemma sys_enter_offsets [offsets]:
  "offsetof struct_trace_event_raw_sys_enter ''id'' = 8"
  "offsetof struct_trace_event_raw_sys_enter ''args'' = 16"
  "field_size struct_trace_event_raw_sys_enter ''args'' = 48"
  by (simp_all add: struct_trace_event_raw_sys_enter_def offsetof_def field_size_def sizeof_def
      layouts lay_eval)

end
