(* ===== verification/Bpf.thy ===== *)
theory Bpf
  imports KernelTypes
begin

text \<open>
  What the probes run on: the tracepoint context, the ring buffer, and the BPF helpers.
  The helpers are kernel code that is not in this repository, so they are a parameter,
  the record \<open>bpf_helpers\<close>.  A helper that fills a buffer takes the bytes that are in it
  and gives the bytes that are in it afterwards (the probes ignore the return codes);
  \<open>h_reserve\<close> gives the bytes found in a fresh ring buffer slot, which no one clears, or
  \<open>None\<close> when the ring is full.  A ring buffer is the list of the records submitted and
  not yet consumed, the oldest first.

  The locale \<open>bpf_runtime\<close> states the documented behaviour the probes rely on, and
  \<open>mem_helpers\<close> is an implementation of it over an explicit user memory, a task and a
  bounded ring.
\<close>

record trace_entry =
  te_type :: u16
  te_flags :: byte
  te_preempt_count :: byte
  te_pid :: u32

record sys_enter =
  ent :: trace_entry
  sys_id :: u64
  args :: "6 \<Rightarrow> u64"

type_synonym ring = "byte list list"

record bpf_helpers =
  h_get_current_pid_tgid :: u64
  h_get_current_uid_gid :: u64
  h_get_current_comm :: "byte list \<Rightarrow> byte list"
  h_probe_read_user :: "byte list \<Rightarrow> u64 \<Rightarrow> byte list"
  h_probe_read_user_str :: "byte list \<Rightarrow> u64 \<Rightarrow> byte list"
  h_reserve :: "ring \<Rightarrow> nat \<Rightarrow> byte list option"

text \<open>\<open>bpf_ringbuf_submit\<close>: the slot becomes visible to the consumer.\<close>

definition ringbuf_submit :: "ring \<Rightarrow> byte list \<Rightarrow> ring" where
  "ringbuf_submit rb e = rb @ [e]"

text \<open>\<open>__builtin_memset(e, 0, n)\<close> on a whole object.\<close>

definition memset0 :: "byte list \<Rightarrow> nat \<Rightarrow> byte list" where
  "memset0 e n = store 0 (replicate n 0) e"

text \<open>\<open>__builtin_bswap16\<close>.\<close>

definition bswap16 :: "u16 \<Rightarrow> u16" where
  "bswap16 w = push_bit 8 w OR drop_bit 8 w"

section \<open>Stores to members\<close>

text \<open>\<open>e->nm = v\<close>, and a helper that fills \<open>&e->nm\<close>.\<close>

definition set_field :: "ctype \<Rightarrow> string \<Rightarrow> byte list \<Rightarrow> byte list \<Rightarrow> byte list" where
  "set_field t nm bs e = store (offsetof t nm) bs e"

definition fill :: "nat \<Rightarrow> nat \<Rightarrow> (byte list \<Rightarrow> byte list) \<Rightarrow> byte list \<Rightarrow> byte list" where
  "fill off n f e = store off (f (load off n e)) e"

definition fill_field :: "ctype \<Rightarrow> string \<Rightarrow> (byte list \<Rightarrow> byte list) \<Rightarrow> byte list \<Rightarrow> byte list" where
  "fill_field t nm f e = fill (offsetof t nm) (field_size t nm) f e"

definition get_field :: "ctype \<Rightarrow> string \<Rightarrow> byte list \<Rightarrow> byte list" where
  "get_field t nm e = load (offsetof t nm) (field_size t nm) e"

lemma length_fill [simp]:
  "(\<And>b. length (f b) = length b) \<Longrightarrow> off + n \<le> length e \<Longrightarrow> length (fill off n f e) = length e"
  by (simp add: fill_def)

lemma load_fill_same:
  "(\<And>b. length (f b) = length b) \<Longrightarrow> off + n \<le> length e \<Longrightarrow>
     load off n (fill off n f e) = f (load off n e)"
  by (simp add: fill_def mem_simps)

lemma load_fill_other:
  "(\<And>b. length (f b) = length b) \<Longrightarrow> off + n \<le> length e \<Longrightarrow>
     o' + k \<le> off \<or> off + n \<le> o' \<Longrightarrow> load o' k (fill off n f e) = load o' k e"
  by (auto simp: fill_def mem_simps)

lemma length_memset0 [simp]: "n \<le> length e \<Longrightarrow> length (memset0 e n) = length e"
  by (simp add: memset0_def)

lemma memset0_all [simp]: "length e = n \<Longrightarrow> memset0 e n = replicate n 0"
  by (simp add: memset0_def store_def)

lemma length_ringbuf_submit [simp]: "length (ringbuf_submit rb e) = Suc (length rb)"
  by (simp add: ringbuf_submit_def)

section \<open>Network byte order\<close>

text \<open>The two bytes of a port in memory, most significant first, read as the program reads them.\<close>

definition be_port :: "byte \<Rightarrow> byte \<Rightarrow> nat" where
  "be_port hi lo = 256 * unat hi + unat lo"

lemma bswap16_be_port: "unat (bswap16 (le_get [hi, lo])) = be_port hi lo"
proof -
  have "bswap16 (le_get [hi, lo]) = word_of_nat (be_port hi lo)"
  proof (rule bit_word_eqI)
    fix k assume k: "k < LENGTH(16)"
    have hl: "hi = word_of_nat (unat hi)" "lo = word_of_nat (unat lo)" by simp_all
    have split: "be_port hi lo = push_bit 8 (unat hi) OR unat lo"
    proof -
      have "unat lo < 2 ^ 8" using unsigned_less [of lo, where 'a = nat] by simp
      then have "push_bit 8 (unat hi) OR unat lo = push_bit 8 (unat hi) + unat lo"
        by (intro disjunctive_add [symmetric])
          (auto simp: bit_push_bit_iff_nat dest!: bit_imp_le_length simp: bit_unsigned_iff)
      then show ?thesis by (simp add: be_port_def push_bit_eq_mult)
    qed
    show "bit (bswap16 (le_get [hi, lo])) k = bit (word_of_nat (be_port hi lo) :: u16) k"
      using k unfolding split
      by (auto simp: bswap16_def bit_simps dest: bit_imp_le_length)
  qed
  moreover have "be_port hi lo < 2 ^ 16"
    using unsigned_less [of lo, where 'a = nat] unsigned_less [of hi, where 'a = nat]
    by (simp add: be_port_def)
  ultimately show ?thesis by (simp add: unat_of_nat take_bit_nat_eq_self)
qed

section \<open>The documented behaviour of the helpers\<close>

text \<open>
  \<open>user_mem h a bs\<close>: the user memory at \<open>a\<close> holds \<open>bs\<close>.  \<open>user_str h a s\<close>: it holds the C
  string \<open>s\<close>; a read of it into a buffer of \<open>n\<close> bytes writes at most \<open>n - 1\<close> of them and a
  NUL and leaves the bytes after it alone.
\<close>

definition user_mem :: "bpf_helpers \<Rightarrow> u64 \<Rightarrow> byte list \<Rightarrow> bool" where
  "user_mem h a bs \<longleftrightarrow>
     (\<forall>b. length b \<le> length bs \<longrightarrow> h_probe_read_user h b a = take (length b) bs)"

definition str_into :: "byte list \<Rightarrow> byte list \<Rightarrow> byte list" where
  "str_into s b = (if b = [] then [] else
     (let t = take (length b - 1) s in t @ 0 # drop (Suc (length t)) b))"

definition user_str :: "bpf_helpers \<Rightarrow> u64 \<Rightarrow> byte list \<Rightarrow> bool" where
  "user_str h a s \<longleftrightarrow> 0 \<notin> set s \<and> (\<forall>b. h_probe_read_user_str h b a = str_into s b)"

text \<open>The bytes of a buffer up to its NUL.\<close>

definition until_nul :: "byte list \<Rightarrow> byte list" where
  "until_nul = takeWhile (\<lambda>b. b \<noteq> 0)"

lemma length_str_into [simp]: "length (str_into s b) = length b"
  by (cases b) (auto simp: str_into_def Let_def min_def)

lemma until_nul_stop [simp]: "0 \<notin> set s \<Longrightarrow> until_nul (s @ 0 # r) = s"
  unfolding until_nul_def by (subst takeWhile_append2) auto

lemma until_nul_replicate [simp]: "until_nul (replicate n 0) = []"
  by (cases n) (simp_all add: until_nul_def)

lemma until_nul_str_into:
  "0 \<notin> set s \<Longrightarrow> b \<noteq> [] \<Longrightarrow> until_nul (str_into s b) = take (length b - 1) s"
  by (auto simp: str_into_def Let_def dest: in_set_takeD intro!: until_nul_stop)

locale bpf_runtime =
  fixes h :: bpf_helpers
  assumes length_comm: "length (h_get_current_comm h b) = length b"
    and length_read_user: "length (h_probe_read_user h b a) = length b"
    and length_read_str: "length (h_probe_read_user_str h b a) = length b"
    and comm_fresh: "length b = length b' \<Longrightarrow> h_get_current_comm h b = h_get_current_comm h b'"
    and str_fresh: "length b = length b' \<Longrightarrow>
      until_nul (h_probe_read_user_str h b a) = until_nul (h_probe_read_user_str h b' a)"
    and reserve_length: "h_reserve h rb n = Some e \<Longrightarrow> length e = n"
begin

lemmas helper_lengths = length_comm length_read_user length_read_str

lemma length_fill_comm: "off + n \<le> length e \<Longrightarrow> length (fill off n (h_get_current_comm h) e) = length e"
  by (simp add: length_comm)

lemma length_fill_str:
  "off + n \<le> length e \<Longrightarrow> length (fill off n (\<lambda>b. h_probe_read_user_str h b a) e) = length e"
  by (simp add: length_read_str)

lemma load_fill_comm:
  "off + n \<le> length e \<Longrightarrow>
     load off n (fill off n (h_get_current_comm h) e) = h_get_current_comm h (load off n e)"
  by (rule load_fill_same) (simp_all add: length_comm)

lemma load_fill_str:
  "off + n \<le> length e \<Longrightarrow>
     load off n (fill off n (\<lambda>b. h_probe_read_user_str h b a) e)
     = h_probe_read_user_str h (load off n e) a"
  by (rule load_fill_same) (simp_all add: length_read_str)

lemma load_fill_comm_other:
  "off + n \<le> length e \<Longrightarrow> o' + k \<le> off \<or> off + n \<le> o' \<Longrightarrow>
     load o' k (fill off n (h_get_current_comm h) e) = load o' k e"
  by (rule load_fill_other) (simp_all add: length_comm)

lemma load_fill_str_other:
  "off + n \<le> length e \<Longrightarrow> o' + k \<le> off \<or> off + n \<le> o' \<Longrightarrow>
     load o' k (fill off n (\<lambda>b. h_probe_read_user_str h b a) e) = load o' k e"
  by (rule load_fill_other) (simp_all add: length_read_str)

lemmas fill_simps = length_fill_comm length_fill_str load_fill_comm load_fill_str
  load_fill_comm_other load_fill_str_other

end

section \<open>Helpers over an explicit user memory\<close>

text \<open>
  The room a record of \<open>n\<close> bytes takes in a ring: its payload behind a header of 8 bytes,
  rounded up to a multiple of 8.  A ring never fills its last byte.
\<close>

definition ring_slot :: "nat \<Rightarrow> nat" where
  "ring_slot n = round_up 8 (n + 8)"

definition ring_used :: "ring \<Rightarrow> nat" where
  "ring_used rb = sum_list (map (\<lambda>r. ring_slot (length r)) rb)"

definition ring_bounded :: "bpf_helpers \<Rightarrow> nat \<Rightarrow> bool" where
  "ring_bounded h cap \<longleftrightarrow>
     (\<forall>rb n. h_reserve h rb n = None \<longleftrightarrow> cap \<le> ring_used rb + ring_slot n)"

text \<open>
  A runtime: the identity and name of the current task, the user memory (\<open>None\<close> where
  nothing is mapped), the stale contents of the ring and its capacity in bytes.
\<close>

record runtime =
  rt_pid_tgid :: u64
  rt_uid_gid :: u64
  rt_comm :: "byte list"
  rt_mem :: "u64 \<Rightarrow> byte option"
  rt_stale :: byte
  rt_capacity :: nat

fun read_bytes :: "(u64 \<Rightarrow> byte option) \<Rightarrow> u64 \<Rightarrow> nat \<Rightarrow> byte list option" where
  "read_bytes m a 0 = Some []"
| "read_bytes m a (Suc n) =
     (case m a of None \<Rightarrow> None | Some b \<Rightarrow> map_option (Cons b) (read_bytes m (a + 1) n))"

lemma read_bytes_numeral [simp]:
  "read_bytes m a (numeral n) =
     (case m a of None \<Rightarrow> None
      | Some b \<Rightarrow> map_option (Cons b) (read_bytes m (a + 1) (pred_numeral n)))"
  by (simp add: numeral_eq_Suc)

fun read_cstr :: "(u64 \<Rightarrow> byte option) \<Rightarrow> u64 \<Rightarrow> nat \<Rightarrow> byte list option" where
  "read_cstr m a 0 = Some []"
| "read_cstr m a (Suc n) =
     (case m a of None \<Rightarrow> None
      | Some b \<Rightarrow> if b = 0 then Some [] else map_option (Cons b) (read_cstr m (a + 1) n))"

definition mem_helpers :: "runtime \<Rightarrow> bpf_helpers" where
  "mem_helpers c = \<lparr>
     h_get_current_pid_tgid = rt_pid_tgid c,
     h_get_current_uid_gid = rt_uid_gid c,
     h_get_current_comm = (\<lambda>b. str_into (rt_comm c) (replicate (length b) 0)),
     h_probe_read_user = (\<lambda>b a. case read_bytes (rt_mem c) a (length b) of
        Some bs \<Rightarrow> bs | None \<Rightarrow> replicate (length b) 0),
     h_probe_read_user_str = (\<lambda>b a. case read_cstr (rt_mem c) a (length b) of
        Some s \<Rightarrow> str_into s b | None \<Rightarrow> replicate (length b) 0),
     h_reserve = (\<lambda>rb n. if ring_used rb + ring_slot n < rt_capacity c
        then Some (replicate n (rt_stale c)) else None) \<rparr>"

lemma ring_bounded_mem_helpers: "ring_bounded (mem_helpers c) (rt_capacity c)"
  by (auto simp: ring_bounded_def mem_helpers_def)

lemma read_bytes_length: "read_bytes m a n = Some bs \<Longrightarrow> length bs = n"
  by (induction m a n arbitrary: bs rule: read_bytes.induct) (auto split: option.splits)

lemma read_cstr_no_nul: "read_cstr m a n = Some s \<Longrightarrow> 0 \<notin> set s"
  by (induction m a n arbitrary: s rule: read_cstr.induct) (auto split: option.splits if_splits)

lemma read_bytes_take: "read_bytes m a n = Some bs \<Longrightarrow> k \<le> n \<Longrightarrow> read_bytes m a k = Some (take k bs)"
proof (induction m a n arbitrary: bs k rule: read_bytes.induct)
  case (2 m a n)
  then show ?case by (cases k) (auto split: option.splits)
qed simp

interpretation mh: bpf_runtime "mem_helpers c" for c
proof unfold_locales
  fix b b' :: "byte list" and a :: u64
  assume "length b = length b'"
  then show "until_nul (h_probe_read_user_str (mem_helpers c) b a)
      = until_nul (h_probe_read_user_str (mem_helpers c) b' a)"
    by (cases "b = []"; cases "b' = []")
      (auto simp: mem_helpers_def until_nul_str_into read_cstr_no_nul split: option.splits)
qed (auto simp: mem_helpers_def read_bytes_length split: option.splits if_splits)

lemma user_mem_mem_helpers:
  "read_bytes (rt_mem c) a (length bs) = Some bs \<Longrightarrow> user_mem (mem_helpers c) a bs"
  by (auto simp: user_mem_def mem_helpers_def dest: read_bytes_take split: option.splits)

lemma read_cstr_take:
  "read_bytes m a (Suc (length s)) = Some (s @ [0]) \<Longrightarrow> 0 \<notin> set s \<Longrightarrow> read_cstr m a n = Some (take n s)"
proof (induction s arbitrary: a n)
  case Nil
  then show ?case by (cases n) (auto split: option.splits)
next
  case (Cons x s)
  then have x: "m a = Some x" "x \<noteq> 0" and s: "read_bytes m (a + 1) (Suc (length s)) = Some (s @ [0])"
    by (auto split: option.splits)
  show ?case
  proof (cases n)
    case (Suc k)
    have "read_cstr m (a + 1) k = Some (take k s)"
      using Cons.IH [OF s] Cons.prems(2) by simp
    then show ?thesis using x Suc by simp
  qed simp
qed

lemma user_str_mem_helpers:
  assumes "read_bytes (rt_mem c) a (Suc (length s)) = Some (s @ [0])" and "0 \<notin> set s"
  shows "user_str (mem_helpers c) a s"
  unfolding user_str_def
proof (intro conjI allI)
  fix b :: "byte list"
  have "take (length b - 1) (take (length b) s) = take (length b - 1) s" by (simp add: min_def)
  then show "h_probe_read_user_str (mem_helpers c) b a = str_into s b"
    using read_cstr_take [OF assms, of "length b"] by (simp add: mem_helpers_def str_into_def)
qed (rule assms(2))

text \<open>A user memory made of segments.\<close>

fun mem_at :: "(u64 \<times> byte list) list \<Rightarrow> u64 \<Rightarrow> byte option" where
  "mem_at [] a = None"
| "mem_at ((base, bs) # segs) a =
     (if unat (a - base) < length bs then Some (bs ! unat (a - base)) else mem_at segs a)"

text \<open>The context of a system call with two arguments of interest.\<close>

definition syscall_ctx :: "u64 \<Rightarrow> u64 \<Rightarrow> sys_enter" where
  "syscall_ctx a0 a1 =
     \<lparr>ent = \<lparr>te_type = 0, te_flags = 0, te_preempt_count = 0, te_pid = 0\<rparr>, sys_id = 0,
      args = (\<lambda>i. if i = 0 then a0 else if i = 1 then a1 else 0)\<rparr>"

lemma args_syscall_ctx [simp]: "args (syscall_ctx a0 a1) 0 = a0" "args (syscall_ctx a0 a1) 1 = a1"
  by (simp_all add: syscall_ctx_def)

end
