(* ===== verification/Execve.thy ===== *)
theory Execve
  imports Bpf
begin

text \<open>
  The probe \<open>bpf/execve.bpf.c\<close>: the event it submits and \<open>handle_execve\<close>, statement
  by statement over the bytes of the ring buffer slot.  The lemmas give what each member
  of the submitted record holds; \<open>arg_slots\<close> is the specification of the unrolled
  argument loop.
\<close>

definition TASK_COMM_LEN :: nat where "TASK_COMM_LEN = 16"
definition MAX_FILENAME_LEN :: nat where "MAX_FILENAME_LEN = 256"
definition ARG_SLOT_LEN :: nat where "ARG_SLOT_LEN = 64"
definition NUM_ARG_SLOTS :: nat where "NUM_ARG_SLOTS = 4"

definition struct_event :: ctype where
  "struct_event = CStruct False
    [Field ''pid'' t___u32,
     Field ''uid'' t___u32,
     Field ''comm'' (CArr (CInt 1) TASK_COMM_LEN),
     Field ''filename'' (CArr (CInt 1) MAX_FILENAME_LEN),
     Field ''args'' (CArr (CArr (CInt 1) ARG_SLOT_LEN) NUM_ARG_SLOTS)]"

lemmas exec_macros = TASK_COMM_LEN_def MAX_FILENAME_LEN_def ARG_SLOT_LEN_def NUM_ARG_SLOTS_def

lemma lay_struct_event [layouts]: "lay struct_event = (536, 4)"
  by (simp add: struct_event_def layouts lay_eval exec_macros)

lemma sizeof_struct_event [simp]: "sizeof struct_event = 536"
  by (simp add: sizeof_def layouts)

lemma struct_event_offsets [offsets]:
  "offsetof struct_event ''pid'' = 0" "field_size struct_event ''pid'' = 4"
  "offsetof struct_event ''uid'' = 4" "field_size struct_event ''uid'' = 4"
  "offsetof struct_event ''comm'' = 8" "field_size struct_event ''comm'' = 16"
  "offsetof struct_event ''filename'' = 24" "field_size struct_event ''filename'' = 256"
  "offsetof struct_event ''args'' = 280" "field_size struct_event ''args'' = 256"
  by (simp_all add: struct_event_def offsetof_def field_size_def sizeof_def layouts lay_eval
      exec_macros)

text \<open>
  The unrolled loop from index \<open>i\<close> with \<open>k\<close> turns left: \<open>arg_ptr\<close> starts as \<open>NULL\<close>, is read
  from \<open>argv[i + 1]\<close>, and a null pointer ends the loop.
\<close>

fun read_args :: "bpf_helpers \<Rightarrow> u64 \<Rightarrow> nat \<Rightarrow> nat \<Rightarrow> byte list \<Rightarrow> byte list" where
  "read_args h argv i 0 e = e"
| "read_args h argv i (Suc k) e =
     (let arg_ptr = le_get (h_probe_read_user h (le_put 8 (0 :: u64))
                      (argv + of_nat (8 * (i + 1)))) :: u64 in
      if arg_ptr = 0 then e
      else read_args h argv (Suc i) k
        (fill (offsetof struct_event ''args'' + i * ARG_SLOT_LEN) ARG_SLOT_LEN
           (\<lambda>b. h_probe_read_user_str h b arg_ptr) e))"

definition handle_execve :: "bpf_helpers \<Rightarrow> sys_enter \<Rightarrow> ring \<Rightarrow> int \<times> ring" where
  "handle_execve h ctx rb =
    (let uid_gid = h_get_current_uid_gid h in
     case h_reserve h rb (sizeof struct_event) of
       None \<Rightarrow> (0, rb)
     | Some e \<Rightarrow>
        (let e = memset0 e (sizeof struct_event);
             e = set_field struct_event ''pid''
                   (le_put 4 (ucast (drop_bit 32 (h_get_current_pid_tgid h)) :: u32)) e;
             e = set_field struct_event ''uid''
                   (le_put 4 (ucast (uid_gid AND 0xFFFFFFFF) :: u32)) e;
             e = fill_field struct_event ''comm'' (h_get_current_comm h) e;
             filename_ptr = args ctx 0;
             e = fill_field struct_event ''filename''
                   (\<lambda>b. h_probe_read_user_str h b filename_ptr) e;
             argv = args ctx 1;
             e = read_args h argv 0 NUM_ARG_SLOTS e
         in (0, ringbuf_submit rb e)))"

section \<open>The argument loop\<close>

text \<open>
  The contents of the slots from index \<open>i\<close>: the arguments that follow \<open>argv[0]\<close> up to the
  first null pointer, each as the helper writes it into 64 zero bytes, then zero slots.
\<close>

fun arg_slots :: "bpf_helpers \<Rightarrow> u64 \<Rightarrow> nat \<Rightarrow> nat \<Rightarrow> byte list list" where
  "arg_slots h argv i 0 = []"
| "arg_slots h argv i (Suc k) =
     (let arg_ptr = le_get (h_probe_read_user h (le_put 8 (0 :: u64))
                      (argv + of_nat (8 * (i + 1)))) :: u64 in
      if arg_ptr = 0 then replicate (Suc k) (replicate 64 0)
      else h_probe_read_user_str h (replicate 64 0) arg_ptr # arg_slots h argv (Suc i) k)"

lemma length_arg_slots [simp]: "length (arg_slots h argv i k) = k"
  by (induction h argv i k rule: arg_slots.induct) (auto simp: Let_def)

context bpf_runtime
begin

lemma length_arg_slot: "b \<in> set (arg_slots h argv i k) \<Longrightarrow> length b = 64"
  by (induction k arbitrary: i) (auto simp: Let_def length_read_str split: if_splits)

lemma concat_arg_slots: "length (concat (arg_slots h argv i k)) = k * 64"
proof -
  have "map length (arg_slots h argv i k) = replicate k 64"
    by (rule nth_equalityI) (auto intro: length_arg_slot [OF nth_mem])
  then show ?thesis by (simp add: length_concat sum_list_replicate)
qed

lemma length_read_args:
  "length e = 536 \<Longrightarrow> i + k \<le> 4 \<Longrightarrow> length (read_args h argv i k e) = 536"
  by (induction k arbitrary: i e)
    (auto simp: Let_def offsets exec_macros length_fill_str)

lemma load_read_args_below:
  "length e = 536 \<Longrightarrow> i + k \<le> 4 \<Longrightarrow> off + n \<le> 280 + i * 64 \<Longrightarrow>
     load off n (read_args h argv i k e) = load off n e"
proof (induction k arbitrary: i e)
  case (Suc k)
  let ?p = "le_get (h_probe_read_user h (le_put 8 (0 :: u64)) (argv + of_nat (8 * (i + 1)))) :: u64"
  let ?e = "fill (280 + i * 64) 64 (\<lambda>b. h_probe_read_user_str h b ?p) e"
  have "load off n (read_args h argv (Suc i) k ?e) = load off n ?e"
    using Suc.prems by (intro Suc.IH) (simp_all add: length_fill_str)
  also have "\<dots> = load off n e"
    using Suc.prems by (intro load_fill_str_other) simp_all
  finally show ?case by (simp add: Let_def offsets exec_macros)
qed simp

lemma load_zero_part: "load a n e = replicate n 0 \<Longrightarrow> off \<ge> a \<Longrightarrow> off + k \<le> a + n \<Longrightarrow>
    load off k e = replicate k 0"
proof -
  assume z: "load a n e = replicate n 0" and o: "off \<ge> a" "off + k \<le> a + n"
  have "load off k e = load (off - a) k (load a n e)"
    using o by (simp add: load_def drop_take min_def)
  then show ?thesis using z o by simp
qed

lemma load_read_args:
  assumes "length e = 536" and "i + k \<le> 4"
    and "load (280 + i * 64) (k * 64) e = replicate (k * 64) 0"
  shows "load (280 + i * 64) (k * 64) (read_args h argv i k e) = concat (arg_slots h argv i k)"
  using assms
proof (induction k arbitrary: i e)
  case 0
  then show ?case by (simp add: load_def)
next
  case (Suc k)
  let ?p = "le_get (h_probe_read_user h (le_put 8 (0 :: u64)) (argv + of_nat (8 * (i + 1)))) :: u64"
  let ?f = "\<lambda>b. h_probe_read_user_str h b ?p"
  let ?e = "fill (280 + i * 64) 64 ?f e"
  let ?r = "read_args h argv (Suc i) k ?e"
  show ?case
  proof (cases "?p = 0")
    case True
    then show ?thesis using Suc.prems(3)
      by (simp add: Let_def del: replicate_Suc)
  next
    case False
    have len: "length ?e = 536" using Suc.prems by (simp add: length_fill_str)
    have zero: "load (280 + i * 64) 64 e = replicate 64 0"
      by (rule load_zero_part [OF Suc.prems(3)]) simp_all
    have rest0: "load (280 + Suc i * 64) (k * 64) ?e = replicate (k * 64) 0"
      using Suc.prems
      by (subst load_fill_str_other) (auto intro!: load_zero_part [OF Suc.prems(3)])
    have here: "load (280 + i * 64) 64 ?r = ?f (replicate 64 0)"
      using Suc.prems len zero by (subst load_read_args_below) (simp_all add: load_fill_str)
    have rest: "load (280 + Suc i * 64) (k * 64) ?r = concat (arg_slots h argv (Suc i) k)"
      using Suc.prems len rest0 by (intro Suc.IH) simp_all
    have "load (280 + i * 64) (Suc k * 64) ?r
        = load (280 + i * 64) 64 ?r @ load (280 + Suc i * 64) (k * 64) ?r"
      using load_split [of "280 + i * 64" 64 "k * 64" ?r] by (simp add: add.commute add.left_commute)
    then show ?thesis
      using False here rest by (simp add: Let_def offsets exec_macros)
  qed
qed

end

section \<open>The submitted record\<close>

text \<open>
  The specification of the probe: the members of the record in the order of \<open>struct event\<close>,
  with nothing of the slot's former contents.
\<close>

definition exec_record :: "bpf_helpers \<Rightarrow> sys_enter \<Rightarrow> byte list" where
  "exec_record h ctx =
     le_put 4 (ucast (drop_bit 32 (h_get_current_pid_tgid h)) :: u32)
     @ le_put 4 (ucast (h_get_current_uid_gid h AND 0xFFFFFFFF) :: u32)
     @ h_get_current_comm h (replicate 16 0)
     @ h_probe_read_user_str h (replicate 256 0) (args ctx 0)
     @ concat (arg_slots h (args ctx 1) 0 4)"

lemma event_slices: "length e = 536 \<Longrightarrow>
    e = load 0 4 e @ load 4 4 e @ load 8 16 e @ load 24 256 e @ load 280 256 e"
  using load_all [of e] load_split [of 0 4 532 e] load_split [of 4 4 528 e]
    load_split [of 8 16 512 e] load_split [of 24 256 256 e] by simp

context bpf_runtime
begin

lemma length_exec_record: "length (exec_record h ctx) = 536"
  using concat_arg_slots [of "args ctx 1" 0 4] by (simp add: exec_record_def helper_lengths)

lemma execve_object:
  fixes pid uid :: "byte list" and p :: u64
  assumes "length e0 = 536"
  defines "e1 \<equiv> set_field struct_event ''uid'' uid
      (set_field struct_event ''pid'' pid (memset0 e0 (sizeof struct_event)))"
  defines "e3 \<equiv> fill_field struct_event ''filename'' (\<lambda>b. h_probe_read_user_str h b p)
      (fill_field struct_event ''comm'' (h_get_current_comm h) e1)"
  assumes "length pid = 4" and "length uid = 4"
  shows "length e3 = 536"
    and "load 0 4 e3 = pid" and "load 4 4 e3 = uid"
    and "load 8 16 e3 = h_get_current_comm h (replicate 16 0)"
    and "load 24 256 e3 = h_probe_read_user_str h (replicate 256 0) p"
    and "load 280 256 e3 = replicate 256 0"
  using assms(4,5) assms(1)
  unfolding e3_def e1_def set_field_def fill_field_def offsets
  by (simp_all add: fill_simps mem_simps)

lemma handle_execve_record:
  assumes "h_reserve h rb (sizeof struct_event) = Some e0"
  shows "handle_execve h ctx rb = (0, rb @ [exec_record h ctx])"
proof -
  have len0: "length e0 = 536" using reserve_length [OF assms] by simp
  let ?pid = "le_put 4 (ucast (drop_bit 32 (h_get_current_pid_tgid h)) :: u32)"
  let ?uid = "le_put 4 (ucast (h_get_current_uid_gid h AND 0xFFFFFFFF) :: u32)"
  define e where "e = fill_field struct_event ''filename'' (\<lambda>b. h_probe_read_user_str h b (args ctx 0))
      (fill_field struct_event ''comm'' (h_get_current_comm h)
        (set_field struct_event ''uid'' ?uid
          (set_field struct_event ''pid'' ?pid (memset0 e0 (sizeof struct_event)))))"
  note obj = execve_object [where pid = ?pid and uid = ?uid and p = "args ctx 0",
      OF len0 length_le_put length_le_put, folded e_def]
  let ?r = "read_args h (args ctx 1) 0 NUM_ARG_SLOTS e"
  have r: "length ?r = 536"
    using obj(1) by (intro length_read_args) (simp_all add: exec_macros)
  have below: "load off n ?r = load off n e" if "off + n \<le> 280" for off n
    using obj(1) that by (intro load_read_args_below) (simp_all add: exec_macros)
  have "load (280 + 0 * 64) (4 * 64) ?r = concat (arg_slots h (args ctx 1) 0 4)"
    unfolding NUM_ARG_SLOTS_def using obj(1,6) by (intro load_read_args) simp_all
  then have "?r = exec_record h ctx"
    by (subst event_slices [OF r]) (simp add: below obj exec_record_def)
  then show ?thesis
    using assms by (simp add: handle_execve_def Let_def e_def ringbuf_submit_def)
qed

end

lemma handle_execve_full: "h_reserve h rb (sizeof struct_event) = None \<Longrightarrow> handle_execve h ctx rb = (0, rb)"
  by (simp add: handle_execve_def)

end
