(* ===== verification/Openat.thy ===== *)
theory Openat
  imports Bpf
begin

text \<open>
  The probe \<open>bpf/openat.bpf.c\<close>.  Unlike the other two it does not clear its slot, so the
  bytes after the NUL of the two strings are whatever the slot held; the lemmas say which
  part of the submitted record depends on them.
\<close>

definition openat_TASK_COMM_LEN :: nat where "openat_TASK_COMM_LEN = 16"
definition openat_MAX_FILENAME_LEN :: nat where "openat_MAX_FILENAME_LEN = 256"

definition struct_open_event :: ctype where
  "struct_open_event = CStruct False
    [Field ''pid'' t___u32,
     Field ''uid'' t___u32,
     Field ''comm'' (CArr (CInt 1) openat_TASK_COMM_LEN),
     Field ''filename'' (CArr (CInt 1) openat_MAX_FILENAME_LEN)]"

lemmas openat_macros = openat_TASK_COMM_LEN_def openat_MAX_FILENAME_LEN_def

lemma lay_struct_open_event [layouts]: "lay struct_open_event = (280, 4)"
  by (simp add: struct_open_event_def layouts lay_eval openat_macros)

lemma sizeof_struct_open_event [simp]: "sizeof struct_open_event = 280"
  by (simp add: sizeof_def layouts)

lemma struct_open_event_offsets [offsets]:
  "offsetof struct_open_event ''pid'' = 0" "field_size struct_open_event ''pid'' = 4"
  "offsetof struct_open_event ''uid'' = 4" "field_size struct_open_event ''uid'' = 4"
  "offsetof struct_open_event ''comm'' = 8" "field_size struct_open_event ''comm'' = 16"
  "offsetof struct_open_event ''filename'' = 24" "field_size struct_open_event ''filename'' = 256"
  by (simp_all add: struct_open_event_def offsetof_def field_size_def sizeof_def layouts lay_eval
      openat_macros)

definition handle_openat :: "bpf_helpers \<Rightarrow> sys_enter \<Rightarrow> ring \<Rightarrow> int \<times> ring" where
  "handle_openat h ctx rb =
    (case h_reserve h rb (sizeof struct_open_event) of
       None \<Rightarrow> (0, rb)
     | Some e \<Rightarrow>
        (let e = set_field struct_open_event ''pid''
                   (le_put 4 (ucast (drop_bit 32 (h_get_current_pid_tgid h)) :: u32)) e;
             e = set_field struct_open_event ''uid''
                   (le_put 4 (ucast (h_get_current_uid_gid h AND 0xFFFFFFFF) :: u32)) e;
             e = fill_field struct_open_event ''comm'' (h_get_current_comm h) e;
             filename_ptr = args ctx 1;
             e = fill_field struct_open_event ''filename''
                   (\<lambda>b. h_probe_read_user_str h b filename_ptr) e
         in (0, ringbuf_submit rb e)))"

text \<open>The submitted record, over the former contents \<open>e0\<close> of its slot.\<close>

definition open_record :: "bpf_helpers \<Rightarrow> sys_enter \<Rightarrow> byte list \<Rightarrow> byte list" where
  "open_record h ctx e0 =
     le_put 4 (ucast (drop_bit 32 (h_get_current_pid_tgid h)) :: u32)
     @ le_put 4 (ucast (h_get_current_uid_gid h AND 0xFFFFFFFF) :: u32)
     @ h_get_current_comm h (load 8 16 e0)
     @ h_probe_read_user_str h (load 24 256 e0) (args ctx 1)"

lemma open_event_slices: "length e = 280 \<Longrightarrow>
    e = load 0 4 e @ load 4 4 e @ load 8 16 e @ load 24 256 e"
  using load_all [of e] load_split [of 0 4 276 e] load_split [of 4 4 272 e]
    load_split [of 8 16 256 e] by simp

context bpf_runtime
begin

lemma length_open_record: "length e0 = 280 \<Longrightarrow> length (open_record h ctx e0) = 280"
  by (simp add: open_record_def helper_lengths)

lemma openat_object:
  fixes pid uid :: "byte list" and p :: u64
  assumes "length e0 = 280"
  defines "e3 \<equiv> fill_field struct_open_event ''filename'' (\<lambda>b. h_probe_read_user_str h b p)
      (fill_field struct_open_event ''comm'' (h_get_current_comm h)
        (set_field struct_open_event ''uid'' uid (set_field struct_open_event ''pid'' pid e0)))"
  assumes "length pid = 4" and "length uid = 4"
  shows "length e3 = 280"
    and "load 0 4 e3 = pid" and "load 4 4 e3 = uid"
    and "load 8 16 e3 = h_get_current_comm h (load 8 16 e0)"
    and "load 24 256 e3 = h_probe_read_user_str h (load 24 256 e0) p"
  using assms(3,4) assms(1)
  unfolding e3_def set_field_def fill_field_def offsets
  by (simp_all add: fill_simps mem_simps)

lemma handle_openat_record:
  assumes "h_reserve h rb (sizeof struct_open_event) = Some e0"
  shows "handle_openat h ctx rb = (0, rb @ [open_record h ctx e0])"
proof -
  have len0: "length e0 = 280" using reserve_length [OF assms] by simp
  let ?pid = "le_put 4 (ucast (drop_bit 32 (h_get_current_pid_tgid h)) :: u32)"
  let ?uid = "le_put 4 (ucast (h_get_current_uid_gid h AND 0xFFFFFFFF) :: u32)"
  define e where "e = fill_field struct_open_event ''filename''
      (\<lambda>b. h_probe_read_user_str h b (args ctx 1))
      (fill_field struct_open_event ''comm'' (h_get_current_comm h)
        (set_field struct_open_event ''uid'' ?uid (set_field struct_open_event ''pid'' ?pid e0)))"
  note obj = openat_object [where pid = ?pid and uid = ?uid and p = "args ctx 1",
      OF len0 length_le_put length_le_put, folded e_def]
  have "e = open_record h ctx e0"
    by (subst open_event_slices [OF obj(1)]) (simp add: obj open_record_def)
  then show ?thesis
    using assms by (simp add: handle_openat_def Let_def e_def ringbuf_submit_def)
qed

end

lemma handle_openat_full:
  "h_reserve h rb (sizeof struct_open_event) = None \<Longrightarrow> handle_openat h ctx rb = (0, rb)"
  by (simp add: handle_openat_def)

end
