(* ===== verification/Connect.thy ===== *)
theory Connect
  imports Bpf
begin

text \<open>
  The probe \<open>bpf/connect.bpf.c\<close>.  The address family decides whether an event is submitted
  and which of its two address members is filled; the port is turned from network order
  into the host's.  The C compiler leaves three bytes between \<open>ipv6_addr\<close> and \<open>dst_addr\<close>
  and two after \<open>dst_port\<close>; the lemmas give the record byte for byte, padding included.
\<close>

definition connect_TASK_COMM_LEN :: nat where "connect_TASK_COMM_LEN = 16"

definition struct_connect_event :: ctype where
  "struct_connect_event = CStruct False
    [Field ''pid'' t___u32,
     Field ''uid'' t___u32,
     Field ''comm'' (CArr (CInt 1) connect_TASK_COMM_LEN),
     Field ''is_ipv6'' t___u8,
     Field ''ipv6_addr'' (CArr t___u8 16),
     Field ''dst_addr'' t___u32,
     Field ''dst_port'' t___u16]"

lemma lay_struct_connect_event [layouts]: "lay struct_connect_event = (52, 4)"
  by (simp add: struct_connect_event_def layouts lay_eval connect_TASK_COMM_LEN_def)

lemma sizeof_struct_connect_event [simp]: "sizeof struct_connect_event = 52"
  by (simp add: sizeof_def layouts)

lemma struct_connect_event_offsets [offsets]:
  "offsetof struct_connect_event ''pid'' = 0" "field_size struct_connect_event ''pid'' = 4"
  "offsetof struct_connect_event ''uid'' = 4" "field_size struct_connect_event ''uid'' = 4"
  "offsetof struct_connect_event ''comm'' = 8" "field_size struct_connect_event ''comm'' = 16"
  "offsetof struct_connect_event ''is_ipv6'' = 24" "field_size struct_connect_event ''is_ipv6'' = 1"
  "offsetof struct_connect_event ''ipv6_addr'' = 25"
  "field_size struct_connect_event ''ipv6_addr'' = 16"
  "offsetof struct_connect_event ''dst_addr'' = 44" "field_size struct_connect_event ''dst_addr'' = 4"
  "offsetof struct_connect_event ''dst_port'' = 48" "field_size struct_connect_event ''dst_port'' = 2"
  by (simp_all add: struct_connect_event_def offsetof_def field_size_def sizeof_def layouts lay_eval
      connect_TASK_COMM_LEN_def)

definition handle_connect :: "bpf_helpers \<Rightarrow> sys_enter \<Rightarrow> ring \<Rightarrow> int \<times> ring" where
  "handle_connect h ctx rb =
    (let uservaddr = args ctx 1;
         family = le_get (h_probe_read_user h (le_put 2 (0 :: u16)) uservaddr) :: u16 in
     if family \<noteq> 2 \<and> family \<noteq> 10 then (0, rb)
     else case h_reserve h rb (sizeof struct_connect_event) of
       None \<Rightarrow> (0, rb)
     | Some e \<Rightarrow>
        (let e = memset0 e (sizeof struct_connect_event);
             e = set_field struct_connect_event ''pid''
                   (le_put 4 (ucast (drop_bit 32 (h_get_current_pid_tgid h)) :: u32)) e;
             e = set_field struct_connect_event ''uid''
                   (le_put 4 (ucast (h_get_current_uid_gid h AND 0xFFFFFFFF) :: u32)) e;
             e = fill_field struct_connect_event ''comm'' (h_get_current_comm h) e;
             e = (if family = 2 then
                    let addr = h_probe_read_user h (replicate (sizeof struct_sockaddr_in) 0) uservaddr;
                        sin_port = le_get (get_field struct_sockaddr_in ''sin_port'' addr) :: u16;
                        e = set_field struct_connect_event ''is_ipv6'' [0] e;
                        e = set_field struct_connect_event ''dst_addr''
                              (get_field struct_in_addr ''s_addr''
                                (get_field struct_sockaddr_in ''sin_addr'' addr)) e
                    in set_field struct_connect_event ''dst_port'' (le_put 2 (bswap16 sin_port)) e
                  else
                    let addr6 = h_probe_read_user h (replicate (sizeof struct_sockaddr_in6) 0) uservaddr;
                        sin6_port = le_get (get_field struct_sockaddr_in6 ''sin6_port'' addr6) :: u16;
                        e = set_field struct_connect_event ''is_ipv6'' [1] e;
                        e = set_field struct_connect_event ''ipv6_addr''
                              (load 0 16 (get_field struct_sockaddr_in6 ''sin6_addr'' addr6)) e
                    in set_field struct_connect_event ''dst_port'' (le_put 2 (bswap16 sin6_port)) e)
         in (0, ringbuf_submit rb e)))"

lemma sizeof_sockaddrs [simp]:
  "sizeof struct_sockaddr_in = 16" "sizeof struct_sockaddr_in6 = 28"
  by (simp_all add: sizeof_def layouts)

text \<open>The record of a connection: the members in order, then the compiler's padding.\<close>

definition connect_record :: "bpf_helpers \<Rightarrow> byte \<Rightarrow> byte list \<Rightarrow> byte list \<Rightarrow> u16 \<Rightarrow> byte list" where
  "connect_record h is6 addr6 addr4 port =
     le_put 4 (ucast (drop_bit 32 (h_get_current_pid_tgid h)) :: u32)
     @ le_put 4 (ucast (h_get_current_uid_gid h AND 0xFFFFFFFF) :: u32)
     @ h_get_current_comm h (replicate 16 0)
     @ [is6] @ addr6 @ [0, 0, 0] @ addr4 @ le_put 2 port @ [0, 0]"

lemma connect_event_slices: "length e = 52 \<Longrightarrow>
    e = load 0 4 e @ load 4 4 e @ load 8 16 e @ load 24 1 e @ load 25 16 e @ load 41 3 e
        @ load 44 4 e @ load 48 2 e @ load 50 2 e"
  using load_all [of e] load_split [of 0 4 48 e] load_split [of 4 4 44 e]
    load_split [of 8 16 28 e] load_split [of 24 1 27 e] load_split [of 25 16 11 e]
    load_split [of 41 3 8 e] load_split [of 44 4 4 e] load_split [of 48 2 2 e] by simp

text \<open>The family of a socket address is its first two bytes.\<close>

lemma user_mem_family:
  "user_mem h a (fam @ rest) \<Longrightarrow> length fam = 2 \<Longrightarrow> h_probe_read_user h (le_put 2 (0 :: u16)) a = fam"
  by (simp add: user_mem_def)

context bpf_runtime
begin

lemma connect_object:
  fixes pid uid is6 port :: "byte list"
  assumes "length e0 = 52"
  defines "e1 \<equiv> fill_field struct_connect_event ''comm'' (h_get_current_comm h)
      (set_field struct_connect_event ''uid'' uid
        (set_field struct_connect_event ''pid'' pid (memset0 e0 (sizeof struct_connect_event))))"
  assumes "length pid = 4" and "length uid = 4"
  shows "length e1 = 52" and "load 0 4 e1 = pid" and "load 4 4 e1 = uid"
    and "load 8 16 e1 = h_get_current_comm h (replicate 16 0)"
    and "24 \<le> off \<Longrightarrow> off + n \<le> 52 \<Longrightarrow> load off n e1 = replicate n 0"
  using assms(3,4) assms(1)
  unfolding e1_def set_field_def fill_field_def offsets
  by (simp_all add: fill_simps mem_simps)

text \<open>What is submitted, whatever the two reads of the address give.\<close>

lemma handle_connect_inet:
  assumes "h_reserve h rb (sizeof struct_connect_event) = Some e0"
    and fam: "le_get (h_probe_read_user h (le_put 2 (0 :: u16)) (args ctx 1)) = (2 :: u16)"
  defines "addr \<equiv> h_probe_read_user h (replicate 16 0) (args ctx 1)"
  shows "handle_connect h ctx rb
    = (0, rb @ [connect_record h 0 (replicate 16 0) (load 4 4 addr) (bswap16 (le_get (load 2 2 addr)))])"
proof -
  have len0: "length e0 = 52" using reserve_length [OF assms(1)] by simp
  have addr: "length addr = 16" by (simp add: addr_def helper_lengths)
  let ?pid = "le_put 4 (ucast (drop_bit 32 (h_get_current_pid_tgid h)) :: u32)"
  let ?uid = "le_put 4 (ucast (h_get_current_uid_gid h AND 0xFFFFFFFF) :: u32)"
  let ?port = "le_put 2 (bswap16 (le_get (load 2 2 addr)))"
  define e1 where "e1 = fill_field struct_connect_event ''comm'' (h_get_current_comm h)
      (set_field struct_connect_event ''uid'' ?uid
        (set_field struct_connect_event ''pid'' ?pid (memset0 e0 (sizeof struct_connect_event))))"
  note obj = connect_object [where pid = ?pid and uid = ?uid,
      OF len0 length_le_put length_le_put, folded e1_def]
  define e where "e = set_field struct_connect_event ''dst_port'' ?port
      (set_field struct_connect_event ''dst_addr'' (load 4 4 addr)
        (set_field struct_connect_event ''is_ipv6'' [0] e1))"
  have len: "length e = 52"
    using obj(1) addr by (simp add: e_def set_field_def offsets)
  have "e = connect_record h 0 (replicate 16 0) (load 4 4 addr) (bswap16 (le_get (load 2 2 addr)))"
    by (subst connect_event_slices [OF len])
      (use obj addr in \<open>simp add: e_def set_field_def offsets mem_simps connect_record_def
        numeral_2_eq_2 numeral_3_eq_3\<close>)
  moreover have "get_field struct_sockaddr_in ''sin_port'' addr = load 2 2 addr"
    and "get_field struct_in_addr ''s_addr'' (get_field struct_sockaddr_in ''sin_addr'' addr) = load 4 4 addr"
    using addr by (simp_all add: get_field_def offsets load_def)
  ultimately show ?thesis
    using assms(1) fam
    by (simp add: handle_connect_def Let_def e_def e1_def ringbuf_submit_def addr_def [symmetric] del: le_get.simps)
qed

lemma handle_connect_inet6:
  assumes "h_reserve h rb (sizeof struct_connect_event) = Some e0"
    and fam: "le_get (h_probe_read_user h (le_put 2 (0 :: u16)) (args ctx 1)) = (10 :: u16)"
  defines "addr \<equiv> h_probe_read_user h (replicate 28 0) (args ctx 1)"
  shows "handle_connect h ctx rb
    = (0, rb @ [connect_record h 1 (load 8 16 addr) (replicate 4 0) (bswap16 (le_get (load 2 2 addr)))])"
proof -
  have len0: "length e0 = 52" using reserve_length [OF assms(1)] by simp
  have addr: "length addr = 28" by (simp add: addr_def helper_lengths)
  let ?pid = "le_put 4 (ucast (drop_bit 32 (h_get_current_pid_tgid h)) :: u32)"
  let ?uid = "le_put 4 (ucast (h_get_current_uid_gid h AND 0xFFFFFFFF) :: u32)"
  let ?port = "le_put 2 (bswap16 (le_get (load 2 2 addr)))"
  define e1 where "e1 = fill_field struct_connect_event ''comm'' (h_get_current_comm h)
      (set_field struct_connect_event ''uid'' ?uid
        (set_field struct_connect_event ''pid'' ?pid (memset0 e0 (sizeof struct_connect_event))))"
  note obj = connect_object [where pid = ?pid and uid = ?uid,
      OF len0 length_le_put length_le_put, folded e1_def]
  define e where "e = set_field struct_connect_event ''dst_port'' ?port
      (set_field struct_connect_event ''ipv6_addr'' (load 8 16 addr)
        (set_field struct_connect_event ''is_ipv6'' [1] e1))"
  have len: "length e = 52"
    using obj(1) addr by (simp add: e_def set_field_def offsets)
  have "e = connect_record h 1 (load 8 16 addr) (replicate 4 0) (bswap16 (le_get (load 2 2 addr)))"
    by (subst connect_event_slices [OF len])
      (use obj addr in \<open>simp add: e_def set_field_def offsets mem_simps connect_record_def
        numeral_2_eq_2 numeral_3_eq_3\<close>)
  moreover have "get_field struct_sockaddr_in6 ''sin6_port'' addr = load 2 2 addr"
    and "load 0 16 (get_field struct_sockaddr_in6 ''sin6_addr'' addr) = load 8 16 addr"
    using addr by (simp_all add: get_field_def offsets load_def)
  ultimately show ?thesis
    using assms(1) fam
    by (simp add: handle_connect_def Let_def e_def e1_def ringbuf_submit_def addr_def [symmetric] del: le_get.simps)
qed

lemma handle_connect_v4:
  assumes "h_reserve h rb (sizeof struct_connect_event) = Some e0"
    and "user_mem h (args ctx 1) ([2, 0, hi, lo] @ ip @ pad)"
    and "length ip = 4" and "length pad = 8"
  shows "handle_connect h ctx rb
    = (0, rb @ [connect_record h 0 (replicate 16 0) ip (bswap16 (le_get [hi, lo]))])"
proof -
  have "h_probe_read_user h (replicate 16 0) (args ctx 1) = [2, 0, hi, lo] @ ip @ pad"
    using assms(2-4) by (simp add: user_mem_def)
  moreover have "(le_get (h_probe_read_user h (le_put 2 (0 :: u16)) (args ctx 1)) :: u16) = 2"
    using user_mem_family [of h "args ctx 1" "[2, 0]" "[hi, lo] @ ip @ pad"] assms(2) by simp
  ultimately show ?thesis
    using handle_connect_inet [OF assms(1), of ctx] assms(3) by (simp add: load_def del: le_get.simps)
qed

lemma handle_connect_v6:
  assumes "h_reserve h rb (sizeof struct_connect_event) = Some e0"
    and "user_mem h (args ctx 1) ([10, 0, hi, lo] @ flow @ ip6 @ scope)"
    and "length flow = 4" and "length ip6 = 16" and "length scope = 4"
  shows "handle_connect h ctx rb
    = (0, rb @ [connect_record h 1 ip6 (replicate 4 0) (bswap16 (le_get [hi, lo]))])"
proof -
  have "h_probe_read_user h (replicate 28 0) (args ctx 1) = [10, 0, hi, lo] @ flow @ ip6 @ scope"
    using assms(2-5) by (simp add: user_mem_def)
  moreover have "(le_get (h_probe_read_user h (le_put 2 (0 :: u16)) (args ctx 1)) :: u16) = 10"
    using user_mem_family [of h "args ctx 1" "[10, 0]" "[hi, lo] @ flow @ ip6 @ scope"] assms(2) by simp
  ultimately show ?thesis
    using handle_connect_inet6 [OF assms(1), of ctx] assms(3,4) by (simp add: load_def del: le_get.simps)
qed

lemma handle_connect_other:
  assumes "user_mem h (args ctx 1) (fam @ rest)" and "length fam = 2"
    and "le_get fam \<noteq> (2 :: u16)" and "le_get fam \<noteq> (10 :: u16)"
  shows "handle_connect h ctx rb = (0, rb)"
  using user_mem_family [OF assms(1,2)] assms(3,4) by (simp add: handle_connect_def)

lemma length_connect_record:
  "length ip6 = 16 \<Longrightarrow> length ip = 4 \<Longrightarrow> length (connect_record h is6 ip6 ip port) = 52"
  by (simp add: connect_record_def helper_lengths)

lemma handle_connect_cases:
  "handle_connect h ctx rb = (0, rb) \<or>
   (\<exists>is6 ip6 ip port. length ip6 = 16 \<and> length ip = 4
      \<and> handle_connect h ctx rb = (0, rb @ [connect_record h is6 ip6 ip port]))"
proof -
  let ?fam = "le_get (h_probe_read_user h (le_put 2 (0 :: u16)) (args ctx 1)) :: u16"
  consider "?fam \<noteq> 2" "?fam \<noteq> 10" | "h_reserve h rb (sizeof struct_connect_event) = None"
    | e0 where "h_reserve h rb (sizeof struct_connect_event) = Some e0" "?fam = 2"
    | e0 where "h_reserve h rb (sizeof struct_connect_event) = Some e0" "?fam = 10" by fastforce
  then show ?thesis
  proof cases
    case 3
    let ?addr = "h_probe_read_user h (replicate 16 0) (args ctx 1)"
    have "length (load 4 4 ?addr) = 4" by (simp add: load_def helper_lengths)
    then show ?thesis using handle_connect_inet [OF 3] by (metis length_replicate)
  next
    case 4
    let ?addr = "h_probe_read_user h (replicate 28 0) (args ctx 1)"
    have "length (load 8 16 ?addr) = 16" by (simp add: load_def helper_lengths)
    then show ?thesis using handle_connect_inet6 [OF 4] by (metis length_replicate)
  qed (auto simp: handle_connect_def Let_def)
qed

end

lemma handle_connect_full:
  "h_reserve h rb (sizeof struct_connect_event) = None \<Longrightarrow> handle_connect h ctx rb = (0, rb)"
  by (simp add: handle_connect_def Let_def)

end
