(* ===== verification/GoStrings.thy ===== *)
theory GoStrings
  imports Prelude "HOL-Library.Sublist"
begin

text \<open>
  The parts of Go's standard library on strings that the agent uses: \<open>strings.HasPrefix\<close>,
  \<open>TrimPrefix\<close>, \<open>TrimSuffix\<close>, \<open>Split\<close>, \<open>Join\<close>, and the \<open>%d\<close> verb.  A Go string is its
  bytes, so everything here is on lists of characters.
\<close>

section \<open>Character classes\<close>

definition is_digit :: "char \<Rightarrow> bool" where
  "is_digit c \<longleftrightarrow> 48 \<le> (of_char c :: nat) \<and> (of_char c :: nat) \<le> 57"

definition is_alpha :: "char \<Rightarrow> bool" where
  "is_alpha c \<longleftrightarrow> (65 \<le> (of_char c :: nat) \<and> (of_char c :: nat) \<le> 90)
     \<or> (97 \<le> (of_char c :: nat) \<and> (of_char c :: nat) \<le> 122)"

text \<open>The word characters of Go's ASCII \<open>\b\<close>.\<close>

definition is_word :: "char \<Rightarrow> bool" where
  "is_word c \<longleftrightarrow> is_digit c \<or> is_alpha c \<or> c = CHR ''_''"

lemma is_digit_is_word [simp]: "is_digit c \<Longrightarrow> is_word c"
  by (simp add: is_word_def)

definition digit :: "nat \<Rightarrow> char" where
  "digit n = char_of (48 + n)"

lemma is_digit_digit [simp]: "n < 10 \<Longrightarrow> is_digit (digit n)"
  by (simp add: is_digit_def digit_def)

lemma of_char_digit [simp]: "n < 10 \<Longrightarrow> of_char (digit n) = 48 + n"
  by (simp add: digit_def)

lemma digit_numerals [simp]:
  "digit 0 = CHR ''0''" "digit 1 = CHR ''1''" "digit (Suc 0) = CHR ''1''" "digit 2 = CHR ''2''"
  "digit 3 = CHR ''3''" "digit 4 = CHR ''4''" "digit 5 = CHR ''5''" "digit 6 = CHR ''6''"
  "digit 7 = CHR ''7''" "digit 8 = CHR ''8''" "digit 9 = CHR ''9''"
  by code_simp+

section \<open>Decimal and hexadecimal numerals\<close>

fun dec :: "nat \<Rightarrow> string" where
  "dec n = (if n < 10 then [digit n] else dec (n div 10) @ [digit (n mod 10)])"

declare dec.simps [simp del]

definition fmt_d :: "int \<Rightarrow> string" where
  "fmt_d i = (if i < 0 then CHR ''-'' # dec (nat (- i)) else dec (nat i))"

definition hex_digit :: "nat \<Rightarrow> char" where
  "hex_digit n = (if n < 10 then char_of (48 + n) else char_of (87 + n))"

lemma hex_digit_numerals [simp]:
  "hex_digit 0 = CHR ''0''" "hex_digit (Suc 0) = CHR ''1''" "hex_digit 1 = CHR ''1''"
  "hex_digit 2 = CHR ''2''" "hex_digit 3 = CHR ''3''" "hex_digit 4 = CHR ''4''"
  "hex_digit 5 = CHR ''5''" "hex_digit 6 = CHR ''6''" "hex_digit 7 = CHR ''7''"
  "hex_digit 8 = CHR ''8''" "hex_digit 9 = CHR ''9''" "hex_digit 10 = CHR ''a''"
  "hex_digit 11 = CHR ''b''" "hex_digit 12 = CHR ''c''" "hex_digit 13 = CHR ''d''"
  "hex_digit 14 = CHR ''e''" "hex_digit 15 = CHR ''f''"
  by code_simp+

text \<open>\<open>appendHex\<close>: lower case, without leading zeros.\<close>

fun hexn :: "nat \<Rightarrow> string" where
  "hexn n = (if n < 16 then [hex_digit n] else hexn (n div 16) @ [hex_digit (n mod 16)])"

declare hexn.simps [simp del]

lemma dec_neq_Nil [simp]: "dec n \<noteq> []"
  by (subst dec.simps) simp

lemma dec_digits: "c \<in> set (dec n) \<Longrightarrow> is_digit c"
proof (induction n rule: dec.induct)
  case (1 n)
  then show ?case by (cases "n < 10") (auto simp: dec.simps [of n])
qed

text \<open>Reading a numeral back.\<close>

definition undec :: "string \<Rightarrow> nat" where
  "undec = foldl (\<lambda>n c. 10 * n + (of_char c - 48)) 0"

lemma undec_dec [simp, codec]: "undec (dec n) = n"
proof (induction n rule: dec.induct)
  case (1 n)
  then show ?case by (cases "n < 10") (simp_all add: dec.simps [of n] undec_def)
qed

lemma dec_inject [simp]: "dec m = dec n \<longleftrightarrow> m = n"
  using undec_dec [of m] undec_dec [of n] by metis

lemma dec_single: "n < 10 \<Longrightarrow> dec n = [digit n]"
  by (subst dec.simps) simp

lemma dec_no_leading_zero: "n \<noteq> 0 \<Longrightarrow> hd (dec n) \<noteq> CHR ''0''"
proof (induction n rule: dec.induct)
  case (1 n)
  show ?case
  proof (cases "n < 10")
    case True
    then have "of_char (digit n) = 48 + n" by simp
    then have "digit n \<noteq> CHR ''0''" using 1(2) by auto
    then show ?thesis using True by (simp add: dec.simps [of n])
  next
    case False
    then have "hd (dec (n div 10)) \<noteq> CHR ''0''" using 1 by simp
    then show ?thesis using False by (simp add: dec.simps [of n])
  qed
qed

section \<open>Prefixes, suffixes, Split and Join\<close>

definition HasPrefix :: "string \<Rightarrow> string \<Rightarrow> bool" where
  "HasPrefix s p \<longleftrightarrow> take (length p) s = p"

definition HasSuffix :: "string \<Rightarrow> string \<Rightarrow> bool" where
  "HasSuffix s p \<longleftrightarrow> length p \<le> length s \<and> drop (length s - length p) s = p"

definition TrimPrefix :: "string \<Rightarrow> string \<Rightarrow> string" where
  "TrimPrefix s p = (if HasPrefix s p then drop (length p) s else s)"

definition TrimSuffix :: "string \<Rightarrow> string \<Rightarrow> string" where
  "TrimSuffix s p = (if HasSuffix s p then take (length s - length p) s else s)"

text \<open>\<open>strings.Split\<close> on a one-byte separator: always at least one piece.\<close>

fun Split :: "string \<Rightarrow> char \<Rightarrow> string list" where
  "Split [] sep = [[]]"
| "Split (c # s) sep =
     (if c = sep then [] # Split s sep
      else case Split s sep of p # ps \<Rightarrow> (c # p) # ps | [] \<Rightarrow> [[c]])"

fun Join :: "string list \<Rightarrow> string \<Rightarrow> string" where
  "Join [] sep = []"
| "Join [s] sep = s"
| "Join (s # t # ts) sep = s @ sep @ Join (t # ts) sep"

lemma HasPrefix_append [simp]: "HasPrefix (p @ s) p"
  by (simp add: HasPrefix_def)

lemma HasPrefix_iff: "HasPrefix s p \<longleftrightarrow> prefix p s"
  by (metis HasPrefix_def append_eq_conv_conj prefix_def take_is_prefix)

lemma TrimPrefix_append [simp]: "TrimPrefix (p @ s) p = s"
  by (simp add: TrimPrefix_def)

lemma Split_neq_Nil [simp]: "Split s sep \<noteq> []"
  by (induction s) (auto split: list.splits)

lemma hd_Split: "hd (Split s sep) = takeWhile (\<lambda>c. c \<noteq> sep) s"
proof (induction s)
  case (Cons c s)
  then show ?case using Split_neq_Nil [of s sep] by (cases "Split s sep") auto
qed simp

lemma Join_Split: "Join (Split s sep) [sep] = s"
proof (induction s)
  case (Cons c s)
  obtain p ps where sp: "Split s sep = p # ps" by (cases "Split s sep") auto
  then show ?case using Cons by (cases ps) auto
qed simp

lemma Split_no_sep: "p \<in> set (Split s sep) \<Longrightarrow> sep \<notin> set p"
proof (induction s arbitrary: p)
  case (Cons c s)
  obtain q qs where sp: "Split s sep = q # qs" by (cases "Split s sep") auto
  then show ?case using Cons by (auto split: if_splits)
qed simp

end
