(* ===== verification/Events.thy ===== *)
theory Events
  imports GoStrings
begin

text \<open>
  How the agent reads a ring buffer record (\<open>cmd/watchbpf-agent/main.go\<close>): the event
  structs, \<open>binary.Read\<close>, \<open>cstr\<close>, the text of an IP address (\<open>net.IP.String\<close>), and the
  per-label part of \<open>readLoop\<close>, \<open>decode_record\<close>, which turns the bytes of a record into
  the process name and the detail string the rest of the agent works on.
\<close>

section \<open>binary.Read\<close>

text \<open>
  \<open>binary.Read\<close> of a struct without variable parts reads exactly its size, in the order
  of the fields and without padding; a shorter buffer is an error.  \<open>cut\<close> slices the
  buffer at the sizes of the fields.
\<close>

fun cut :: "nat list \<Rightarrow> byte list \<Rightarrow> byte list list" where
  "cut [] bs = []"
| "cut (n # ns) bs = take n bs # cut ns (drop n bs)"

definition binary_read :: "nat list \<Rightarrow> byte list \<Rightarrow> byte list list option" where
  "binary_read ns bs = (if length bs < sum_list ns then None else Some (cut ns bs))"

lemma cut_append [simp]: "length x = n \<Longrightarrow> cut (n # ns) (x @ r) = x # cut ns r"
  by simp

lemma length_cut [simp]: "length (cut ns bs) = length ns"
  by (induction ns arbitrary: bs) auto

section \<open>The event structs\<close>

record execEvent =
  xPid :: u32
  xUid :: u32
  xComm :: "byte list"
  xFilename :: "byte list"
  xArgs :: "byte list list"

record openEvent =
  oPid :: u32
  oUid :: u32
  oComm :: "byte list"
  oFilename :: "byte list"

record connectEvent =
  cPid :: u32
  cUid :: u32
  cComm :: "byte list"
  cIsIPv6 :: byte
  cIPv6Addr :: "byte list"
  cDstAddr :: u32
  cDstPort :: u16

definition read_execEvent :: "byte list \<Rightarrow> execEvent option" where
  "read_execEvent buf =
     (case binary_read [4, 4, 16, 256, 64, 64, 64, 64] buf of
        Some [p, u, c, f, a0, a1, a2, a3] \<Rightarrow>
          Some \<lparr>xPid = le_get p, xUid = le_get u, xComm = c, xFilename = f,
                xArgs = [a0, a1, a2, a3]\<rparr>
      | _ \<Rightarrow> None)"

definition read_openEvent :: "byte list \<Rightarrow> openEvent option" where
  "read_openEvent buf =
     (case binary_read [4, 4, 16, 256] buf of
        Some [p, u, c, f] \<Rightarrow>
          Some \<lparr>oPid = le_get p, oUid = le_get u, oComm = c, oFilename = f\<rparr>
      | _ \<Rightarrow> None)"

text \<open>The blank field \<open>_ [3]byte\<close> is read and dropped.\<close>

definition read_connectEvent :: "byte list \<Rightarrow> connectEvent option" where
  "read_connectEvent buf =
     (case binary_read [4, 4, 16, 1, 16, 3, 4, 2] buf of
        Some [p, u, c, six, a6, blank, a4, port] \<Rightarrow>
          Some \<lparr>cPid = le_get p, cUid = le_get u, cComm = c, cIsIPv6 = le_get six,
                cIPv6Addr = a6, cDstAddr = le_get a4, cDstPort = le_get port\<rparr>
      | _ \<Rightarrow> None)"

definition cstr :: "byte list \<Rightarrow> string" where
  "cstr b = string_of_bytes (takeWhile (\<lambda>x. x \<noteq> 0) b)"

lemma cstr_no_nul: "CHR 0x00 \<notin> set (cstr b)"
proof
  assume "CHR 0x00 \<in> set (cstr b)"
  then obtain x where x: "x \<in> set (takeWhile (\<lambda>x. x \<noteq> 0) b)" and "char_of_byte x = CHR 0x00"
    by (auto simp: cstr_def string_of_bytes_def)
  then have "x = 0" using byte_of_char_of_byte [of x] by (simp add: byte_of_char_def)
  then show False using x by (auto dest: set_takeWhileD)
qed

lemma length_cstr: "length (cstr b) \<le> length b"
  by (simp add: cstr_def length_takeWhile_le)

section \<open>The text of an IP address\<close>

fun ipv4_string :: "byte list \<Rightarrow> string" where
  "ipv4_string [a, b, c, d] =
     dec (unat a) @ ''.'' @ dec (unat b) @ ''.'' @ dec (unat c) @ ''.'' @ dec (unat d)"
| "ipv4_string bs = ''?''"

text \<open>The eight groups of an IPv6 address, big-endian.\<close>

fun ipv6_groups :: "byte list \<Rightarrow> nat list" where
  "ipv6_groups (hi # lo # bs) = (256 * unat hi + unat lo) # ipv6_groups bs"
| "ipv6_groups bs = []"

definition zero_run :: "nat list \<Rightarrow> nat \<Rightarrow> nat" where
  "zero_run ws i = length (takeWhile (\<lambda>w. w = 0) (drop i ws))"

text \<open>
  The first of the longest runs of at least two zero groups, as start and end: a later
  run replaces the one found only when it is longer.
\<close>

fun longest_zeros :: "nat list \<Rightarrow> nat list \<Rightarrow> (nat \<times> nat) option \<Rightarrow> (nat \<times> nat) option" where
  "longest_zeros ws [] best = best"
| "longest_zeros ws (i # is) best =
     (let l = zero_run ws i in
      longest_zeros ws is
        (if 2 \<le> l \<and> (case best of None \<Rightarrow> 0 | Some (s, e) \<Rightarrow> e - s) < l then Some (i, i + l) else best))"

definition ipv6_string :: "byte list \<Rightarrow> string" where
  "ipv6_string bs =
    (let ws = ipv6_groups bs in
     case longest_zeros ws [0..<8] None of
       None \<Rightarrow> Join (map hexn ws) '':''
     | Some (s, e) \<Rightarrow>
         Join (map hexn (take s ws)) '':'' @ ''::'' @ Join (map hexn (drop e ws)) '':'')"

text \<open>\<open>net.IP.String\<close>: an IPv4-mapped address is printed as the IPv4 address it maps.\<close>

definition IP_String :: "byte list \<Rightarrow> string" where
  "IP_String ip =
    (if ip = [] then ''<nil>''
     else if length ip = 4 then ipv4_string ip
     else if length ip = 16 then
       (if take 12 ip = replicate 10 0 @ [255, 255] then ipv4_string (drop 12 ip)
        else ipv6_string ip)
     else ''?'' @ concat (map (\<lambda>b. [hex_digit (unat b div 16), hex_digit (unat b mod 16)]) ip))"

section \<open>One record\<close>

definition exec_detail :: "execEvent \<Rightarrow> string" where
  "exec_detail ev =
    (let filename = cstr (xFilename ev);
         argParts = filter (\<lambda>a. a \<noteq> []) (map cstr (xArgs ev))
     in if 0 < length argParts then filename @ '' '' @ Join argParts '' '' else filename)"

definition connect_detail :: "connectEvent \<Rightarrow> string" where
  "connect_detail ev =
    (let ipStr = (if cIsIPv6 ev = 1 then ''['' @ IP_String (cIPv6Addr ev) @ '']''
                  else IP_String (le_put 4 (cDstAddr ev)))
     in ipStr @ '':'' @ fmt_d (int (unat (cDstPort ev))))"

text \<open>
  The body of \<open>readLoop\<close> for one record: \<open>None\<close> where it goes on to the next record
  without handling this one.  A label that is none of the three leaves all four variables
  at their zero values.
\<close>

definition decode_record :: "string \<Rightarrow> byte list \<Rightarrow> (string \<times> string \<times> u32 \<times> u32) option" where
  "decode_record label raw =
    (if label = ''EXEC'' then
       (case read_execEvent raw of None \<Rightarrow> None
        | Some ev \<Rightarrow> Some (cstr (xComm ev), exec_detail ev, xPid ev, xUid ev))
     else if label = ''OPEN'' then
       (case read_openEvent raw of None \<Rightarrow> None
        | Some ev \<Rightarrow> Some (cstr (oComm ev), cstr (oFilename ev), oPid ev, oUid ev))
     else if label = ''CONNECT'' then
       (case read_connectEvent raw of None \<Rightarrow> None
        | Some ev \<Rightarrow> Some (cstr (cComm ev), connect_detail ev, cPid ev, cUid ev))
     else Some ([], [], 0, 0))"

lemma read_execEvent_append:
  assumes "length p = 4" "length u = 4" "length c = 16" "length f = 256"
    and "length as = 4" "\<forall>a \<in> set as. length a = 64"
  shows "read_execEvent (p @ u @ c @ f @ concat as)
    = Some \<lparr>xPid = le_get p, xUid = le_get u, xComm = c, xFilename = f, xArgs = as\<rparr>"
proof -
  obtain a0 a1 a2 a3 where as: "as = [a0, a1, a2, a3]"
    using assms(5) by (auto simp: length_Suc_conv numeral_eq_Suc)
  then show ?thesis
    using assms by (simp add: read_execEvent_def binary_read_def)
qed

lemma read_openEvent_append:
  assumes "length p = 4" "length u = 4" "length c = 16" "length f = 256"
  shows "read_openEvent (p @ u @ c @ f)
    = Some \<lparr>oPid = le_get p, oUid = le_get u, oComm = c, oFilename = f\<rparr>"
  using assms by (simp add: read_openEvent_def binary_read_def)

lemma read_connectEvent_append:
  assumes "length p = 4" "length u = 4" "length c = 16" "length a6 = 16" "length blank = 3"
    "length a4 = 4" "length port = 2"
  shows "read_connectEvent (p @ u @ c @ [six] @ a6 @ blank @ a4 @ port @ rest)
    = Some \<lparr>cPid = le_get p, cUid = le_get u, cComm = c, cIsIPv6 = le_get [six],
        cIPv6Addr = a6, cDstAddr = le_get a4, cDstPort = le_get port\<rparr>"
  using assms by (simp add: read_connectEvent_def binary_read_def)

lemma read_short:
  "length raw < 536 \<Longrightarrow> read_execEvent raw = None"
  "length raw < 280 \<Longrightarrow> read_openEvent raw = None"
  "length raw < 50 \<Longrightarrow> read_connectEvent raw = None"
  by (simp_all add: read_execEvent_def read_openEvent_def read_connectEvent_def binary_read_def)

end
