(* ===== verification/Wire.thy ===== *)
theory Wire
  imports Execve Openat Connect Events
begin

text \<open>
  The contract between the probes and the agent: what \<open>readLoop\<close> decodes is what the probe
  saw.  The C side fixes the bytes of a record (\<open>exec_record\<close>, \<open>open_record\<close>,
  \<open>connect_record\<close>), the Go side slices them again; the lemmas put the two together, so
  that the properties below speak of user memory on one end and of the detail string on
  the other.
\<close>

lemma cstr_until_nul: "cstr bs = string_of_bytes (until_nul bs)"
  by (simp add: cstr_def until_nul_def)

lemma cstr_zeros [simp]: "cstr (replicate n 0) = []"
  by (simp add: cstr_until_nul string_of_bytes_def)

lemma cstr_user_str:
  "user_str h a s \<Longrightarrow> 0 < n \<Longrightarrow>
     cstr (h_probe_read_user_str h (replicate n 0) a) = string_of_bytes (take (n - 1) s)"
  by (simp add: user_str_def cstr_until_nul until_nul_str_into)

abbreviation event_pid :: "bpf_helpers \<Rightarrow> u32" where
  "event_pid h \<equiv> ucast (drop_bit 32 (h_get_current_pid_tgid h))"

abbreviation event_uid :: "bpf_helpers \<Rightarrow> u32" where
  "event_uid h \<equiv> ucast (h_get_current_uid_gid h AND 0xFFFFFFFF)"

text \<open>The process name as the agent sees it.\<close>

definition comm_string :: "bpf_helpers \<Rightarrow> string" where
  "comm_string h = cstr (h_get_current_comm h (replicate 16 0))"

section \<open>EXEC\<close>

text \<open>
  \<open>argv_holds h argv i as\<close>: from index \<open>i\<close> on, the vector at \<open>argv\<close> holds pointers to the
  strings \<open>as\<close>, and a null pointer follows.  Only the indices up to 4 matter, which the probe
  reads.
\<close>

fun argv_holds :: "bpf_helpers \<Rightarrow> u64 \<Rightarrow> nat \<Rightarrow> byte list list \<Rightarrow> bool" where
  "argv_holds h argv i [] \<longleftrightarrow> 5 \<le> i \<or> user_mem h (argv + of_nat (8 * i)) (le_put 8 (0 :: u64))"
| "argv_holds h argv i (a # as) \<longleftrightarrow> 5 \<le> i \<or>
     (\<exists>p. p \<noteq> 0 \<and> user_mem h (argv + of_nat (8 * i)) (le_put 8 (p :: u64))
        \<and> user_str h p a \<and> argv_holds h argv (Suc i) as)"

text \<open>What \<open>readLoop\<close> makes of the arguments: four slots of 63 bytes, empty ones dropped.\<close>

definition seen_args :: "byte list list \<Rightarrow> string list" where
  "seen_args as = filter (\<lambda>a. a \<noteq> []) (map (\<lambda>a. string_of_bytes (take 63 a)) (take 4 as))"

lemma user_mem_word64: "user_mem h a (le_put 8 (w :: u64)) \<Longrightarrow>
    le_get (h_probe_read_user h (le_put 8 (0 :: u64)) a) = w"
  by (simp add: user_mem_def)

lemma arg_slots_seen:
  assumes "argv_holds h argv (Suc i) as" and "i + k = 4"
  shows "filter (\<lambda>a. a \<noteq> []) (map cstr (arg_slots h argv i k))
    = filter (\<lambda>a. a \<noteq> []) (map (\<lambda>a. string_of_bytes (take 63 a)) (take k as))"
  using assms
proof (induction k arbitrary: i as)
  case (Suc k)
  let ?p = "le_get (h_probe_read_user h (le_put 8 (0 :: u64)) (argv + of_nat (8 * (i + 1)))) :: u64"
  from Suc.prems have i: "\<not> 4 \<le> i" by simp
  show ?case
  proof (cases as)
    case Nil
    then have "?p = 0"
      using Suc.prems i by (simp add: user_mem_word64)
    with Nil show ?thesis by (simp add: Let_def del: replicate_Suc)
  next
    case (Cons a as')
    then obtain p where p: "p \<noteq> 0" "user_mem h (argv + of_nat (8 * (i + 1))) (le_put 8 (p :: u64))"
      "user_str h p a" and rest: "argv_holds h argv (Suc (Suc i)) as'"
      using Suc.prems i by auto
    have "?p = p" by (rule user_mem_word64 [OF p(2)])
    moreover have "cstr (h_probe_read_user_str h (replicate 64 0) p) = string_of_bytes (take 63 a)"
      using cstr_user_str [OF p(3), of 64] by simp
    ultimately show ?thesis
      using Suc.IH [OF rest] Suc.prems p(1) Cons by (simp add: Let_def)
  qed
qed simp

context bpf_runtime
begin

lemma read_exec_record: "read_execEvent (exec_record h ctx)
    = Some \<lparr>xPid = event_pid h, xUid = event_uid h, xComm = h_get_current_comm h (replicate 16 0),
        xFilename = h_probe_read_user_str h (replicate 256 0) (args ctx 0),
        xArgs = arg_slots h (args ctx 1) 0 4\<rparr>"
  unfolding exec_record_def
  by (subst read_execEvent_append) (auto simp: helper_lengths length_arg_slot)

lemma decode_exec_record:
  assumes "user_str h (args ctx 0) fn" and "argv_holds h (args ctx 1) 1 as"
  shows "decode_record ''EXEC'' (exec_record h ctx) =
    Some (comm_string h, Join (string_of_bytes (take 255 fn) # seen_args as) '' '',
      event_pid h, event_uid h)"
proof -
  have a: "filter (\<lambda>a. a \<noteq> []) (map cstr (arg_slots h (args ctx 1) 0 4)) = seen_args as"
    unfolding seen_args_def using arg_slots_seen [of h "args ctx 1" 0 as 4] assms(2) by simp
  have f: "cstr (h_probe_read_user_str h (replicate 256 0) (args ctx 0))
      = string_of_bytes (take 255 fn)"
    using cstr_user_str [OF assms(1), of 256] by simp
  show ?thesis
    by (cases "seen_args as")
      (simp_all add: decode_record_def read_exec_record exec_detail_def a f comm_string_def Let_def)
qed

lemma read_open_record: "length e0 = 280 \<Longrightarrow> read_openEvent (open_record h ctx e0)
    = Some \<lparr>oPid = event_pid h, oUid = event_uid h,
        oComm = h_get_current_comm h (load 8 16 e0),
        oFilename = h_probe_read_user_str h (load 24 256 e0) (args ctx 1)\<rparr>"
  unfolding open_record_def
  by (subst read_openEvent_append) (auto simp: helper_lengths)

lemma decode_open_record: "length e0 = 280 \<Longrightarrow> decode_record ''OPEN'' (open_record h ctx e0) =
    Some (comm_string h, cstr (h_probe_read_user_str h (replicate 256 0) (args ctx 1)),
      event_pid h, event_uid h)"
  using comm_fresh [of "load 8 16 e0" "replicate 16 0"]
    str_fresh [of "load 24 256 e0" "replicate 256 0" "args ctx 1"]
  by (simp add: decode_record_def read_open_record cstr_until_nul comm_string_def)

lemma decode_connect_record:
  assumes "length ip6 = 16" and "length ip = 4"
  shows "decode_record ''CONNECT'' (connect_record h is6 ip6 ip port) =
    Some (comm_string h,
      (if is6 = 1 then ''['' @ IP_String ip6 @ '']'' else ipv4_string ip) @ '':'' @ dec (unat port),
      event_pid h, event_uid h)"
proof -
  have "ip \<noteq> []" using assms by auto
  have "read_connectEvent (connect_record h is6 ip6 ip port)
    = Some \<lparr>cPid = event_pid h, cUid = event_uid h, cComm = h_get_current_comm h (replicate 16 0),
        cIsIPv6 = is6, cIPv6Addr = ip6, cDstAddr = le_get ip, cDstPort = port\<rparr>"
    unfolding connect_record_def
    by (subst read_connectEvent_append) (simp_all add: helper_lengths assms)
  then show ?thesis
    using assms \<open>ip \<noteq> []\<close>
    by (simp add: decode_record_def connect_detail_def comm_string_def IP_String_def fmt_d_def)
qed

end

section \<open>Properties\<close>

text \<open>
  C10: A connection attempt to an IPv4 address reaches the agent as \<open>address:port\<close>: for a
  \<open>sockaddr_in\<close> in user memory, \<open>handle_connect\<close> submits one record, and decoding it gives
  the dotted address in the order of the network bytes, the port in host order, the
  process name, the thread group id as pid and the low half of \<open>uid_gid\<close> as uid.
\<close>

theorem connect_v4_wire:
  assumes "bpf_runtime h"
    and "h_reserve h rb (sizeof struct_connect_event) = Some e0"
    and "user_mem h (args ctx 1) ([2, 0, hi, lo] @ ip @ pad)"
    and "length ip = 4" and "length pad = 8"
  shows "\<exists>e. handle_connect h ctx rb = (0, rb @ [e]) \<and>
    decode_record ''CONNECT'' e =
      Some (comm_string h, ipv4_string ip @ '':'' @ dec (be_port hi lo), event_pid h, event_uid h)"
  using bpf_runtime.handle_connect_v4 [OF assms]
    bpf_runtime.decode_connect_record [OF assms(1) length_replicate assms(4)]
  by (simp add: bswap16_be_port del: le_get.simps)

text \<open>A runtime with one process, \<open>curl\<close>, and its memory.\<close>

definition demo_runtime :: "(u64 \<times> byte list) list \<Rightarrow> runtime" where
  "demo_runtime segs = \<lparr>rt_pid_tgid = 0x4D200004D3, rt_uid_gid = 0x3E8000003E8,
     rt_comm = bytes_of_string ''curl'', rt_mem = mem_at segs, rt_stale = 0xAA,
     rt_capacity = 262144\<rparr>"

lemma demo_reserve [simp]: "n \<le> 262000 \<Longrightarrow>
    h_reserve (mem_helpers (demo_runtime segs)) [] n = Some (replicate n 0xAA)"
  using round_up_bounds(2) [of 8 "n + 8"]
  by (simp add: mem_helpers_def demo_runtime_def ring_used_def ring_slot_def)

lemma demo_mem [simp]: "rt_mem (demo_runtime segs) = mem_at segs"
  by (simp add: demo_runtime_def)

lemma demo_comm [simp]: "comm_string (mem_helpers (demo_runtime segs)) = ''curl''"
proof -
  have "until_nul (str_into (bytes_of_string ''curl'') (replicate 16 0)) = bytes_of_string ''curl''"
    by (subst until_nul_str_into) (simp_all add: bytes_of_string_def byte_of_char_def)
  then show ?thesis
    by (simp add: comm_string_def cstr_until_nul mem_helpers_def demo_runtime_def)
qed

lemma demo_ids [simp]:
  "event_pid (mem_helpers (demo_runtime segs)) = 77"
  "event_uid (mem_helpers (demo_runtime segs)) = 1000"
  by (simp_all add: mem_helpers_def demo_runtime_def)

definition demo_v4 :: bpf_helpers where
  "demo_v4 = mem_helpers (demo_runtime
     [(0x7000, [2, 0, 0x1F, 0x90, 127, 0, 0, 1, 0, 0, 0, 0, 0, 0, 0, 0])])"

lemma demo_v4_mem: "user_mem demo_v4 0x7000 ([2, 0, 0x1F, 0x90] @ [127, 0, 0, 1] @ [0, 0, 0, 0, 0, 0, 0, 0])"
  unfolding demo_v4_def by (rule user_mem_mem_helpers) simp

lemma demo_v4_runtime: "bpf_runtime demo_v4"
  unfolding demo_v4_def by (rule mh.bpf_runtime_axioms)

lemma demo_v4_text: "ipv4_string [127, 0, 0, 1] @ '':'' @ dec (be_port 0x1F 0x90) = ''127.0.0.1:8080''"
  by (simp add: be_port_def dec.simps)

lemma demo_v4_event [simp]:
  "event_pid demo_v4 = 77" "event_uid demo_v4 = 1000" "comm_string demo_v4 = ''curl''"
  by (simp_all only: demo_v4_def demo_ids demo_comm)

lemma demo_v4_reserve: "h_reserve demo_v4 [] (sizeof struct_connect_event) = Some (replicate 52 0xAA)"
  by (simp add: demo_v4_def)

theorem connect_v4_wire_witness:
  "\<exists>e. handle_connect demo_v4 (syscall_ctx 3 0x7000) [] = (0, [e]) \<and>
    decode_record ''CONNECT'' e = Some (''curl'', ''127.0.0.1:8080'', 77, 1000)"
  using connect_v4_wire [of demo_v4, OF demo_v4_runtime demo_v4_reserve, of "syscall_ctx 3 0x7000",
      unfolded args_syscall_ctx, OF demo_v4_mem]
  by (simp only: demo_v4_text demo_v4_event) simp

text \<open>
  C27: The same for IPv6: the sixteen address bytes reach the agent unpermuted through the
  unaligned \<open>ipv6_addr\<close> member and its padding, and are printed in brackets before the port.
\<close>

theorem connect_v6_wire:
  assumes "bpf_runtime h"
    and "h_reserve h rb (sizeof struct_connect_event) = Some e0"
    and "user_mem h (args ctx 1) ([10, 0, hi, lo] @ flow @ ip6 @ scope)"
    and "length flow = 4" and "length ip6 = 16" and "length scope = 4"
  shows "\<exists>e. handle_connect h ctx rb = (0, rb @ [e]) \<and>
    decode_record ''CONNECT'' e = Some (comm_string h,
      ''['' @ IP_String ip6 @ '']:'' @ dec (be_port hi lo), event_pid h, event_uid h)"
  using bpf_runtime.handle_connect_v6 [OF assms]
    bpf_runtime.decode_connect_record [OF assms(1,5) length_replicate]
  by (simp add: bswap16_be_port del: le_get.simps)

definition demo_v6 :: bpf_helpers where
  "demo_v6 = mem_helpers (demo_runtime [(0x7000,
     [10, 0, 0x01, 0xBB, 0, 0, 0, 0, 0x20, 0x01, 0x0D, 0xB8, 0, 0, 0, 0, 0, 0, 0, 0, 0, 0, 0, 1,
      0, 0, 0, 0])])"

lemma demo_v6_mem: "user_mem demo_v6 0x7000 ([10, 0, 0x01, 0xBB] @ [0, 0, 0, 0]
    @ [0x20, 0x01, 0x0D, 0xB8, 0, 0, 0, 0, 0, 0, 0, 0, 0, 0, 0, 1] @ [0, 0, 0, 0])"
  unfolding demo_v6_def by (rule user_mem_mem_helpers) simp

lemma demo_v6_facts:
  "bpf_runtime demo_v6"
  "h_reserve demo_v6 [] (sizeof struct_connect_event) = Some (replicate 52 0xAA)"
  "event_pid demo_v6 = 77" "event_uid demo_v6 = 1000" "comm_string demo_v6 = ''curl''"
  unfolding demo_v6_def by (rule mh.bpf_runtime_axioms, simp, rule demo_ids, rule demo_ids, rule demo_comm)

lemma demo_v6_text: "''['' @ IP_String [0x20, 0x01, 0x0D, 0xB8, 0, 0, 0, 0, 0, 0, 0, 0, 0, 0, 0, 1]
    @ '']:'' @ dec (be_port 0x01 0xBB) = ''[2001:db8::1]:443''"
  by (simp add: IP_String_def ipv6_string_def zero_run_def upt_rec hexn.simps dec.simps be_port_def)

theorem connect_v6_wire_witness:
  "\<exists>e. handle_connect demo_v6 (syscall_ctx 3 0x7000) [] = (0, [e]) \<and>
    decode_record ''CONNECT'' e = Some (''curl'', ''[2001:db8::1]:443'', 77, 1000)"
  using connect_v6_wire [of demo_v6, OF demo_v6_facts(1,2), of "syscall_ctx 3 0x7000",
      unfolded args_syscall_ctx, OF demo_v6_mem]
  by (simp only: demo_v6_text demo_v6_facts) simp

text \<open>
  A connection attempt of any other address family (a Unix socket, say) submits
  nothing, whatever the state of the ring.
\<close>

lemma connect_other_family_silent:
  assumes "user_mem h (args ctx 1) (fam @ rest)" and "length fam = 2"
    and "le_get fam \<notin> {2, 10 :: u16}"
  shows "handle_connect h ctx rb = (0, rb)"
  using user_mem_family [OF assms(1,2)] assms(3) by (simp add: handle_connect_def)

definition demo_unix :: bpf_helpers where
  "demo_unix = mem_helpers (demo_runtime [(0x7000, [1, 0, 0x2F, 0x74, 0x6D, 0x70])])"

lemma demo_unix_mem: "user_mem demo_unix 0x7000 ([1, 0] @ [0x2F, 0x74, 0x6D, 0x70])"
  unfolding demo_unix_def by (rule user_mem_mem_helpers) simp

lemma connect_other_family_silent_witness:
  "handle_connect demo_unix (syscall_ctx 3 0x7000) [] = (0, [])"
  using connect_other_family_silent [of demo_unix "syscall_ctx 3 0x7000", unfolded args_syscall_ctx,
      OF demo_unix_mem] by simp

text \<open>
  C9: An \<open>execve\<close> with a non-empty argument vector reaches the agent as its command line: the
  file name cut at 255 bytes, followed by the arguments after \<open>argv[0]\<close>, at most four, each
  cut at 63 bytes, empty ones left out.  The vector is the one up to its first null pointer:
  nothing of what memory holds behind that pointer, the environment for instance, reaches
  the agent.
\<close>

theorem exec_wire:
  assumes "bpf_runtime h"
    and "h_reserve h rb (sizeof struct_event) = Some e0"
    and "user_str h (args ctx 0) fn"
    and "argv_holds h (args ctx 1) 0 (a # as)"
  shows "\<exists>e. handle_execve h ctx rb = (0, rb @ [e]) \<and>
    decode_record ''EXEC'' e = Some (comm_string h,
      Join (string_of_bytes (take 255 fn) # seen_args as) '' '', event_pid h, event_uid h)"
proof -
  have "argv_holds h (args ctx 1) 1 as" using assms(4) by auto
  then show ?thesis
    using bpf_runtime.handle_execve_record [OF assms(1,2)] bpf_runtime.decode_exec_record [OF assms(1,3)] by simp
qed

text \<open>
  For an empty vector the same is false: the loop starts behind \<open>argv[0]\<close>, so when that is
  the null pointer it reads on, and reports as arguments the strings it finds there.
\<close>

lemma empty_argv_reads_on:
  assumes "bpf_runtime h"
    and "h_reserve h rb (sizeof struct_event) = Some e0"
    and "user_str h (args ctx 0) fn"
    and "argv_holds h (args ctx 1) 0 []" and "argv_holds h (args ctx 1) 1 envp"
  shows "\<exists>e. handle_execve h ctx rb = (0, rb @ [e]) \<and>
    decode_record ''EXEC'' e = Some (comm_string h,
      Join (string_of_bytes (take 255 fn) # seen_args envp) '' '', event_pid h, event_uid h)"
  using bpf_runtime.handle_execve_record [OF assms(1,2)] bpf_runtime.decode_exec_record [OF assms(1,3,5)] by simp

text \<open>
  A process that runs \<open>/bin/ls\<close> with the arguments \<open>-l\<close> and the empty string; an
  environment string follows the vector's null pointer.
\<close>

definition demo_exec :: bpf_helpers where
  "demo_exec = mem_helpers (demo_runtime
     [(0x1000, [0x2F, 0x62, 0x69, 0x6E, 0x2F, 0x6C, 0x73, 0]),
      (0x2000, le_put 8 (0x3000 :: u64) @ le_put 8 (0x3100 :: u64) @ le_put 8 (0x3200 :: u64)
         @ le_put 8 (0 :: u64) @ le_put 8 (0x3000 :: u64) @ le_put 8 (0 :: u64)),
      (0x3000, [0x6C, 0x73, 0]), (0x3100, [0x2D, 0x6C, 0]), (0x3200, [0])])"

lemma demo_exec_facts:
  "bpf_runtime demo_exec"
  "h_reserve demo_exec [] (sizeof struct_event) = Some (replicate 536 0xAA)"
  "event_pid demo_exec = 77" "event_uid demo_exec = 1000" "comm_string demo_exec = ''curl''"
  unfolding demo_exec_def by (rule mh.bpf_runtime_axioms, simp, rule demo_ids, rule demo_ids, rule demo_comm)

lemma demo_exec_strings:
  "user_str demo_exec 0x1000 [0x2F, 0x62, 0x69, 0x6E, 0x2F, 0x6C, 0x73]"
  "user_str demo_exec 0x3000 [0x6C, 0x73]" "user_str demo_exec 0x3100 [0x2D, 0x6C]" "user_str demo_exec 0x3200 []"
  unfolding demo_exec_def
  by (rule user_str_mem_helpers; simp add: le_put_def)+

lemma demo_exec_argv: "argv_holds demo_exec 0x2000 0 [[0x6C, 0x73], [0x2D, 0x6C], []]"
proof -
  have "user_mem demo_exec 0x2000 (le_put 8 (0x3000 :: u64))"
    and "user_mem demo_exec 0x2008 (le_put 8 (0x3100 :: u64))"
    and "user_mem demo_exec 0x2010 (le_put 8 (0x3200 :: u64))"
    and "user_mem demo_exec 0x2018 (le_put 8 (0 :: u64))"
    unfolding demo_exec_def by (rule user_mem_mem_helpers; simp add: le_put_def upt_rec)+
  then show ?thesis using demo_exec_strings by (auto intro!: exI)
qed

text \<open>
  The same program run with an empty vector, whose null pointer is the one at \<open>0x2018\<close>: the
  environment string behind it is reported.
\<close>

lemma demo_exec_envp:
  "argv_holds demo_exec 0x2018 0 []" "argv_holds demo_exec 0x2018 1 [[0x6C, 0x73]]"
proof -
  have "user_mem demo_exec 0x2018 (le_put 8 (0 :: u64))"
    and "user_mem demo_exec 0x2020 (le_put 8 (0x3000 :: u64))"
    and "user_mem demo_exec 0x2028 (le_put 8 (0 :: u64))"
    unfolding demo_exec_def by (rule user_mem_mem_helpers; simp add: le_put_def upt_rec)+
  then show "argv_holds demo_exec 0x2018 0 []" "argv_holds demo_exec 0x2018 1 [[0x6C, 0x73]]"
    using demo_exec_strings by (auto intro!: exI)
qed

lemma demo_exec_text: "Join (string_of_bytes (take 255 [0x2F, 0x62, 0x69, 0x6E, 0x2F, 0x6C, 0x73])
    # seen_args [[0x2D, 0x6C], []]) '' '' = ''/bin/ls -l''"
  by (simp add: seen_args_def string_of_bytes_def char_of_byte_def char_of_def bit_iff_odd)

theorem exec_wire_witness:
  "\<exists>e. handle_execve demo_exec (syscall_ctx 0x1000 0x2000) [] = (0, [e]) \<and>
    decode_record ''EXEC'' e = Some (''curl'', ''/bin/ls -l'', 77, 1000)"
  using exec_wire [of demo_exec, OF demo_exec_facts(1,2), of "syscall_ctx 0x1000 0x2000",
      unfolded args_syscall_ctx, OF demo_exec_strings(1) demo_exec_argv]
  by (simp only: demo_exec_text demo_exec_facts) simp

lemma empty_argv_witness:
  "\<exists>e. handle_execve demo_exec (syscall_ctx 0x1000 0x2018) [] = (0, [e]) \<and>
    decode_record ''EXEC'' e = Some (''curl'', ''/bin/ls ls'', 77, 1000)"
proof -
  have "Join (string_of_bytes (take 255 [0x2F, 0x62, 0x69, 0x6E, 0x2F, 0x6C, 0x73]) # seen_args [[0x6C, 0x73]]) '' ''
      = ''/bin/ls ls''"
    by (simp add: seen_args_def string_of_bytes_def char_of_byte_def char_of_def bit_iff_odd)
  then show ?thesis
    using empty_argv_reads_on [of demo_exec, OF demo_exec_facts(1,2), of "syscall_ctx 0x1000 0x2018",
        unfolded args_syscall_ctx, OF demo_exec_strings(1) demo_exec_envp]
    by (simp only: demo_exec_facts) simp
qed

text \<open>
  C28: What the agent makes of an \<open>openat\<close> record does not depend on the former contents of
  the ring buffer slot, although \<open>handle_openat\<close> does not clear it: the strings are read up
  to the NUL the helpers write.
\<close>

theorem openat_wire:
  assumes "bpf_runtime h"
    and "h_reserve h rb (sizeof struct_open_event) = Some e0"
    and "user_str h (args ctx 1) path"
  shows "\<exists>e. handle_openat h ctx rb = (0, rb @ [e]) \<and>
    decode_record ''OPEN'' e =
      Some (comm_string h, string_of_bytes (take 255 path), event_pid h, event_uid h)"
  using bpf_runtime.handle_openat_record [OF assms(1,2)]
    bpf_runtime.decode_open_record [OF assms(1), of e0 ctx]
    bpf_runtime.reserve_length [OF assms(1,2)] cstr_user_str [OF assms(3), of 256]
  by simp

definition demo_open :: bpf_helpers where
  "demo_open = mem_helpers (demo_runtime [(0x7000, [0x2F, 0x74, 0x6D, 0x70, 0])])"

lemma demo_open_facts:
  "bpf_runtime demo_open"
  "h_reserve demo_open [] (sizeof struct_open_event) = Some (replicate 280 0xAA)"
  "event_pid demo_open = 77" "event_uid demo_open = 1000" "comm_string demo_open = ''curl''"
  unfolding demo_open_def by (rule mh.bpf_runtime_axioms, simp, rule demo_ids, rule demo_ids, rule demo_comm)

lemma demo_open_path: "user_str demo_open 0x7000 [0x2F, 0x74, 0x6D, 0x70]"
  unfolding demo_open_def by (rule user_str_mem_helpers) simp_all

lemma demo_open_text: "string_of_bytes (take 255 [0x2F, 0x74, 0x6D, 0x70]) = ''/tmp''"
  by (simp add: string_of_bytes_def char_of_byte_def char_of_def bit_iff_odd)

theorem openat_wire_witness:
  "\<exists>e. handle_openat demo_open (syscall_ctx 0xFFFFFF9C 0x7000) [] = (0, [e]) \<and>
    decode_record ''OPEN'' e = Some (''curl'', ''/tmp'', 77, 1000)"
  using openat_wire [of demo_open, OF demo_open_facts(1,2), of "syscall_ctx 0xFFFFFF9C 0x7000",
      unfolded args_syscall_ctx, OF demo_open_path]
  by (simp only: demo_open_text demo_open_facts) simp

text \<open>
  C37: The record itself does: behind the NUL of the path the submitted bytes are the ones
  the slot held before, so the ring carries stale data (the other two probes clear
  their slot).
\<close>

theorem openat_stale_tail:
  assumes "bpf_runtime h"
    and "h_reserve h rb (sizeof struct_open_event) = Some e0"
    and "user_str h (args ctx 1) path" and "length path < 255"
  shows "\<exists>e. handle_openat h ctx rb = (0, rb @ [e]) \<and>
    drop (25 + length path) e = drop (25 + length path) e0"
proof -
  have len: "length e0 = 280" using bpf_runtime.reserve_length [OF assms(1,2)] by simp
  let ?t = "str_into path (load 24 256 e0)"
  have "drop (Suc (length path)) ?t = drop (Suc (length path)) (load 24 256 e0)"
    using assms(4) len by (simp add: str_into_def Let_def load_def flip: length_0_conv)
  then have tail: "drop (Suc (length path)) ?t = drop (25 + length path) e0"
    using len by (simp add: load_def add.commute)
  have "drop (25 + length path) (open_record h ctx e0) = drop (Suc (length path)) ?t"
    using assms(3) len bpf_runtime.length_comm [OF assms(1)]
    by (simp add: open_record_def user_str_def)
  then show ?thesis
    using bpf_runtime.handle_openat_record [OF assms(1,2)] tail by simp
qed

theorem openat_stale_tail_witness:
  "\<exists>e. handle_openat demo_open (syscall_ctx 0xFFFFFF9C 0x7000) [] = (0, [e]) \<and>
    drop 29 e = replicate 251 0xAA"
  using openat_stale_tail [of demo_open, OF demo_open_facts(1,2), of "syscall_ctx 0xFFFFFF9C 0x7000",
      unfolded args_syscall_ctx, OF demo_open_path]
  by simp

end
