(* ===== verification/GoUtf8.thy ===== *)
theory GoUtf8
  imports GoStrings
begin

text \<open>
  UTF-8 as Go's \<open>unicode/utf8\<close> decodes it, on byte strings: \<open>utf8_size\<close> is the size of the
  valid encoding a string starts with, 0 where \<open>DecodeRune\<close> reports \<open>RuneError\<close> with size
  1; \<open>utf8_encode\<close> is \<open>AppendRune\<close>; \<open>sanitize\<close> replaces every invalid byte by U+FFFD, as
  \<open>encoding/json\<close> does to every string that goes through it.
\<close>

definition in_range :: "nat \<Rightarrow> nat \<Rightarrow> char \<Rightarrow> bool" where
  "in_range lo hi c \<longleftrightarrow> lo \<le> of_char c \<and> of_char c \<le> hi"

definition utf8_size :: "string \<Rightarrow> nat" where
  "utf8_size s =
    (case s of
       [] \<Rightarrow> 0
     | c0 # r \<Rightarrow>
        if in_range 0 0x7F c0 then 1
        else if in_range 0xC2 0xDF c0 then
          (case r of c1 # _ \<Rightarrow> if in_range 0x80 0xBF c1 then 2 else 0 | _ \<Rightarrow> 0)
        else if in_range 0xE0 0xEF c0 then
          (case r of
             c1 # c2 # _ \<Rightarrow>
               if in_range (if of_char c0 = (0xE0 :: nat) then 0xA0 else 0x80)
                    (if of_char c0 = (0xED :: nat) then 0x9F else 0xBF) c1
                  \<and> in_range 0x80 0xBF c2 then 3 else 0
           | _ \<Rightarrow> 0)
        else if in_range 0xF0 0xF4 c0 then
          (case r of
             c1 # c2 # c3 # _ \<Rightarrow>
               if in_range (if of_char c0 = (0xF0 :: nat) then 0x90 else 0x80)
                    (if of_char c0 = (0xF4 :: nat) then 0x8F else 0xBF) c1
                  \<and> in_range 0x80 0xBF c2 \<and> in_range 0x80 0xBF c3 then 4 else 0
           | _ \<Rightarrow> 0)
        else 0)"

text \<open>The encoding of U+FFFD.\<close>

definition rune_error :: string where
  "rune_error = [CHR 0xEF, CHR 0xBF, CHR 0xBD]"

definition utf8_encode :: "nat \<Rightarrow> string" where
  "utf8_encode r =
    (if r < 0x80 then [char_of r]
     else if r < 0x800 then [char_of (0xC0 + r div 64), char_of (0x80 + r mod 64)]
     else if 0xD800 \<le> r \<and> r \<le> 0xDFFF \<or> 0x10FFFF < r then rune_error
     else if r < 0x10000 then
       [char_of (0xE0 + r div 4096), char_of (0x80 + r div 64 mod 64), char_of (0x80 + r mod 64)]
     else
       [char_of (0xF0 + r div 262144), char_of (0x80 + r div 4096 mod 64),
        char_of (0x80 + r div 64 mod 64), char_of (0x80 + r mod 64)])"

function sanitize :: "string \<Rightarrow> string" where
  "sanitize [] = []"
| "sanitize (c # s) =
     (if utf8_size (c # s) = 0 then rune_error @ sanitize s
      else take (utf8_size (c # s)) (c # s) @ sanitize (drop (utf8_size (c # s) - 1) s))"
  by pat_completeness auto
termination
  by (relation "measure length") auto

function valid_utf8 :: "string \<Rightarrow> bool" where
  "valid_utf8 [] = True"
| "valid_utf8 (c # s) =
     (utf8_size (c # s) \<noteq> 0 \<and> valid_utf8 (drop (utf8_size (c # s) - 1) s))"
  by pat_completeness auto
termination
  by (relation "measure length") auto

declare sanitize.simps(2) [simp del] and valid_utf8.simps(2) [simp del]

lemma utf8_size_le: "utf8_size s \<le> length s"
  by (auto simp: utf8_size_def split: list.splits)

lemma utf8_size_ascii [simp]: "of_char c < (128 :: nat) \<Longrightarrow> utf8_size (c # s) = 1"
  by (simp add: utf8_size_def in_range_def)

text \<open>The size is decided by the bytes of the encoding alone.\<close>

lemma utf8_size_take:
  assumes "utf8_size s = n" and "0 < n"
  shows "utf8_size (take n s @ r) = n"
proof -
  obtain c0 s1 where s: "s = c0 # s1" using assms by (cases s) (auto simp: utf8_size_def)
  consider (one) "in_range 0 0x7F c0"
    | (two) "in_range 0xC2 0xDF c0" | (three) "in_range 0xE0 0xEF c0" | (four) "in_range 0xF0 0xF4 c0"
    using assms by (auto simp: s utf8_size_def split: if_splits)
  then show ?thesis
  proof cases
    case one
    then have "n = Suc 0" using assms(1) by (simp add: s utf8_size_def)
    with one show ?thesis by (simp add: s utf8_size_def)
  next
    case two
    then have "\<not> in_range 0 0x7F c0" by (simp add: in_range_def)
    with two show ?thesis using assms by (cases s1) (auto simp: s utf8_size_def split: if_splits)
  next
    case three
    then have "\<not> in_range 0 0x7F c0" "\<not> in_range 0xC2 0xDF c0" by (simp_all add: in_range_def)
    note c = this three
    obtain c1 c2 s3 where "s1 = c1 # c2 # s3" using assms c
      by (cases s1; cases "tl s1") (auto simp: s utf8_size_def)
    with c show ?thesis using assms by (auto simp: s utf8_size_def simp del: of_char_eq_iff split: if_splits)
  next
    case four
    then have "\<not> in_range 0 0x7F c0" "\<not> in_range 0xC2 0xDF c0" "\<not> in_range 0xE0 0xEF c0"
      by (simp_all add: in_range_def)
    note c = this four
    obtain c1 c2 c3 s4 where "s1 = c1 # c2 # c3 # s4" using assms c
      by (cases s1; cases "tl s1"; cases "tl (tl s1)") (auto simp: s utf8_size_def)
    with c show ?thesis using assms by (auto simp: s utf8_size_def split: if_splits)
  qed
qed

lemma utf8_size_multi:
  assumes "utf8_size (c # s) = n" and "\<not> of_char c < (128 :: nat)" and "0 < n"
  shows "2 \<le> n \<and> n \<le> 4"
  using assms by (auto simp: utf8_size_def in_range_def split: list.splits if_splits)

lemma sanitize_ascii: "of_char c < (128 :: nat) \<Longrightarrow> sanitize (c # s) = c # sanitize s"
  by (simp add: sanitize.simps)

lemma valid_ascii: "of_char c < (128 :: nat) \<Longrightarrow> valid_utf8 (c # s) = valid_utf8 s"
  by (simp add: valid_utf8.simps)

lemma sanitize_valid: "valid_utf8 s \<Longrightarrow> sanitize s = s"
proof (induction s rule: valid_utf8.induct)
  case (2 c s)
  let ?n = "utf8_size (c # s)"
  have n: "?n \<noteq> 0" and v: "valid_utf8 (drop (?n - 1) s)"
    using 2(2) by (simp_all add: valid_utf8.simps)
  have "sanitize (c # s) = take ?n (c # s) @ drop (?n - 1) s"
    using 2(1) [OF v] n by (simp add: sanitize.simps)
  also have "drop (?n - 1) s = drop ?n (c # s)"
    using n by (cases ?n) auto
  finally show ?case by (simp del: drop_Cons')
qed simp

lemma sanitize_append_ascii:
  "\<forall>c \<in> set s. of_char c < (128 :: nat) \<Longrightarrow> sanitize (s @ t) = s @ sanitize t"
  by (induction s) (simp_all add: sanitize_ascii)

lemma sanitize_ascii_name: "list_all (\<lambda>c. of_char c < (128 :: nat)) s \<Longrightarrow> sanitize s = s"
  using sanitize_append_ascii [of s "[]"] by (simp add: list_all_iff)

lemma valid_append_ascii:
  "\<forall>c \<in> set s. of_char c < (128 :: nat) \<Longrightarrow> valid_utf8 (s @ t) = valid_utf8 t"
  by (induction s) (simp_all add: valid_ascii)

lemma utf8_size_rune_error [simp]: "utf8_size (rune_error @ s) = 3"
  by (simp add: rune_error_def utf8_size_def in_range_def)

lemma valid_chunk:
  assumes "utf8_size s = n" and "0 < n"
  shows "valid_utf8 (take n s @ r) = valid_utf8 r"
proof -
  have n: "utf8_size (take n s @ r) = n" by (rule utf8_size_take [OF assms])
  obtain c t where ct: "take n s @ r = c # t" using assms utf8_size_le [of s] by (cases s; cases n) auto
  have "drop (n - 1) t = drop n (c # t)" using assms by (cases n) auto
  also have "\<dots> = r" using utf8_size_le [of s] assms by (simp flip: ct)
  finally have "drop (n - 1) t = r" .
  then show ?thesis using n assms(2) by (simp add: ct valid_utf8.simps)
qed

lemma valid_append: "valid_utf8 s \<Longrightarrow> valid_utf8 (s @ t) = valid_utf8 t"
proof (induction s rule: valid_utf8.induct)
  case (2 c s)
  let ?n = "utf8_size (c # s)"
  have n: "0 < ?n" and v: "valid_utf8 (drop (?n - 1) s)" using 2(2) by (simp_all add: valid_utf8.simps)
  have "drop (?n - 1) s = drop ?n (c # s)" using n by (cases ?n) auto
  then have eq: "(c # s) @ t = take ?n (c # s) @ drop (?n - 1) s @ t"
    by (metis append.assoc append_take_drop_id)
  show ?case using 2(1) [OF v] unfolding eq valid_chunk [OF refl n] .
qed simp

lemma valid_rune_error: "valid_utf8 (rune_error @ s) = valid_utf8 s"
  using valid_chunk [of "rune_error @ s" 3 s] by (simp add: rune_error_def utf8_size_def in_range_def)

lemma valid_sanitize: "valid_utf8 (sanitize s)"
proof (induction s rule: sanitize.induct)
  case (2 c s)
  show ?case
  proof (cases "utf8_size (c # s) = 0")
    case True
    with 2 show ?thesis by (simp add: sanitize.simps valid_rune_error)
  next
    case False
    with 2 show ?thesis using valid_chunk [of "c # s" "utf8_size (c # s)"]
      by (simp add: sanitize.simps)
  qed
qed simp

lemma sanitize_idem [simp]: "sanitize (sanitize s) = sanitize s"
  by (rule sanitize_valid [OF valid_sanitize])

end
