(* ===== verification/GoJson.thy ===== *)
theory GoJson
  imports GoUtf8
begin

text \<open>
  Go's \<open>encoding/json\<close> as far as the agent uses it.  Encoding: the quoting of strings with
  HTML escaping (\<open>appendString\<close>), and numbers.  Decoding: the lexer and parser of JSON
  texts with Go's unquoting, the nesting limit, and the conversions to the field types of
  the structs.  A field whose type does not fit makes \<open>Unmarshal\<close> return an error, which
  is \<open>None\<close> here.

  The round trip is \<open>unquote_json_escape\<close>: a string comes back as \<open>sanitize\<close> of itself, so
  unchanged exactly when it is valid UTF-8.
\<close>

section \<open>Quoting\<close>

definition hex2 :: "nat \<Rightarrow> string" where
  "hex2 n = [hex_digit (n div 16), hex_digit (n mod 16)]"

definition esc_ascii :: "char \<Rightarrow> string" where
  "esc_ascii c =
    (if c = CHR 0x22 \<or> c = CHR 0x5C then [CHR 0x5C, c]
     else if c = CHR 0x08 then [CHR 0x5C, CHR ''b'']
     else if c = CHR 0x0C then [CHR 0x5C, CHR ''f'']
     else if c = CHR 0x0A then [CHR 0x5C, CHR ''n'']
     else if c = CHR 0x0D then [CHR 0x5C, CHR ''r'']
     else if c = CHR 0x09 then [CHR 0x5C, CHR ''t'']
     else if of_char c < (0x20 :: nat) \<or> c = CHR ''<'' \<or> c = CHR ''>'' \<or> c = CHR ''&''
       then CHR 0x5C # ''u00'' @ hex2 (of_char c)
     else [c])"

text \<open>U+2028 and U+2029 are escaped as well.\<close>

definition esc_multi :: "string \<Rightarrow> string" where
  "esc_multi r =
    (if r = [CHR 0xE2, CHR 0x80, CHR 0xA8] then CHR 0x5C # ''u2028''
     else if r = [CHR 0xE2, CHR 0x80, CHR 0xA9] then CHR 0x5C # ''u2029''
     else r)"

function json_escape :: "string \<Rightarrow> string" where
  "json_escape [] = []"
| "json_escape (c # s) =
     (if of_char c < (0x80 :: nat) then esc_ascii c @ json_escape s
      else if utf8_size (c # s) = 0 then CHR 0x5C # ''ufffd'' @ json_escape s
      else esc_multi (take (utf8_size (c # s)) (c # s))
           @ json_escape (drop (utf8_size (c # s) - 1) s))"
  by pat_completeness auto
termination
  by (relation "measure length") auto

declare json_escape.simps(2) [simp del]

definition json_string :: "string \<Rightarrow> string" where
  "json_string s = [CHR 0x22] @ json_escape s @ [CHR 0x22]"

section \<open>Unquoting\<close>

definition hex_val :: "char \<Rightarrow> nat option" where
  "hex_val c = (let n = of_char c in
     if 48 \<le> n \<and> n \<le> 57 then Some (n - 48)
     else if 97 \<le> n \<and> n \<le> 102 then Some (n - 87)
     else if 65 \<le> n \<and> n \<le> 70 then Some (n - 55)
     else None)"

fun hex4 :: "string \<Rightarrow> (nat \<times> string) option" where
  "hex4 (a # b # c # d # s) =
     (case (hex_val a, hex_val b, hex_val c, hex_val d) of
        (Some x, Some y, Some z, Some w) \<Rightarrow> Some (4096 * x + 256 * y + 16 * z + w, s)
      | _ \<Rightarrow> None)"
| "hex4 s = None"

text \<open>A high surrogate joins a low one that follows as another \<open>\u\<close> escape.\<close>

fun low_pair :: "nat \<Rightarrow> string \<Rightarrow> (nat \<times> string) option" where
  "low_pair r (x # u # s) =
     (if x = CHR 0x5C \<and> u = CHR ''u'' \<and> 0xD800 \<le> r \<and> r < 0xDC00 then
        (case hex4 s of
           Some (r', s') \<Rightarrow>
             if 0xDC00 \<le> r' \<and> r' \<le> 0xDFFF
             then Some (0x10000 + (r - 0xD800) * 1024 + (r' - 0xDC00), s') else None
         | None \<Rightarrow> None)
      else None)"
| "low_pair r s = None"

definition simple_escape :: "char \<Rightarrow> char option" where
  "simple_escape e =
    (if e = CHR 0x22 \<or> e = CHR 0x5C \<or> e = CHR ''/'' then Some e
     else if e = CHR ''b'' then Some (CHR 0x08)
     else if e = CHR ''f'' then Some (CHR 0x0C)
     else if e = CHR ''n'' then Some (CHR 0x0A)
     else if e = CHR ''r'' then Some (CHR 0x0D)
     else if e = CHR ''t'' then Some (CHR 0x09)
     else None)"

text \<open>One unit after the opening quote: its decoded bytes and the rest.\<close>

definition unquote_unit :: "string \<Rightarrow> (string \<times> string) option" where
  "unquote_unit t =
    (case t of
       [] \<Rightarrow> None
     | c # s \<Rightarrow>
        if c = CHR 0x5C then
          (case s of
             [] \<Rightarrow> None
           | e # s' \<Rightarrow>
              if e = CHR ''u'' then
                (case hex4 s' of
                   None \<Rightarrow> None
                 | Some (r, s'') \<Rightarrow>
                    if 0xD800 \<le> r \<and> r \<le> 0xDFFF then
                      (case low_pair r s'' of
                         Some (r', s3) \<Rightarrow> Some (utf8_encode r', s3)
                       | None \<Rightarrow> Some (rune_error, s''))
                    else Some (utf8_encode r, s''))
              else (case simple_escape e of None \<Rightarrow> None | Some x \<Rightarrow> Some ([x], s')))
        else if of_char c < (0x20 :: nat) then None
        else if utf8_size t = 0 then Some (rune_error, s)
        else Some (take (utf8_size t) t, drop (utf8_size t) t))"

lemma hex4_length: "hex4 s = Some (r, s') \<Longrightarrow> length s' < length s"
  by (induction s rule: hex4.induct) (auto split: option.splits)

lemma low_pair_length: "low_pair r s = Some (r', s') \<Longrightarrow> length s' < length s"
  by (induction r s rule: low_pair.induct)
    (auto split: option.splits if_splits dest!: hex4_length)

lemma unquote_unit_length: "unquote_unit t = Some (d, t') \<Longrightarrow> length t' < length t"
  by (cases t) (auto simp: unquote_unit_def split: list.splits option.splits if_splits
      dest!: hex4_length low_pair_length)

function unquote :: "string \<Rightarrow> (string \<times> string) option" where
  "unquote t =
    (if t \<noteq> [] \<and> hd t = CHR 0x22 then Some ([], tl t)
     else case unquote_unit t of
       None \<Rightarrow> None
     | Some (d, t') \<Rightarrow>
        (case unquote t' of None \<Rightarrow> None | Some (ds, r) \<Rightarrow> Some (d @ ds, r)))"
  by pat_completeness auto
termination
  by (relation "measure length") (auto dest: unquote_unit_length)

declare unquote.simps [simp del]

lemma unquote_quote [simp]: "unquote (CHR 0x22 # r) = Some ([], r)"
  by (subst unquote.simps) simp

lemma unquote_step:
  "hd t \<noteq> CHR 0x22 \<Longrightarrow> unquote_unit t = Some (d, t') \<Longrightarrow> unquote t' = Some (ds, r) \<Longrightarrow>
     unquote t = Some (d @ ds, r)"
  by (subst unquote.simps) simp

lemma unquote_length: "unquote t = Some (d, r) \<Longrightarrow> length r < length t"
proof (induction t arbitrary: d r rule: unquote.induct)
  case (1 t)
  show ?case
  proof (cases "t \<noteq> [] \<and> hd t = CHR 0x22")
    case True
    then show ?thesis using 1(2) by (cases t) (auto simp: unquote.simps [of t])
  next
    case False
    then obtain d1 t' ds where u: "unquote_unit t = Some (d1, t')" "unquote t' = Some (ds, r)"
      using 1(2) by (auto simp: unquote.simps [of t] split: if_splits option.splits)
    then have "length r < length t'" using 1(1) [OF False u(1)] by simp
    then show ?thesis using unquote_unit_length [OF u(1)] by simp
  qed
qed

section \<open>The round trip of strings\<close>

lemma hex_val_hex_digit: "n < 16 \<Longrightarrow> hex_val (hex_digit n) = Some n"
  by (auto simp: hex_val_def hex_digit_def Let_def)

lemma hex4_hex2: "n < 256 \<Longrightarrow> hex4 (CHR ''0'' # CHR ''0'' # hex2 n @ s) = Some (n, s)"
proof -
  assume "n < 256"
  then have "n div 16 < 16" "n mod 16 < 16" by simp_all
  moreover have "hex_val (CHR ''0'') = Some 0" by (simp add: hex_val_def)
  ultimately show ?thesis by (simp add: hex2_def hex_val_hex_digit)
qed

lemma unquote_unit_esc_ascii:
  assumes "of_char c < (0x80 :: nat)"
  shows "hd (esc_ascii c @ t) \<noteq> CHR 0x22" and "unquote_unit (esc_ascii c @ t) = Some ([c], t)"
proof -
  have sz: "utf8_size (c # t) = 1" using assms by simp
  have u: "hex4 (CHR ''0'' # CHR ''0'' # hex2 (of_char c) @ t) = Some (of_char c, t)"
    by (rule hex4_hex2) simp
  have e: "utf8_encode (of_char c) = [c]" using assms by (simp add: utf8_encode_def)
  show "hd (esc_ascii c @ t) \<noteq> CHR 0x22" by (simp add: esc_ascii_def)
  show "unquote_unit (esc_ascii c @ t) = Some ([c], t)"
    using assms u e sz by (simp add: esc_ascii_def unquote_unit_def simple_escape_def)
qed

lemma unquote_json_escape:
  "unquote (json_escape s @ CHR 0x22 # r) = Some (sanitize s, r)"
proof (induction s rule: json_escape.induct)
  case (2 c s)
  let ?n = "utf8_size (c # s)"
  let ?q = "CHR 0x22 # r"
  consider (ascii) "of_char c < (0x80 :: nat)"
    | (bad) "\<not> of_char c < (0x80 :: nat)" "?n = 0"
    | (multi) "\<not> of_char c < (0x80 :: nat)" "?n \<noteq> 0" by blast
  then show ?case
  proof cases
    case ascii
    then show ?thesis
      using unquote_step [OF unquote_unit_esc_ascii [OF ascii] "2.IH"(1) [OF ascii]]
      by (simp add: json_escape.simps sanitize_ascii)
  next
    case bad
    have f: "unquote_unit (CHR 0x5C # ''ufffd'' @ t) = Some (rune_error, t)" for t
      by (simp add: unquote_unit_def hex_val_def utf8_encode_def rune_error_def char_of_def
          bit_iff_odd)
    show ?thesis
      using bad unquote_step [OF _ f "2.IH"(2) [OF bad]]
      by (simp add: json_escape.simps sanitize.simps)
  next
    case multi
    note ih = "2.IH"(3) [OF multi]
    let ?c = "take ?n (c # s)" and ?rest = "json_escape (drop (?n - 1) s) @ ?q"
    have "c \<noteq> CHR 0x22" "c \<noteq> CHR 0x5C" "\<not> of_char c < (0x20 :: nat)" using multi by auto
    moreover obtain k where k: "?n = Suc k" using multi by (cases ?n) auto
    moreover have len: "length ?c = ?n" using utf8_size_le [of "c # s"] by simp
    moreover have "utf8_size (?c @ ?rest) = ?n" using utf8_size_take multi by blast
    ultimately have plain: "unquote_unit (?c @ ?rest) = Some (?c, ?rest)" and hd: "hd (?c @ ?rest) \<noteq> CHR 0x22"
      by (simp_all add: unquote_unit_def)
    have esc: "unquote_unit (esc_multi ?c @ ?rest) = Some (?c, ?rest) \<and> hd (esc_multi ?c @ ?rest) \<noteq> CHR 0x22"
    proof (cases "?c = [CHR 0xE2, CHR 0x80, CHR 0xA8] \<or> ?c = [CHR 0xE2, CHR 0x80, CHR 0xA9]")
      case True
      then show ?thesis
        by (elim disjE) (simp_all add: esc_multi_def unquote_unit_def hex_val_def utf8_encode_def
            char_of_def bit_iff_odd)
    next
      case False
      then show ?thesis using plain hd by (simp add: esc_multi_def)
    qed
    then show ?thesis
      using multi unquote_step [OF _ _ ih] by (simp add: json_escape.simps sanitize.simps)
  qed
qed simp

section \<open>Tokens\<close>

datatype token =
    TLBrace | TRBrace | TLBrack | TRBrack | TColon | TComma
  | TTrue | TFalse | TNull
  | TStr string
  | TNum string

definition digits1 :: "string \<Rightarrow> (string \<times> string) option" where
  "digits1 s = (if takeWhile is_digit s = [] then None
     else Some (takeWhile is_digit s, dropWhile is_digit s))"

definition lex_int :: "string \<Rightarrow> (string \<times> string) option" where
  "lex_int s =
    (case s of
       c # r \<Rightarrow> if c = CHR ''0'' then Some ([c], r) else digits1 s
     | [] \<Rightarrow> None)"

definition lex_frac :: "string \<Rightarrow> (string \<times> string) option" where
  "lex_frac s =
    (case s of
       c # r \<Rightarrow> if c = CHR ''.'' then map_option (apfst (Cons c)) (digits1 r) else Some ([], s)
     | [] \<Rightarrow> Some ([], s))"

definition lex_exp :: "string \<Rightarrow> (string \<times> string) option" where
  "lex_exp s =
    (case s of
       c # r \<Rightarrow>
         if c = CHR ''e'' \<or> c = CHR ''E'' then
           (case r of
              d # r' \<Rightarrow>
                if d = CHR ''+'' \<or> d = CHR ''-'' then map_option (apfst (\<lambda>x. c # d # x)) (digits1 r')
                else map_option (apfst (Cons c)) (digits1 r)
            | [] \<Rightarrow> None)
         else Some ([], s)
     | [] \<Rightarrow> Some ([], s))"

text \<open>A number: the sign, the integer part, the fraction and the exponent, as text.\<close>

definition lex_num :: "string \<Rightarrow> (string \<times> string) option" where
  "lex_num s =
    (let (sgn, s0) = (if s \<noteq> [] \<and> hd s = CHR ''-'' then ([hd s], tl s) else ([], s)) in
     case lex_int s0 of None \<Rightarrow> None | Some (i, s1) \<Rightarrow>
     case lex_frac s1 of None \<Rightarrow> None | Some (f, s2) \<Rightarrow>
     case lex_exp s2 of None \<Rightarrow> None | Some (e, s3) \<Rightarrow> Some (sgn @ i @ f @ e, s3))"

definition is_space :: "char \<Rightarrow> bool" where
  "is_space c \<longleftrightarrow> c = CHR '' '' \<or> c = CHR 0x09 \<or> c = CHR 0x0A \<or> c = CHR 0x0D"

fun punct :: "char \<Rightarrow> token option" where
  "punct c =
    (if c = CHR 0x7B then Some TLBrace else if c = CHR 0x7D then Some TRBrace
     else if c = CHR 0x5B then Some TLBrack else if c = CHR 0x5D then Some TRBrack
     else if c = CHR '':'' then Some TColon else if c = CHR '','' then Some TComma else None)"

text \<open>One token at the start of a text that starts with no white space.\<close>

definition lex_token :: "string \<Rightarrow> (token \<times> string) option" where
  "lex_token t =
    (case t of
       [] \<Rightarrow> None
     | c # s \<Rightarrow>
        (case punct c of
           Some k \<Rightarrow> Some (k, s)
         | None \<Rightarrow>
             if c = CHR 0x22 then map_option (apfst TStr) (unquote s)
             else if HasPrefix t ''true'' then Some (TTrue, drop 4 t)
             else if HasPrefix t ''false'' then Some (TFalse, drop 5 t)
             else if HasPrefix t ''null'' then Some (TNull, drop 4 t)
             else map_option (apfst TNum) (lex_num t)))"

lemma digits1_length: "digits1 s = Some (d, r) \<Longrightarrow> length r < length s"
proof -
  assume d: "digits1 s = Some (d, r)"
  have "length (takeWhile is_digit s) + length (dropWhile is_digit s) = length s"
    by (metis length_append takeWhile_dropWhile_id)
  then show ?thesis using d by (cases "takeWhile is_digit s") (auto simp: digits1_def)
qed

lemma lex_int_length: "lex_int s = Some (d, r) \<Longrightarrow> length r < length s"
  by (auto simp: lex_int_def split: list.splits if_splits dest: digits1_length)

lemma lex_frac_length: "lex_frac s = Some (d, r) \<Longrightarrow> length r \<le> length s"
  by (auto simp: lex_frac_def split: list.splits if_splits dest!: digits1_length)

lemma lex_exp_length: "lex_exp s = Some (d, r) \<Longrightarrow> length r \<le> length s"
  by (auto simp: lex_exp_def split: list.splits if_splits dest!: digits1_length)

lemma lex_num_length: "lex_num s = Some (d, r) \<Longrightarrow> length r < length s"
  by (cases s) (fastforce simp: lex_num_def split: option.splits if_splits
      dest!: lex_int_length lex_frac_length lex_exp_length)+

lemma lex_token_length: "lex_token t = Some (k, r) \<Longrightarrow> length r < length t"
  by (cases t) (auto simp: lex_token_def split: option.splits if_splits
      dest: unquote_length lex_num_length)

function lex :: "string \<Rightarrow> token list option" where
  "lex t =
    (if t = [] then Some []
     else if is_space (hd t) then lex (tl t)
     else case lex_token t of
       None \<Rightarrow> None
     | Some (k, r) \<Rightarrow> map_option (Cons k) (lex r))"
  by pat_completeness auto
termination
  by (relation "measure length") (auto dest: lex_token_length)

declare lex.simps [simp del]

lemma lex_Nil [simp]: "lex [] = Some []"
  by (subst lex.simps) simp

lemma lex_space [simp]: "is_space c \<Longrightarrow> lex (c # t) = lex t"
  by (subst lex.simps) simp

lemma lex_punct: "punct c = Some k \<Longrightarrow> lex (c # t) = map_option (Cons k) (lex t)"
  by (subst lex.simps) (auto simp: lex_token_def is_space_def split: if_splits)

lemma lex_puncts [simp]:
  "lex (CHR 0x7B # t) = map_option (Cons TLBrace) (lex t)"
  "lex (CHR 0x7D # t) = map_option (Cons TRBrace) (lex t)"
  "lex (CHR 0x5B # t) = map_option (Cons TLBrack) (lex t)"
  "lex (CHR 0x5D # t) = map_option (Cons TRBrack) (lex t)"
  "lex (CHR '':'' # t) = map_option (Cons TColon) (lex t)"
  "lex (CHR '','' # t) = map_option (Cons TComma) (lex t)"
  by (rule lex_punct, simp)+

lemma lex_json_string: "lex (json_string s @ t) = map_option (Cons (TStr (sanitize s))) (lex t)"
proof -
  have "unquote (json_escape s @ CHR 0x22 # t) = Some (sanitize s, t)"
    by (rule unquote_json_escape)
  then have "lex_token (CHR 0x22 # json_escape s @ CHR 0x22 # t) = Some (TStr (sanitize s), t)"
    by (simp add: lex_token_def)
  then show ?thesis
    by (subst lex.simps) (simp add: json_string_def is_space_def)
qed

text \<open>A number is a token of its own when no character of a number follows it.\<close>

definition num_char :: "char \<Rightarrow> bool" where
  "num_char c \<longleftrightarrow> is_digit c \<or> c = CHR ''.'' \<or> c = CHR ''e'' \<or> c = CHR ''E''"

lemma takeWhile_dec: "t = [] \<or> \<not> is_digit (hd t) \<Longrightarrow> takeWhile is_digit (dec n @ t) = dec n"
  by (cases t) (auto simp: dec_digits takeWhile_tail)

lemma dropWhile_dec: "t = [] \<or> \<not> is_digit (hd t) \<Longrightarrow> dropWhile is_digit (dec n @ t) = t"
  by (cases t) (auto simp: dec_digits)

lemma lex_int_dec:
  assumes "t = [] \<or> \<not> is_digit (hd t)"
  shows "lex_int (dec n @ t) = Some (dec n, t)"
proof (cases "n = 0")
  case True
  then show ?thesis by (simp add: lex_int_def dec.simps)
next
  case False
  then have "hd (dec n) \<noteq> CHR ''0''" by (rule dec_no_leading_zero)
  moreover obtain c r where "dec n @ t = c # r" and "hd (dec n) = c"
    by (cases "dec n") auto
  ultimately have "lex_int (dec n @ t) = digits1 (dec n @ t)" by (simp add: lex_int_def)
  then show ?thesis using assms by (simp add: digits1_def takeWhile_dec dropWhile_dec)
qed

lemma lex_num_fmt_d:
  assumes "t = [] \<or> \<not> num_char (hd t)"
  shows "lex_num (fmt_d i @ t) = Some (fmt_d i, t)"
proof -
  have nd: "t = [] \<or> \<not> is_digit (hd t)" using assms by (auto simp: num_char_def)
  have frac: "lex_frac t = Some ([], t)" and ex: "lex_exp t = Some ([], t)"
    using assms by (auto simp: lex_frac_def lex_exp_def num_char_def split: list.splits)
  have hd: "hd (dec n @ u) \<noteq> CHR ''-''" for n u
  proof
    assume "hd (dec n @ u) = CHR ''-''"
    then have "CHR ''-'' \<in> set (dec n)" using dec_neq_Nil [of n] by (metis hd_append hd_in_set)
    then show False using dec_digits by (fastforce simp: is_digit_def)
  qed
  show ?thesis
    using hd by (simp add: lex_num_def fmt_d_def lex_int_dec [OF nd] frac ex)
qed

lemma lex_fmt_d:
  assumes "t = [] \<or> \<not> num_char (hd t)"
  shows "lex (fmt_d i @ t) = map_option (Cons (TNum (fmt_d i))) (lex t)"
proof -
  obtain c r where cr: "fmt_d i = c # r" by (cases "fmt_d i") (auto simp: fmt_d_def split: if_splits)
  have c: "c = CHR ''-'' \<or> is_digit c"
  proof (cases "i < 0")
    case False
    then have "c \<in> set (dec (nat i))" using cr by (simp add: fmt_d_def)
    then show ?thesis by (auto dest: dec_digits)
  qed (use cr in \<open>simp add: fmt_d_def\<close>)
  then have "punct c = None" "c \<noteq> CHR 0x22" "\<not> is_space c"
    "c \<noteq> CHR ''t''" "c \<noteq> CHR ''f''" "c \<noteq> CHR ''n''"
    by (auto simp: is_digit_def is_space_def)
  then have "lex_token (fmt_d i @ t) = Some (TNum (fmt_d i), t)"
    using lex_num_fmt_d [OF assms, of i] by (simp add: lex_token_def HasPrefix_def cr)
  then show ?thesis
    using \<open>\<not> is_space c\<close> by (subst lex.simps) (simp add: cr)
qed

section \<open>Values\<close>

datatype json =
    JNull
  | JBool bool
  | JNum string
  | JStr string
  | JArr "json list"
  | JObj "(string \<times> json) list"

text \<open>
  The parser spends fuel on every call; \<open>2 * length ts + 1\<close> is enough for a list of tokens
  \<open>ts\<close> (lemma \<open>parse_enough\<close> below), so running out is never the reason for \<open>None\<close>.
\<close>

fun parse_value :: "nat \<Rightarrow> token list \<Rightarrow> (json \<times> token list) option"
  and parse_elems :: "nat \<Rightarrow> token list \<Rightarrow> (json list \<times> token list) option"
  and parse_members :: "nat \<Rightarrow> token list \<Rightarrow> ((string \<times> json) list \<times> token list) option" where
  "parse_value 0 ts = None"
| "parse_value (Suc n) ts =
     (case ts of
        TNull # r \<Rightarrow> Some (JNull, r)
      | TTrue # r \<Rightarrow> Some (JBool True, r)
      | TFalse # r \<Rightarrow> Some (JBool False, r)
      | TNum l # r \<Rightarrow> Some (JNum l, r)
      | TStr s # r \<Rightarrow> Some (JStr s, r)
      | TLBrack # r \<Rightarrow>
          if r \<noteq> [] \<and> hd r = TRBrack then Some (JArr [], tl r)
          else map_option (apfst JArr) (parse_elems n r)
      | TLBrace # r \<Rightarrow>
          if r \<noteq> [] \<and> hd r = TRBrace then Some (JObj [], tl r)
          else map_option (apfst JObj) (parse_members n r)
      | _ \<Rightarrow> None)"
| "parse_elems 0 ts = None"
| "parse_elems (Suc n) ts =
     (case parse_value n ts of
        Some (v, TComma # r) \<Rightarrow> map_option (apfst (Cons v)) (parse_elems n r)
      | Some (v, TRBrack # r) \<Rightarrow> Some ([v], r)
      | _ \<Rightarrow> None)"
| "parse_members 0 ts = None"
| "parse_members (Suc n) ts =
     (case ts of
        TStr k # TColon # r \<Rightarrow>
          (case parse_value n r of
             Some (v, TComma # r') \<Rightarrow> map_option (apfst (Cons (k, v))) (parse_members n r')
           | Some (v, TRBrace # r') \<Rightarrow> Some ([(k, v)], r')
           | _ \<Rightarrow> None)
      | _ \<Rightarrow> None)"

fun jdepth :: "json \<Rightarrow> nat" where
  "jdepth (JArr vs) = Suc (fold max (map jdepth vs) 0)"
| "jdepth (JObj ms) = Suc (fold max (map (\<lambda>(k, v). jdepth v) ms) 0)"
| "jdepth _ = 0"

definition json_parse :: "string \<Rightarrow> json option" where
  "json_parse s =
    (case lex s of
       None \<Rightarrow> None
     | Some ts \<Rightarrow>
        (case parse_value (2 * length ts + 1) ts of
           Some (v, []) \<Rightarrow> if jdepth v \<le> 10000 then Some v else None
         | _ \<Rightarrow> None))"

lemma parse_rest:
  "parse_value n ts = Some (v, r) \<Longrightarrow> length r < length ts"
  "parse_elems n ts = Some (vs, r) \<Longrightarrow> length r < length ts"
  "parse_members n ts = Some (ms, r) \<Longrightarrow> length r < length ts"
proof (induction n arbitrary: ts v r vs ms)
  case (Suc n)
  {
    case 1
    then show ?case
      by (auto split: list.splits token.splits if_splits dest!: Suc.IH(2,3))
  next
    case 2
    then show ?case
      by (fastforce split: list.splits token.splits option.splits dest!: Suc.IH(1,2))
  next
    case 3
    then show ?case
      by (fastforce split: list.splits token.splits option.splits dest!: Suc.IH(1,3))
  }
qed simp_all

text \<open>Enough fuel is enough: more of it changes nothing.\<close>

lemma parse_enough_step:
  "2 * length ts < n \<Longrightarrow> parse_value n ts = parse_value (Suc n) ts"
  "2 * length ts + 1 < n \<Longrightarrow> parse_elems n ts = parse_elems (Suc n) ts"
  "2 * length ts + 1 < n \<Longrightarrow> parse_members n ts = parse_members (Suc n) ts"
proof (induction n arbitrary: ts)
  case (Suc n)
  {
    case 1
    have e: "parse_elems n r = parse_elems (Suc n) r" "parse_members n r = parse_members (Suc n) r"
      if "ts = t # r" for t r
      using that 1 by (intro Suc.IH; simp)+
    show ?case
    proof (cases ts)
      case (Cons t r)
      show ?thesis
        unfolding parse_value.simps(2) [of n] parse_value.simps(2) [of "Suc n"] Cons
        by (simp only: e [OF Cons] list.case)
    qed simp
  next
    case 2
    have v: "parse_value n ts = parse_value (Suc n) ts" using 2 by (intro Suc.IH) simp
    have e: "parse_elems n r = parse_elems (Suc n) r"
      if "parse_value (Suc n) ts = Some (w, TComma # r)" for w r
      using parse_rest(1) [OF that] 2 by (intro Suc.IH) simp
    show ?case
    proof (cases "parse_value (Suc n) ts")
      case None
      then show ?thesis
        unfolding parse_elems.simps(2) [of n] parse_elems.simps(2) [of "Suc n"] v by simp
    next
      case (Some p)
      obtain w u where p: "p = (w, u)" by fastforce
      show ?thesis
      proof (cases "\<exists>r. u = TComma # r")
        case True
        then obtain r where "u = TComma # r" by blast
        with Some p e show ?thesis
          unfolding parse_elems.simps(2) [of n] parse_elems.simps(2) [of "Suc n"] v
          by (simp del: parse_elems.simps parse_value.simps)
      next
        case False
        with Some p show ?thesis
          unfolding parse_elems.simps(2) [of n] parse_elems.simps(2) [of "Suc n"] v
          by (simp del: parse_elems.simps parse_value.simps split: list.split token.split)
      qed
    qed
  next
    case 3
    show ?case
    proof (cases "\<exists>k r. ts = TStr k # TColon # r")
      case True
      then obtain k r where ts: "ts = TStr k # TColon # r" by blast
      have v: "parse_value n r = parse_value (Suc n) r" using 3 ts by (intro Suc.IH) simp
      have e: "parse_members n r' = parse_members (Suc n) r'"
        if "parse_value (Suc n) r = Some (w, TComma # r')" for w r'
        using parse_rest(1) [OF that] 3 ts by (intro Suc.IH) simp
      show ?thesis
      proof (cases "parse_value (Suc n) r")
        case None
        then show ?thesis
          unfolding parse_members.simps(2) [of n] parse_members.simps(2) [of "Suc n"] ts
            list.case token.case v by simp
      next
        case (Some p)
        obtain w u where p: "p = (w, u)" by fastforce
        show ?thesis
        proof (cases "\<exists>r. u = TComma # r")
          case True
          then obtain r' where "u = TComma # r'" by blast
          with Some p e show ?thesis
            unfolding parse_members.simps(2) [of n] parse_members.simps(2) [of "Suc n"] ts
              list.case token.case v
            by (simp del: parse_members.simps parse_value.simps)
        next
          case False
          with Some p show ?thesis
            unfolding parse_members.simps(2) [of n] parse_members.simps(2) [of "Suc n"] ts
              list.case token.case v
            by (simp del: parse_members.simps parse_value.simps split: list.split token.split)
        qed
      qed
    next
      case False
      then show ?thesis by (auto split: list.splits token.splits)
    qed
  }
qed simp_all

lemma parse_enough: "2 * length ts < n \<Longrightarrow> parse_value n ts = parse_value (2 * length ts + 1) ts"
proof (induction "n - (2 * length ts + 1)" arbitrary: n)
  case (Suc k)
  then obtain m where m: "n = Suc m" by (cases n) auto
  then have "parse_value m ts = parse_value (2 * length ts + 1) ts" using Suc by simp
  moreover have "2 * length ts < m" using Suc m by simp
  ultimately show ?case using parse_enough_step(1) m by simp
next
  case 0
  then have "n = 2 * length ts + 1" by simp
  then show ?case by simp
qed

section \<open>Conversions to Go types\<close>

text \<open>
  The case folding of field names: ASCII letters to upper case, and the two runes that
  fold to an ASCII letter, the Kelvin sign and the long s.
\<close>

definition to_upper :: "char \<Rightarrow> char" where
  "to_upper c = (if 97 \<le> (of_char c :: nat) \<and> (of_char c :: nat) \<le> 122
     then char_of (of_char c - 32 :: nat) else c)"

function fold_name :: "string \<Rightarrow> string" where
  "fold_name [] = []"
| "fold_name (c # s) =
     (if take 3 (c # s) = [CHR 0xE2, CHR 0x84, CHR 0xAA] then CHR ''K'' # fold_name (drop 2 s)
      else if take 2 (c # s) = [CHR 0xC5, CHR 0xBF] then CHR ''S'' # fold_name (drop 1 s)
      else to_upper c # fold_name s)"
  by pat_completeness auto
termination
  by (relation "measure length") auto

definition names_field :: "string \<Rightarrow> string \<Rightarrow> bool" where
  "names_field k f \<longleftrightarrow> fold_name k = fold_name f"

text \<open>A JSON value into a field that holds \<open>old\<close>: \<open>null\<close> leaves it, a type that does not fit fails.\<close>

definition to_string :: "string \<Rightarrow> json \<Rightarrow> string option" where
  "to_string old j = (case j of JStr s \<Rightarrow> Some s | JNull \<Rightarrow> Some old | _ \<Rightarrow> None)"

definition all_digits :: "string \<Rightarrow> bool" where
  "all_digits s \<longleftrightarrow> s \<noteq> [] \<and> list_all is_digit s"

definition lit_int :: "string \<Rightarrow> int option" where
  "lit_int l =
    (if l \<noteq> [] \<and> hd l = CHR ''-'' then
       (if all_digits (tl l) then Some (- int (undec (tl l))) else None)
     else if all_digits l then Some (int (undec l)) else None)"

text \<open>\<open>int\<close> is 64 bits wide.\<close>

definition to_int :: "int \<Rightarrow> json \<Rightarrow> int option" where
  "to_int old j =
    (case j of
       JNum l \<Rightarrow>
         (case lit_int l of
            Some i \<Rightarrow> if - (2 ^ 63) \<le> i \<and> i < 2 ^ 63 then Some i else None
          | None \<Rightarrow> None)
     | JNull \<Rightarrow> Some old
     | _ \<Rightarrow> None)"

definition to_uint32 :: "u32 \<Rightarrow> json \<Rightarrow> u32 option" where
  "to_uint32 old j =
    (case j of
       JNum l \<Rightarrow> if all_digits l \<and> undec l < 2 ^ 32 then Some (of_nat (undec l)) else None
     | JNull \<Rightarrow> Some old
     | _ \<Rightarrow> None)"

text \<open>An object into a struct, member by member; unknown names are skipped by \<open>upd\<close>.\<close>

fun set_members :: "(string \<Rightarrow> json \<Rightarrow> 'r \<Rightarrow> 'r option) \<Rightarrow> (string \<times> json) list \<Rightarrow> 'r \<Rightarrow> 'r option" where
  "set_members upd [] r = Some r"
| "set_members upd ((k, v) # ms) r =
     (case upd k v r of None \<Rightarrow> None | Some r' \<Rightarrow> set_members upd ms r')"

definition to_struct :: "(string \<Rightarrow> json \<Rightarrow> 'r \<Rightarrow> 'r option) \<Rightarrow> 'r \<Rightarrow> json \<Rightarrow> 'r option" where
  "to_struct upd r j =
    (case j of JObj ms \<Rightarrow> set_members upd ms r | JNull \<Rightarrow> Some r | _ \<Rightarrow> None)"

fun to_strings :: "json list \<Rightarrow> string list option" where
  "to_strings [] = Some []"
| "to_strings (v # vs) =
     (case to_string [] v of None \<Rightarrow> None | Some s \<Rightarrow> map_option (Cons s) (to_strings vs))"

definition to_string_slice :: "json \<Rightarrow> string list option" where
  "to_string_slice j = (case j of JArr vs \<Rightarrow> to_strings vs | JNull \<Rightarrow> Some [] | _ \<Rightarrow> None)"

lemma all_digits_dec [simp]: "all_digits (dec n)"
  by (auto simp: all_digits_def list_all_iff dec_digits)

lemma lit_int_fmt_d [simp]: "lit_int (fmt_d i) = Some i"
proof (cases "i < 0")
  case False
  have "hd (dec (nat i)) \<noteq> CHR ''-''"
    using dec_digits [of "hd (dec (nat i))" "nat i"] by (auto simp: is_digit_def)
  then show ?thesis using False by (simp add: fmt_d_def lit_int_def)
qed (simp add: fmt_d_def lit_int_def)

lemma to_int_fmt_d: "- (2 ^ 63) \<le> i \<Longrightarrow> i < 2 ^ 63 \<Longrightarrow> to_int old (JNum (fmt_d i)) = Some i"
  by (simp add: to_int_def)

lemma to_uint32_fmt_d: "to_uint32 old (JNum (fmt_d (int (unat (w :: u32))))) = Some w"
proof -
  have "unat w < 2 ^ 32" using unsigned_less [of w, where 'a = nat] by simp
  then show ?thesis by (simp add: to_uint32_def fmt_d_def)
qed

lemma to_strings_map [simp]: "to_strings (map JStr ss) = Some ss"
  by (induction ss) (simp_all add: to_string_def)

end
