(* ===== verification/GoOs.thy ===== *)
theory GoOs
  imports Prelude
begin

text \<open>
  Files as the agent sees them through package \<open>os\<close>: a path has contents, or reading it
  gives an error.  What a write comes to is an input of the model: it succeeds, the file
  cannot be opened, or only a first part of the data gets to the disk.
\<close>

datatype file_error = NotExist | OtherError string

type_synonym fs = "string \<Rightarrow> file_error + string"

definition ReadFile :: "fs \<Rightarrow> string \<Rightarrow> file_error + string" where
  "ReadFile files path = files path"

definition IsNotExist :: "file_error \<Rightarrow> bool" where
  "IsNotExist e \<longleftrightarrow> e = NotExist"

datatype write_outcome = Written | OpenFailed file_error | ShortWrite file_error nat

fun write_error :: "write_outcome \<Rightarrow> file_error option" where
  "write_error Written = None"
| "write_error (OpenFailed e) = Some e"
| "write_error (ShortWrite e n) = Some e"

text \<open>\<open>os.WriteFile\<close> truncates what was there.\<close>

fun WriteFile :: "write_outcome \<Rightarrow> fs \<Rightarrow> string \<Rightarrow> string \<Rightarrow> fs" where
  "WriteFile Written files path data = files(path := Inr data)"
| "WriteFile (OpenFailed e) files path data = files"
| "WriteFile (ShortWrite e n) files path data = files(path := Inr (take n data))"

text \<open>
  One \<open>Write\<close> to a file opened with \<open>O_APPEND|O_CREATE|O_WRONLY\<close>.  A file that can be
  opened for writing but not read stays unreadable.
\<close>

definition append_to :: "file_error + string \<Rightarrow> string \<Rightarrow> file_error + string" where
  "append_to old data =
    (case old of
       Inr c \<Rightarrow> Inr (c @ data)
     | Inl e \<Rightarrow> if IsNotExist e then Inr data else Inl e)"

fun AppendFile :: "write_outcome \<Rightarrow> fs \<Rightarrow> string \<Rightarrow> string \<Rightarrow> fs" where
  "AppendFile Written files path data = files(path := append_to (files path) data)"
| "AppendFile (OpenFailed e) files path data = files"
| "AppendFile (ShortWrite e n) files path data = files(path := append_to (files path) (take n data))"

lemma append_to_simps [simp]:
  "append_to (Inr c) data = Inr (c @ data)"
  "append_to (Inl NotExist) data = Inr data"
  by (simp_all add: append_to_def IsNotExist_def)

lemma ReadFile_upd [simp]: "ReadFile (files(p := r)) q = (if q = p then r else ReadFile files q)"
  by (simp add: ReadFile_def)

end
