(* ===== verification/Baseline.thy ===== *)
theory Baseline
  imports GoJson GoOs
begin

text \<open>
  The allowlist of \<open>internal/baseline/baseline.go\<close>: \<open>normalize\<close> with the regular expression
  \<open>\b\d+\b\<close>, the key of an event, and the store with its operations and its file.

  \<open>normalize\<close> is the matcher: at every position it tries the expression, greedily and with
  backtracking, and replaces the leftmost match.  \<open>norm_words\<close> is what that amounts to,
  word by word: the words that are digits only are replaced; the two are proved equal.
\<close>

section \<open>normalize\<close>

text \<open>\<open>\b\<close> between two neighbours, either of which may be missing.\<close>

definition word_opt :: "char option \<Rightarrow> bool" where
  "word_opt c = (case c of None \<Rightarrow> False | Some x \<Rightarrow> is_word x)"

definition boundary :: "char option \<Rightarrow> char option \<Rightarrow> bool" where
  "boundary l r \<longleftrightarrow> word_opt l \<noteq> word_opt r"

definition char_at :: "string \<Rightarrow> nat \<Rightarrow> char option" where
  "char_at s i = (if i < length s then Some (s ! i) else None)"

text \<open>
  The length of the match at the start of \<open>s\<close>, whose left neighbour is \<open>prev\<close>: the longest
  of the prefixes of the digit run that ends at a boundary.
\<close>

definition match_len :: "char option \<Rightarrow> string \<Rightarrow> nat option" where
  "match_len prev s =
    (if boundary prev (char_at s 0)
     then find (\<lambda>n. boundary (char_at s (n - 1)) (char_at s n))
            (rev [1..<Suc (length (takeWhile is_digit s))])
     else None)"

function replace_all :: "char option \<Rightarrow> string \<Rightarrow> string" where
  "replace_all prev [] = []"
| "replace_all prev (c # s) =
     (case match_len prev (c # s) of
        None \<Rightarrow> c # replace_all (Some c) s
      | Some n \<Rightarrow> ''<NUM>'' @ replace_all (char_at (c # s) (n - 1)) (drop (n - 1) s))"
  by pat_completeness auto
termination
  by (relation "measure (length \<circ> snd)") auto

declare replace_all.simps(2) [simp del]

definition normalize :: "string \<Rightarrow> string" where
  "normalize s = replace_all None s"

section \<open>The same, word by word\<close>

function norm_words :: "string \<Rightarrow> string" where
  "norm_words [] = []"
| "norm_words (c # s) =
     (if is_word c then
        (if list_all is_digit (takeWhile is_word (c # s)) then ''<NUM>''
         else takeWhile is_word (c # s)) @ norm_words (dropWhile is_word s)
      else c # norm_words s)"
  by pat_completeness auto
termination
  by (relation "measure length") (auto simp: less_Suc_eq_le length_dropWhile_le)

declare norm_words.simps(2) [simp del]

lemma match_len_inside: "word_opt prev \<Longrightarrow> is_word c \<Longrightarrow> match_len prev (c # s) = None"
  by (simp add: match_len_def boundary_def char_at_def word_opt_def)

lemma match_len_no_digit: "\<not> is_digit c \<Longrightarrow> match_len prev (c # s) = None"
  by (simp add: match_len_def)

text \<open>Within a word nothing more is matched.\<close>

lemma replace_all_word_rest:
  "word_opt prev \<Longrightarrow> replace_all prev s = takeWhile is_word s @ replace_all
     (if takeWhile is_word s = [] then prev else Some (last (takeWhile is_word s)))
     (dropWhile is_word s)"
proof (induction s arbitrary: prev)
  case (Cons c s)
  show ?case
  proof (cases "is_word c")
    case True
    then have "replace_all prev (c # s) = c # replace_all (Some c) s"
      using Cons.prems by (simp add: replace_all.simps match_len_inside)
    moreover have "word_opt (Some c)" using True by (simp add: word_opt_def)
    ultimately show ?thesis using Cons.IH [of "Some c"] True by auto
  qed simp
qed simp

lemma word_at: "n < length (takeWhile is_word s) \<Longrightarrow> word_opt (char_at s n)"
proof -
  assume n: "n < length (takeWhile is_word s)"
  then have "s ! n = takeWhile is_word s ! n" by (simp add: takeWhile_nth)
  moreover have "is_word (takeWhile is_word s ! n)" using n by (metis nth_mem set_takeWhileD)
  moreover have "n < length s" using n length_takeWhile_le by (rule order_less_le_trans)
  ultimately show ?thesis by (simp add: char_at_def word_opt_def)
qed

lemma word_end: "\<not> word_opt (char_at s (length (takeWhile is_word s)))"
  by (auto simp: char_at_def word_opt_def dest: nth_length_takeWhile)

lemma takeWhile_digit_le: "length (takeWhile is_digit s) \<le> length (takeWhile is_word s)"
  by (induction s) auto

lemma takeWhile_digit_all:
  "list_all is_digit (takeWhile is_word s) \<Longrightarrow> takeWhile is_digit s = takeWhile is_word s"
  by (induction s) (auto simp: is_word_def)

text \<open>A word that starts here is matched whole when it is digits only, and not at all otherwise.\<close>

lemma match_len_digits:
  assumes "\<not> word_opt prev" and "is_word c"
    and "list_all is_digit (takeWhile is_word (c # s))"
  shows "match_len prev (c # s) = Some (length (takeWhile is_word (c # s)))"
proof -
  let ?w = "takeWhile is_word (c # s)"
  have run: "takeWhile is_digit (c # s) = ?w" by (rule takeWhile_digit_all [OF assms(3)])
  obtain k where k: "length ?w = Suc k" using assms(2) by simp
  have "word_opt (char_at (c # s) k)" using k by (intro word_at) simp
  moreover have "\<not> word_opt (char_at (c # s) (Suc k))" using word_end [of "c # s"] k by simp
  moreover have "boundary prev (char_at (c # s) 0)"
    using assms(1,2) by (simp add: boundary_def word_opt_def char_at_def)
  ultimately show ?thesis
    unfolding match_len_def run k by (simp add: boundary_def)
qed

lemma match_len_mixed:
  assumes "is_word c" and "\<not> list_all is_digit (takeWhile is_word (c # s))"
  shows "match_len prev (c # s) = None"
proof -
  let ?k = "length (takeWhile is_digit (c # s))" and ?w = "takeWhile is_word (c # s)"
  have "takeWhile is_digit (c # s) \<noteq> ?w"
    using assms(2) by (metis list_all_iff set_takeWhileD)
  moreover have "takeWhile is_digit (c # s) = take ?k ?w"
  proof -
    have "take ?k (c # s) = takeWhile is_digit (c # s)" by (metis takeWhile_eq_take)
    moreover have "take ?k ?w = take ?k (c # s)"
      using takeWhile_digit_le [of "c # s"] by (metis takeWhile_eq_take take_take min.absorb1)
    ultimately show ?thesis by simp
  qed
  ultimately have lt: "?k < length ?w"
    using takeWhile_digit_le [of "c # s"] by (metis le_neq_implies_less take_all order_refl)
  have "\<not> boundary (char_at (c # s) (n - 1)) (char_at (c # s) n)" if "n \<le> ?k" for n
    using word_at [of n "c # s"] word_at [of "n - 1" "c # s"] that lt by (simp add: boundary_def)
  then have "find (\<lambda>n. boundary (char_at (c # s) (n - 1)) (char_at (c # s) n)) (rev [1..<Suc ?k]) = None"
    unfolding find_None_iff by (auto simp del: takeWhile.simps)
  then show ?thesis unfolding match_len_def by presburger
qed

lemma drop_word: "is_word c \<Longrightarrow>
    drop (length (takeWhile is_word (c # s)) - Suc 0) s = dropWhile is_word s"
  by (simp add: dropWhile_eq_drop)

lemma dropWhile_word_hd: "dropWhile is_word s = [] \<or> \<not> is_word (hd (dropWhile is_word s))"
  using hd_dropWhile by blast

lemma replace_all_norm_words:
  "\<not> word_opt prev \<or> s = [] \<or> \<not> is_word (hd s) \<Longrightarrow> replace_all prev s = norm_words s"
proof (induction s arbitrary: prev rule: norm_words.induct)
  case (2 c s)
  show ?case
  proof (cases "is_word c")
    case True
    then have prev: "\<not> word_opt prev" using 2(3) by simp
    have rest: "replace_all p (dropWhile is_word s) = norm_words (dropWhile is_word s)" for p
      using 2(1) [OF True, of p] dropWhile_word_hd [of s] by blast
    show ?thesis
    proof (cases "list_all is_digit (takeWhile is_word (c # s))")
      case all: True
      show ?thesis
        using True match_len_digits [OF prev True all] all
        by (simp add: replace_all.simps norm_words.simps drop_word rest del: takeWhile.simps)
    next
      case mixed: False
      have "word_opt (Some c)" using True by (simp add: word_opt_def)
      then have "replace_all (Some c) s = takeWhile is_word s @ norm_words (dropWhile is_word s)"
        using replace_all_word_rest [of "Some c" s] rest by (metis (full_types))
      moreover have "norm_words (c # s) = (c # takeWhile is_word s) @ norm_words (dropWhile is_word s)"
        unfolding norm_words.simps(2) using True mixed by (simp only: if_True if_False takeWhile.simps)
      ultimately show ?thesis
        using match_len_mixed [OF True mixed, of prev] by (simp add: replace_all.simps)
    qed
  next
    case False
    then have "\<not> is_digit c" by auto
    then have "match_len prev (c # s) = None" by (rule match_len_no_digit)
    moreover have "\<not> word_opt (Some c)" using False by (simp add: word_opt_def)
    ultimately show ?thesis
      using False 2(2) [OF False, of "Some c"] by (simp add: replace_all.simps norm_words.simps)
  qed
qed simp

lemma normalize_norm_words: "normalize s = norm_words s"
  unfolding normalize_def by (rule replace_all_norm_words) (simp add: word_opt_def)

text \<open>A number between non-word characters becomes \<open><NUM>\<close>; other characters stay.\<close>

lemma norm_words_dec:
  assumes "t = [] \<or> \<not> is_word (hd t)"
  shows "norm_words (dec n @ t) = ''<NUM>'' @ norm_words t"
proof -
  obtain c r where cr: "dec n = c # r" by (cases "dec n") auto
  have d: "\<forall>x \<in> set (c # r). is_digit x" using dec_digits [of _ n] cr by auto
  then have w: "\<forall>x \<in> set (c # r). is_word x" by simp
  have "takeWhile is_word ((c # r) @ t) = c # r"
    using w assms by (subst takeWhile_append2) (auto simp: takeWhile_eq_Nil_iff)
  moreover have "dropWhile is_word (r @ t) = t"
    using w assms by (subst dropWhile_append2) (auto simp: dropWhile_eq_self_iff)
  moreover have "list_all is_digit (c # r)" using d by (simp add: list_all_iff)
  ultimately show ?thesis
    using w unfolding cr append_Cons norm_words.simps(2) by (simp del: takeWhile.simps)
qed

lemma norm_words_sep: "\<not> is_word c \<Longrightarrow> norm_words (c # t) = c # norm_words t"
  by (simp add: norm_words.simps)

lemma norm_words_NUM:
  assumes "t = [] \<or> \<not> is_word (hd t)"
  shows "norm_words (''<NUM>'' @ t) = ''<NUM>'' @ norm_words t"
proof -
  have "\<not> is_word CHR ''<''" "\<not> is_word CHR ''>''" "is_word CHR ''N''" "is_word CHR ''U''"
    "is_word CHR ''M''" "\<not> is_digit CHR ''N''"
    by (simp_all add: is_word_def is_digit_def is_alpha_def)
  then show ?thesis using assms by (simp add: norm_words.simps)
qed

lemma hd_norm_words: "s \<noteq> [] \<Longrightarrow> \<not> is_word (hd s) \<Longrightarrow> norm_words s \<noteq> [] \<and> hd (norm_words s) = hd s"
  by (cases s) (simp_all add: norm_words.simps)

lemma norm_words_word:
  assumes "w \<noteq> []" and "\<forall>x \<in> set w. is_word x" and "\<not> list_all is_digit w"
    and "t = [] \<or> \<not> is_word (hd t)"
  shows "norm_words (w @ t) = w @ norm_words t"
proof -
  obtain c r where w: "w = c # r" using assms(1) by (cases w) auto
  have "takeWhile is_word ((c # r) @ t) = c # r"
    using assms(2,4) w by (subst takeWhile_append2) (auto simp: takeWhile_eq_Nil_iff)
  moreover have "dropWhile is_word (r @ t) = t"
    using assms(2,4) w by (subst dropWhile_append2) (auto simp: dropWhile_eq_self_iff)
  ultimately show ?thesis
    using assms(2,3) unfolding w append_Cons norm_words.simps(2)
    by (simp only: list.set_intros if_True if_False simp_thms append_Cons)
qed

lemma norm_words_idem: "norm_words (norm_words s) = norm_words s"
proof (induction s rule: norm_words.induct)
  case (2 c s)
  show ?case
  proof (cases "is_word c")
    case True
    let ?w = "takeWhile is_word (c # s)" and ?t = "norm_words (dropWhile is_word s)"
    have t: "?t = [] \<or> \<not> is_word (hd ?t)"
    proof (cases "dropWhile is_word s = []")
      case False
      with dropWhile_word_hd [of s] show ?thesis using hd_norm_words [OF False] by auto
    next
      case True
      then show ?thesis by (simp only: norm_words.simps(1)) simp
    qed
    have e: "norm_words (c # s) = (if list_all is_digit ?w then ''<NUM>'' else ?w) @ ?t"
      unfolding norm_words.simps(2) [of c s] using True by (simp only: if_True)
    show ?thesis
    proof (cases "list_all is_digit ?w")
      case all: True
      then have "norm_words (c # s) = ''<NUM>'' @ ?t" using e by (simp only: if_True)
      then show ?thesis using norm_words_NUM [OF t] 2(1) [OF True] by (simp only:)
    next
      case mixed: False
      then have e: "norm_words (c # s) = ?w @ ?t" using e by (simp only: if_False)
      have "norm_words (?w @ ?t) = ?w @ norm_words ?t"
        using True mixed by (intro norm_words_word [OF _ _ _ t]) (auto dest: set_takeWhileD)
      then show ?thesis using e 2(1) [OF True] by (simp only:)
    qed
  next
    case False
    with 2 show ?thesis by (simp add: norm_words.simps)
  qed
qed simp

section \<open>The store\<close>

record Store =
  known :: "string \<rightharpoonup> bool"
  filePath :: string

definition makeKey :: "string \<Rightarrow> string \<Rightarrow> string \<Rightarrow> string" where
  "makeKey eventType comm path = eventType @ ''|'' @ comm @ ''|'' @ normalize path"

text \<open>An absent key reads as \<open>false\<close>.\<close>

definition IsKnown :: "Store \<Rightarrow> string \<Rightarrow> string \<Rightarrow> string \<Rightarrow> bool" where
  "IsKnown s eventType comm path =
     (case known s (makeKey eventType comm path) of None \<Rightarrow> False | Some b \<Rightarrow> b)"

definition Learn :: "Store \<Rightarrow> string \<Rightarrow> string \<Rightarrow> string \<Rightarrow> Store" where
  "Learn s eventType comm path = s\<lparr>known := (known s)(makeKey eventType comm path \<mapsto> True)\<rparr>"

definition Count :: "Store \<Rightarrow> nat" where
  "Count s = card (dom (known s))"

text \<open>
  \<open>json.MarshalIndent(keys, "", "  ")\<close> on a slice of strings: no error is possible there.
\<close>

definition marshal_keys :: "string list \<Rightarrow> string" where
  "marshal_keys ks =
     (if ks = [] then ''[]''
      else ''['' @ [CHR 0x0A] @ Join (map (\<lambda>k. ''  '' @ json_string k) ks) ('','' @ [CHR 0x0A])
           @ [CHR 0x0A] @ '']'')"

text \<open>
  The loop \<open>for k := range s.known\<close> visits the keys in an order Go leaves open: \<open>ks\<close> is that
  order, so a list of the keys without repetition.
\<close>

definition range_order :: "Store \<Rightarrow> string list \<Rightarrow> bool" where
  "range_order s ks \<longleftrightarrow> distinct ks \<and> set ks = dom (known s)"

definition Save :: "string list \<Rightarrow> write_outcome \<Rightarrow> fs \<Rightarrow> Store \<Rightarrow> fs \<times> file_error option" where
  "Save ks out files s = (WriteFile out files (filePath s) (marshal_keys ks), write_error out)"

definition store_load :: "fs \<Rightarrow> Store \<Rightarrow> Store" where
  "store_load files s =
    (case ReadFile files (filePath s) of
       Inl err \<Rightarrow> s
     | Inr data \<Rightarrow>
        (case Option.bind (json_parse data) to_string_slice of
           None \<Rightarrow> s
         | Some keys \<Rightarrow> s\<lparr>known := fold (\<lambda>k m. m(k \<mapsto> True)) keys (known s)\<rparr>))"

definition NewStore :: "fs \<Rightarrow> string \<Rightarrow> Store" where
  "NewStore files path = store_load files \<lparr>known = Map.empty, filePath = path\<rparr>"

text \<open>The map is finite and holds \<open>true\<close> only, so it is the set of its keys.\<close>

definition wf_store :: "Store \<Rightarrow> bool" where
  "wf_store s \<longleftrightarrow> finite (dom (known s)) \<and> ran (known s) \<subseteq> {True}"

lemma fold_insert_True:
  "fold (\<lambda>k m. m(k \<mapsto> True)) ks m = (\<lambda>k. if k \<in> set ks then Some True else m k)"
  by (induction ks arbitrary: m) auto

lemma IsKnown_iff: "wf_store s \<Longrightarrow> IsKnown s t c p \<longleftrightarrow> makeKey t c p \<in> dom (known s)"
  by (auto simp: wf_store_def IsKnown_def ran_def split: option.splits)

lemma wf_Learn: "wf_store s \<Longrightarrow> wf_store (Learn s t c p)"
  by (auto simp: wf_store_def Learn_def ran_def)

lemma wf_NewStore: "wf_store (NewStore files path)"
  by (auto simp: wf_store_def NewStore_def store_load_def fold_insert_True ran_def dom_def
      split: sum.split option.split)

lemma Count_Learn: "wf_store s \<Longrightarrow>
    Count (Learn s t c p) = (if IsKnown s t c p then Count s else Suc (Count s))"
  by (auto simp: IsKnown_iff Count_def Learn_def wf_store_def card_insert_if)

section \<open>The contract of an allowlist\<close>

text \<open>
  What the agent relies on: learning an event makes exactly the events with its key known.
\<close>

locale allowlist =
  fixes is_known :: "'s \<Rightarrow> 'e \<Rightarrow> bool" and learn :: "'s \<Rightarrow> 'e \<Rightarrow> 's" and key_of :: "'e \<Rightarrow> 'k"
  assumes known_learn: "is_known (learn s e) e' \<longleftrightarrow> is_known s e' \<or> key_of e = key_of e'"
begin

lemma learned: "is_known (learn s e) e"
  by (simp add: known_learn)

lemma known_monotone: "is_known s e' \<Longrightarrow> is_known (learn s e) e'"
  by (simp add: known_learn)

lemma known_after: "is_known (fold (\<lambda>e s. learn s e) es s) e'
    \<longleftrightarrow> is_known s e' \<or> key_of e' \<in> key_of ` set es"
  by (induction es arbitrary: s) (auto simp: known_learn)

lemma order_irrelevant: "set es = set es' \<Longrightarrow>
    is_known (fold (\<lambda>e s. learn s e) es s) e = is_known (fold (\<lambda>e s. learn s e) es' s) e"
  by (simp add: known_after)

end

definition known_event :: "Store \<Rightarrow> string \<times> string \<times> string \<Rightarrow> bool" where
  "known_event s e = IsKnown s (fst e) (fst (snd e)) (snd (snd e))"

definition learn_event :: "Store \<Rightarrow> string \<times> string \<times> string \<Rightarrow> Store" where
  "learn_event s e = Learn s (fst e) (fst (snd e)) (snd (snd e))"

definition event_key :: "string \<times> string \<times> string \<Rightarrow> string" where
  "event_key e = makeKey (fst e) (fst (snd e)) (snd (snd e))"

interpretation bl: allowlist known_event learn_event event_key
  by unfold_locales (auto simp: known_event_def learn_event_def event_key_def IsKnown_def Learn_def)

section \<open>Saving and loading\<close>

fun key_tokens :: "string list \<Rightarrow> token list" where
  "key_tokens [] = []"
| "key_tokens [k] = [TStr k]"
| "key_tokens (k # k' # ks) = TStr k # TComma # key_tokens (k' # ks)"

lemma length_key_tokens: "length (key_tokens (k # ks)) = Suc (2 * length ks)"
  by (induction ks arbitrary: k) simp_all

lemma lex_keys:
  "lex (Join (map (\<lambda>k. ''  '' @ json_string k) (k # ks)) ('','' @ [CHR 0x0A]) @ t)
     = map_option ((@) (key_tokens (map sanitize (k # ks)))) (lex t)"
proof (induction ks arbitrary: k)
  case Nil
  show ?case by (simp add: is_space_def lex_json_string)
next
  case (Cons k' ks)
  then show ?case
    by (simp add: is_space_def lex_json_string) (simp add: option.map_comp comp_def)
qed

lemma parse_elems_keys:
  "length ks + 2 \<le> n \<Longrightarrow>
     parse_elems n (key_tokens (k # ks) @ TRBrack # r) = Some (map JStr (k # ks), r)"
proof (induction ks arbitrary: k n)
  case Nil
  then obtain m where "n = Suc (Suc m)" by (cases n; cases "n - 1") auto
  then show ?case by simp
next
  case (Cons k' ks)
  then obtain m where m: "n = Suc (Suc m)" by (cases n; cases "n - 1") auto
  then have "parse_elems (Suc m) (key_tokens (k' # ks) @ TRBrack # r) = Some (map JStr (k' # ks), r)"
    using Cons.prems by (intro Cons.IH) simp
  then show ?case unfolding m by simp
qed

lemma jdepth_strings: "jdepth (JArr (map JStr ks)) = Suc 0"
  by (induction ks) simp_all

lemma parse_value_array: "ts \<noteq> [] \<Longrightarrow> hd ts \<noteq> TRBrack \<Longrightarrow>
    parse_value (n + 1) (TLBrack # ts) = map_option (apfst JArr) (parse_elems n ts)"
  by simp

lemma parse_marshal_keys:
  "Option.bind (json_parse (marshal_keys ks)) to_string_slice = Some (map sanitize ks)"
proof (cases ks)
  case Nil
  have "parse_value (Suc 4) [TLBrack, TRBrack] = Some (JArr [], [])"
    by (simp del: Suc_numeral)
  with Nil show ?thesis
    by (simp add: marshal_keys_def json_parse_def to_string_slice_def)
next
  case (Cons k ks')
  let ?ts = "TLBrack # key_tokens (map sanitize (k # ks')) @ [TRBrack]"
  have l: "lex (marshal_keys ks) = Some ?ts"
    using lex_keys [of k ks' "CHR 0x0A # '']''"]
    by (simp add: Cons marshal_keys_def is_space_def)
  let ?es = "key_tokens (map sanitize (k # ks')) @ [TRBrack]"
  have e: "parse_elems (2 * length ?ts) ?es = Some (map JStr (map sanitize (k # ks')), [])"
    unfolding list.map(2) [of sanitize] by (rule parse_elems_keys) (simp add: length_key_tokens)
  have "?es \<noteq> []" "hd ?es \<noteq> TRBrack"
    by (cases ks'; simp)+
  then have "parse_value (2 * length ?ts + 1) ?ts = Some (JArr (map JStr (map sanitize ks)), [])"
    by (subst parse_value_array) (simp_all only: e Cons option.map apfst_conv simp_thms)
  then show ?thesis
    using jdepth_strings [of "map sanitize ks"] to_strings_map [of "map sanitize ks"]
    by (simp add: json_parse_def l to_string_slice_def del: list.map)
qed

lemma load_saved: "known (NewStore (fst (Save ks Written files s)) (filePath s))
    = (\<lambda>k. if k \<in> sanitize ` set ks then Some True else None)"
  by (simp add: NewStore_def store_load_def Save_def parse_marshal_keys
      fold_insert_True)

lemma save_load:
  assumes "wf_store s" and "range_order s ks" and "\<forall>k \<in> dom (known s). valid_utf8 k"
  shows "NewStore (fst (Save ks Written files s)) (filePath s) = s"
proof -
  let ?s = "NewStore (fst (Save ks Written files s)) (filePath s)"
  have "sanitize ` set ks = dom (known s)"
    using assms(2,3) by (auto simp: range_order_def sanitize_valid intro!: rev_image_eqI)
  then have "known ?s = (\<lambda>k. if k \<in> dom (known s) then Some True else None)"
    by (simp add: load_saved)
  also have "\<dots> = known s"
    using assms(1) by (auto simp: wf_store_def ran_def fun_eq_iff dom_def)
  finally show ?thesis
    by (simp add: NewStore_def store_load_def split: sum.split option.split)
qed

section \<open>Properties\<close>

text \<open>
  C31: \<open>normalize\<close>, the leftmost-first matcher of \<open>\b\d+\b\<close> with its backtracking over the
  digit run, replaces exactly the words that are all digits and nothing else; doing it
  twice is doing it once, so a normalized path is its own key.
\<close>

theorem normalize_words:
  "normalize s = norm_words s \<and> normalize (normalize s) = normalize s"
  by (simp add: normalize_norm_words norm_words_idem)

text \<open>
  C26: An agent that starts without an allowlist file and learns the events \<open>es\<close> knows an
  event exactly when it has the key of one of them, and \<open>Count\<close> is the number of keys.
\<close>

theorem learned_exactly:
  assumes "ReadFile files path = Inl err"
  shows "(known_event (fold (\<lambda>e s. learn_event s e) es (NewStore files path)) e
      \<longleftrightarrow> event_key e \<in> event_key ` set es)
    \<and> Count (fold (\<lambda>e s. learn_event s e) es (NewStore files path)) = card (event_key ` set es)"
proof -
  let ?s = "NewStore files path"
  have "known ?s = Map.empty" using assms by (simp add: NewStore_def store_load_def)
  moreover have "dom (known (fold (\<lambda>e s. learn_event s e) es s)) = dom (known s) \<union> event_key ` set es"
    for s :: Store
    by (induction es arbitrary: s) (auto simp: learn_event_def Learn_def event_key_def)
  moreover have "\<not> known_event ?s e"
    using \<open>known ?s = Map.empty\<close> by (simp add: known_event_def IsKnown_def)
  ultimately show ?thesis by (simp add: bl.known_after Count_def)
qed

theorem learned_exactly_witness:
  "known_event (fold (\<lambda>e s. learn_event s e) [(''OPEN'', ''ps'', ''/proc/90194/stat'')]
     (NewStore (\<lambda>_. Inl NotExist) ''baseline.json'')) (''OPEN'', ''ps'', ''/proc/90195/stat'')"
  using learned_exactly [of "\<lambda>_. Inl NotExist" "''baseline.json''" NotExist
      "[(''OPEN'', ''ps'', ''/proc/90194/stat'')]" "(''OPEN'', ''ps'', ''/proc/90195/stat'')"]
  by (simp add: ReadFile_def event_key_def makeKey_def normalize_norm_words norm_words.simps
      is_word_def is_digit_def is_alpha_def)

text \<open>
  C25: What \<open>Save\<close> writes, \<open>NewStore\<close> reads back to the same store, in whatever order Go
  walks the map, provided the keys are valid UTF-8.
\<close>

theorem save_load_roundtrip:
  assumes "wf_store s" and "range_order s ks" and "\<forall>k \<in> dom (known s). valid_utf8 k"
  shows "NewStore (fst (Save ks Written files s)) (filePath s) = s"
  by (rule save_load [OF assms])

definition demo_store :: Store where
  "demo_store = \<lparr>known = [''EXEC|ls|/bin/ls'' \<mapsto> True], filePath = ''baseline.json''\<rparr>"

theorem save_load_roundtrip_witness:
  "NewStore (fst (Save [''EXEC|ls|/bin/ls''] Written (\<lambda>_. Inl NotExist) demo_store)) ''baseline.json''
     = demo_store"
  using save_load_roundtrip [of demo_store "[''EXEC|ls|/bin/ls'']" "\<lambda>_. Inl NotExist"]
  by (simp add: demo_store_def wf_store_def range_order_def valid_ascii)

text \<open>
  \<open>Learn\<close> makes the store one key larger exactly when the event was not known, and
  leaves it a finite map that holds only \<open>true\<close>; loading, whatever the file holds, starts
  from such a map.
\<close>

lemma store_invariant:
  "wf_store (NewStore files path)
   \<and> (wf_store s \<longrightarrow> wf_store (Learn s t c p)
        \<and> Count (Learn s t c p) = (if IsKnown s t c p then Count s else Suc (Count s)))"
  by (simp add: wf_NewStore wf_Learn Count_Learn)

lemma store_invariant_witness:
  "wf_store demo_store \<and> Count (Learn demo_store ''EXEC'' ''ls'' ''/bin/ls'') = 1"
proof -
  have w: "wf_store demo_store" by (simp add: demo_store_def wf_store_def)
  have "IsKnown demo_store ''EXEC'' ''ls'' ''/bin/ls''"
    by (simp add: demo_store_def IsKnown_def makeKey_def normalize_norm_words norm_words.simps
        is_word_def is_digit_def is_alpha_def)
  moreover have "Count demo_store = 1" by (simp add: demo_store_def Count_def)
  ultimately show ?thesis
    using store_invariant [of "\<lambda>_. Inl NotExist" "[]" demo_store "''EXEC''" "''ls''" "''/bin/ls''"] w
    by simp
qed

end
