(* ===== verification/Enforce.thy ===== *)
theory Enforce
  imports GoStrings
begin

text \<open>
  The enforcement actions of \<open>internal/enforce/enforce.go\<close>.  What they do to the system is a
  list of effects, signals sent and commands run, in order; what the kernel and \<open>nft\<close>
  answer is a parameter.  An error is its text.
\<close>

datatype signal = SIGKILL | SIGSTOP | SIGCONT

datatype effect = Kill int signal | Run "string list"

text \<open>
  \<open>kill_result\<close> is the error of \<open>syscall.Kill\<close>, if any; \<open>command_result\<close> that of a command,
  with its combined output.
\<close>

record system_calls =
  kill_result :: "int \<Rightarrow> signal \<Rightarrow> string option"
  command_result :: "string list \<Rightarrow> (string \<times> string) option"

definition KillProcess :: "system_calls \<Rightarrow> u32 \<Rightarrow> string option \<times> effect list" where
  "KillProcess sys pid =
    (if pid = 0 \<or> pid = 1 then
       (Some (''refusing to kill PID '' @ dec (unat pid) @ '' (init/invalid)''), [])
     else case kill_result sys (int (unat pid)) SIGKILL of
       Some err \<Rightarrow> (Some (''SIGKILL failed for pid '' @ dec (unat pid) @ '': '' @ err), [Kill (int (unat pid)) SIGKILL])
     | None \<Rightarrow> (None, [Kill (int (unat pid)) SIGKILL]))"

definition PauseProcess :: "system_calls \<Rightarrow> u32 \<Rightarrow> string option \<times> effect list" where
  "PauseProcess sys pid =
    (if pid = 0 \<or> pid = 1 then
       (Some (''refusing to pause PID '' @ dec (unat pid) @ '' (init/invalid)''), [])
     else case kill_result sys (int (unat pid)) SIGSTOP of
       Some err \<Rightarrow> (Some (''SIGSTOP failed for pid '' @ dec (unat pid) @ '': '' @ err), [Kill (int (unat pid)) SIGSTOP])
     | None \<Rightarrow> (None, [Kill (int (unat pid)) SIGSTOP]))"

definition ResumeProcess :: "system_calls \<Rightarrow> u32 \<Rightarrow> string option \<times> effect list" where
  "ResumeProcess sys pid =
    (case kill_result sys (int (unat pid)) SIGCONT of
       Some err \<Rightarrow> (Some (''SIGCONT failed for pid '' @ dec (unat pid) @ '': '' @ err), [Kill (int (unat pid)) SIGCONT])
     | None \<Rightarrow> (None, [Kill (int (unat pid)) SIGCONT]))"

definition chain_command :: "string list" where
  "chain_command = [''nft'', ''add'', ''chain'', ''inet'', ''filter'', ''watchbpf_block'',
     [CHR 0x7B], ''type'', ''filter'', ''hook'', ''output'', ''priority'', ''0'', '';'', [CHR 0x7D]]"

definition rule_command :: "string \<Rightarrow> string list" where
  "rule_command ip = [''nft'', ''add'', ''rule'', ''inet'', ''filter'', ''watchbpf_block'',
     ''ip'', ''daddr'', ip, ''drop'']"

text \<open>The outcome of adding the chain is ignored.\<close>

definition IsolateIP :: "system_calls \<Rightarrow> string \<Rightarrow> string option \<times> effect list" where
  "IsolateIP sys ip =
    ((case command_result sys (rule_command ip) of
        Some (err, out) \<Rightarrow> Some (''nftables isolate failed for '' @ ip @ '': '' @ err @ '' (output: '' @ out @ '')'')
      | None \<Rightarrow> None),
     [Run chain_command, Run (rule_command ip)])"

text \<open>Signals a list of effects sends.\<close>

definition signals :: "effect list \<Rightarrow> (int \<times> signal) list" where
  "signals es = concat (map (\<lambda>e. case e of Kill p s \<Rightarrow> [(p, s)] | Run _ \<Rightarrow> []) es)"

lemma signals_simps [simp]:
  "signals [] = []" "signals (Kill p s # es) = (p, s) # signals es" "signals (Run c # es) = signals es"
  "signals (es @ fs) = signals es @ signals fs"
  by (simp_all add: signals_def)

lemma pid_neq: "pid \<noteq> 0 \<Longrightarrow> pid \<noteq> 1 \<Longrightarrow> 1 < int (unat (pid :: u32))"
proof -
  assume "pid \<noteq> 0" "pid \<noteq> 1"
  then have "unat pid \<noteq> 0" "unat pid \<noteq> 1"
    using word_unat_eq_iff [of pid 0] word_unat_eq_iff [of pid 1] by simp_all
  then show ?thesis by linarith
qed

lemma KillProcess_effects:
  "snd (KillProcess sys pid) = (if pid = 0 \<or> pid = 1 then [] else [Kill (int (unat pid)) SIGKILL])"
  by (simp add: KillProcess_def split: option.split)

lemma PauseProcess_effects:
  "snd (PauseProcess sys pid) = (if pid = 0 \<or> pid = 1 then [] else [Kill (int (unat pid)) SIGSTOP])"
  by (simp add: PauseProcess_def split: option.split)

lemma IsolateIP_effects: "snd (IsolateIP sys ip) = [Run chain_command, Run (rule_command ip)]"
  by (simp add: IsolateIP_def)

end
