(* ===== verification/GoMarshal.thy ===== *)
theory GoMarshal
  imports GoJson
begin

text \<open>
  \<open>json.Marshal\<close> of a struct of strings, integers and booleans: one object, the fields in
  the order of the declaration.  The parser gives the same members back, strings as
  \<open>sanitize\<close> of themselves.
\<close>

datatype scalar = SStr string | SInt int | SBool bool

fun scalar_text :: "scalar \<Rightarrow> string" where
  "scalar_text (SStr s) = json_string s"
| "scalar_text (SInt i) = fmt_d i"
| "scalar_text (SBool b) = (if b then ''true'' else ''false'')"

fun scalar_value :: "scalar \<Rightarrow> json" where
  "scalar_value (SStr s) = JStr (sanitize s)"
| "scalar_value (SInt i) = JNum (fmt_d i)"
| "scalar_value (SBool b) = JBool b"

fun scalar_token :: "scalar \<Rightarrow> token" where
  "scalar_token (SStr s) = TStr (sanitize s)"
| "scalar_token (SInt i) = TNum (fmt_d i)"
| "scalar_token (SBool b) = (if b then TTrue else TFalse)"

definition member_text :: "string \<times> scalar \<Rightarrow> string" where
  "member_text m = json_string (fst m) @ '':'' @ scalar_text (snd m)"

definition object_text :: "(string \<times> scalar) list \<Rightarrow> string" where
  "object_text ms = [CHR 0x7B] @ Join (map member_text ms) '','' @ [CHR 0x7D]"

definition object_members :: "(string \<times> scalar) list \<Rightarrow> (string \<times> json) list" where
  "object_members ms = map (\<lambda>m. (sanitize (fst m), scalar_value (snd m))) ms"

fun member_tokens :: "(string \<times> scalar) list \<Rightarrow> token list" where
  "member_tokens [] = []"
| "member_tokens [m] = [TStr (sanitize (fst m)), TColon, scalar_token (snd m)]"
| "member_tokens (m # m' # ms) =
     TStr (sanitize (fst m)) # TColon # scalar_token (snd m) # TComma # member_tokens (m' # ms)"

lemma length_member_tokens: "length (member_tokens (m # ms)) = 3 + 4 * length ms"
  by (induction ms arbitrary: m) simp_all

lemma lex_scalar:
  assumes "t = [] \<or> \<not> num_char (hd t)"
  shows "lex (scalar_text v @ t) = map_option (Cons (scalar_token v)) (lex t)"
proof (cases v)
  case (SBool b)
  have "lex (''true'' @ t) = map_option (Cons TTrue) (lex t)"
    "lex (''false'' @ t) = map_option (Cons TFalse) (lex t)"
    by (subst lex.simps, simp add: is_space_def lex_token_def HasPrefix_def)+
  then show ?thesis by (simp add: SBool)
qed (use lex_fmt_d [OF assms] lex_json_string in auto)

lemma lex_member:
  assumes "t = [] \<or> \<not> num_char (hd t)"
  shows "lex (member_text m @ t)
    = map_option (\<lambda>r. TStr (sanitize (fst m)) # TColon # scalar_token (snd m) # r) (lex t)"
  using lex_scalar [OF assms, of "snd m"]
  by (simp add: member_text_def lex_json_string option.map_comp comp_def)

lemma lex_members:
  "t = [] \<or> \<not> num_char (hd t) \<Longrightarrow> lex (Join (map member_text (m # ms)) '','' @ t)
     = map_option ((@) (member_tokens (m # ms))) (lex t)"
proof (induction ms arbitrary: m)
  case Nil
  then show ?case using lex_member [of t m] by (cases "lex t") simp_all
next
  case (Cons m' ms)
  have "\<not> num_char (hd ('','' @ Join (map member_text (m' # ms)) '','' @ t))"
    by (simp add: num_char_def is_digit_def)
  from lex_member [OF disjI2, OF this, of m] Cons
  show ?case by (simp add: option.map_comp comp_def)
qed

lemma parse_scalar: "parse_value (Suc n) (scalar_token v # r) = Some (scalar_value v, r)"
  by (cases v) simp_all

lemma parse_members_tokens:
  "length ms + 2 \<le> n \<Longrightarrow>
     parse_members n (member_tokens (m # ms) @ TRBrace # r) = Some (object_members (m # ms), r)"
proof (induction ms arbitrary: m n)
  case Nil
  then obtain k where k: "n = Suc (Suc k)" by (cases n; cases "n - 1") auto
  show ?case
    by (simp add: k parse_scalar object_members_def del: parse_value.simps)
next
  case (Cons m' ms)
  then obtain k where k: "n = Suc (Suc k)" by (cases n; cases "n - 1") auto
  with Cons.prems have "parse_members (Suc k) (member_tokens (m' # ms) @ TRBrace # r)
      = Some (object_members (m' # ms), r)"
    by (intro Cons.IH) simp
  then show ?case
    by (simp add: k parse_scalar object_members_def del: parse_value.simps parse_members.simps(2))
      (simp add: parse_members.simps(2) [of "Suc k"] parse_scalar del: parse_value.simps parse_members.simps)
qed

lemma parse_value_object: "ts \<noteq> [] \<Longrightarrow> hd ts \<noteq> TRBrace \<Longrightarrow>
    parse_value (n + 1) (TLBrace # ts) = map_option (apfst JObj) (parse_members n ts)"
  by simp

lemma jdepth_scalars: "jdepth (JObj (object_members ms)) = Suc 0"
proof -
  have "jdepth (scalar_value v) = 0" for v by (cases v) simp_all
  then have "fold max (map (\<lambda>(k, v). jdepth v) (object_members ms)) n = n" for n
    by (induction ms arbitrary: n) (simp_all add: object_members_def)
  then show ?thesis by simp
qed

lemma json_parse_object: "ms \<noteq> [] \<Longrightarrow> json_parse (object_text ms) = Some (JObj (object_members ms))"
proof -
  assume "ms \<noteq> []"
  then obtain m ms' where ms: "ms = m # ms'" by (cases ms) auto
  let ?ts = "TLBrace # member_tokens (m # ms') @ [TRBrace]"
  let ?es = "member_tokens (m # ms') @ [TRBrace]"
  have l: "lex (object_text ms) = Some ?ts"
    using lex_members [of "[CHR 0x7D]" m ms']
    by (simp add: ms object_text_def num_char_def is_digit_def)
  have e: "parse_members (2 * length ?ts) ?es = Some (object_members (m # ms'), [])"
    by (rule parse_members_tokens) (simp add: length_member_tokens)
  have "?es \<noteq> []" "hd ?es \<noteq> TRBrace"
    by (cases ms'; simp)+
  then have "parse_value (2 * length ?ts + 1) ?ts = Some (JObj (object_members ms), [])"
    by (subst parse_value_object) (simp_all only: e ms option.map apfst_conv simp_thms)
  then show ?thesis
    using jdepth_scalars [of ms] by (simp add: json_parse_def l del: jdepth.simps)
qed

text \<open>A marshalled object is one line of printable ASCII and UTF-8.\<close>

lemma esc_ascii_no_newline: "CHR 0x0A \<notin> set (esc_ascii c)"
proof -
  have "n < 16 \<Longrightarrow> hex_digit n \<noteq> CHR 0x0A" for n
  proof -
    assume "n < 16"
    then have "(of_char (hex_digit n) :: nat) \<noteq> 10" by (auto simp: hex_digit_def)
    then show "hex_digit n \<noteq> CHR 0x0A" by auto
  qed
  moreover have "(of_char c :: nat) div 16 < 16"
    using of_char_less_256 [of c] by (simp add: less_mult_imp_div_less)
  ultimately show ?thesis
    by (auto simp: esc_ascii_def hex2_def eq_commute [of _ "hex_digit _"])
qed

lemma utf8_multi_high:
  assumes "\<not> of_char c < (0x80 :: nat)" and "x \<in> set (take (utf8_size (c # s)) (c # s))"
  shows "0x80 \<le> (of_char x :: nat)"
proof -
  have c: "\<not> in_range 0 0x7F c" using assms(1) by (simp add: in_range_def)
  have r: "0x80 \<le> lo \<Longrightarrow> in_range lo hi y \<Longrightarrow> 0x80 \<le> (of_char y :: nat)" for lo hi y
    by (simp add: in_range_def)
  have "in_range 0xC2 0xDF c \<or> in_range 0xE0 0xEF c \<or> in_range 0xF0 0xF4 c \<or> utf8_size (c # s) = 0"
    using c by (simp add: utf8_size_def)
  then show ?thesis
  proof (elim disjE)
    assume two: "in_range 0xC2 0xDF c"
    then show ?thesis
      using assms c by (cases s) (auto simp: utf8_size_def split: if_splits dest: r [rotated])
  next
    assume three: "in_range 0xE0 0xEF c"
    then have "\<not> in_range 0xC2 0xDF c" by (simp add: in_range_def)
    with three show ?thesis
      using assms c by (cases s; cases "tl s")
        (auto simp: utf8_size_def split: if_splits dest: r [rotated])
  next
    assume four: "in_range 0xF0 0xF4 c"
    then have "\<not> in_range 0xC2 0xDF c" "\<not> in_range 0xE0 0xEF c" by (simp_all add: in_range_def)
    with four show ?thesis
      using assms c by (cases s; cases "tl s"; cases "tl (tl s)")
        (auto simp: utf8_size_def split: if_splits dest: r [rotated])
  qed (use assms in simp)
qed

lemma json_escape_no_newline: "CHR 0x0A \<notin> set (json_escape s)"
proof (induction s rule: json_escape.induct)
  case (2 c s)
  have m: "CHR 0x0A \<notin> set (esc_multi (take (utf8_size (c # s)) (c # s)))"
    if "\<not> of_char c < (0x80 :: nat)"
    using utf8_multi_high [OF that, of "CHR 0x0A" s] by (auto simp: esc_multi_def)
  show ?case
    using 2 m by (simp add: json_escape.simps esc_ascii_no_newline)
qed simp

lemma fmt_d_no_newline: "CHR 0x0A \<notin> set (fmt_d i)"
  by (auto simp: fmt_d_def is_digit_def dest!: dec_digits)

lemma scalar_text_no_newline: "CHR 0x0A \<notin> set (scalar_text v)"
  by (cases v) (simp_all add: json_string_def json_escape_no_newline fmt_d_no_newline)

lemma object_text_no_newline: "CHR 0x0A \<notin> set (object_text ms)"
proof -
  have m: "CHR 0x0A \<notin> set (member_text m)" for m
    by (simp add: member_text_def json_string_def json_escape_no_newline scalar_text_no_newline)
  have "CHR 0x0A \<notin> set (Join (map member_text ms) '','')"
    by (induction ms rule: induct_list012) (simp_all add: m)
  then show ?thesis by (simp add: object_text_def)
qed

end
