(* ===== verification/GoTime.thy ===== *)
theory GoTime
  imports GoStrings
begin

text \<open>
  Times.  An instant is a number of nanoseconds; \<open>FormatRFC3339\<close> is
  \<open>t.UTC().Format(time.RFC3339)\<close> of the seconds since 1970.  The civil date is computed in
  eras of 400 years that start on a first of March.
\<close>

definition second :: int where "second = 1000000000"

definition minute :: int where "minute = 60 * second"

definition civil :: "int \<Rightarrow> int \<times> int \<times> int" where
  "civil days =
    (let z = days + 719468; era = z div 146097; doe = z mod 146097;
         yoe = (doe - doe div 1460 + doe div 36524 - doe div 146096) div 365;
         doy = doe - (365 * yoe + yoe div 4 - yoe div 100);
         mp = (5 * doy + 2) div 153;
         m = (if mp < 10 then mp + 3 else mp - 9)
     in (yoe + era * 400 + (if m \<le> 2 then 1 else 0), m, doy - (153 * mp + 2) div 5 + 1))"

text \<open>\<open>appendInt\<close>: padded with zeros to a width.\<close>

definition append_int :: "int \<Rightarrow> nat \<Rightarrow> string" where
  "append_int x w =
    (let d = dec (nat \<bar>x\<bar>) in
     (if x < 0 then ''-'' else []) @ replicate (w - length d) (CHR ''0'') @ d)"

definition FormatRFC3339 :: "int \<Rightarrow> string" where
  "FormatRFC3339 secs =
    (let (y, m, d) = civil (secs div 86400); s = secs mod 86400 in
     append_int y 4 @ ''-'' @ append_int m 2 @ ''-'' @ append_int d 2 @ ''T''
     @ append_int (s div 3600) 2 @ '':'' @ append_int (s div 60 mod 60) 2 @ '':''
     @ append_int (s mod 60) 2 @ ''Z'')"

definition plain_ascii :: "char \<Rightarrow> bool" where
  "plain_ascii c \<longleftrightarrow> is_digit c \<or> c = CHR ''-'' \<or> c = CHR '':'' \<or> c = CHR ''T'' \<or> c = CHR ''Z''"

lemma plain_append_int: "list_all plain_ascii (append_int x w)"
  by (auto simp: append_int_def Let_def list_all_iff plain_ascii_def is_digit_def dest: dec_digits)

lemma plain_FormatRFC3339: "list_all plain_ascii (FormatRFC3339 secs)"
  by (simp add: FormatRFC3339_def Let_def split_def plain_append_int) (simp add: plain_ascii_def)

end
