(* ===== verification/Sha256.thy ===== *)
theory Sha256
  imports GoStrings
begin

text \<open>
  \<open>crypto/sha256\<close> (FIPS 180-4) on strings of bytes, and \<open>hex.EncodeToString\<close>.  The audit
  log uses both; its lemmas need of the digest only that it is 64 hexadecimal digits.
\<close>

unbundle bit_operations_syntax

text \<open>
  The constants: the first 32 bits of the fractional parts of the cube roots of the first 64
  primes, and of the square roots of the first eight.  \<open>root_floor k n i r\<close> is the largest
  number below \<open>r + 2 ^ i\<close> whose \<open>k\<close>-th power is at most \<open>n\<close>, found bit by bit; the conversion
  to a word keeps the fractional part.
\<close>

primrec root_floor :: "nat \<Rightarrow> nat \<Rightarrow> nat \<Rightarrow> nat \<Rightarrow> nat" where
  "root_floor k n 0 r = r"
| "root_floor k n (Suc i) r = root_floor k n i (if (r + 2 ^ i) ^ k \<le> n then r + 2 ^ i else r)"

definition sha_primes :: "nat list" where
  "sha_primes =
    [2, 3, 5, 7, 11, 13, 17, 19, 23, 29, 31, 37, 41, 43, 47, 53, 59, 61, 67, 71, 73,
     79, 83, 89, 97, 101, 103, 107, 109, 113, 127, 131, 137, 139, 149, 151, 157, 163,
     167, 173, 179, 181, 191, 193, 197, 199, 211, 223, 227, 229, 233, 239, 241, 251,
     257, 263, 269, 271, 277, 281, 283, 293, 307, 311]"

definition sha_k :: "u32 list" where
  "sha_k = map (\<lambda>p. word_of_nat (root_floor 3 (p * 2 ^ 96) 36 0)) sha_primes"

definition sha_h0 :: "u32 list" where
  "sha_h0 = map (\<lambda>p. word_of_nat (root_floor 2 (p * 2 ^ 64) 36 0)) (take 8 sha_primes)"

text \<open>The message with a one bit, zeros, and its length in bits as 8 big-endian bytes.\<close>

definition be_put :: "nat \<Rightarrow> nat \<Rightarrow> byte list" where
  "be_put k n = map (\<lambda>i. of_nat (n div 256 ^ (k - 1 - i))) [0..<k]"

definition sha_pad :: "byte list \<Rightarrow> byte list" where
  "sha_pad m = m @ [0x80] @ replicate ((119 - length m mod 64) mod 64) 0
     @ be_put 8 (8 * length m)"

fun be_words :: "byte list \<Rightarrow> u32 list" where
  "be_words (a # b # c # d # r) =
     (push_bit 24 (ucast a) OR push_bit 16 (ucast b) OR push_bit 8 (ucast c) OR ucast d) # be_words r"
| "be_words _ = []"

definition sha_sig0 :: "u32 \<Rightarrow> u32" where
  "sha_sig0 x = word_rotr 7 x XOR word_rotr 18 x XOR drop_bit 3 x"

definition sha_sig1 :: "u32 \<Rightarrow> u32" where
  "sha_sig1 x = word_rotr 17 x XOR word_rotr 19 x XOR drop_bit 10 x"

text \<open>The schedule grows from the 16 words of a block to 64.\<close>

fun sha_schedule :: "nat \<Rightarrow> u32 list \<Rightarrow> u32 list" where
  "sha_schedule 0 w = w"
| "sha_schedule (Suc n) w =
     (let i = length w in
      sha_schedule n (w @ [sha_sig1 (w ! (i - 2)) + w ! (i - 7) + sha_sig0 (w ! (i - 15)) + w ! (i - 16)]))"

fun sha_round :: "u32 list \<Rightarrow> u32 \<times> u32 \<Rightarrow> u32 list" where
  "sha_round [a, b, c, d, e, f, g, h] (k, w) =
     (let s1 = word_rotr 6 e XOR word_rotr 11 e XOR word_rotr 25 e;
          ch = (e AND f) XOR (NOT e AND g);
          t1 = h + s1 + ch + k + w;
          s0 = word_rotr 2 a XOR word_rotr 13 a XOR word_rotr 22 a;
          maj = (a AND b) XOR (a AND c) XOR (b AND c)
      in [t1 + (s0 + maj), a, b, c, d + t1, e, f, g])"
| "sha_round s _ = s"

definition sha_block :: "u32 list \<Rightarrow> byte list \<Rightarrow> u32 list" where
  "sha_block h bs = map2 (+) h (foldl sha_round h (zip sha_k (sha_schedule 48 (be_words bs))))"

fun sha_blocks :: "nat \<Rightarrow> u32 list \<Rightarrow> byte list \<Rightarrow> u32 list" where
  "sha_blocks 0 h bs = h"
| "sha_blocks (Suc n) h bs = sha_blocks n (sha_block h (take 64 bs)) (drop 64 bs)"

definition sha256 :: "byte list \<Rightarrow> byte list" where
  "sha256 m = (let p = sha_pad m in
     concat (map (\<lambda>w. be_put 4 (unat w)) (sha_blocks (length p div 64) sha_h0 p)))"

definition EncodeToString :: "byte list \<Rightarrow> string" where
  "EncodeToString bs = concat (map (\<lambda>b. [hex_digit (unat b div 16), hex_digit (unat b mod 16)]) bs)"

definition sha256_hex :: "string \<Rightarrow> string" where
  "sha256_hex s = EncodeToString (sha256 (bytes_of_string s))"

lemma length_sha_round: "length s = 8 \<Longrightarrow> length (sha_round s kw) = 8"
  by (cases "(s, kw)" rule: sha_round.cases) (auto simp: Let_def)

lemma length_sha_rounds: "length s = 8 \<Longrightarrow> length (foldl sha_round s kws) = 8"
  by (induction kws arbitrary: s) (simp_all add: length_sha_round)

lemma length_sha_blocks: "length h = 8 \<Longrightarrow> length (sha_blocks n h bs) = 8"
  by (induction n arbitrary: h bs) (simp_all add: sha_block_def length_sha_rounds)

lemma length_sha256: "length (sha256 m) = 32"
proof -
  have "length (concat (map (\<lambda>w. be_put 4 (unat (w :: u32))) ws)) = 4 * length ws" for ws
    by (induction ws) (simp_all add: be_put_def)
  then show ?thesis by (simp add: sha256_def Let_def length_sha_blocks sha_h0_def sha_primes_def)
qed

lemma length_EncodeToString: "length (EncodeToString bs) = 2 * length bs"
  by (induction bs) (simp_all add: EncodeToString_def)

lemma length_sha256_hex [simp]: "length (sha256_hex s) = 64"
  by (simp add: sha256_hex_def length_EncodeToString length_sha256)

definition is_hex :: "char \<Rightarrow> bool" where
  "is_hex c \<longleftrightarrow> is_digit c \<or> 97 \<le> (of_char c :: nat) \<and> (of_char c :: nat) \<le> 102"

lemma is_hex_hex_digit: "n < 16 \<Longrightarrow> is_hex (hex_digit n)"
  by (auto simp: is_hex_def is_digit_def hex_digit_def)

lemma is_hex_sha256: "list_all is_hex (sha256_hex s)"
proof -
  have "unat (b :: byte) div 16 < 16" for b
    using unsigned_less [of b, where 'a = nat] by (simp add: less_mult_imp_div_less)
  then have "list_all is_hex (EncodeToString bs)" for bs
    by (induction bs) (simp_all add: EncodeToString_def is_hex_hex_digit)
  then show ?thesis by (simp add: sha256_hex_def)
qed

end
