(* ===== verification/AuditLog.thy ===== *)
theory AuditLog
  imports GoMarshal GoOs GoTime Sha256
begin

text \<open>
  The hash-chained audit log of \<open>internal/audit/audit.go\<close>: entries are JSON objects, one per
  line; each holds the hash of its fields and of the hash before it.
\<close>

section \<open>Entries\<close>

record Entry =
  eTimestamp :: string
  eEventType :: string
  eComm :: string
  eDetail :: string
  ePID :: u32
  eThreatScore :: int
  eTier :: string
  eReason :: string
  eActionTaken :: string
  ePrevHash :: string
  eHash :: string

definition zero_entry :: Entry where
  "zero_entry = \<lparr>eTimestamp = [], eEventType = [], eComm = [], eDetail = [], ePID = 0,
     eThreatScore = 0, eTier = [], eReason = [], eActionTaken = [], ePrevHash = [], eHash = []\<rparr>"

text \<open>\<open>json.Marshal\<close>: \<open>threat_score\<close> and \<open>action_taken\<close> are left out when they are zero.\<close>

definition entry_fields :: "Entry \<Rightarrow> (string \<times> scalar) list" where
  "entry_fields e =
     [(''timestamp'', SStr (eTimestamp e)), (''event_type'', SStr (eEventType e)),
      (''comm'', SStr (eComm e)), (''detail'', SStr (eDetail e)), (''pid'', SInt (int (unat (ePID e))))]
     @ (if eThreatScore e = 0 then [] else [(''threat_score'', SInt (eThreatScore e))])
     @ [(''tier'', SStr (eTier e)), (''reason'', SStr (eReason e))]
     @ (if eActionTaken e = [] then [] else [(''action_taken'', SStr (eActionTaken e))])
     @ [(''prev_hash'', SStr (ePrevHash e)), (''hash'', SStr (eHash e))]"

definition marshal_entry :: "Entry \<Rightarrow> string" where
  "marshal_entry e = object_text (entry_fields e)"

definition set_entry :: "string \<Rightarrow> json \<Rightarrow> Entry \<Rightarrow> Entry option" where
  "set_entry k v e =
    (if names_field k ''timestamp'' then map_option (\<lambda>x. e\<lparr>eTimestamp := x\<rparr>) (to_string (eTimestamp e) v)
     else if names_field k ''event_type'' then map_option (\<lambda>x. e\<lparr>eEventType := x\<rparr>) (to_string (eEventType e) v)
     else if names_field k ''comm'' then map_option (\<lambda>x. e\<lparr>eComm := x\<rparr>) (to_string (eComm e) v)
     else if names_field k ''detail'' then map_option (\<lambda>x. e\<lparr>eDetail := x\<rparr>) (to_string (eDetail e) v)
     else if names_field k ''pid'' then map_option (\<lambda>x. e\<lparr>ePID := x\<rparr>) (to_uint32 (ePID e) v)
     else if names_field k ''threat_score'' then
       map_option (\<lambda>x. e\<lparr>eThreatScore := x\<rparr>) (to_int (eThreatScore e) v)
     else if names_field k ''tier'' then map_option (\<lambda>x. e\<lparr>eTier := x\<rparr>) (to_string (eTier e) v)
     else if names_field k ''reason'' then map_option (\<lambda>x. e\<lparr>eReason := x\<rparr>) (to_string (eReason e) v)
     else if names_field k ''action_taken'' then
       map_option (\<lambda>x. e\<lparr>eActionTaken := x\<rparr>) (to_string (eActionTaken e) v)
     else if names_field k ''prev_hash'' then map_option (\<lambda>x. e\<lparr>ePrevHash := x\<rparr>) (to_string (ePrevHash e) v)
     else if names_field k ''hash'' then map_option (\<lambda>x. e\<lparr>eHash := x\<rparr>) (to_string (eHash e) v)
     else Some e)"

definition unmarshal_entry :: "string \<Rightarrow> Entry option" where
  "unmarshal_entry line = Option.bind (json_parse line) (to_struct set_entry zero_entry)"

text \<open>The text that is hashed: every field but the hash, separated by bars.\<close>

definition raw_text :: "Entry \<Rightarrow> string" where
  "raw_text e = Join [eTimestamp e, eEventType e, eComm e, eDetail e, dec (unat (ePID e)),
     fmt_d (eThreatScore e), eTier e, eReason e, eActionTaken e, ePrevHash e] ''|''"

definition computeHash :: "Entry \<Rightarrow> string" where
  "computeHash e = sha256_hex (raw_text e)"

section \<open>Lines\<close>

text \<open>\<open>cur\<close> is \<open>data[start:i]\<close>, backwards.\<close>

fun lines_from :: "string \<Rightarrow> string \<Rightarrow> string list" where
  "lines_from cur [] = (if cur = [] then [] else [rev cur])"
| "lines_from cur (b # data) =
     (if b = CHR 0x0A then rev cur # lines_from [] data else lines_from (b # cur) data)"

definition splitLines :: "string \<Rightarrow> string list" where
  "splitLines data = lines_from [] data"

text \<open>The loop of \<open>loadLastHash\<close>, with \<open>lastLine\<close>.\<close>

fun last_line :: "string \<Rightarrow> string \<Rightarrow> string \<Rightarrow> string" where
  "last_line lastLine cur [] = (if cur = [] then lastLine else rev cur)"
| "last_line lastLine cur (b # data) =
     (if b = CHR 0x0A then last_line (if cur = [] then lastLine else rev cur) [] data
      else last_line lastLine (b # cur) data)"

section \<open>The logger\<close>

record Logger =
  lFilePath :: string
  lastHash :: string

definition loadLastHash :: "fs \<Rightarrow> Logger \<Rightarrow> Logger" where
  "loadLastHash files l =
    (case ReadFile files (lFilePath l) of
       Inl err \<Rightarrow> l
     | Inr data \<Rightarrow>
        (let lastLine = last_line [] [] data in
         if data = [] \<or> lastLine = [] then l
         else (case unmarshal_entry lastLine of
                 None \<Rightarrow> l
               | Some e \<Rightarrow> if eHash e = [] then l else l\<lparr>lastHash := eHash e\<rparr>)))"

definition NewLogger :: "fs \<Rightarrow> string \<Rightarrow> Logger" where
  "NewLogger files path = loadLastHash files \<lparr>lFilePath = path, lastHash = ''genesis''\<rparr>"

text \<open>The arguments of one call of \<open>Log\<close>.\<close>

record log_args =
  aEventType :: string
  aComm :: string
  aDetail :: string
  aPID :: u32
  aScore :: int
  aTier :: string
  aReason :: string
  aAction :: string

definition new_entry :: "int \<Rightarrow> log_args \<Rightarrow> string \<Rightarrow> Entry" where
  "new_entry now a prev =
    (let e = \<lparr>eTimestamp = FormatRFC3339 now, eEventType = aEventType a, eComm = aComm a,
              eDetail = aDetail a, ePID = aPID a, eThreatScore = aScore a, eTier = aTier a,
              eReason = aReason a, eActionTaken = aAction a, ePrevHash = prev, eHash = []\<rparr>
     in e\<lparr>eHash := computeHash e\<rparr>)"

text \<open>
  \<open>now\<close> is the time of the call in seconds and \<open>out\<close> what the write comes to.  The chain
  moves on before the line is written.
\<close>

definition Log :: "int \<Rightarrow> write_outcome \<Rightarrow> log_args \<Rightarrow> Logger \<Rightarrow> fs \<Rightarrow> Logger \<times> fs \<times> file_error option" where
  "Log now out a l files =
    (let e = new_entry now a (lastHash l) in
     (l\<lparr>lastHash := eHash e\<rparr>,
      AppendFile out files (lFilePath l) (marshal_entry e @ [CHR 0x0A]),
      write_error out))"

section \<open>VerifyChain\<close>

datatype verify_error =
    Unreadable file_error
  | Malformed nat
  | ChainBroken nat string string
  | HashMismatch nat

text \<open>The loop, with \<open>prevHash\<close> and \<open>count\<close>; an empty line is skipped.\<close>

fun verify_lines :: "string list \<Rightarrow> string \<Rightarrow> nat \<Rightarrow> bool \<times> nat \<times> verify_error option" where
  "verify_lines [] prevHash count = (True, count, None)"
| "verify_lines (line # lines) prevHash count =
     (if line = [] then verify_lines lines prevHash count
      else case unmarshal_entry line of
        None \<Rightarrow> (False, count, Some (Malformed (count + 1)))
      | Some e \<Rightarrow>
          if ePrevHash e \<noteq> prevHash then
            (False, count, Some (ChainBroken (count + 1) prevHash (ePrevHash e)))
          else if computeHash (e\<lparr>eHash := []\<rparr>) \<noteq> eHash e then
            (False, count, Some (HashMismatch (count + 1)))
          else verify_lines lines (eHash e) (count + 1))"

definition VerifyChain :: "fs \<Rightarrow> string \<Rightarrow> bool \<times> nat \<times> verify_error option" where
  "VerifyChain files path =
    (case ReadFile files path of
       Inl err \<Rightarrow> (False, 0, Some (Unreadable err))
     | Inr data \<Rightarrow> verify_lines (splitLines data) ''genesis'' 0)"

section \<open>Lines and entries\<close>

lemma computeHash_frame [simp]: "computeHash (e\<lparr>eHash := h\<rparr>) = computeHash e"
  by (simp add: computeHash_def raw_text_def)

lemma lines_from_line:
  "CHR 0x0A \<notin> set l \<Longrightarrow> lines_from cur (l @ CHR 0x0A # r) = (rev cur @ l) # lines_from [] r"
  by (induction l arbitrary: cur) auto

lemma lines_from_append:
  "lines_from cur (s @ CHR 0x0A # r) = lines_from cur (s @ [CHR 0x0A]) @ lines_from [] r"
  by (induction s arbitrary: cur) auto

text \<open>A log: every entry's line ends in a newline.\<close>

definition log_text :: "Entry list \<Rightarrow> string" where
  "log_text es = concat (map (\<lambda>e. marshal_entry e @ [CHR 0x0A]) es)"

lemma log_text_append [simp]: "log_text (es @ [e]) = log_text es @ marshal_entry e @ [CHR 0x0A]"
  by (simp add: log_text_def)

lemma splitLines_log_append: "splitLines (log_text es @ x) = map marshal_entry es @ splitLines x"
proof (induction es)
  case (Cons e es)
  have "CHR 0x0A \<notin> set (marshal_entry e)"
    by (simp add: marshal_entry_def object_text_no_newline)
  then show ?case
    using Cons by (simp add: splitLines_def log_text_def lines_from_line [where cur = "[]", simplified])
qed (simp add: log_text_def)

lemma splitLines_log: "splitLines (log_text es) = map marshal_entry es"
  using splitLines_log_append [of es "[]"] by (simp add: splitLines_def)

lemma last_line_line:
  "CHR 0x0A \<notin> set l \<Longrightarrow> last_line x cur (l @ CHR 0x0A # r)
     = last_line (if rev cur @ l = [] then x else rev cur @ l) [] r"
  by (induction l arbitrary: cur) auto

lemma marshal_entry_nonempty [simp]: "marshal_entry e \<noteq> []"
  by (simp add: marshal_entry_def object_text_def)

lemma last_line_log: "last_line x [] (log_text es) = (if es = [] then x else marshal_entry (last es))"
proof (induction es arbitrary: x)
  case (Cons e es)
  have "CHR 0x0A \<notin> set (marshal_entry e)"
    by (simp add: marshal_entry_def object_text_no_newline)
  then show ?case
    using Cons by (simp add: log_text_def last_line_line)
qed (simp add: log_text_def)

text \<open>An entry comes back from its line with its strings sanitized.\<close>

definition clean_entry :: "Entry \<Rightarrow> Entry" where
  "clean_entry e = e\<lparr>eTimestamp := sanitize (eTimestamp e), eEventType := sanitize (eEventType e),
     eComm := sanitize (eComm e), eDetail := sanitize (eDetail e), eTier := sanitize (eTier e),
     eReason := sanitize (eReason e), eActionTaken := sanitize (eActionTaken e),
     ePrevHash := sanitize (ePrevHash e), eHash := sanitize (eHash e)\<rparr>"

lemma entry_name_simps:
  "fold_name ''timestamp'' = ''TIMESTAMP''" "fold_name ''event_type'' = ''EVENT_TYPE''"
  "fold_name ''comm'' = ''COMM''" "fold_name ''detail'' = ''DETAIL''" "fold_name ''pid'' = ''PID''"
  "fold_name ''threat_score'' = ''THREAT_SCORE''" "fold_name ''tier'' = ''TIER''"
  "fold_name ''reason'' = ''REASON''" "fold_name ''action_taken'' = ''ACTION_TAKEN''"
  "fold_name ''prev_hash'' = ''PREV_HASH''" "fold_name ''hash'' = ''HASH''"
  by (simp_all add: to_upper_def char_of_def bit_iff_odd)

lemma entry_name_ascii:
  "sanitize ''timestamp'' = ''timestamp''" "sanitize ''event_type'' = ''event_type''"
  "sanitize ''comm'' = ''comm''" "sanitize ''detail'' = ''detail''" "sanitize ''pid'' = ''pid''"
  "sanitize ''threat_score'' = ''threat_score''" "sanitize ''tier'' = ''tier''"
  "sanitize ''reason'' = ''reason''" "sanitize ''action_taken'' = ''action_taken''"
  "sanitize ''prev_hash'' = ''prev_hash''" "sanitize ''hash'' = ''hash''"
  by (rule sanitize_ascii_name, simp)+

lemma set_members_append:
  "set_members upd (xs @ ys) r = Option.bind (set_members upd xs r) (set_members upd ys)"
  by (induction xs arbitrary: r) (auto split: option.splits)

lemma set_entry_simps:
  "set_entry ''timestamp'' (JStr s) e = Some (e\<lparr>eTimestamp := s\<rparr>)"
  "set_entry ''event_type'' (JStr s) e = Some (e\<lparr>eEventType := s\<rparr>)"
  "set_entry ''comm'' (JStr s) e = Some (e\<lparr>eComm := s\<rparr>)"
  "set_entry ''detail'' (JStr s) e = Some (e\<lparr>eDetail := s\<rparr>)"
  "set_entry ''pid'' v e = map_option (\<lambda>x. e\<lparr>ePID := x\<rparr>) (to_uint32 (ePID e) v)"
  "set_entry ''threat_score'' v e = map_option (\<lambda>x. e\<lparr>eThreatScore := x\<rparr>) (to_int (eThreatScore e) v)"
  "set_entry ''tier'' (JStr s) e = Some (e\<lparr>eTier := s\<rparr>)"
  "set_entry ''reason'' (JStr s) e = Some (e\<lparr>eReason := s\<rparr>)"
  "set_entry ''action_taken'' (JStr s) e = Some (e\<lparr>eActionTaken := s\<rparr>)"
  "set_entry ''prev_hash'' (JStr s) e = Some (e\<lparr>ePrevHash := s\<rparr>)"
  "set_entry ''hash'' (JStr s) e = Some (e\<lparr>eHash := s\<rparr>)"
  by (simp_all add: set_entry_def names_field_def entry_name_simps to_string_def del: fold_name.simps)

lemma unmarshal_marshal:
  assumes "- (2 ^ 63) \<le> eThreatScore e" and "eThreatScore e < 2 ^ 63"
  shows "unmarshal_entry (marshal_entry e) = Some (clean_entry e)"
proof -
  have "json_parse (marshal_entry e) = Some (JObj (object_members (entry_fields e)))"
    unfolding marshal_entry_def by (rule json_parse_object) (simp add: entry_fields_def)
  moreover have "set_members set_entry (object_members (entry_fields e)) zero_entry = Some (clean_entry e)"
    using assms
    by (cases "eThreatScore e = 0"; cases "eActionTaken e = []")
      (simp_all add: entry_fields_def object_members_def entry_name_ascii set_entry_simps
        to_uint32_fmt_d [simplified] to_int_fmt_d zero_entry_def clean_entry_def)
  ultimately show ?thesis by (simp add: unmarshal_entry_def to_struct_def)
qed

text \<open>Entries the agent can write without loss.\<close>

definition clean_args :: "log_args \<Rightarrow> bool" where
  "clean_args a \<longleftrightarrow> valid_utf8 (aEventType a) \<and> valid_utf8 (aComm a) \<and> valid_utf8 (aDetail a)
     \<and> valid_utf8 (aTier a) \<and> valid_utf8 (aReason a) \<and> valid_utf8 (aAction a)
     \<and> - (2 ^ 63) \<le> aScore a \<and> aScore a < 2 ^ 63"

text \<open>The hash a chain ends with, and what makes a list of entries a chain.\<close>

definition chain_end :: "string \<Rightarrow> Entry list \<Rightarrow> string" where
  "chain_end prev es = (if es = [] then prev else eHash (last es))"

fun chained :: "string \<Rightarrow> Entry list \<Rightarrow> bool" where
  "chained prev [] = True"
| "chained prev (e # es) \<longleftrightarrow> ePrevHash e = prev \<and> computeHash e = eHash e \<and> chained (eHash e) es"

lemma chain_end_simps [simp]:
  "chain_end prev [] = prev" "chain_end prev (e # es) = chain_end (eHash e) es"
  "chain_end prev (es @ [e]) = eHash e"
  by (simp_all add: chain_end_def)

lemma chained_append: "chained prev (es @ fs) \<longleftrightarrow> chained prev es \<and> chained (chain_end prev es) fs"
  by (induction es arbitrary: prev) auto

text \<open>\<open>verify_lines\<close> accepts exactly the lines that read as a chain.\<close>

lemma verify_lines_iff:
  "(\<exists>n. verify_lines ls prev k = (True, n, None)) \<longleftrightarrow>
     (\<exists>es. map unmarshal_entry (filter (\<lambda>l. l \<noteq> []) ls) = map Some es \<and> chained prev es)"
proof (induction ls arbitrary: prev k)
  case (Cons l ls)
  show ?case
  proof (cases "l = []")
    case False
    show ?thesis
    proof (cases "unmarshal_entry l")
      case (Some e)
      then show ?thesis
        using False Cons.IH [of "eHash e" "k + 1"]
        by (auto simp: Cons_eq_map_conv)
    qed (use False in \<open>auto simp: Cons_eq_map_conv\<close>)
  qed (use Cons in simp)
qed simp

lemma verify_append:
  "map unmarshal_entry ls = map Some es \<Longrightarrow> [] \<notin> set ls \<Longrightarrow> chained prev es \<Longrightarrow>
     verify_lines (ls @ ms) prev k = verify_lines ms (chain_end prev es) (k + length es)"
proof (induction ls arbitrary: es prev k)
  case (Cons l ls)
  then obtain e es' where es: "es = e # es'" by (cases es) auto
  with Cons show ?case by auto
qed simp

lemma verify_chain:
  "map unmarshal_entry ls = map Some es \<Longrightarrow> [] \<notin> set ls \<Longrightarrow> chained prev es \<Longrightarrow>
     verify_lines ls prev k = (True, k + length es, None)"
  using verify_append [of ls es prev "[]" k] by simp

section \<open>Writing a log\<close>

definition plain_entry :: "Entry \<Rightarrow> bool" where
  "plain_entry e \<longleftrightarrow> clean_entry e = e \<and> - (2 ^ 63) \<le> eThreatScore e \<and> eThreatScore e < 2 ^ 63"

lemma unmarshal_plain: "plain_entry e \<Longrightarrow> unmarshal_entry (marshal_entry e) = Some e"
  using unmarshal_marshal [of e] by (simp add: plain_entry_def)

lemma unmarshal_plain_list:
  "list_all plain_entry es \<Longrightarrow> map unmarshal_entry (map marshal_entry es) = map Some es"
  by (induction es) (simp_all add: unmarshal_plain)

lemma sanitize_sha256 [simp]: "sanitize (sha256_hex s) = sha256_hex s"
  by (rule sanitize_ascii_name)
    (use is_hex_sha256 [of s] in \<open>auto simp: list_all_iff is_hex_def is_digit_def\<close>)

lemma sanitize_RFC3339 [simp]: "sanitize (FormatRFC3339 now) = FormatRFC3339 now"
  by (rule sanitize_ascii_name)
    (use plain_FormatRFC3339 [of now] in \<open>auto simp: list_all_iff plain_ascii_def is_digit_def\<close>)

lemma plain_new_entry:
  "clean_args a \<Longrightarrow> sanitize prev = prev \<Longrightarrow> plain_entry (new_entry now a prev)"
  by (simp add: plain_entry_def new_entry_def clean_args_def clean_entry_def sanitize_valid
      computeHash_def Let_def)

lemma new_entry_hash [simp]:
  "ePrevHash (new_entry now a prev) = prev"
  "computeHash (new_entry now a prev) = eHash (new_entry now a prev)"
  by (simp_all add: new_entry_def Let_def) (simp add: computeHash_def raw_text_def)

text \<open>The logger and its file agree on a log of \<open>es\<close>.\<close>

definition synced :: "Logger \<times> fs \<Rightarrow> Entry list \<Rightarrow> bool" where
  "synced s es \<longleftrightarrow>
     (ReadFile (snd s) (lFilePath (fst s)) = Inr (log_text es)
       \<or> es = [] \<and> ReadFile (snd s) (lFilePath (fst s)) = Inl NotExist)
     \<and> lastHash (fst s) = chain_end ''genesis'' es
     \<and> chained ''genesis'' es \<and> list_all plain_entry es"

lemma sanitize_chain_end: "list_all plain_entry es \<Longrightarrow>
    sanitize (chain_end ''genesis'' es) = chain_end ''genesis'' es"
proof (cases es rule: rev_cases)
  case (snoc es' e)
  moreover assume "list_all plain_entry es"
  ultimately have "clean_entry e = e" by (simp add: plain_entry_def)
  then have "eHash (clean_entry e) = eHash e" by simp
  then show ?thesis by (simp add: snoc clean_entry_def)
qed (simp add: sanitize_ascii_name)

definition log_written :: "int \<times> log_args \<Rightarrow> Logger \<times> fs \<Rightarrow> Logger \<times> fs" where
  "log_written c s = (case Log (fst c) Written (snd c) (fst s) (snd s) of (l, files, err) \<Rightarrow> (l, files))"

definition restart_logger :: "Logger \<times> fs \<Rightarrow> Logger \<times> fs" where
  "restart_logger s = (NewLogger (snd s) (lFilePath (fst s)), snd s)"

lemma synced_log:
  assumes "synced s es" and "clean_args (snd c)"
  shows "synced (log_written c s) (es @ [new_entry (fst c) (snd c) (chain_end ''genesis'' es)])"
proof -
  have "sanitize (chain_end ''genesis'' es) = chain_end ''genesis'' es"
    using assms(1) by (intro sanitize_chain_end) (simp add: synced_def)
  then have "plain_entry (new_entry (fst c) (snd c) (chain_end ''genesis'' es))"
    by (rule plain_new_entry [OF assms(2)])
  then show ?thesis
    using assms(1)
    by (auto simp: synced_def log_written_def Log_def Let_def chained_append ReadFile_def log_text_def)
qed

lemma synced_restart: "synced s es \<Longrightarrow> synced (restart_logger s) es"
proof (cases es rule: rev_cases)
  case Nil
  assume "synced s es"
  with Nil show ?thesis
    by (auto simp: synced_def restart_logger_def NewLogger_def loadLastHash_def log_text_def Let_def)
next
  case (snoc es' e)
  assume s: "synced s es"
  then have f: "ReadFile (snd s) (lFilePath (fst s)) = Inr (log_text es)"
    and u: "unmarshal_entry (marshal_entry e) = Some e"
    using snoc by (auto simp: synced_def unmarshal_plain)
  have "eHash e \<noteq> []"
  proof -
    have "eHash e = computeHash e" using s snoc by (simp add: synced_def chained_append)
    then have "length (eHash e) = 64" by (simp add: computeHash_def)
    then show ?thesis by auto
  qed
  moreover have "last_line [] [] (log_text es) = marshal_entry e"
    using last_line_log [of "[]" es] by (simp add: snoc del: log_text_append)
  moreover have "log_text es \<noteq> []" by (simp add: snoc)
  ultimately have "NewLogger (snd s) (lFilePath (fst s)) = \<lparr>lFilePath = lFilePath (fst s), lastHash = eHash e\<rparr>"
    using f u by (simp add: NewLogger_def loadLastHash_def Let_def)
  then show ?thesis using s snoc by (simp add: synced_def restart_logger_def)
qed

lemma verify_log:
  assumes "ReadFile files path = Inr (log_text es)"
    and "list_all plain_entry es" and "chained ''genesis'' es"
  shows "VerifyChain files path = (True, length es, None)"
proof -
  have "verify_lines (map marshal_entry es) ''genesis'' 0 = (True, 0 + length es, None)"
    using assms by (intro verify_chain unmarshal_plain_list) (auto dest: sym)
  then show ?thesis using assms(1) by (simp add: VerifyChain_def splitLines_log)
qed

lemma verify_breaks:
  assumes "ReadFile files path = Inr (log_text es @ log_text [f] @ x)"
    and "list_all plain_entry es" and "chained ''genesis'' es" and "plain_entry f"
    and "ePrevHash f \<noteq> chain_end ''genesis'' es"
  shows "VerifyChain files path
    = (False, length es, Some (ChainBroken (length es + 1) (chain_end ''genesis'' es) (ePrevHash f)))"
proof -
  have "splitLines (log_text es @ log_text [f] @ x) = map marshal_entry es @ marshal_entry f # splitLines x"
    using splitLines_log_append [of "[f]" x] by (simp add: splitLines_log_append)
  moreover have "map unmarshal_entry (map marshal_entry es) = map Some es" "[] \<notin> set (map marshal_entry es)"
    using unmarshal_plain_list [OF assms(2)] by (auto dest: sym)
  ultimately show ?thesis
    using verify_append [of "map marshal_entry es" es] unmarshal_plain [OF assms(4)] assms(3,5)
    by (simp add: VerifyChain_def assms(1))
qed

lemma synced_verify: "synced s es \<Longrightarrow> es \<noteq> [] \<Longrightarrow>
    VerifyChain (snd s) (lFilePath (fst s)) = (True, length es, None)"
  by (intro verify_log) (auto simp: synced_def)

section \<open>The contract of a log\<close>

text \<open>
  What the agent relies on: the log stays verifiable whatever is logged and however often
  the agent is started again.  An operation is a call or, as \<open>None\<close>, a restart.
\<close>

primrec run_log :: "('a \<Rightarrow> 's \<Rightarrow> 's) \<Rightarrow> ('s \<Rightarrow> 's) \<Rightarrow> 'a option list \<Rightarrow> 's \<Rightarrow> 's" where
  "run_log log restart [] s = s"
| "run_log log restart (c # cs) s =
     run_log log restart cs (case c of None \<Rightarrow> restart s | Some a \<Rightarrow> log a s)"

definition calls :: "'a option list \<Rightarrow> nat" where
  "calls cs = length (filter (\<lambda>c. c \<noteq> None) cs)"

locale verifiable_log =
  fixes log :: "'a \<Rightarrow> 's \<Rightarrow> 's" and restart :: "'s \<Rightarrow> 's"
    and ok :: "'a \<Rightarrow> bool" and holds :: "'s \<Rightarrow> nat \<Rightarrow> bool"
  assumes log_holds: "holds s n \<Longrightarrow> ok a \<Longrightarrow> holds (log a s) (Suc n)"
    and restart_holds: "holds s n \<Longrightarrow> holds (restart s) n"
begin

lemma run_holds:
  "holds s n \<Longrightarrow> \<forall>a. Some a \<in> set cs \<longrightarrow> ok a \<Longrightarrow> holds (run_log log restart cs s) (n + calls cs)"
proof (induction cs arbitrary: s n)
  case (Cons c cs)
  then show ?case
  proof (cases c)
    case None
    then show ?thesis using Cons restart_holds by (simp add: calls_def)
  next
    case (Some a)
    then have "holds (log a s) (Suc n)" using Cons.prems log_holds by simp
    then have "holds (run_log log restart cs (log a s)) (Suc n + calls cs)"
      using Cons.prems by (intro Cons.IH) simp_all
    then show ?thesis using Some by (simp add: calls_def)
  qed
qed (simp add: calls_def)

end

interpretation au: verifiable_log log_written restart_logger "\<lambda>c. clean_args (snd c)"
    "\<lambda>s n. \<exists>es. length es = n \<and> synced s es"
  by unfold_locales (metis length_append_singleton synced_log, blast intro: synced_restart)

lemma run_log_path: "lFilePath (fst (run_log log_written restart_logger cs s)) = lFilePath (fst s)"
proof (induction cs arbitrary: s)
  case (Cons c cs)
  have "lFilePath (fst (log_written a s)) = lFilePath (fst s)" for a
    by (simp add: log_written_def Log_def Let_def)
  moreover have "lFilePath (fst (restart_logger s)) = lFilePath (fst s)"
    by (auto simp: restart_logger_def NewLogger_def loadLastHash_def Let_def split: sum.split option.split)
  ultimately show ?case using Cons by (simp split: option.split)
qed simp

text \<open>The agent only appends.\<close>

lemma run_log_appends:
  "ReadFile (snd s) (lFilePath (fst s)) = Inr d \<Longrightarrow>
     \<exists>x. ReadFile (snd (run_log log_written restart_logger cs s)) (lFilePath (fst s)) = Inr (d @ x)"
proof (induction cs arbitrary: s d)
  case (Cons c cs)
  define s' where "s' = (case c of None \<Rightarrow> restart_logger s | Some a \<Rightarrow> log_written a s)"
  have p: "lFilePath (fst s') = lFilePath (fst s)"
    using run_log_path [of "[c]" s] by (simp add: s'_def)
  obtain y where "ReadFile (snd s') (lFilePath (fst s')) = Inr (d @ y)"
    using Cons.prems unfolding p
    by (cases c) (auto simp: s'_def restart_logger_def log_written_def Log_def Let_def ReadFile_def)
  from Cons.IH [OF this] show ?case by (auto simp: s'_def [symmetric] p)
qed simp

section \<open>What tampering leaves behind\<close>

definition log_entries :: "string \<Rightarrow> Entry list option" where
  "log_entries data = those (map unmarshal_entry (filter (\<lambda>l. l \<noteq> []) (splitLines data)))"

lemma those_map: "those xs = Some ys \<longleftrightarrow> xs = map Some ys"
  by (induction xs arbitrary: ys) (auto split: option.splits simp: Cons_eq_map_conv)

lemma verify_accepts_iff: "(\<exists>n. VerifyChain files path = (True, n, None)) \<longleftrightarrow>
    (\<exists>data es. ReadFile files path = Inr data \<and> log_entries data = Some es \<and> chained ''genesis'' es)"
  by (auto simp: VerifyChain_def log_entries_def those_map verify_lines_iff split: sum.split)

text \<open>The previous hash is the end of the hashed text, behind the last bar.\<close>

lemma split_last_bar:
  assumes "x @ ''|'' @ p = y @ ''|'' @ q" and "CHR ''|'' \<notin> set p" and "CHR ''|'' \<notin> set q"
  shows "p = q"
proof -
  have "takeWhile (\<lambda>c. c \<noteq> CHR ''|'') (rev (z @ ''|'' @ r)) = rev r" if "CHR ''|'' \<notin> set r" for z r
    using that by (auto simp: takeWhile_tail)
  from this [OF assms(2), of x] this [OF assms(3), of y] have "rev p = rev q"
    unfolding assms(1) by (rule trans [OF sym])
  then show ?thesis by simp
qed

lemma raw_text_prev: "\<exists>x. raw_text e = x @ ''|'' @ ePrevHash e"
  by (simp add: raw_text_def)

lemma no_bar: "CHR ''|'' \<notin> set (sha256_hex s)" "CHR ''|'' \<notin> set ''genesis''"
  using is_hex_sha256 [of s] by (auto simp: list_all_iff is_hex_def is_digit_def)

lemma chain_end_hash: "chained ''genesis'' es \<Longrightarrow>
    chain_end ''genesis'' es = ''genesis'' \<and> es = [] \<or>
    (\<exists>r. chain_end ''genesis'' es = sha256_hex r \<and> es \<noteq> [])"
  by (cases es rule: rev_cases) (auto simp: chained_append computeHash_def dest: sym)

lemma hash_not_genesis: "sha256_hex r \<noteq> ''genesis''"
proof
  assume "sha256_hex r = ''genesis''"
  then have "length (sha256_hex r) = length ''genesis''" by (rule arg_cong)
  then show False by simp
qed

lemma same_end_same_raw:
  "chained ''genesis'' es \<Longrightarrow> chained ''genesis'' fs \<Longrightarrow>
     chain_end ''genesis'' es = chain_end ''genesis'' fs \<Longrightarrow>
     map raw_text es = map raw_text fs
     \<or> (\<exists>x \<in> raw_text ` set es. \<exists>y \<in> raw_text ` set fs. x \<noteq> y \<and> sha256_hex x = sha256_hex y)"
proof (induction es arbitrary: fs rule: rev_induct)
  case Nil
  then have "chain_end ''genesis'' fs = ''genesis''" by simp
  then have "fs = []" using chain_end_hash [OF Nil(2)] hash_not_genesis by metis
  then show ?case by simp
next
  case (snoc e es)
  show ?case
  proof (cases fs rule: rev_cases)
    case Nil
    then have "chain_end ''genesis'' (es @ [e]) = ''genesis''" using snoc.prems(3) by simp
    then show ?thesis using chain_end_hash [OF snoc.prems(1)] hash_not_genesis
      by (metis snoc_eq_iff_butlast)
  next
    case fs: (snoc fs' f)
    have h: "sha256_hex (raw_text e) = sha256_hex (raw_text f)"
      using snoc.prems by (simp add: fs chained_append computeHash_def)
    show ?thesis
    proof (cases "raw_text e = raw_text f")
      case True
      have "ePrevHash e = chain_end ''genesis'' es" "ePrevHash f = chain_end ''genesis'' fs'"
        using snoc.prems by (simp_all add: fs chained_append)
      moreover have "CHR ''|'' \<notin> set (chain_end ''genesis'' es)" "CHR ''|'' \<notin> set (chain_end ''genesis'' fs')"
        using snoc.prems chain_end_hash [of es] chain_end_hash [of fs'] no_bar
        by (auto simp: fs chained_append)
      moreover obtain x y where "raw_text e = x @ ''|'' @ ePrevHash e" "raw_text f = y @ ''|'' @ ePrevHash f"
        using raw_text_prev by blast
      ultimately have "chain_end ''genesis'' es = chain_end ''genesis'' fs'"
        using True split_last_bar by metis
      then have "map raw_text es = map raw_text fs'
          \<or> (\<exists>x \<in> raw_text ` set es. \<exists>y \<in> raw_text ` set fs'. x \<noteq> y \<and> sha256_hex x = sha256_hex y)"
        using snoc.prems by (intro snoc.IH) (simp_all add: fs chained_append)
      then show ?thesis using True by (auto simp: fs)
    next
      case False
      then show ?thesis using h by (auto simp: fs)
    qed
  qed
qed

section \<open>Properties\<close>

text \<open>
  C11: A log the agent writes verifies: from a missing file, whatever is logged and however
  often the agent is started again, \<open>VerifyChain\<close> accepts the file and counts the calls,
  provided the writes succeed and the strings are valid UTF-8.
\<close>

theorem log_verifies:
  assumes "ReadFile files path = Inl NotExist"
    and "\<forall>c. Some c \<in> set ops \<longrightarrow> clean_args (snd c)" and "0 < calls ops"
  shows "VerifyChain (snd (run_log log_written restart_logger ops (NewLogger files path, files))) path
     = (True, calls ops, None)"
proof -
  let ?s0 = "(NewLogger files path, files)"
  have l0: "NewLogger files path = \<lparr>lFilePath = path, lastHash = ''genesis''\<rparr>"
    using assms(1) by (simp add: NewLogger_def loadLastHash_def)
  then have "synced ?s0 []" using assms(1) by (simp add: synced_def)
  then obtain es where "length es = 0 + calls ops" and "synced (run_log log_written restart_logger ops ?s0) es"
    using au.run_holds [where s = ?s0 and n = 0 and cs = ops] assms(2) by auto
  moreover from this(1) assms(3) have "es \<noteq> []" by auto
  ultimately show ?thesis
    using synced_verify [of "run_log log_written restart_logger ops ?s0" es]
    by (simp add: run_log_path l0)
qed

definition demo_call :: "int \<times> log_args" where
  "demo_call = (1709210096, \<lparr>aEventType = ''EXEC'', aComm = ''bash'', aDetail = ''/bin/nc'', aPID = 7,
     aScore = 95, aTier = ''alert'', aReason = ''threshold-based decision'', aAction = []\<rparr>)"

lemma clean_demo_call: "clean_args (snd demo_call)"
  by (simp add: clean_args_def demo_call_def valid_ascii)

theorem log_verifies_witness:
  "VerifyChain (snd (run_log log_written restart_logger [Some demo_call, None, Some demo_call]
     (NewLogger (\<lambda>_. Inl NotExist) ''audit.log'', \<lambda>_. Inl NotExist))) ''audit.log'' = (True, 2, None)"
  using log_verifies [of "\<lambda>_. Inl NotExist" "''audit.log''" "[Some demo_call, None, Some demo_call]"]
  by (simp add: ReadFile_def clean_demo_call calls_def)

text \<open>
  C13: Tamper evidence: two files that \<open>VerifyChain\<close> accepts and that end in the same hash
  record the same hashed texts, entry by entry, or exhibit two different texts among them
  with the same SHA-256.  So who keeps the last hash detects any other change.
\<close>

theorem tamper_evident:
  assumes "VerifyChain files path = (True, n, None)" and "ReadFile files path = Inr data"
    and "log_entries data = Some es"
    and "VerifyChain files' path' = (True, n', None)" and "ReadFile files' path' = Inr data'"
    and "log_entries data' = Some es'"
    and "chain_end ''genesis'' es = chain_end ''genesis'' es'"
  shows "map raw_text es = map raw_text es'
     \<or> (\<exists>x \<in> raw_text ` set es. \<exists>y \<in> raw_text ` set es'. x \<noteq> y \<and> sha256_hex x = sha256_hex y)"
proof (rule same_end_same_raw)
  show "chained ''genesis'' es" using verify_accepts_iff [of files path] assms(1-3) by auto
  show "chained ''genesis'' es'" using verify_accepts_iff [of files' path'] assms(4-6) by auto
qed (rule assms(7))

definition shift_entry :: Entry where
  "shift_entry = new_entry 0 \<lparr>aEventType = ''EXEC'', aComm = ''a|b'', aDetail = ''c'', aPID = 7,
     aScore = 95, aTier = ''alert'', aReason = [], aAction = []\<rparr> ''genesis''"

definition shifted_entry :: Entry where
  "shifted_entry = shift_entry\<lparr>eComm := ''a'', eDetail := ''b|c''\<rparr>"

lemma shift_entries:
  "shift_entry = shift_entry\<lparr>eComm := ''a'' @ ''|'' @ ''b'', eDetail := ''c''\<rparr>"
  "shifted_entry = shift_entry\<lparr>eComm := ''a'', eDetail := ''b'' @ ''|'' @ ''c''\<rparr>"
  by (simp_all add: shifted_entry_def) (simp add: shift_entry_def new_entry_def Let_def)

lemma raw_text_shifted: "raw_text shifted_entry = raw_text shift_entry"
  by (simp add: shifted_entry_def raw_text_def) (simp add: shift_entry_def new_entry_def Let_def)

lemma eHash_shifted: "eHash shifted_entry = eHash shift_entry"
  by (simp add: shifted_entry_def)

lemma plain_shift: "plain_entry shift_entry" "plain_entry shifted_entry"
proof -
  show p: "plain_entry shift_entry"
    unfolding shift_entry_def by (rule plain_new_entry) (simp_all add: clean_args_def valid_ascii sanitize_ascii_name)
  have "clean_entry shifted_entry = (clean_entry shift_entry)\<lparr>eComm := sanitize ''a'', eDetail := sanitize ''b|c''\<rparr>"
    by (simp add: clean_entry_def shifted_entry_def)
  then show "plain_entry shifted_entry" using p by (simp add: plain_entry_def sanitize_ascii_name shifted_entry_def)
qed

lemma chained_shift: "chained ''genesis'' [shift_entry]" "chained ''genesis'' [shifted_entry]"
proof -
  show c: "chained ''genesis'' [shift_entry]" by (simp add: shift_entry_def)
  moreover have "computeHash shifted_entry = computeHash shift_entry"
    by (simp add: computeHash_def raw_text_shifted)
  ultimately show "chained ''genesis'' [shifted_entry]" by (simp add: shifted_entry_def)
qed

definition log_file :: "Entry list \<Rightarrow> fs" where
  "log_file es = (\<lambda>_. Inr (log_text es))"

lemma log_file_facts:
  assumes "list_all plain_entry es" and "chained ''genesis'' es"
  shows "ReadFile (log_file es) path = Inr (log_text es)"
    and "log_entries (log_text es) = Some es"
    and "VerifyChain (log_file es) path = (True, length es, None)"
proof -
  have f: "filter (\<lambda>l. l \<noteq> []) (map marshal_entry es) = map marshal_entry es"
    by (rule filter_True) auto
  show r: "ReadFile (log_file es) path = Inr (log_text es)" by (simp add: ReadFile_def log_file_def)
  show "log_entries (log_text es) = Some es"
    using unmarshal_plain_list [OF assms(1)] by (simp only: log_entries_def splitLines_log f those_map)
  show "VerifyChain (log_file es) path = (True, length es, None)" by (rule verify_log [OF r assms])
qed

lemma shift_logs: "list_all plain_entry [shift_entry]" "list_all plain_entry [shifted_entry]"
  by (simp_all add: plain_shift)

theorem tamper_evident_witness: "map raw_text [shift_entry] = map raw_text [shifted_entry]"
  using tamper_evident [OF log_file_facts(3,1,2) [OF shift_logs(1) chained_shift(1)]
      log_file_facts(3,1,2) [OF shift_logs(2) chained_shift(2)]]
  by (simp add: raw_text_shifted eHash_shifted)

text \<open>
  What the chain does not show: cut off after any line, an accepted file is still
  accepted, with a count that is no larger.
\<close>

lemma truncation_undetected:
  assumes "VerifyChain (files(path := Inr (d @ [CHR 0x0A] @ rest))) path = (True, n, None)"
  shows "\<exists>m. VerifyChain (files(path := Inr (d @ [CHR 0x0A]))) path = (True, m, None)"
proof -
  have "\<exists>m. verify_lines ls prev k = (True, m, None)"
    if "verify_lines (ls @ ls') prev k = (True, n, None)" for ls ls' prev k
    using that by (induction ls prev k rule: verify_lines.induct)
      (auto split: option.splits if_splits)
  moreover have "splitLines (d @ [CHR 0x0A] @ rest) = splitLines (d @ [CHR 0x0A]) @ splitLines rest"
    using lines_from_append [of "[]" d rest] by (simp add: splitLines_def)
  ultimately show ?thesis using assms by (simp add: VerifyChain_def)
qed

lemma truncation_undetected_witness:
  "\<exists>m. VerifyChain ((log_file [])(''log'' := Inr ([] @ [CHR 0x0A]))) ''log'' = (True, m, None)"
proof (rule truncation_undetected)
  have "verify_lines (splitLines (log_text [shift_entry])) ''genesis'' 0 = (True, 1, None)"
    using log_file_facts(3,1) [OF shift_logs(1) chained_shift(1), of "''log''"] by (simp add: VerifyChain_def)
  then show "VerifyChain ((log_file [])(''log'' := Inr ([] @ [CHR 0x0A] @ log_text [shift_entry]))) ''log''
      = (True, 1, None)"
    by (simp add: VerifyChain_def splitLines_def ReadFile_def)
qed

text \<open>
  The separator is not escaped: moving text between the process name and the detail,
  across a bar, changes the entry and not its hash, so \<open>VerifyChain\<close> gives the same verdict
  on a file with the moved entry in the place of the original.
\<close>

lemma field_shift_undetected:
  assumes "e = e0\<lparr>eComm := a @ ''|'' @ b, eDetail := c\<rparr>"
    and "e' = e0\<lparr>eComm := a, eDetail := b @ ''|'' @ c\<rparr>"
    and "plain_entry e" and "plain_entry e'"
  shows "e \<noteq> e' \<and>
    VerifyChain (files(path := Inr (log_text (es @ e # fs)))) path
    = VerifyChain (files(path := Inr (log_text (es @ e' # fs)))) path"
proof -
  have h: "computeHash e = computeHash e'" and p: "ePrevHash e = ePrevHash e'" "eHash e = eHash e'"
    by (simp_all add: assms(1,2) computeHash_def raw_text_def)
  have "verify_lines (map marshal_entry (e # fs)) prev k = verify_lines (map marshal_entry (e' # fs)) prev k"
    for prev k
    using h p by (simp add: unmarshal_plain [OF assms(3)] unmarshal_plain [OF assms(4)])
  then have "verify_lines (ls @ map marshal_entry (e # fs)) prev k
      = verify_lines (ls @ map marshal_entry (e' # fs)) prev k" for ls prev k
    by (induction ls prev k rule: verify_lines.induct) (auto split: option.split)
  moreover have "e \<noteq> e'"
  proof
    assume "e = e'"
    then have "eComm e = eComm e'" by simp
    then show False by (simp add: assms(1,2))
  qed
  ultimately show ?thesis by (simp add: VerifyChain_def splitLines_log)
qed

lemma field_shift_undetected_witness:
  "VerifyChain ((log_file [])(''log'' := Inr (log_text [shifted_entry]))) ''log'' = (True, 1, None)"
  using field_shift_undetected [OF shift_entries plain_shift, of "log_file []" "''log''" "[]" "[]"]
    verify_log [of "(log_file [])(''log'' := Inr (log_text [shift_entry]))" "''log''", OF _ shift_logs(1) chained_shift(1)]
  by (simp add: ReadFile_def)



end
