(* ===== verification/Config.thy ===== *)
theory Config
  imports GoOs
begin

text \<open>
  The configuration of \<open>internal/config/config.go\<close>.  The YAML decoder is a third-party
  package: it is the parameter \<open>yaml\<close>, a function from the text and the settings so far to an
  error or the settings after decoding.
\<close>

record Config =
  cMode :: string
  cEnforce :: string
  cState :: string
  cAlert :: int
  cSoft :: int
  cHard :: int
  cProtected :: "string list"
  cMaxPerMinute :: int
  cOllamaModel :: string
  cOllamaURL :: string

definition Default :: Config where
  "Default =
    \<lparr>cMode = ''learn'', cEnforce = ''dry-run'', cState = ''baseline.json'',
     cAlert = 40, cSoft = 70, cHard = 90,
     cProtected = [''systemd'', ''sshd'', ''init'', ''kubelet'', ''containerd'',
       ''dockerd'', ''watchbpf-agent'', ''NetworkManager''],
     cMaxPerMinute = 50,
     cOllamaModel = ''llama3.1:8b'', cOllamaURL = ''http://localhost:11434''\<rparr>"

datatype config_error = ConfigUnreadable file_error | BadYaml string

type_synonym yaml = "string \<Rightarrow> Config \<Rightarrow> string + Config"

definition Load :: "yaml \<Rightarrow> fs \<Rightarrow> string \<Rightarrow> config_error + Config" where
  "Load yaml files path =
    (case ReadFile files path of
       Inl err \<Rightarrow> if IsNotExist err then Inr Default else Inl (ConfigUnreadable err)
     | Inr data \<Rightarrow>
        (case yaml data Default of Inl err \<Rightarrow> Inl (BadYaml err) | Inr cfg \<Rightarrow> Inr cfg))"

end
