(* ===== verification/Metrics.thy ===== *)
theory Metrics
  imports Main
begin

text \<open>
  The counters of \<open>internal/metrics/metrics.go\<close>: what \<open>init\<close> registers under which name, and
  their values.  A counter vector is a counter per list of label values; \<open>Inc\<close> on a vector takes
  the values.  The server that exposes them is not modelled.
\<close>

section \<open>Registration\<close>

record CounterOpts =
  optName :: string
  optHelp :: string
  optLabels :: "string list"

definition collectors :: "CounterOpts list" where
  "collectors =
    [\<lparr>optName = ''watchbpf_events_processed_total'',
      optHelp = ''Total kernel events processed, by type'', optLabels = [''event_type'']\<rparr>,
     \<lparr>optName = ''watchbpf_events_escalated_total'',
      optHelp = ''Total events escalated past the baseline filter, by type'', optLabels = [''event_type'']\<rparr>,
     \<lparr>optName = ''watchbpf_events_rate_limited_total'',
      optHelp = ''Total escalations skipped due to rate limiting'', optLabels = []\<rparr>,
     \<lparr>optName = ''watchbpf_llm_calls_total'',
      optHelp = ''Total LLM calls, by backend and result (success/error)'', optLabels = [''backend'', ''result'']\<rparr>,
     \<lparr>optName = ''watchbpf_decisions_total'',
      optHelp = ''Total policy decisions, by tier'', optLabels = [''tier'']\<rparr>,
     \<lparr>optName = ''watchbpf_actions_total'',
      optHelp = ''Total enforcement actions taken, by type (kill/pause/isolate) and mode (dry-run/live)'',
      optLabels = [''action'', ''mode'']\<rparr>]"

text \<open>\<open>MustRegister\<close> panics on a second collector of a name, so this lets the program start.\<close>

lemma collectors_distinct: "distinct (map optName collectors)"
  by (simp add: collectors_def)

section \<open>Values\<close>

record Counters =
  EventsProcessed :: "string \<Rightarrow> nat"
  EventsEscalated :: "string \<Rightarrow> nat"
  EventsRateLimited :: nat
  LLMCalls :: "string \<times> string \<Rightarrow> nat"
  Decisions :: "string \<Rightarrow> nat"
  Actions :: "string \<times> string \<Rightarrow> nat"

definition zero_counters :: Counters where
  "zero_counters = \<lparr>EventsProcessed = (\<lambda>_. 0), EventsEscalated = (\<lambda>_. 0), EventsRateLimited = 0,
     LLMCalls = (\<lambda>_. 0), Decisions = (\<lambda>_. 0), Actions = (\<lambda>_. 0)\<rparr>"

definition Inc :: "'l \<Rightarrow> ('l \<Rightarrow> nat) \<Rightarrow> 'l \<Rightarrow> nat" where
  "Inc l c = c(l := Suc (c l))"

end
