(* ===== verification/GoFmt.thy ===== *)
theory GoFmt
  imports GoUtf8
begin

text \<open>
  The verbs of package \<open>fmt\<close> that take more than an append: \<open>%q\<close> is \<open>strconv.Quote\<close>.
  Which runes beyond ASCII are printable is decided by the Unicode tables of the standard
  library, so it is the parameter \<open>is_print\<close>.
\<close>

text \<open>The code point of the valid encoding a string starts with.\<close>

definition utf8_rune :: "string \<Rightarrow> nat" where
  "utf8_rune s =
    (let b = (\<lambda>i. of_char (s ! i) :: nat); n = utf8_size s in
     if n = 1 then b 0
     else if n = 2 then (b 0 - 0xC0) * 64 + (b 1 - 0x80)
     else if n = 3 then (b 0 - 0xE0) * 4096 + (b 1 - 0x80) * 64 + (b 2 - 0x80)
     else if n = 4 then (b 0 - 0xF0) * 262144 + (b 1 - 0x80) * 4096 + (b 2 - 0x80) * 64 + (b 3 - 0x80)
     else 0xFFFD)"

fun hex_pad :: "nat \<Rightarrow> nat \<Rightarrow> string" where
  "hex_pad 0 n = []"
| "hex_pad (Suc k) n = hex_pad k (n div 16) @ [hex_digit (n mod 16)]"

definition quote_ascii :: "char \<Rightarrow> string" where
  "quote_ascii c =
    (if c = CHR 0x22 \<or> c = CHR 0x5C then [CHR 0x5C, c]
     else if 0x20 \<le> (of_char c :: nat) \<and> (of_char c :: nat) < 0x7F then [c]
     else if c = CHR 0x07 then [CHR 0x5C, CHR ''a'']
     else if c = CHR 0x08 then [CHR 0x5C, CHR ''b'']
     else if c = CHR 0x0C then [CHR 0x5C, CHR ''f'']
     else if c = CHR 0x0A then [CHR 0x5C, CHR ''n'']
     else if c = CHR 0x0D then [CHR 0x5C, CHR ''r'']
     else if c = CHR 0x09 then [CHR 0x5C, CHR ''t'']
     else if c = CHR 0x0B then [CHR 0x5C, CHR ''v'']
     else [CHR 0x5C, CHR ''x''] @ hex_pad 2 (of_char c))"

definition quote_rune :: "(nat \<Rightarrow> bool) \<Rightarrow> string \<Rightarrow> string" where
  "quote_rune is_print r =
    (let n = utf8_rune r in
     if is_print n then r
     else if n < 0x10000 then [CHR 0x5C, CHR ''u''] @ hex_pad 4 n
     else [CHR 0x5C, CHR ''U''] @ hex_pad 8 n)"

function quote_with :: "(nat \<Rightarrow> bool) \<Rightarrow> string \<Rightarrow> string" where
  "quote_with is_print [] = []"
| "quote_with is_print (c # s) =
     (if of_char c < (0x80 :: nat) then quote_ascii c @ quote_with is_print s
      else if utf8_size (c # s) = 0
        then [CHR 0x5C, CHR ''x''] @ hex_pad 2 (of_char c) @ quote_with is_print s
      else quote_rune is_print (take (utf8_size (c # s)) (c # s))
           @ quote_with is_print (drop (utf8_size (c # s) - 1) s))"
  by pat_completeness auto
termination
  by (relation "measure (length \<circ> snd)") auto

declare quote_with.simps(2) [simp del]

definition fmt_q :: "(nat \<Rightarrow> bool) \<Rightarrow> string \<Rightarrow> string" where
  "fmt_q is_print s = [CHR 0x22] @ quote_with is_print s @ [CHR 0x22]"

text \<open>What is quoted is valid UTF-8, whatever the string.\<close>

lemma hex_digit_ascii: "of_char (hex_digit (n mod 16)) < (128 :: nat)"
proof -
  have "n mod 16 < 41" using mod_less_divisor [of 16 n] by linarith
  then show ?thesis by (simp add: hex_digit_def)
qed

lemma valid_hex_pad: "valid_utf8 (hex_pad k n)"
  by (induction k n rule: hex_pad.induct) (simp_all add: valid_append valid_ascii hex_digit_ascii)

lemma valid_quote_ascii: "of_char c < (128 :: nat) \<Longrightarrow> valid_utf8 (quote_ascii c)"
  by (simp add: quote_ascii_def valid_ascii valid_hex_pad)

lemma valid_quote_with: "valid_utf8 (quote_with is_print s)"
proof (induction is_print s rule: quote_with.induct)
  case (2 is_print c s)
  let ?n = "utf8_size (c # s)"
  have "valid_utf8 (quote_rune is_print (take ?n (c # s)))" if "?n \<noteq> 0"
    using that valid_chunk [of "c # s" ?n "[]"]
    by (simp add: quote_rune_def Let_def valid_ascii valid_hex_pad)
  then show ?case
    using 2 by (simp add: quote_with.simps valid_append valid_quote_ascii valid_hex_pad valid_ascii)
qed simp

lemma valid_fmt_q: "valid_utf8 (fmt_q is_print s)"
  by (simp add: fmt_q_def valid_ascii valid_append valid_quote_with)

text \<open>The dash of the agent's messages.\<close>

definition em_dash :: string where
  "em_dash = [CHR 0xE2, CHR 0x80, CHR 0x94]"

end
