(* ===== verification/Policy.thy ===== *)
theory Policy
  imports GoFmt GoTime
begin

text \<open>
  The policy engine of \<open>internal/policy/policy.go\<close>: a threat score becomes a tier, and the
  guardrails (protected processes, dry run, a sliding-window limit on actions) weaken it.
  Times are nanoseconds; \<open>now\<close> is what \<open>time.Now\<close> returns in the call.  The mutex makes
  \<open>allowAction\<close> atomic, so it is a function on the engine.
\<close>

section \<open>Tiers\<close>

datatype Tier = TierLog | TierAlert | TierSoft | TierHard

fun tier_string :: "Tier \<Rightarrow> string" where
  "tier_string TierLog = ''log''"
| "tier_string TierAlert = ''alert''"
| "tier_string TierSoft = ''soft_action''"
| "tier_string TierHard = ''hard_action''"

fun tier_rank :: "Tier \<Rightarrow> nat" where
  "tier_rank TierLog = 0"
| "tier_rank TierAlert = 1"
| "tier_rank TierSoft = 2"
| "tier_rank TierHard = 3"

lemma tier_rank_inject [simp]: "tier_rank a = tier_rank b \<longleftrightarrow> a = b"
  by (cases a; cases b) simp_all

text \<open>Tiers are ordered by how far they reach.\<close>

instantiation Tier :: linorder
begin

definition less_eq_Tier :: "Tier \<Rightarrow> Tier \<Rightarrow> bool" where
  "less_eq_Tier a b \<longleftrightarrow> tier_rank a \<le> tier_rank b"

definition less_Tier :: "Tier \<Rightarrow> Tier \<Rightarrow> bool" where
  "less_Tier a b \<longleftrightarrow> tier_rank a < tier_rank b"

instance
  by standard (auto simp: less_eq_Tier_def less_Tier_def)

end

lemma alert_le_iff: "t \<le> TierAlert \<longleftrightarrow> t = TierLog \<or> t = TierAlert"
  by (cases t) (simp_all add: less_eq_Tier_def)

section \<open>The engine\<close>

record Decision =
  dTier :: Tier
  dReason :: string

record Engine =
  enforceMode :: string
  protectedComms :: "string \<rightharpoonup> bool"
  actionWindow :: int
  maxActionsPerWindow :: int
  actionTimestamps :: "int list"
  thresholdAlert :: int
  thresholdSoft :: int
  thresholdHard :: int

definition NewEngine :: "string \<Rightarrow> string list \<Rightarrow> int \<Rightarrow> int \<Rightarrow> int \<Rightarrow> int \<Rightarrow> Engine" where
  "NewEngine mode protectedList maxActions tAlert tSoft tHard =
    \<lparr>enforceMode = mode,
     protectedComms = fold (\<lambda>p m. m(p \<mapsto> True)) protectedList Map.empty,
     actionWindow = 1 * minute,
     maxActionsPerWindow = maxActions,
     actionTimestamps = [],
     thresholdAlert = tAlert,
     thresholdSoft = tSoft,
     thresholdHard = tHard\<rparr>"

text \<open>\<open>t.After(cutoff)\<close> is strict; the filter works in place on the slice it reads.\<close>

definition allowAction :: "int \<Rightarrow> Engine \<Rightarrow> bool \<times> Engine" where
  "allowAction now e =
    (let cutoff = now - actionWindow e;
         filtered = filter (\<lambda>t. cutoff < t) (actionTimestamps e) in
     if maxActionsPerWindow e \<le> int (length filtered) then (False, e\<lparr>actionTimestamps := filtered\<rparr>)
     else (True, e\<lparr>actionTimestamps := filtered @ [now]\<rparr>))"

definition score_tier :: "Engine \<Rightarrow> int \<Rightarrow> Tier" where
  "score_tier e score =
    (if thresholdHard e \<le> score then TierHard
     else if thresholdSoft e \<le> score then TierSoft
     else if thresholdAlert e \<le> score then TierAlert
     else TierLog)"

definition is_action :: "Tier \<Rightarrow> bool" where
  "is_action t \<longleftrightarrow> t = TierHard \<or> t = TierSoft"

definition protected_comm :: "Engine \<Rightarrow> string \<Rightarrow> bool" where
  "protected_comm e comm = (case protectedComms e comm of None \<Rightarrow> False | Some b \<Rightarrow> b)"

definition protected_reason :: "(nat \<Rightarrow> bool) \<Rightarrow> string \<Rightarrow> Tier \<Rightarrow> string" where
  "protected_reason is_print comm tier =
     ''process '' @ fmt_q is_print comm @ '' is on protected list '' @ em_dash
     @ '' downgraded from '' @ tier_string tier @ '' to alert''"

definition dry_run_reason :: string where
  "dry_run_reason = ''DRY-RUN: would have taken this action, but enforcement is not live''"

definition rate_limit_reason :: string where
  "rate_limit_reason = ''rate limit exceeded '' @ em_dash @ '' downgraded to alert to prevent action storm''"

definition threshold_reason :: string where
  "threshold_reason = ''threshold-based decision''"

definition Evaluate :: "(nat \<Rightarrow> bool) \<Rightarrow> int \<Rightarrow> Engine \<Rightarrow> string \<Rightarrow> int \<Rightarrow> Decision \<times> Engine" where
  "Evaluate is_print now e comm score =
    (let tier = score_tier e score in
     if protected_comm e comm \<and> is_action tier then
       (\<lparr>dTier = TierAlert, dReason = protected_reason is_print comm tier\<rparr>, e)
     else if enforceMode e \<noteq> ''live'' \<and> is_action tier then
       (\<lparr>dTier = tier, dReason = dry_run_reason\<rparr>, e)
     else if is_action tier then
       (case allowAction now e of
          (True, e') \<Rightarrow> (\<lparr>dTier = tier, dReason = threshold_reason\<rparr>, e')
        | (False, e') \<Rightarrow> (\<lparr>dTier = TierAlert, dReason = rate_limit_reason\<rparr>, e'))
     else (\<lparr>dTier = tier, dReason = threshold_reason\<rparr>, e))"

lemma protected_NewEngine: "protected_comm (NewEngine m ps k a s h) c \<longleftrightarrow> c \<in> set ps"
proof -
  have "fold (\<lambda>p m. m(p \<mapsto> True)) ps m = (\<lambda>c. if c \<in> set ps then Some True else m c)"
    for m :: "string \<rightharpoonup> bool"
    by (induction ps arbitrary: m) auto
  then show ?thesis by (simp add: protected_comm_def NewEngine_def)
qed

lemma NewEngine_sel:
  "enforceMode (NewEngine m ps k a s h) = m"
  "protected_comm (NewEngine m ps k a s h) c \<longleftrightarrow> c \<in> set ps"
  "is_action (score_tier (NewEngine m ps k a s h) score) \<longleftrightarrow> h \<le> score \<or> s \<le> score"
  by (simp_all only: protected_NewEngine) (auto simp: NewEngine_def score_tier_def is_action_def)

lemma score_tier_mono: "i \<le> j \<Longrightarrow> score_tier e i \<le> score_tier e j"
  by (simp add: score_tier_def less_eq_Tier_def)

text \<open>Only the time stamps change, and only by \<open>allowAction\<close>.\<close>

lemma allowAction_frame:
  "snd (allowAction now e) = e\<lparr>actionTimestamps := actionTimestamps (snd (allowAction now e))\<rparr>"
  by (simp add: allowAction_def Let_def)

lemma Evaluate_engine: "snd (Evaluate ip now e comm score) =
   (if is_action (score_tier e score) \<and> \<not> protected_comm e comm \<and> enforceMode e = ''live''
    then snd (allowAction now e) else e)"
  by (simp add: Evaluate_def Let_def split: prod.split bool.split)

lemma Evaluate_reason_dry_run:
  "HasPrefix (dReason (fst (Evaluate ip now e comm score))) ''DRY-RUN''
     \<longleftrightarrow> enforceMode e \<noteq> ''live'' \<and> is_action (score_tier e score) \<and> \<not> protected_comm e comm"
  by (simp add: Evaluate_def Let_def HasPrefix_def protected_reason_def dry_run_reason_def
      rate_limit_reason_def threshold_reason_def split: prod.split bool.split)

text \<open>
  What a decision to act means: the agent takes a hard or soft decision whose reason does
  not start with \<open>DRY-RUN\<close> as licence to act.
\<close>

definition acts :: "Decision \<Rightarrow> bool" where
  "acts d \<longleftrightarrow> is_action (dTier d) \<and> \<not> HasPrefix (dReason d) ''DRY-RUN''"

lemma acts_iff: "acts (fst (Evaluate ip now e comm score)) \<longleftrightarrow>
    enforceMode e = ''live'' \<and> is_action (score_tier e score) \<and> \<not> protected_comm e comm
    \<and> fst (allowAction now e)"
  by (auto simp: acts_def Evaluate_def Let_def HasPrefix_def protected_reason_def dry_run_reason_def
      rate_limit_reason_def threshold_reason_def is_action_def split: prod.split bool.split)

section \<open>The contract of a limiter\<close>

text \<open>
  A limiter grants or refuses at a time.  \<open>inv\<close> relates its state to the last call and the
  grants so far, the newest first; whatever keeps it, and bounds the grants of every
  window while it holds, bounds them in every run.
\<close>

definition in_window :: "int \<Rightarrow> int \<Rightarrow> int list \<Rightarrow> nat" where
  "in_window w t ts = length (filter (\<lambda>x. t - w < x \<and> x \<le> t) ts)"

primrec grants :: "('i \<Rightarrow> 's \<Rightarrow> bool \<times> 's) \<Rightarrow> ('i \<Rightarrow> int) \<Rightarrow> 'i list \<Rightarrow> 's \<Rightarrow> int list \<Rightarrow> int list" where
  "grants step at [] s h = h"
| "grants step at (i # is) s h =
     grants step at is (snd (step i s)) (if fst (step i s) then at i # h else h)"

primrec after :: "('i \<Rightarrow> 's \<Rightarrow> bool \<times> 's) \<Rightarrow> 'i list \<Rightarrow> 's \<Rightarrow> 's" where
  "after step [] s = s"
| "after step (i # is) s = after step is (snd (step i s))"

locale limiter =
  fixes step :: "'i \<Rightarrow> 's \<Rightarrow> bool \<times> 's"
    and at :: "'i \<Rightarrow> int"
    and inv :: "'s \<Rightarrow> int \<Rightarrow> int list \<Rightarrow> bool"
    and w :: int and k :: nat
  assumes inv_step: "inv s t0 h \<Longrightarrow> t0 \<le> at i \<Longrightarrow>
      inv (snd (step i s)) (at i) (if fst (step i s) then at i # h else h)"
    and inv_bound: "inv s t0 h \<Longrightarrow> in_window w t h \<le> k"
begin

lemma bounded: "inv s t0 h \<Longrightarrow> sorted (t0 # map at is) \<Longrightarrow> in_window w t (grants step at is s h) \<le> k"
proof (induction "is" arbitrary: s t0 h)
  case (Cons i "is")
  have "inv (snd (step i s)) (at i) (if fst (step i s) then at i # h else h)"
    using Cons.prems by (intro inv_step [OF Cons.prems(1)]) simp
  then show ?case using Cons.prems by (auto intro: Cons.IH)
qed (auto intro: inv_bound)

lemma inv_after: "inv s t0 h \<Longrightarrow> sorted (t0 # map at is) \<Longrightarrow>
    inv (after step is s) (last (t0 # map at is)) (grants step at is s h)"
proof (induction "is" arbitrary: s t0 h)
  case (Cons i "is")
  have "inv (snd (step i s)) (at i) (if fst (step i s) then at i # h else h)"
    using Cons.prems by (intro inv_step [OF Cons.prems(1)]) simp
  then show ?case using Cons.prems Cons.IH by fastforce
qed simp

end

lemma length_filter_mono:
  "(\<And>x. x \<in> set xs \<Longrightarrow> P x \<Longrightarrow> Q x) \<Longrightarrow> length (filter P xs) \<le> length (filter Q xs)"
  by (induction xs) (auto simp: le_SucI)

lemma in_window_Cons:
  assumes "\<forall>x \<in> set h. x \<le> now" and "length (filter (\<lambda>x. now - w < x) h) < k"
    and "in_window w t h \<le> k"
  shows "in_window w t (now # h) \<le> k"
proof (cases "t - w < now \<and> now \<le> t")
  case True
  have "in_window w t h \<le> length (filter (\<lambda>x. now - w < x) h)"
    unfolding in_window_def using True assms(1) by (intro length_filter_mono) auto
  then show ?thesis using True assms(2) by (simp add: in_window_def)
qed (use assms in \<open>auto simp: in_window_def\<close>)

section \<open>The sliding window\<close>

text \<open>
  The time stamps kept are the grants after the cutoff of some earlier call; no window ever
  held more than the limit.
\<close>

definition window_inv :: "int \<Rightarrow> nat \<Rightarrow> Engine \<Rightarrow> int \<Rightarrow> int list \<Rightarrow> bool" where
  "window_inv w k e t0 h \<longleftrightarrow>
     actionWindow e = w \<and> nat (maxActionsPerWindow e) = k \<and> 0 < w
     \<and> (\<exists>c \<le> t0 - w. actionTimestamps e = rev (filter (\<lambda>x. c < x) h))
     \<and> (\<forall>x \<in> set h. x \<le> t0) \<and> (\<forall>t. in_window w t h \<le> k)"

lemma window_inv_wait: "window_inv w k e t0 h \<Longrightarrow> t0 \<le> now \<Longrightarrow> window_inv w k e now h"
  unfolding window_inv_def by (meson diff_right_mono order_trans)

lemma allowAction_refines:
  assumes "window_inv w k e t0 h" and "t0 \<le> now"
  shows "window_inv w k (snd (allowAction now e)) now (if fst (allowAction now e) then now # h else h)"
proof -
  obtain c where c: "c \<le> t0 - w" and ts: "actionTimestamps e = rev (filter (\<lambda>x. c < x) h)"
    and e: "actionWindow e = w" "nat (maxActionsPerWindow e) = k" "0 < w"
    and h: "\<forall>x \<in> set h. x \<le> now" "\<forall>t. in_window w t h \<le> k"
    using assms by (fastforce simp: window_inv_def)
  let ?live = "filter (\<lambda>x. now - w < x) h"
  have "filter (\<lambda>x. now - w < x) (filter (\<lambda>x. c < x) h) = ?live"
    using c assms(2) by (induction h) auto
  then have f: "filter (\<lambda>x. now - actionWindow e < x) (actionTimestamps e) = rev ?live"
    using ts e by (simp add: rev_filter [symmetric])
  show ?thesis
  proof (cases "maxActionsPerWindow e \<le> int (length ?live)")
    case True
    then have "allowAction now e = (False, e\<lparr>actionTimestamps := rev ?live\<rparr>)"
      by (simp add: allowAction_def f)
    then show ?thesis using e h by (auto simp: window_inv_def)
  next
    case False
    then have a: "allowAction now e = (True, e\<lparr>actionTimestamps := rev ?live @ [now]\<rparr>)"
      by (simp add: allowAction_def f)
    have lt: "length ?live < k" using False e(2) by linarith
    have "\<forall>t. in_window w t (now # h) \<le> k"
      using in_window_Cons [OF h(1) lt] h(2) by blast
    moreover have "rev ?live @ [now] = rev (filter (\<lambda>x. now - w < x) (now # h))"
      using e(3) by simp
    ultimately show ?thesis
      using e h unfolding a fst_conv snd_conv if_True window_inv_def
      by (intro conjI exI [of _ "now - w"]) auto
  qed
qed

text \<open>One evaluation as a step of a limiter: does the agent get licence to act?\<close>

definition evaluate_step :: "(nat \<Rightarrow> bool) \<Rightarrow> int \<times> string \<times> int \<Rightarrow> Engine \<Rightarrow> bool \<times> Engine" where
  "evaluate_step is_print q e =
    (let (d, e') = Evaluate is_print (fst q) e (fst (snd q)) (snd (snd q)) in (acts d, e'))"

lemma evaluate_step_refines:
  assumes "window_inv w k e t0 h" and "t0 \<le> fst q"
  shows "window_inv w k (snd (evaluate_step ip q e)) (fst q)
     (if fst (evaluate_step ip q e) then fst q # h else h)"
proof -
  obtain now comm score where q: "q = (now, comm, score)" by (cases q) auto
  have s: "snd (evaluate_step ip q e) = snd (Evaluate ip now e comm score)"
    "fst (evaluate_step ip q e) = acts (fst (Evaluate ip now e comm score))"
    by (simp_all add: evaluate_step_def q split: prod.split)
  have t: "t0 \<le> now" using assms(2) by (simp add: q)
  show ?thesis
  proof (cases "enforceMode e = ''live'' \<and> is_action (score_tier e score) \<and> \<not> protected_comm e comm")
    case True
    then show ?thesis
      using allowAction_refines [OF assms(1) t] unfolding s acts_iff Evaluate_engine
      by (cases "fst (allowAction now e)") (simp_all add: q)
  next
    case False
    then show ?thesis
      using window_inv_wait [OF assms(1) t] unfolding s acts_iff Evaluate_engine by (auto simp: q)
  qed
qed

interpretation al: limiter allowAction "\<lambda>t. t" "window_inv w k" w k for w k
  by unfold_locales (simp add: allowAction_refines, simp add: window_inv_def)

interpretation ev: limiter "evaluate_step ip" fst "window_inv w k" w k for ip w k
  by unfold_locales (simp add: evaluate_step_refines, simp add: window_inv_def)

lemma window_inv_NewEngine: "window_inv minute (nat m) (NewEngine mode ps m a s h) t0 []"
  by (auto simp: window_inv_def NewEngine_def in_window_def minute_def second_def)

lemma allowAction_iff:
  assumes "window_inv w k e t0 h" and "t0 \<le> now"
  shows "fst (allowAction now e) \<longleftrightarrow> length (filter (\<lambda>x. now - w < x) h) < k"
proof -
  obtain c where c: "c \<le> t0 - w" and ts: "actionTimestamps e = rev (filter (\<lambda>x. c < x) h)"
    and e: "actionWindow e = w" "nat (maxActionsPerWindow e) = k"
    using assms by (auto simp: window_inv_def)
  have "filter (\<lambda>x. now - w < x) (filter (\<lambda>x. c < x) h) = filter (\<lambda>x. now - w < x) h"
    using c assms(2) by (induction h) auto
  then have "length (filter (\<lambda>x. now - actionWindow e < x) (actionTimestamps e))
      = length (filter (\<lambda>x. now - w < x) h)"
    using ts e by (simp add: rev_filter [symmetric])
  then show ?thesis using e(2) by (auto simp: allowAction_def Let_def)
qed

text \<open>The configuration of an engine never changes.\<close>

lemma evaluate_step_frame:
  "snd (evaluate_step ip q e) = e\<lparr>actionTimestamps := actionTimestamps (snd (evaluate_step ip q e))\<rparr>"
proof -
  obtain now comm score where q: "q = (now, comm, score)" by (cases q) auto
  have "snd (evaluate_step ip q e) = snd (Evaluate ip now e comm score)"
    by (simp add: evaluate_step_def q split: prod.split)
  then show ?thesis
    using allowAction_frame [of now e] by (simp add: Evaluate_engine split: if_splits)
qed

lemma evaluate_after_frame:
  "after (evaluate_step ip) qs e
     = e\<lparr>actionTimestamps := actionTimestamps (after (evaluate_step ip) qs e)\<rparr>"
proof (induction qs arbitrary: e)
  case (Cons q qs)
  have "after (evaluate_step ip) qs (snd (evaluate_step ip q e))
      = (snd (evaluate_step ip q e))\<lparr>actionTimestamps :=
          actionTimestamps (after (evaluate_step ip) qs (snd (evaluate_step ip q e)))\<rparr>"
    by (rule Cons.IH)
  also have "\<dots> = e\<lparr>actionTimestamps :=
          actionTimestamps (after (evaluate_step ip) qs (snd (evaluate_step ip q e)))\<rparr>"
    by (subst evaluate_step_frame) simp
  finally show ?case by simp
qed simp

lemma frame_simps:
  "protected_comm (e\<lparr>actionTimestamps := ts\<rparr>) = protected_comm e"
  "score_tier (e\<lparr>actionTimestamps := ts\<rparr>) = score_tier e"
  by (simp_all add: fun_eq_iff protected_comm_def score_tier_def)

lemma evaluate_after_config:
  "protected_comm (after (evaluate_step ip) qs e) = protected_comm e"
  "score_tier (after (evaluate_step ip) qs e) = score_tier e"
  "enforceMode (after (evaluate_step ip) qs e) = enforceMode e"
  by (subst evaluate_after_frame, simp add: frame_simps)+

text \<open>While enforcement is not live a higher score never gets a lower tier, and evaluating changes nothing.\<close>

lemma dry_run_monotone:
  assumes "enforceMode e \<noteq> ''live''" and "i \<le> j"
  shows "dTier (fst (Evaluate ip now e comm i)) \<le> dTier (fst (Evaluate ip now' e comm j))
    \<and> snd (Evaluate ip now e comm i) = e"
  using assms score_tier_mono [OF assms(2), of e]
  by (simp add: Evaluate_engine) (auto simp: Evaluate_def Let_def is_action_def less_eq_Tier_def score_tier_def)

section \<open>Properties\<close>

text \<open>
  C5: After any history of evaluations, a process on the protected list gets at most an
  alert, whatever its score, and the agent gets no licence to act on it.
\<close>

theorem protected_never_acted:
  assumes "comm \<in> set ps"
  shows "let e = after (evaluate_step ip) qs (NewEngine mode ps m a s h);
             d = fst (Evaluate ip now e comm score)
         in dTier d \<le> TierAlert \<and> \<not> acts d"
proof -
  have "protected_comm (after (evaluate_step ip) qs (NewEngine mode ps m a s h)) comm"
    using assms by (simp add: evaluate_after_config protected_NewEngine)
  then show ?thesis
    by (auto simp: acts_iff Let_def) (auto simp: Evaluate_def is_action_def alert_le_iff Let_def score_tier_def)
qed

theorem protected_never_acted_witness:
  "dTier (fst (Evaluate (\<lambda>_. True) 7 (NewEngine ''live'' [''sshd''] 50 40 70 90) ''sshd'' 100)) \<le> TierAlert"
  using protected_never_acted [of "''sshd''" "[''sshd'']" "\<lambda>_. True" "[]" "''live''" 50 40 70 90 7 100]
  by (simp add: Let_def)

text \<open>
  C20: When the agent may act, exactly: enforcement is live, the score reaches the hard or the
  soft threshold, the process is not protected, and fewer than the configured number of
  licences were given in the 60 seconds before.  Decisions that carry no licence leave the
  limiter's count alone.
\<close>

theorem licence_exact:
  assumes "sorted (t0 # map fst (qs @ [(now, comm, score)]))"
  shows "let e0 = NewEngine mode ps m a s h in
     acts (fst (Evaluate ip now (after (evaluate_step ip) qs e0) comm score)) \<longleftrightarrow>
       mode = ''live'' \<and> (h \<le> score \<or> s \<le> score) \<and> comm \<notin> set ps
       \<and> length (filter (\<lambda>t. now - minute < t) (grants (evaluate_step ip) fst qs e0 [])) < nat m"
proof -
  let ?e0 = "NewEngine mode ps m a s h"
  have "window_inv minute (nat m) (after (evaluate_step ip) qs ?e0) (last (t0 # map fst qs))
      (grants (evaluate_step ip) fst qs ?e0 [])"
    using assms by (intro ev.inv_after window_inv_NewEngine) (simp add: sorted_append)
  moreover have "last (t0 # map fst qs) \<le> now"
    using assms by (auto simp: sorted_append last_map)
  ultimately have "fst (allowAction now (after (evaluate_step ip) qs ?e0)) \<longleftrightarrow>
      length (filter (\<lambda>t. now - minute < t) (grants (evaluate_step ip) fst qs ?e0 [])) < nat m"
    by (rule allowAction_iff)
  then show ?thesis
    by (auto simp: Let_def acts_iff evaluate_after_config NewEngine_sel)
qed

theorem licence_exact_witness:
  "acts (fst (Evaluate (\<lambda>_. True) 5 (NewEngine ''live'' [''sshd''] 50 40 70 90) ''nc'' 95))"
  using licence_exact [of 0 "[]" 5 "''nc''" 95 "''live''" "[''sshd'']" 50 40 70 90 "\<lambda>_. True"]
  by (simp add: Let_def)

text \<open>
  C21: In every window of 60 seconds at most the configured number of decisions license
  the agent to act, over any sequence of evaluations at non-decreasing times.
\<close>

theorem action_rate_bounded:
  assumes "sorted (t0 # map fst qs)"
  shows "in_window minute t (grants (evaluate_step ip) fst qs (NewEngine mode ps m a s h) []) \<le> nat m"
  by (rule ev.bounded [OF window_inv_NewEngine assms])

theorem action_rate_bounded_witness:
  "in_window minute 3 (grants (evaluate_step (\<lambda>_. True)) fst
     [(1, ''nc'', 95), (2, ''nc'', 95), (3, ''nc'', 95)] (NewEngine ''live'' [] 2 40 70 90) []) \<le> 2"
  using action_rate_bounded [of 0 "[(1, ''nc'', 95), (2, ''nc'', 95), (3, ''nc'', 95)]" 3
      "\<lambda>_. True" "''live''" "[]" 2 40 70 90] by simp

end
