(* ===== verification/Report.thy ===== *)
theory Report
  imports Policy Llm
begin

text \<open>
  What the agent prints: one \<open>report\<close> for each print statement of \<open>readLoop\<close>, \<open>handleEvent\<close> and
  \<open>processLLM\<close> in \<open>cmd/watchbpf-agent/main.go\<close>, in the order of the code.  \<open>stdout_text\<close> is
  the line on the standard output; the messages of package \<open>log\<close>, which go to the standard
  error output with a time stamp and quote errors of other packages, have none.
\<close>

datatype report =
    RingReadFailed string
  | Learned string string string
  | Escalated string string string
  | RateLimited
  | LlmError llm_error
  | Verdict ThreatAssessment
  | Decided Decision
  | AuditFailed file_error
  | WouldKill u32 string
  | KillFailed string
  | Killed u32 string
  | IsolateFailed string
  | Isolated string
  | WouldPause u32 string
  | PauseFailed string
  | Paused u32 string

abbreviation TAB :: string where
  "TAB \<equiv> [CHR 0x09]"

abbreviation NL :: string where
  "NL \<equiv> [CHR 0x0A]"

definition event_line :: "string \<Rightarrow> string \<Rightarrow> string \<Rightarrow> string \<Rightarrow> string" where
  "event_line tag eventType comm detail =
     tag @ TAB @ eventType @ TAB @ TAB @ comm @ TAB @ TAB @ detail @ NL"

definition action_line :: "string \<Rightarrow> u32 \<Rightarrow> string \<Rightarrow> string \<Rightarrow> string" where
  "action_line what pid comm rest =
     ''[ACTION]'' @ TAB @ what @ '' pid='' @ dec (unat pid) @ '' (comm='' @ comm @ '')'' @ rest @ NL"

definition no_action :: string where
  "no_action = '' '' @ em_dash @ '' dry-run, no action taken''"

fun stdout_text :: "(nat \<Rightarrow> bool) \<Rightarrow> report \<Rightarrow> string option" where
  "stdout_text ip (Learned t c d) = Some (event_line ''[LEARNED]'' t c d)"
| "stdout_text ip (Escalated t c d) = Some (event_line ''[ESCALATE]'' t c d)"
| "stdout_text ip RateLimited = Some (''[RATE-LIMITED]'' @ TAB @ ''escalation storm detected '' @ em_dash
     @ '' skipping LLM call for this event'' @ NL)"
| "stdout_text ip (Verdict ta) = Some (''[AI-VERDICT]'' @ TAB @ ''score='' @ fmt_d (ThreatScore ta)
     @ TAB @ ''label='' @ Label ta @ TAB @ ''tactic='' @ MitreTactic ta @ TAB @ ''action='' @ Action ta
     @ TAB @ ''reason='' @ fmt_q ip (Rationale ta) @ NL)"
| "stdout_text ip (Decided d) = Some (''[DECISION]'' @ TAB @ ''tier='' @ tier_string (dTier d)
     @ TAB @ ''reason='' @ fmt_q ip (dReason d) @ NL)"
| "stdout_text ip (WouldKill pid comm) = Some (action_line ''would KILL'' pid comm no_action)"
| "stdout_text ip (Killed pid comm) = Some (action_line ''KILLED'' pid comm [])"
| "stdout_text ip (Isolated a) = Some (''[ACTION]'' @ TAB @ ''ISOLATED ip='' @ a @ NL)"
| "stdout_text ip (WouldPause pid comm) = Some (action_line ''would PAUSE'' pid comm no_action)"
| "stdout_text ip (Paused pid comm) = Some (action_line ''PAUSED'' pid comm [])"
| "stdout_text ip _ = None"

text \<open>
  The fields of an event are printed as they are: a detail with a newline in it makes the
  agent print a line of the process's choosing.
\<close>

lemma forged_line:
  "stdout_text ip (Escalated t c (d @ NL @ action_line ''KILLED'' pid comm []))
     = Some (event_line ''[ESCALATE]'' t c d @ action_line ''KILLED'' pid comm [] @ NL)"
  by (simp add: event_line_def)

text \<open>What \<open>%q\<close> prints is one line, whatever the string.\<close>

lemma hex_digit_no_newline: "hex_digit (n mod 16) \<noteq> CHR 0x0A"
proof
  assume "hex_digit (n mod 16) = CHR 0x0A"
  then have "hex_val (CHR 0x0A) = Some (n mod 16)" using hex_val_hex_digit [of "n mod 16"] by simp
  then show False by (simp add: hex_val_def is_digit_def)
qed

lemma hex_pad_no_newline: "CHR 0x0A \<notin> set (hex_pad k n)"
  by (induction k n rule: hex_pad.induct) (simp_all add: hex_digit_no_newline [symmetric])

lemma fmt_q_no_newline: "CHR 0x0A \<notin> set (fmt_q ip s)"
proof -
  have q: "CHR 0x0A \<notin> set (quote_ascii c)" for c
    by (cases "c = CHR 0x0A") (simp_all add: quote_ascii_def hex_pad_no_newline)
  have "CHR 0x0A \<notin> set (quote_with ip s)"
  proof (induction ip s rule: quote_with.induct)
    case (2 is_print c s)
    have "CHR 0x0A \<notin> set (quote_rune is_print (take (utf8_size (c # s)) (c # s)))"
      if "\<not> of_char c < (0x80 :: nat)"
      using utf8_multi_high [OF that, of "CHR 0x0A" s]
      by (auto simp: quote_rune_def Let_def hex_pad_no_newline)
    then show ?case using 2 by (auto simp: quote_with.simps hex_pad_no_newline q)
  qed simp
  then show ?thesis by (simp add: fmt_q_def)
qed

end
