(* ===== verification/Agent.thy ===== *)
theory Agent
  imports Baseline Enforce AuditLog Config Metrics Events Report
begin

text \<open>
  The agent, \<open>cmd/watchbpf-agent/main.go\<close>: what \<open>main\<close> sets up, \<open>readLoop\<close> and
  \<open>handleEvent\<close> on one event, and \<open>processLLM\<close> on one escalated event.  The global variables
  are two records: \<open>Setup\<close> holds what \<open>main\<close> fixes, \<open>Agent\<close> what changes afterwards.
  What is printed while it runs is the list \<open>printed\<close> of reports.
\<close>

section \<open>State\<close>

record Setup =
  mode :: string
  selfPID :: u32
  llmClient :: "Client option"

record Agent =
  store :: Store
  policyEngine :: Engine
  auditLogger :: "Logger option"
  files :: fs
  escalationCount :: int
  escalationWindow :: int
  counters :: Counters
  effects :: "effect list"
  printed :: "report list"

definition print_reports :: "report list \<Rightarrow> Agent \<Rightarrow> Agent" where
  "print_reports rs st = st\<lparr>printed := printed st @ rs\<rparr>"

text \<open>
  What the outside gives back during one step: the clock, read at up to three places, the
  network, the system, the outcome of a write to the audit log, and which runes print.
\<close>

record Outside =
  clock :: int
  clock_lag :: nat
  wall_seconds :: int
  network :: network
  sys :: system_calls
  log_write :: write_outcome
  printable :: "nat \<Rightarrow> bool"

definition excludedComms :: "string list" where
  "excludedComms = [''ollama'', ''llama-server'', ''watchbpf-agent'']"

text \<open>An event as \<open>handleEvent\<close> gets it.\<close>

record Event =
  vType :: string
  vComm :: string
  vDetail :: string
  vPid :: u32
  vUid :: u32

definition audit_log :: "Outside \<Rightarrow> log_args \<Rightarrow> Agent \<Rightarrow> Agent \<times> file_error option" where
  "audit_log w a st =
    (case auditLogger st of
       None \<Rightarrow> (st, None)
     | Some l \<Rightarrow>
        (case Log (wall_seconds w) (log_write w) a l (files st) of
           (l', files', err) \<Rightarrow> (st\<lparr>auditLogger := Some l', files := files'\<rparr>, err)))"

section \<open>handleEvent\<close>

text \<open>
  The escalation limiter: a window that starts anew when more than a minute has passed.
  The clock is read once more, \<open>clock_lag\<close> later, when it does.
\<close>

definition escalate :: "int \<times> nat \<Rightarrow> int \<times> int \<Rightarrow> bool \<times> int \<times> int" where
  "escalate t s =
    (let s' = (if minute < fst t - snd s then (0, fst t + int (snd t)) else s);
         n = fst s' + 1
     in (\<not> 50 < n, n, snd s'))"

definition storm_reason :: string where
  "storm_reason = ''escalation storm '' @ em_dash @ '' LLM call skipped''"

definition handleEvent :: "Setup \<Rightarrow> Outside \<Rightarrow> Event \<Rightarrow> Agent \<Rightarrow> Agent \<times> Event option" where
  "handleEvent c w v st =
    (if vPid v = selfPID c \<or> vComm v \<in> set excludedComms then (st, None)
     else
       let known = IsKnown (store st) (vType v) (vComm v) (vDetail v) in
       if mode c = ''learn'' then
         ((if \<not> known
           then print_reports [Learned (vType v) (vComm v) (vDetail v)]
                  (st\<lparr>store := Learn (store st) (vType v) (vComm v) (vDetail v)\<rparr>)
           else st), None)
       else if known then (st, None)
       else
         let st1 = print_reports [Escalated (vType v) (vComm v) (vDetail v)]
                     (st\<lparr>counters := (counters st)\<lparr>EventsEscalated :=
                       Inc (vType v) (EventsEscalated (counters st))\<rparr>\<rparr>);
             (ok, n, win) = escalate (clock w, clock_lag w) (escalationCount st, escalationWindow st);
             st2 = st1\<lparr>escalationCount := n, escalationWindow := win\<rparr>
         in if \<not> ok then
              (fst (audit_log w
                 \<lparr>aEventType = vType v, aComm = vComm v, aDetail = vDetail v, aPID = vPid v,
                  aScore = -1, aTier = ''rate_limited'', aReason = storm_reason, aAction = []\<rparr>
                 (print_reports [RateLimited]
                    (st2\<lparr>counters := (counters st2)\<lparr>EventsRateLimited :=
                       Suc (EventsRateLimited (counters st2))\<rparr>\<rparr>))), None)
            else if llmClient c = None then (st2, None)
            else (st2, Some v))"

section \<open>readLoop\<close>

datatype read_result = ReadClosed | ReadError | Record "byte list"

text \<open>
  One turn of the loop for the probe \<open>label\<close>: \<open>None\<close> where it returns.  A record that cannot
  be decoded is dropped without a trace.
\<close>

definition read_event :: "string \<Rightarrow> byte list \<Rightarrow> Event option" where
  "read_event label raw = map_option
     (\<lambda>(comm, detail, pid, uid). \<lparr>vType = label, vComm = comm, vDetail = detail, vPid = pid, vUid = uid\<rparr>)
     (decode_record label raw)"

definition readLoop_step ::
  "Setup \<Rightarrow> Outside \<Rightarrow> string \<Rightarrow> read_result \<Rightarrow> Agent \<Rightarrow> (Agent \<times> Event option) option" where
  "readLoop_step c w label r st =
    (case r of
       ReadClosed \<Rightarrow> None
     | ReadError \<Rightarrow> Some (print_reports [RingReadFailed label] st, None)
     | Record raw \<Rightarrow>
        (case read_event label raw of
           None \<Rightarrow> Some (st, None)
         | Some v \<Rightarrow> Some (handleEvent c w v
             (st\<lparr>counters := (counters st)\<lparr>EventsProcessed := Inc label (EventsProcessed (counters st))\<rparr>\<rparr>))))"

section \<open>processLLM\<close>

text \<open>The stages between its calls; other goroutines run in between.\<close>

definition event_story :: "Event \<Rightarrow> EventStory" where
  "event_story v = \<lparr>sEventType = vType v, sComm = vComm v, sDetail = vDetail v, sPID = vPid v, sUID = vUid v\<rparr>"

definition assess_stage :: "Client \<Rightarrow> Outside \<Rightarrow> Event \<Rightarrow> Agent \<Rightarrow> Agent \<times> ThreatAssessment option" where
  "assess_stage client w v st =
    (case Assess client (network w) (event_story v) of
       Inl err \<Rightarrow> (print_reports [LlmError err]
                      (st\<lparr>counters := (counters st)\<lparr>LLMCalls :=
                         Inc (client_name client, ''error'') (LLMCalls (counters st))\<rparr>\<rparr>), None)
     | Inr ta \<Rightarrow> (print_reports [Verdict ta]
                      (st\<lparr>counters := (counters st)\<lparr>LLMCalls :=
                         Inc (client_name client, ''success'') (LLMCalls (counters st))\<rparr>\<rparr>), Some ta))"

definition decide_stage :: "Outside \<Rightarrow> Event \<Rightarrow> ThreatAssessment \<Rightarrow> Agent \<Rightarrow> Agent \<times> Decision" where
  "decide_stage w v ta st =
    (case Evaluate (printable w) (clock w) (policyEngine st) (vComm v) (ThreatScore ta) of
       (d, e') \<Rightarrow> (print_reports [Decided d]
                      (st\<lparr>policyEngine := e', counters := (counters st)\<lparr>Decisions :=
                         Inc (tier_string (dTier d)) (Decisions (counters st))\<rparr>\<rparr>), d))"

definition log_stage :: "Outside \<Rightarrow> Event \<Rightarrow> ThreatAssessment \<Rightarrow> Decision \<Rightarrow> Agent \<Rightarrow> Agent" where
  "log_stage w v ta d st =
    (case audit_log w
        \<lparr>aEventType = vType v, aComm = vComm v, aDetail = vDetail v, aPID = vPid v,
         aScore = ThreatScore ta, aTier = tier_string (dTier d), aReason = dReason d, aAction = []\<rparr> st of
       (st', None) \<Rightarrow> st'
     | (st', Some err) \<Rightarrow> print_reports [AuditFailed err] st')"

definition act :: "Outside \<Rightarrow> Event \<Rightarrow> Decision \<Rightarrow> effect list \<times> report list" where
  "act w v d =
    (let isDryRun = HasPrefix (dReason d) ''DRY-RUN'' in
     case dTier d of
       TierHard \<Rightarrow>
         if isDryRun then ([], [WouldKill (vPid v) (vComm v)])
         else
           let (err, es) = KillProcess (sys w) (vPid v);
               rs = [case err of Some e \<Rightarrow> KillFailed e | None \<Rightarrow> Killed (vPid v) (vComm v)]
           in if vType v = ''CONNECT'' then
                let ip = hd (Split (vDetail v) (CHR '':''));
                    (err', es') = IsolateIP (sys w) ip
                in (es @ es', rs @ [case err' of Some e \<Rightarrow> IsolateFailed e | None \<Rightarrow> Isolated ip])
              else (es, rs)
     | TierSoft \<Rightarrow>
         if isDryRun then ([], [WouldPause (vPid v) (vComm v)])
         else
           let (err, es) = PauseProcess (sys w) (vPid v)
           in (es, [case err of Some e \<Rightarrow> PauseFailed e | None \<Rightarrow> Paused (vPid v) (vComm v)])
     | _ \<Rightarrow> ([], []))"

definition act_effects :: "Outside \<Rightarrow> Event \<Rightarrow> Decision \<Rightarrow> effect list" where
  "act_effects w v d = fst (act w v d)"

definition act_stage :: "Outside \<Rightarrow> Event \<Rightarrow> Decision \<Rightarrow> Agent \<Rightarrow> Agent" where
  "act_stage w v d st =
    (case act w v d of (es, rs) \<Rightarrow> print_reports rs (st\<lparr>effects := effects st @ es\<rparr>))"

lemma print_reports_frame [simp]:
  "store (print_reports rs st) = store st" "policyEngine (print_reports rs st) = policyEngine st"
  "auditLogger (print_reports rs st) = auditLogger st" "files (print_reports rs st) = files st"
  "escalationCount (print_reports rs st) = escalationCount st"
  "escalationWindow (print_reports rs st) = escalationWindow st"
  "counters (print_reports rs st) = counters st" "effects (print_reports rs st) = effects st"
  "printed (print_reports rs st) = printed st @ rs"
  by (simp_all add: print_reports_def)

text \<open>The whole of it, when nothing runs in between; each stage sees an outside of its own.\<close>

definition processLLM :: "Client \<Rightarrow> (nat \<Rightarrow> Outside) \<Rightarrow> Event \<Rightarrow> Agent \<Rightarrow> Agent" where
  "processLLM client w v st =
    (case assess_stage client (w 0) v st of
       (st1, None) \<Rightarrow> st1
     | (st1, Some ta) \<Rightarrow>
        (case decide_stage (w 1) v ta st1 of
           (st2, d) \<Rightarrow> act_stage (w 3) v d (log_stage (w 2) v ta d st2)))"

section \<open>main\<close>

record probeConfig =
  progName :: string
  mapName :: string
  tpCategory :: string
  tpName :: string
  eventLabel :: string

definition probes :: "probeConfig list" where
  "probes =
    [\<lparr>progName = ''handle_execve'', mapName = ''rb'', tpCategory = ''syscalls'',
      tpName = ''sys_enter_execve'', eventLabel = ''EXEC''\<rparr>,
     \<lparr>progName = ''handle_openat'', mapName = ''rb_open'', tpCategory = ''syscalls'',
      tpName = ''sys_enter_openat'', eventLabel = ''OPEN''\<rparr>,
     \<lparr>progName = ''handle_connect'', mapName = ''rb_connect'', tpCategory = ''syscalls'',
      tpName = ''sys_enter_connect'', eventLabel = ''CONNECT''\<rparr>]"

definition labels :: "string set" where
  "labels = set (map eventLabel probes)"

lemma labels_eq: "labels = {''EXEC'', ''OPEN'', ''CONNECT''}"
  by (simp add: labels_def probes_def)

record Flags =
  fMode :: string
  fState :: string
  fConfig :: string
  fEnforce :: string

datatype fatal =
    LoadingConfig config_error
  | InvalidMode string
  | RemovingMemlock string
  | ProbeFailed string string

definition audit_path :: string where
  "audit_path = ''/var/log/watchbpf-audit.log''"

text \<open>\<open>main\<close> up to the loop over the probes.\<close>

definition start :: "yaml \<Rightarrow> env \<Rightarrow> fs \<Rightarrow> u32 \<Rightarrow> int \<Rightarrow> string option \<Rightarrow> Flags
    \<Rightarrow> fatal + Setup \<times> Agent" where
  "start yaml getenv fs0 pid now memlock f =
    (case Load yaml fs0 (fConfig f) of
       Inl err \<Rightarrow> Inl (LoadingConfig err)
     | Inr cfg \<Rightarrow>
        if fMode f \<noteq> ''learn'' \<and> fMode f \<noteq> ''filter'' then Inl (InvalidMode (fMode f))
        else
          let client = (if fMode f = ''filter'' then
                 (case NewGeminiClient getenv fs0 PromptV1 of
                    Some gc \<Rightarrow> Some (Gemini gc)
                  | None \<Rightarrow> Some (Ollama (NewOllamaClient getenv PromptV1)))
               else None);
              st = \<lparr>store = NewStore fs0 (fState f),
                    policyEngine = NewEngine (fEnforce f) (cProtected cfg) (cMaxPerMinute cfg)
                      (cAlert cfg) (cSoft cfg) (cHard cfg),
                    auditLogger = Some (NewLogger fs0 audit_path),
                    files = fs0, escalationCount = 0, escalationWindow = now,
                    counters = zero_counters, effects = [], printed = []\<rparr>
          in case memlock of
               Some err \<Rightarrow> Inl (RemovingMemlock err)
             | None \<Rightarrow> Inr (\<lparr>mode = fMode f, selfPID = pid, llmClient = client\<rparr>, st))"

text \<open>
  The loop: loading a probe, attaching it and opening its ring buffer belong to the eBPF
  library, and \<open>attach\<close> is the error it reports for a probe, if any.  A probe that is attached
  has its reader started before the next one is tried, so events are handled meanwhile; the
  first failure ends the program, whatever is running.  The result is the probes whose
  readers were started, and the failure.
\<close>

fun attach_all :: "(probeConfig \<Rightarrow> string option) \<Rightarrow> probeConfig list \<Rightarrow> probeConfig list \<times> fatal option" where
  "attach_all attach [] = ([], None)"
| "attach_all attach (p # ps) =
     (case attach p of
        Some err \<Rightarrow> ([], Some (ProbeFailed (eventLabel p) err))
      | None \<Rightarrow> (case attach_all attach ps of (started, err) \<Rightarrow> (p # started, err)))"

lemma attach_all_started:
  "fst (attach_all attach ps) = takeWhile (\<lambda>p. attach p = None) ps"
  "snd (attach_all attach ps) = None \<longleftrightarrow> fst (attach_all attach ps) = ps"
  by (induction ps) (simp_all add: split_beta split: option.split)

end
