(* ===== verification/Escalation.thy ===== *)
theory Escalation
  imports Agent
begin

text \<open>
  Which events reach the language model: the filter in front of it, and the limiter on
  escalations as an instance of the contract \<open>limiter\<close>.
\<close>

section \<open>The escalation limiter\<close>

text \<open>
  \<open>new\<close> are the grants since the window last started, in a call at time \<open>r\<close>; \<open>old\<close> the ones
  before, of which fewer than 50 lie in the minute before \<open>r\<close>.
\<close>

definition storm_inv :: "int \<times> int \<Rightarrow> int \<Rightarrow> int list \<Rightarrow> bool" where
  "storm_inv s t0 h \<longleftrightarrow>
     (\<exists>new old r. h = new @ old \<and> r \<le> snd s \<and> r \<le> t0
        \<and> int (length new) = min (fst s) 50 \<and> 0 \<le> fst s
        \<and> (\<forall>x \<in> set new. r \<le> x \<and> x \<le> t0) \<and> (\<forall>x \<in> set old. x \<le> r)
        \<and> length (filter (\<lambda>x. r - minute < x) old) \<le> 50
        \<and> (\<forall>t. in_window minute t old \<le> 100))"

lemma in_window_append: "in_window w t (xs @ ys) = in_window w t xs + in_window w t ys"
  by (simp add: in_window_def)

lemma in_window_le: "in_window w t xs \<le> length xs"
  by (simp add: in_window_def)

lemma storm_bound:
  assumes "storm_inv s t0 h" shows "in_window minute t h \<le> 100"
proof -
  obtain new old r where h: "h = new @ old" and new: "length new \<le> 50" "\<forall>x \<in> set new. r \<le> x"
    and old: "\<forall>x \<in> set old. x \<le> r" "length (filter (\<lambda>x. r - minute < x) old) \<le> 50"
      "\<forall>t. in_window minute t old \<le> 100"
  proof -
    from assms obtain new old r where "h = new @ old" "int (length new) = min (fst s) 50"
      "\<forall>x \<in> set new. r \<le> x \<and> x \<le> t0" "\<forall>x \<in> set old. x \<le> r"
      "length (filter (\<lambda>x. r - minute < x) old) \<le> 50" "\<forall>t. in_window minute t old \<le> 100"
      unfolding storm_inv_def by (elim exE conjE) blast
    moreover from this(2) have "length new \<le> 50" by linarith
    ultimately show thesis by (intro that [of new old r]) auto
  qed
  show ?thesis
  proof (cases "r \<le> t")
    case True
    have "in_window minute t old \<le> length (filter (\<lambda>x. r - minute < x) old)"
      unfolding in_window_def using True by (intro length_filter_mono) auto
    then show ?thesis
      using in_window_le [of minute t new] new(1) old(2) by (simp add: h in_window_append)
  next
    case False
    then have "in_window minute t new = 0" using new(2) by (auto simp: in_window_def filter_empty_conv)
    then show ?thesis using old(3) by (simp add: h in_window_append)
  qed
qed

lemma storm_step:
  assumes "storm_inv s t0 h" and "t0 \<le> fst i"
  shows "storm_inv (snd (escalate i s)) (fst i) (if fst (escalate i s) then fst i # h else h)"
proof -
  obtain now lag where i: "i = (now, lag)" by fastforce
  obtain n win where s: "s = (n, win)" by fastforce
  obtain new old r where h: "h = new @ old" and r: "r \<le> win" "r \<le> t0" "0 \<le> n"
    and new: "int (length new) = min n 50" "\<forall>x \<in> set new. r \<le> x \<and> x \<le> t0"
    and old: "\<forall>x \<in> set old. x \<le> r" "length (filter (\<lambda>x. r - minute < x) old) \<le> 50"
      "\<forall>t. in_window minute t old \<le> 100"
    using assms(1) by (auto simp: storm_inv_def s)
  have t: "t0 \<le> now" using assms(2) by (simp add: i)
  show ?thesis
  proof (cases "minute < now - win")
    case True
    then have e: "escalate i s = (True, 1, now + int lag)" by (simp add: escalate_def i s)
    have "filter (\<lambda>x. now - minute < x) old = []"
      using old(1) r(1) True by (auto simp: filter_empty_conv)
    then have "length (filter (\<lambda>x. now - minute < x) h) \<le> 50"
      using order_trans [OF length_filter_le, of new 50] new(1) by (simp add: h)
    moreover have "\<forall>x \<in> set h. x \<le> now" using new(2) old(1) r t by (fastforce simp: h)
    moreover have "\<forall>t. in_window minute t h \<le> 100" using storm_bound [OF assms(1)] by blast
    ultimately have "storm_inv (1, now + int lag) now ([now] @ h)"
      unfolding storm_inv_def by (intro exI [of _ "[now]"] exI [of _ h] exI [of _ now]) simp
    then show ?thesis by (simp add: i e [unfolded i])
  next
    case False
    then have e: "escalate i s = (\<not> 50 < n + 1, n + 1, win)" by (simp add: escalate_def i s)
    show ?thesis
    proof (cases "50 < n + 1")
      case True
      then have "storm_inv (n + 1, win) now (new @ old)"
        unfolding storm_inv_def using r new old t
        by (intro exI [of _ new] exI [of _ old] exI [of _ r]) auto
      then show ?thesis using True by (simp add: i h e [unfolded i])
    next
      case False
      then have "storm_inv (n + 1, win) now ((now # new) @ old)"
        unfolding storm_inv_def using r new old t
        by (intro exI [of _ "now # new"] exI [of _ old] exI [of _ r]) auto
      then show ?thesis using False by (simp add: i h e [unfolded i])
    qed
  qed
qed

interpretation es: limiter escalate fst storm_inv minute 100
  by unfold_locales (rule storm_step, assumption+, rule storm_bound)

lemma storm_inv_start: "storm_inv (0, t) t []"
  by (auto simp: storm_inv_def in_window_def)

section \<open>handleEvent\<close>

text \<open>The cases of \<open>handleEvent\<close>, as an event meets them.\<close>

definition ignored :: "Setup \<Rightarrow> Event \<Rightarrow> bool" where
  "ignored c v \<longleftrightarrow> vPid v = selfPID c \<or> vComm v \<in> set excludedComms"

definition event_of :: "Event \<Rightarrow> string \<times> string \<times> string" where
  "event_of v = (vType v, vComm v, vDetail v)"

lemma known_event_of: "known_event s (event_of v) = IsKnown s (vType v) (vComm v) (vDetail v)"
  by (simp add: known_event_def event_of_def)

lemma known_event_key: "event_key a = event_key b \<Longrightarrow> known_event s a = known_event s b"
  by (simp add: known_event_def event_key_def IsKnown_def)

lemma learn_event_of: "learn_event s (event_of v) = Learn s (vType v) (vComm v) (vDetail v)"
  by (simp add: learn_event_def event_of_def)

abbreviation limit_state :: "Agent \<Rightarrow> int \<times> int" where
  "limit_state st \<equiv> (escalationCount st, escalationWindow st)"

abbreviation outside_time :: "Outside \<Rightarrow> int \<times> nat" where
  "outside_time w \<equiv> (clock w, clock_lag w)"

lemma handleEvent_job: "snd (handleEvent c w v st) = Some v' \<longleftrightarrow>
    v' = v \<and> \<not> ignored c v \<and> mode c \<noteq> ''learn'' \<and> \<not> known_event (store st) (event_of v)
    \<and> fst (escalate (outside_time w) (limit_state st)) \<and> llmClient c \<noteq> None"
  by (auto simp: handleEvent_def ignored_def known_event_of Let_def split: prod.split)

lemma audit_log_frame:
  "store (fst (audit_log w a st)) = store st" "policyEngine (fst (audit_log w a st)) = policyEngine st"
  "escalationCount (fst (audit_log w a st)) = escalationCount st"
  "escalationWindow (fst (audit_log w a st)) = escalationWindow st"
  "effects (fst (audit_log w a st)) = effects st" "counters (fst (audit_log w a st)) = counters st"
  "printed (fst (audit_log w a st)) = printed st"
  by (simp_all add: audit_log_def split: option.split prod.split)

lemma handleEvent_store: "store (fst (handleEvent c w v st)) =
    (if \<not> ignored c v \<and> mode c = ''learn'' \<and> \<not> known_event (store st) (event_of v)
     then learn_event (store st) (event_of v) else store st)"
  by (simp add: handleEvent_def ignored_def known_event_of learn_event_of Let_def audit_log_frame split: prod.split)

lemma handleEvent_limit: "limit_state (fst (handleEvent c w v st)) =
    (if \<not> ignored c v \<and> mode c \<noteq> ''learn'' \<and> \<not> known_event (store st) (event_of v)
     then snd (escalate (outside_time w) (limit_state st)) else limit_state st)"
  by (simp add: handleEvent_def ignored_def known_event_of Let_def audit_log_frame split: prod.split)

lemma handleEvent_quiet:
  "effects (fst (handleEvent c w v st)) = effects st"
  "policyEngine (fst (handleEvent c w v st)) = policyEngine st"
  by (simp_all add: handleEvent_def Let_def audit_log_frame split: prod.split)

text \<open>The events of one probe after the other, with the outside of each.\<close>

primrec handle_all :: "Setup \<Rightarrow> (Outside \<times> Event) list \<Rightarrow> Agent \<Rightarrow> Agent \<times> Event list" where
  "handle_all c [] st = (st, [])"
| "handle_all c (e # es) st =
     (case handleEvent c (fst e) (snd e) st of
        (st1, job) \<Rightarrow> (case handle_all c es st1 of
           (st2, jobs) \<Rightarrow> (st2, (case job of None \<Rightarrow> jobs | Some v \<Rightarrow> v # jobs))))"

lemma handle_all_Cons: "handle_all c (e # es) st =
   (fst (handle_all c es (fst (handleEvent c (fst e) (snd e) st))),
    (case snd (handleEvent c (fst e) (snd e) st) of None \<Rightarrow> [] | Some v \<Rightarrow> [v])
    @ snd (handle_all c es (fst (handleEvent c (fst e) (snd e) st))))"
  by (simp split: prod.split option.split)

text \<open>A learning agent: the store grows by the events it does not ignore, and nothing is escalated.\<close>

lemma learn_all:
  assumes "mode c = ''learn''"
  shows "snd (handle_all c es st) = []
    \<and> known_event (store (fst (handle_all c es st))) e
      = (known_event (store st) e \<or> event_key e \<in> event_key ` event_of ` {v \<in> snd ` set es. \<not> ignored c v})
    \<and> effects (fst (handle_all c es st)) = effects st"
proof (induction es arbitrary: st)
  case (Cons x es)
  let ?st1 = "fst (handleEvent c (fst x) (snd x) st)"
  have job: "snd (handleEvent c (fst x) (snd x) st) = None"
    using handleEvent_job [of c "fst x" "snd x" st] assms by (cases "snd (handleEvent c (fst x) (snd x) st)") auto
  have known: "known_event (store ?st1) e =
      (known_event (store st) e \<or> \<not> ignored c (snd x) \<and> event_key (event_of (snd x)) = event_key e)"
    using assms known_event_key [of "event_of (snd x)" e]
    by (auto simp: handleEvent_store bl.known_learn)
  show ?case
    using Cons.IH [of ?st1] known
    unfolding handle_all_Cons job by (auto simp: handleEvent_quiet image_iff)
qed simp

lemma handle_all_known:
  assumes "mode c \<noteq> ''learn''" and "v \<in> set (snd (handle_all c es st))"
  shows "\<not> known_event (store st) (event_of v) \<and> \<not> ignored c v"
  using assms(2)
proof (induction es arbitrary: st)
  case (Cons x es)
  let ?st1 = "fst (handleEvent c (fst x) (snd x) st)"
  have s: "store ?st1 = store st" using assms(1) by (simp add: handleEvent_store)
  show ?case
    using Cons.prems Cons.IH [of ?st1] handleEvent_job [of c "fst x" "snd x" st v]
    unfolding handle_all_Cons s by (auto split: option.splits)
qed simp

section \<open>Properties\<close>

text \<open>
  C6: An event reaches the language model exactly when it is not the agent's own and not of
  an excluded process, the agent filters, no event with its key was learned, the escalation
  limiter grants it, and there is a client.  Nothing else about the event matters, and
  handling it neither acts nor touches the policy.
\<close>

theorem escalated_exactly:
  "(snd (handleEvent c w v st) = Some v \<longleftrightarrow>
      vPid v \<noteq> selfPID c \<and> vComm v \<notin> {''ollama'', ''llama-server'', ''watchbpf-agent''}
      \<and> mode c \<noteq> ''learn'' \<and> \<not> IsKnown (store st) (vType v) (vComm v) (vDetail v)
      \<and> fst (escalate (clock w, clock_lag w) (escalationCount st, escalationWindow st))
      \<and> llmClient c \<noteq> None)
   \<and> effects (fst (handleEvent c w v st)) = effects st
   \<and> policyEngine (fst (handleEvent c w v st)) = policyEngine st"
  by (simp add: handleEvent_job handleEvent_quiet known_event_of ignored_def excludedComms_def)

text \<open>
  C7: Learning, end to end: run in learn mode over any events, save, start again in filter
  mode on the file that was saved.  An event with the key of one that was learned (and not
  ignored) is never escalated, whatever comes before it, when that key is valid UTF-8.  When it
  is not, as for a file name with a Latin-1 letter, the saved file holds another key: the event
  is not known after the start and is escalated as if it had never been learned.  The
  learning run escalates nothing and does nothing to any process.
\<close>

theorem learned_never_escalated:
  assumes "mode c = ''learn''" and "mode c' \<noteq> ''learn''"
    and "store st0 = NewStore fs0 path"
    and "let s = store (fst (handle_all c es st0)) in
           range_order s ks \<and> filePath s = path \<and> store st1 = NewStore (fst (Save ks Written fs1 s)) path"
    and "v0 \<in> snd ` set es" and "\<not> ignored c v0"
    and "event_key (event_of v) = event_key (event_of v0)"
  shows "(if valid_utf8 (event_key (event_of v0)) then v \<notin> set (snd (handle_all c' es' st1))
      else \<not> known_event (store st1) (event_of v) \<and>
        (snd (handleEvent c' w v st1) = Some v \<longleftrightarrow> \<not> ignored c' v \<and> llmClient c' \<noteq> None
           \<and> fst (escalate (clock w, clock_lag w) (escalationCount st1, escalationWindow st1))))
    \<and> snd (handle_all c es st0) = [] \<and> effects (fst (handle_all c es st0)) = effects st0"
proof -
  let ?s = "store (fst (handle_all c es st0))" and ?k = "event_key (event_of v)"
  have "known_event ?s (event_of v)"
    using learn_all [OF assms(1), of es st0 "event_of v"] assms(5-7) by (auto simp: image_iff)
  then have "?k \<in> set ks"
    using assms(4) by (auto simp: Let_def known_event_def IsKnown_def event_key_def range_order_def split: option.splits)
  moreover have st1: "known_event (store st1) (event_of v) \<longleftrightarrow> ?k \<in> sanitize ` set ks"
    using assms(4) load_saved [of ks fs1 ?s] by (auto simp: Let_def known_event_def IsKnown_def event_key_def)
  ultimately have "known_event (store st1) (event_of v) \<longleftrightarrow> valid_utf8 ?k"
    using sanitize_valid [of ?k] valid_sanitize by (metis image_iff)
  then show ?thesis
    using handle_all_known [OF assms(2), of v es' st1] assms(2,7) learn_all [OF assms(1)]
    by (auto simp: handleEvent_job)
qed

definition demo_outside :: Outside where
  "demo_outside = \<lparr>clock = 0, clock_lag = 0, wall_seconds = 0, network = (\<lambda>_. HttpFailed []),
     sys = \<lparr>kill_result = (\<lambda>_ _. None), command_result = (\<lambda>_. None)\<rparr>,
     log_write = Written, printable = (\<lambda>_. True)\<rparr>"

definition demo_agent :: "Store \<Rightarrow> Agent" where
  "demo_agent s = \<lparr>store = s, policyEngine = NewEngine ''live'' [''sshd''] 50 40 70 90,
     auditLogger = None, files = (\<lambda>_. Inl NotExist), escalationCount = 0, escalationWindow = 0,
     counters = zero_counters, effects = [], printed = []\<rparr>"

definition demo_setup :: "string \<Rightarrow> Setup" where
  "demo_setup m = \<lparr>mode = m, selfPID = 100, llmClient = None\<rparr>"

definition demo_event :: Event where
  "demo_event = \<lparr>vType = ''EXEC'', vComm = ''ls'', vDetail = ''/bin/ls'', vPid = 7, vUid = 0\<rparr>"

lemma store_demo_agent: "store (demo_agent s) = s"
  by (simp add: demo_agent_def)

lemma mode_demo_setup: "mode (demo_setup m) = m"
  by (simp add: demo_setup_def)

lemma demo_modes: "''filter'' \<noteq> ''learn''"
  by simp

lemma demo_learned: "store (fst (handle_all (demo_setup ''learn'') [(demo_outside, demo_event)]
    (demo_agent (NewStore (\<lambda>_. Inl NotExist) ''baseline.json'')))) = demo_store"
proof -
  have "makeKey ''EXEC'' ''ls'' ''/bin/ls'' = ''EXEC|ls|/bin/ls''"
    by (simp add: makeKey_def normalize_norm_words norm_words.simps is_word_def is_digit_def is_alpha_def)
  then show ?thesis
    by (simp add: handle_all_Cons handleEvent_store demo_setup_def demo_event_def ignored_def
        excludedComms_def demo_agent_def known_event_def event_of_def learn_event_def IsKnown_def
        Learn_def NewStore_def store_load_def ReadFile_def demo_store_def del: handle_all.simps(2))
qed

theorem learned_never_escalated_witness:
  "valid_utf8 (event_key (event_of demo_event)) \<and>
   demo_event \<notin> set (snd (handle_all (demo_setup ''filter'') [(demo_outside, demo_event)]
     (demo_agent (NewStore (fst (Save [''EXEC|ls|/bin/ls''] Written (\<lambda>_. Inl NotExist) demo_store))
        ''baseline.json''))))"
proof -
  let ?s = "demo_agent (NewStore (\<lambda>_. Inl NotExist) ''baseline.json'')"
  have d: "range_order demo_store [''EXEC|ls|/bin/ls''] \<and> filePath demo_store = ''baseline.json''"
    by (simp add: demo_store_def range_order_def)
  have p: "let s = store (fst (handle_all (demo_setup ''learn'') [(demo_outside, demo_event)] ?s)) in
      range_order s [''EXEC|ls|/bin/ls''] \<and> filePath s = ''baseline.json''
      \<and> store (demo_agent (NewStore (fst (Save [''EXEC|ls|/bin/ls''] Written (\<lambda>_. Inl NotExist) demo_store))
            ''baseline.json''))
        = NewStore (fst (Save [''EXEC|ls|/bin/ls''] Written (\<lambda>_. Inl NotExist) s)) ''baseline.json''"
    unfolding demo_learned Let_def store_demo_agent using d by blast
  have "store ?s = NewStore (\<lambda>_. Inl NotExist) ''baseline.json''" by (rule store_demo_agent)
  moreover have "\<not> ignored (demo_setup ''learn'') demo_event"
    by (simp add: demo_setup_def ignored_def demo_event_def excludedComms_def)
  moreover have "demo_event \<in> snd ` set [(demo_outside, demo_event)]" by simp
  moreover have "valid_utf8 (event_key (event_of demo_event))"
    by (simp add: event_key_def event_of_def demo_event_def makeKey_def normalize_norm_words norm_words.simps
        is_word_def is_digit_def is_alpha_def valid_ascii)
  ultimately show ?thesis
    using learned_never_escalated [OF _ _ _ p, of "demo_setup ''filter''" "\<lambda>_. Inl NotExist" demo_event
        demo_event "[(demo_outside, demo_event)]"] by (metis mode_demo_setup demo_modes)
qed

text \<open>
  C22: The escalation limiter lets at most 100 events through in any 60 seconds, over any
  calls at non-decreasing times.
\<close>

theorem storm_bounded:
  assumes "sorted (t0 # map fst ts)"
  shows "in_window minute t (grants escalate fst ts (0, t0) []) \<le> 100"
  by (rule es.bounded [OF storm_inv_start assms])

theorem storm_bounded_witness:
  "in_window minute 9 (grants escalate fst [(1, 0), (5, 2)] (0, 0) []) \<le> 100"
  using storm_bounded [of 0 "[(1, 0), (5, 2)]" 9] by simp

lemma grants_append: "grants f g (xs @ ys) s h = grants f g ys (after f xs s) (grants f g xs s h)"
  by (induction xs arbitrary: s h) simp_all

lemma storm_burst:
  assumes "t - win \<le> minute" and "0 \<le> n" and "n + int k \<le> 50"
  shows "grants escalate fst (replicate k (t, lag)) (n, win) h = replicate k t @ h
    \<and> after escalate (replicate k (t, lag)) (n, win) = (n + int k, win)"
  using assms(2,3)
proof (induction k arbitrary: n h)
  case (Suc k)
  have "escalate (t, lag) (n, win) = (True, n + 1, win)"
    using assms(1) Suc.prems by (simp add: escalate_def)
  then show ?case
    using Suc.IH [of "n + 1" "t # h"] Suc.prems by (simp add: replicate_app_Cons_same)
qed simp

text \<open>
  That bound is attained, so it is not the 50 per minute the limiter is meant to keep:
  50 events late in one window and 50 early in the next pass within two seconds.  The
  configured \<open>max_per_minute\<close> plays no part.
\<close>

lemma storm_doubled:
  "let ts = replicate 50 (59 * second, 0) @ replicate 50 (61 * second, 0) in
     sorted (0 # map fst ts)
   \<and> in_window (2 * second + 1) (61 * second) (grants escalate fst ts (0, 0) []) = 100"
proof -
  have m: "minute = 60 * second" "0 < second" by (simp_all add: minute_def second_def)
  have a: "grants escalate fst (replicate 50 (59 * second, 0)) (0, 0) [] = replicate 50 (59 * second) @ []
      \<and> after escalate (replicate 50 (59 * second, 0)) (0, 0) = (0 + int 50, 0)"
    by (rule storm_burst) (simp_all add: m)
  have b: "grants escalate fst (replicate 50 (61 * second, 0)) (50, 0) h = replicate 50 (61 * second) @ h" for h
  proof -
    have "escalate (61 * second, 0) (50, 0) = (True, 1, 61 * second)"
      by (simp add: escalate_def m)
    moreover have "grants escalate fst (replicate 49 (61 * second, 0)) (1, 61 * second) (61 * second # h)
        = replicate 49 (61 * second) @ 61 * second # h"
      using storm_burst [of "61 * second" "61 * second" 1 49 0 "61 * second # h"] m(2) by (simp add: m(1))
    moreover have "(50 :: nat) = Suc 49" by simp
    ultimately show ?thesis
      by (simp only: replicate_Suc grants.simps fst_conv snd_conv if_True replicate_app_Cons_same append_Cons)
  qed
  have "grants escalate fst (replicate 50 (59 * second, 0) @ replicate 50 (61 * second, 0)) (0, 0) []
      = replicate 50 (61 * second) @ replicate 50 (59 * second)"
    using a b by (simp add: grants_append)
  moreover have "sorted (0 # map fst (replicate 50 (59 * second, 0 :: nat) @ replicate 50 (61 * second, 0)))"
    using m by (simp add: sorted_append)
  ultimately show ?thesis using m by (simp add: Let_def in_window_def)
qed

text \<open>
  What the allowlist remembers of a connection: for a process, all IPv4 destinations and
  all ports have one key.  Once one connection was learned, no connection of that process
  to any IPv4 address is escalated again.
\<close>

lemma ipv4_connections_share_a_key:
  assumes "cIsIPv6 ev \<noteq> 1" and "cIsIPv6 ev' \<noteq> 1"
  shows "makeKey ''CONNECT'' comm (connect_detail ev) = makeKey ''CONNECT'' comm (connect_detail ev')"
proof -
  have sep: "\<not> is_word CHR ''.''" "\<not> is_word CHR '':''"
    by (simp_all add: is_word_def is_digit_def is_alpha_def)
  have d: "normalize (connect_detail e) = ''<NUM>.<NUM>.<NUM>.<NUM>:<NUM>''" if "cIsIPv6 e \<noteq> 1" for e
  proof -
    have "\<exists>a b c d. bs = [a, b, c, d]" if "length bs = 4" for bs :: "byte list"
      using that by (auto simp: length_Suc_conv numeral_eq_Suc)
    from this [OF length_le_put] obtain a b c d where ip: "le_put 4 (cDstAddr e) = [a, b, c, d]"
      by blast
    then show ?thesis
      using that norm_words_dec [of "[]" "unat (cDstPort e)"] sep
      by (simp add: connect_detail_def IP_String_def normalize_norm_words fmt_d_def
          norm_words_dec norm_words_sep)
  qed
  show ?thesis by (simp add: makeKey_def d [OF assms(1)] d [OF assms(2)])
qed

lemma ipv4_connections_share_a_key_witness:
  "makeKey ''CONNECT'' ''nc'' (connect_detail \<lparr>cPid = 1, cUid = 0, cComm = [], cIsIPv6 = 0,
       cIPv6Addr = [], cDstAddr = 0x0100007F, cDstPort = 443\<rparr>)
   = makeKey ''CONNECT'' ''nc'' (connect_detail \<lparr>cPid = 9, cUid = 0, cComm = [], cIsIPv6 = 0,
       cIPv6Addr = [], cDstAddr = 0x0A00000A, cDstPort = 4444\<rparr>)"
  by (rule ipv4_connections_share_a_key) simp_all

end
