(* ===== verification/Response.thy ===== *)
theory Response
  imports Escalation
begin

text \<open>
  What an assessment leads to: \<open>processLLM\<close> in full, the signals it sends, and the address
  it hands to the firewall.
\<close>

definition kill_effects :: "u32 \<Rightarrow> signal \<Rightarrow> effect list" where
  "kill_effects pid s = (if pid = 0 \<or> pid = 1 then [] else [Kill (int (unat pid)) s])"

definition isolate_effects :: "Event \<Rightarrow> effect list" where
  "isolate_effects v = (if vType v = ''CONNECT''
     then [Run chain_command, Run (rule_command (hd (Split (vDetail v) (CHR '':''))))] else [])"

lemma act_effects_cases: "act_effects w v d =
   (if \<not> acts d then []
    else if dTier d = TierHard then kill_effects (vPid v) SIGKILL @ isolate_effects v
    else kill_effects (vPid v) SIGSTOP)"
  by (cases "dTier d")
    (simp_all add: act_effects_def act_def split_def Let_def acts_def is_action_def kill_effects_def isolate_effects_def
      KillProcess_effects PauseProcess_effects IsolateIP_effects)

lemma signals_act: "(p, s) \<in> set (signals (act_effects w v d)) \<Longrightarrow>
    p = int (unat (vPid v)) \<and> 1 < p \<and> acts d"
  by (auto simp: act_effects_cases kill_effects_def isolate_effects_def pid_neq [simplified] split: if_splits)

lemma assess_stage_frame:
  "effects (fst (assess_stage client w v st)) = effects st"
  "policyEngine (fst (assess_stage client w v st)) = policyEngine st"
  "store (fst (assess_stage client w v st)) = store st"
  "snd (assess_stage client w v st) = Some ta \<longleftrightarrow> Assess client (network w) (event_story v) = Inr ta"
  by (simp_all add: assess_stage_def split: sum.split)

lemma decide_stage_frame:
  "effects (fst (decide_stage w v ta st)) = effects st"
  "policyEngine (fst (decide_stage w v ta st))
     = snd (Evaluate (printable w) (clock w) (policyEngine st) (vComm v) (ThreatScore ta))"
  "store (fst (decide_stage w v ta st)) = store st"
  "snd (decide_stage w v ta st)
     = fst (Evaluate (printable w) (clock w) (policyEngine st) (vComm v) (ThreatScore ta))"
  by (simp_all add: decide_stage_def split: prod.split)

lemma log_stage_frame:
  "effects (log_stage w v ta d st) = effects st"
  "policyEngine (log_stage w v ta d st) = policyEngine st"
  "store (log_stage w v ta d st) = store st"
  "counters (log_stage w v ta d st) = counters st"
  by (simp_all add: log_stage_def split_def audit_log_frame split: option.split)

lemma act_stage_frame:
  "effects (act_stage w v d st) = effects st @ act_effects w v d"
  "policyEngine (act_stage w v d st) = policyEngine st"
  "store (act_stage w v d st) = store st"
  "counters (act_stage w v d st) = counters st"
  by (simp_all add: act_stage_def act_effects_def split_def)

lemma processLLM_effects: "effects (processLLM client w v st) = effects st @
    (case Assess client (network (w 0)) (event_story v) of
       Inl err \<Rightarrow> []
     | Inr ta \<Rightarrow> act_effects (w 3) v
         (fst (Evaluate (printable (w 1)) (clock (w 1)) (policyEngine st) (vComm v) (ThreatScore ta))))"
proof (cases "Assess client (network (w 0)) (event_story v)")
  case (Inr ta)
  then have a: "assess_stage client (w 0) v st = (fst (assess_stage client (w 0) v st), Some ta)"
    by (metis assess_stage_frame(4) prod.collapse)
  show ?thesis
    by (subst processLLM_def, subst a)
      (simp add: Inr act_stage_def log_stage_frame split_def decide_stage_frame assess_stage_frame act_effects_def)
qed (simp add: processLLM_def assess_stage_def)

section \<open>What is reported\<close>

text \<open>A report of an action and the action itself.\<close>

lemma act_reports:
  "Killed p c \<in> set (snd (act w v d)) \<longleftrightarrow> p = vPid v \<and> c = vComm v
     \<and> Kill (int (unat p)) SIGKILL \<in> set (fst (act w v d)) \<and> kill_result (sys w) (int (unat p)) SIGKILL = None"
  "Paused p c \<in> set (snd (act w v d)) \<longleftrightarrow> p = vPid v \<and> c = vComm v
     \<and> Kill (int (unat p)) SIGSTOP \<in> set (fst (act w v d)) \<and> kill_result (sys w) (int (unat p)) SIGSTOP = None"
  "Isolated a \<in> set (snd (act w v d)) \<longleftrightarrow>
     Run (rule_command a) \<in> set (fst (act w v d)) \<and> command_result (sys w) (rule_command a) = None"
  "WouldKill p c \<in> set (snd (act w v d)) \<or> WouldPause p c \<in> set (snd (act w v d)) \<Longrightarrow> fst (act w v d) = []"
  by (cases "dTier d"; auto simp: act_def KillProcess_def PauseProcess_def IsolateIP_def Let_def
      rule_command_def chain_command_def split: if_splits option.splits)+

lemma log_stage_printed:
  "\<exists>as. printed (log_stage w v ta d st) = printed st @ as \<and> set as \<subseteq> range AuditFailed"
  by (auto simp: log_stage_def split_def audit_log_frame split: option.split)

lemma processLLM_printed:
  assumes "Assess client (network (w 0)) (event_story v) = Inr ta"
  shows "\<exists>as. set as \<subseteq> range AuditFailed \<and> printed (processLLM client w v st) = printed st
     @ (let d = fst (Evaluate (printable (w 1)) (clock (w 1)) (policyEngine st) (vComm v) (ThreatScore ta))
        in [Verdict ta, Decided d] @ as @ snd (act (w 3) v d))"
proof -
  let ?st1 = "fst (assess_stage client (w 0) v st)"
  let ?st2 = "fst (decide_stage (w 1) v ta ?st1)" and ?d = "snd (decide_stage (w 1) v ta ?st1)"
  have a: "assess_stage client (w 0) v st = (?st1, Some ta)"
    using assms by (metis assess_stage_frame(4) prod.collapse)
  obtain as where as: "printed (log_stage (w 2) v ta ?d ?st2) = printed ?st2 @ as" "set as \<subseteq> range AuditFailed"
    using log_stage_printed by blast
  have p1: "printed ?st1 = printed st @ [Verdict ta]" by (simp add: assess_stage_def assms)
  have p2: "printed ?st2 = printed ?st1 @ [Decided ?d]" by (simp add: decide_stage_def split: prod.split)
  have "printed (processLLM client w v st)
      = printed (log_stage (w 2) v ta ?d ?st2) @ snd (act (w 3) v ?d)"
    by (subst processLLM_def, subst a) (simp add: act_stage_def split_def)
  then have "printed (processLLM client w v st) = printed st @ [Verdict ta, Decided ?d] @ as @ snd (act (w 3) v ?d)"
    by (simp only: as(1) p2 p1 append_assoc append_Cons append_Nil)
  then show ?thesis
    using as(2) by (intro exI [of _ as]) (simp add: decide_stage_frame assess_stage_frame Let_def)
qed

lemma acting_tier:
  assumes "acts (fst (Evaluate ip now e comm score))"
  shows "dTier (fst (Evaluate ip now e comm score)) = score_tier e score"
proof -
  have "fst (Evaluate ip now e comm score) = \<lparr>dTier = score_tier e score, dReason = threshold_reason\<rparr>"
    using assms unfolding acts_iff by (cases "allowAction now e") (simp add: Evaluate_def)
  then show ?thesis by simp
qed

lemma connect_detail_host: "hd (Split (connect_detail ev) (CHR '':'')) =
    (if cIsIPv6 ev = 1 then CHR ''['' # takeWhile (\<lambda>c. c \<noteq> CHR '':'') (IP_String (cIPv6Addr ev) @ '']'')
     else IP_String (le_put 4 (cDstAddr ev)))"
proof -
  have "\<exists>a b c d. bs = [a, b, c, d]" if "length bs = 4" for bs :: "byte list"
    using that by (auto simp: length_Suc_conv numeral_eq_Suc)
  from this [OF length_le_put] obtain a b c d where ip: "le_put 4 (cDstAddr ev) = [a, b, c, d]"
    by blast
  have "\<forall>x \<in> set (dec n). x \<noteq> CHR '':''" for n
    using dec_digits [of _ n] by (fastforce simp: is_digit_def)
  then have "\<forall>x \<in> set (IP_String [a, b, c, d]). x \<noteq> CHR '':''"
    by (auto simp: IP_String_def)
  then have "takeWhile (\<lambda>c. c \<noteq> CHR '':'') (IP_String [a, b, c, d] @ CHR '':'' # r) = IP_String [a, b, c, d]" for r
    by (simp add: takeWhile_tail)
  moreover have "takeWhile (\<lambda>c. c \<noteq> CHR '':'') (s @ CHR '']'' # CHR '':'' # r)
      = takeWhile (\<lambda>c. c \<noteq> CHR '':'') (s @ '']'')" for s r
    by (induction s) simp_all
  ultimately show ?thesis by (simp add: connect_detail_def hd_Split ip)
qed

section \<open>Properties\<close>

text \<open>
  C1: What \<open>processLLM\<close> does to the system, exactly.  Nothing, unless the model's answer was
  accepted, enforcement is live, the process is not protected and the policy's limiter
  grants a slot; then from the hard threshold on it kills the process of the event and, for
  a connection, blocks the address, and from the soft threshold on it stops the process.
  Processes 0 and 1 are never signalled.
\<close>

theorem response_exact:
  "effects (processLLM client w v st) = effects st @
    (case Assess client (network (w 0)) (event_story v) of
       Inl err \<Rightarrow> []
     | Inr ta \<Rightarrow>
        (let e = policyEngine st in
         if enforceMode e = ''live'' \<and> \<not> protected_comm e (vComm v) \<and> fst (allowAction (clock (w 1)) e)
         then if thresholdHard e \<le> ThreatScore ta
              then (if vPid v = 0 \<or> vPid v = 1 then [] else [Kill (int (unat (vPid v))) SIGKILL])
                 @ (if vType v = ''CONNECT''
                    then [Run chain_command, Run (rule_command (hd (Split (vDetail v) (CHR '':''))))] else [])
              else if thresholdSoft e \<le> ThreatScore ta
              then (if vPid v = 0 \<or> vPid v = 1 then [] else [Kill (int (unat (vPid v))) SIGSTOP])
              else []
         else []))"
proof (cases "Assess client (network (w 0)) (event_story v)")
  case (Inr ta)
  let ?e = "policyEngine st" and ?s = "ThreatScore ta"
  let ?d = "fst (Evaluate (printable (w 1)) (clock (w 1)) ?e (vComm v) ?s)"
  have licence: "acts ?d \<longleftrightarrow> enforceMode ?e = ''live'' \<and> \<not> protected_comm ?e (vComm v)
      \<and> fst (allowAction (clock (w 1)) ?e) \<and> (thresholdHard ?e \<le> ?s \<or> thresholdSoft ?e \<le> ?s)"
    by (auto simp: acts_iff is_action_def score_tier_def)
  have "dTier ?d = TierHard \<longleftrightarrow> thresholdHard ?e \<le> ?s" if "acts ?d"
    using acting_tier [OF that] by (simp add: score_tier_def)
  then have eff: "act_effects (w 3) v ?d = (if \<not> acts ?d then []
      else if thresholdHard ?e \<le> ?s then kill_effects (vPid v) SIGKILL @ isolate_effects v
      else kill_effects (vPid v) SIGSTOP)"
    by (simp add: act_effects_cases)
  show ?thesis
    unfolding processLLM_effects Inr sum.case Let_def eff licence
    by (simp add: kill_effects_def isolate_effects_def del: One_nat_def)
qed (simp add: processLLM_effects)

text \<open>
  C8: The agent's reports of what it did are true.  What \<open>processLLM\<close> prints and does: a
  process is reported killed or stopped, an address isolated, exactly when the system call
  or command was made for it and succeeded; and when it prints what it would have done it has
  done nothing.
\<close>

theorem reports_truthful:
  "\<exists>es rs. effects (processLLM client w v st) = effects st @ es
    \<and> printed (processLLM client w v st) = printed st @ rs
    \<and> (\<forall>p c. Killed p c \<in> set rs \<longleftrightarrow> p = vPid v \<and> c = vComm v
         \<and> Kill (int (unat p)) SIGKILL \<in> set es \<and> kill_result (sys (w 3)) (int (unat p)) SIGKILL = None)
    \<and> (\<forall>p c. Paused p c \<in> set rs \<longleftrightarrow> p = vPid v \<and> c = vComm v
         \<and> Kill (int (unat p)) SIGSTOP \<in> set es \<and> kill_result (sys (w 3)) (int (unat p)) SIGSTOP = None)
    \<and> (\<forall>a. Isolated a \<in> set rs \<longleftrightarrow>
         Run (rule_command a) \<in> set es \<and> command_result (sys (w 3)) (rule_command a) = None)
    \<and> (es = [] \<or> (\<forall>p c. WouldKill p c \<notin> set rs \<and> WouldPause p c \<notin> set rs))"
proof (cases "Assess client (network (w 0)) (event_story v)")
  case (Inl err)
  then have "printed (processLLM client w v st) = printed st @ [LlmError err]"
    by (simp add: processLLM_def assess_stage_def)
  then show ?thesis
    using processLLM_effects [of client w v st] Inl by (intro exI [of _ "[]"] exI [of _ "[LlmError err]"]) simp
next
  case (Inr ta)
  let ?d = "fst (Evaluate (printable (w 1)) (clock (w 1)) (policyEngine st) (vComm v) (ThreatScore ta))"
  obtain as where as: "set as \<subseteq> range AuditFailed"
    "printed (processLLM client w v st) = printed st @ [Verdict ta, Decided ?d] @ as @ snd (act (w 3) v ?d)"
    using processLLM_printed [of client w v ta st, OF Inr] by (auto simp: Let_def)
  have e: "effects (processLLM client w v st) = effects st @ fst (act (w 3) v ?d)"
    using processLLM_effects [of client w v st] by (simp add: Inr act_effects_def)
  have n: "Killed p c \<notin> set as" "Paused p c \<notin> set as" "Isolated a \<notin> set as" "WouldKill p c \<notin> set as"
    "WouldPause p c \<notin> set as" for p c a using as(1) by auto
  define es rs where "es = fst (act (w 3) v ?d)" and "rs = snd (act (w 3) v ?d)"
  note r = act_reports [where w = "w 3" and v = v and d = ?d, folded es_def rs_def]
  have "es = [] \<or> (\<forall>p c. WouldKill p c \<notin> set rs \<and> WouldPause p c \<notin> set rs)" using r(4) by blast
  then show ?thesis
    by (intro exI [of _ es] exI [of _ "[Verdict ta, Decided ?d] @ as @ rs"])
      (simp add: e [folded es_def] as(2) [folded rs_def] n r(1-3))
qed

theorem reports_truthful_witness:
  "\<exists>es rs. effects (processLLM demo_ollama (\<lambda>_. demo_outside) demo_event (demo_agent demo_store)) = es
     \<and> printed (processLLM demo_ollama (\<lambda>_. demo_outside) demo_event (demo_agent demo_store)) = rs
     \<and> (Killed 7 ''ls'' \<in> set rs \<longleftrightarrow> Kill 7 SIGKILL \<in> set es)"
  using reports_truthful [of demo_ollama "\<lambda>_. demo_outside" demo_event "demo_agent demo_store"]
  by (fastforce simp: demo_agent_def demo_outside_def demo_event_def)

text \<open>
  The address handed to the firewall is what stands before the first colon of the
  detail.  For an IPv4 connection that is the destination; for an IPv6 connection it starts
  with the bracket of the printed form and is no address, so the rule cannot be added.
\<close>

lemma isolate_address:
  assumes "read_connectEvent raw = Some ev" and "read_event ''CONNECT'' raw = Some v"
  shows "(cIsIPv6 ev \<noteq> 1 \<longrightarrow> hd (Split (vDetail v) (CHR '':'')) = IP_String (le_put 4 (cDstAddr ev)))
    \<and> (cIsIPv6 ev = 1 \<longrightarrow> hd (hd (Split (vDetail v) (CHR '':''))) = CHR ''['')"
proof -
  have "vDetail v = connect_detail ev"
    using assms by (auto simp: read_event_def decode_record_def)
  then show ?thesis by (simp add: connect_detail_host)
qed

definition demo_raw :: "byte list" where
  "demo_raw = replicate 4 0 @ replicate 4 0 @ replicate 16 0 @ [1] @ replicate 16 1
     @ replicate 3 0 @ replicate 4 0 @ replicate 2 0 @ []"

definition demo_connect :: connectEvent where
  "demo_connect = \<lparr>cPid = 0, cUid = 0, cComm = replicate 16 0, cIsIPv6 = 1,
     cIPv6Addr = replicate 16 1, cDstAddr = 0, cDstPort = 0\<rparr>"

lemma read_demo_raw: "read_connectEvent demo_raw = Some demo_connect"
  unfolding demo_raw_def demo_connect_def
  by (subst read_connectEvent_append) (simp_all add: numeral_eq_Suc)

lemma read_demo_event: "read_event ''CONNECT'' demo_raw = Some \<lparr>vType = ''CONNECT'', vComm = cstr (replicate 16 0),
    vDetail = connect_detail demo_connect, vPid = 0, vUid = 0\<rparr>"
  by (simp add: read_event_def decode_record_def read_demo_raw) (simp add: demo_connect_def)

lemma isolate_address_witness:
  "hd (hd (Split (connect_detail demo_connect) (CHR '':''))) = CHR ''[''"
  using isolate_address [OF read_demo_raw read_demo_event] by (simp add: demo_connect_def)

end
