(* ===== verification/Concurrent.thy ===== *)
theory Concurrent
  imports Response
begin

text \<open>
  The running agent: readers that handle events, and one goroutine per escalated event that
  takes a slot of \<open>llmSemaphore\<close> and runs \<open>processLLM\<close>.  The mutexes make the operations on
  the shared state atomic, and the goroutines interleave between them.  A reader handles an
  event in one step here; \<open>Interleaving\<close> shows that this loses nothing.  A job is an event and
  how far its goroutine has got.
\<close>

datatype phase =
    Waiting
  | Assessing
  | is_Deciding: Deciding ThreatAssessment
  | is_Logging: Logging ThreatAssessment Decision
  | Acting Decision

record System =
  agent :: Agent
  jobs :: "(Event \<times> phase) list"

text \<open>The goroutines between \<open>llmSemaphore <- struct{}{}\<close> and its release.\<close>

definition holding :: "(Event \<times> phase) list \<Rightarrow> nat" where
  "holding js = length (filter (\<lambda>j. snd j \<noteq> Waiting) js)"

definition llmSlots :: nat where "llmSlots = 3"

definition spawn :: "Event option \<Rightarrow> (Event \<times> phase) list" where
  "spawn job = (case job of None \<Rightarrow> [] | Some v \<Rightarrow> [(v, Waiting)])"

text \<open>
  What the goroutine of an escalated event does.  A job leaves the list when its goroutine
  ends; the deferred receive frees its slot.
\<close>

inductive job_step :: "Setup \<Rightarrow> System \<Rightarrow> System \<Rightarrow> bool" for c where
  Acquire: "jobs s = js @ (v, Waiting) # ks \<Longrightarrow> holding (jobs s) < llmSlots \<Longrightarrow>
     job_step c s (s\<lparr>jobs := js @ (v, Assessing) # ks\<rparr>)"
| AssessFails: "jobs s = js @ (v, Assessing) # ks \<Longrightarrow> llmClient c = Some client \<Longrightarrow>
     assess_stage client w v (agent s) = (a', None) \<Longrightarrow>
     job_step c s (s\<lparr>agent := a', jobs := js @ ks\<rparr>)"
| Assesses: "jobs s = js @ (v, Assessing) # ks \<Longrightarrow> llmClient c = Some client \<Longrightarrow>
     assess_stage client w v (agent s) = (a', Some ta) \<Longrightarrow>
     job_step c s (s\<lparr>agent := a', jobs := js @ (v, Deciding ta) # ks\<rparr>)"
| Decides: "jobs s = js @ (v, Deciding ta) # ks \<Longrightarrow>
     decide_stage w v ta (agent s) = (a', d) \<Longrightarrow>
     job_step c s (s\<lparr>agent := a', jobs := js @ (v, Logging ta d) # ks\<rparr>)"
| Logs: "jobs s = js @ (v, Logging ta d) # ks \<Longrightarrow>
     job_step c s (s\<lparr>agent := log_stage w v ta d (agent s), jobs := js @ (v, Acting d) # ks\<rparr>)"
| Acts: "jobs s = js @ (v, Acting d) # ks \<Longrightarrow>
     job_step c s (s\<lparr>agent := act_stage w v d (agent s), jobs := js @ ks\<rparr>)"

text \<open>
  The whole agent: a reader takes a record of its ring, a goroutine goes on, or the saver's
  ticker fires.
\<close>

inductive step :: "Setup \<Rightarrow> System \<Rightarrow> System \<Rightarrow> bool" for c where
  Reader: "label \<in> labels \<Longrightarrow> readLoop_step c w label r (agent s) = Some (a', job) \<Longrightarrow>
     step c s (s\<lparr>agent := a', jobs := jobs s @ spawn job\<rparr>)"
| Job: "job_step c s s' \<Longrightarrow> step c s s'"
| Ticked: "range_order (store (agent s)) order \<Longrightarrow>
     step c s (s\<lparr>agent := (agent s)\<lparr>files := fst (Save order out (files (agent s)) (store (agent s)))\<rparr>\<rparr>)"

lemmas job_rules = job_step.intros [THEN step.Job]

inductive_cases job_stepE: "job_step c s s'"
inductive_cases stepE: "step c s s'"

definition system_start :: "Agent \<Rightarrow> System" where
  "system_start a = \<lparr>agent = a, jobs = []\<rparr>"

lemma holding_simps [simp]:
  "holding [] = 0" "holding (js @ ks) = holding js + holding ks"
  "holding ((v, p) # js) = (if p = Waiting then holding js else Suc (holding js))"
  by (simp_all add: holding_def)

lemma holding_spawn [simp]: "holding (spawn job) = 0"
  by (simp add: spawn_def split: option.split)

lemma job_holding: "job_step c s s' \<Longrightarrow> holding (jobs s) \<le> llmSlots \<Longrightarrow> holding (jobs s') \<le> llmSlots"
  by (induction rule: job_step.induct) auto

lemma step_holding: "step c s s' \<Longrightarrow> holding (jobs s) \<le> llmSlots \<Longrightarrow> holding (jobs s') \<le> llmSlots"
  by (induction rule: step.induct) (auto intro: job_holding)

text \<open>
  What a job carries: its event was escalated, and a decision to act was made live, for a
  process that is not protected.
\<close>

definition job_ok :: "Setup \<Rightarrow> Engine \<Rightarrow> Event \<times> phase \<Rightarrow> bool" where
  "job_ok c e j \<longleftrightarrow> \<not> ignored c (fst j) \<and> mode c \<noteq> ''learn'' \<and>
     (case snd j of
        Logging ta d \<Rightarrow> acts d \<longrightarrow> enforceMode e = ''live'' \<and> \<not> protected_comm e (vComm (fst j))
      | Acting d \<Rightarrow> acts d \<longrightarrow> enforceMode e = ''live'' \<and> \<not> protected_comm e (vComm (fst j))
      | _ \<Rightarrow> True)"

definition signal_ok :: "Setup \<Rightarrow> Engine \<Rightarrow> int \<times> signal \<Rightarrow> bool" where
  "signal_ok c e ps \<longleftrightarrow> enforceMode e = ''live'' \<and> mode c \<noteq> ''learn'' \<and> 1 < fst ps \<and>
     (\<exists>v. fst ps = int (unat (vPid v)) \<and> \<not> ignored c v \<and> \<not> protected_comm e (vComm v))"

definition same_rules :: "Engine \<Rightarrow> Engine \<Rightarrow> bool" where
  "same_rules e e' \<longleftrightarrow> enforceMode e = enforceMode e' \<and> protected_comm e = protected_comm e'"

definition system_inv :: "Setup \<Rightarrow> Engine \<Rightarrow> System \<Rightarrow> bool" where
  "system_inv c e0 s \<longleftrightarrow> same_rules (policyEngine (agent s)) e0
     \<and> list_all (job_ok c e0) (jobs s) \<and> list_all (signal_ok c e0) (signals (effects (agent s)))"

lemma same_rules_Evaluate: "same_rules e e0 \<Longrightarrow> same_rules (snd (Evaluate ip now e comm score)) e0"
  using allowAction_frame [of now e]
  by (simp add: Evaluate_engine same_rules_def frame_simps) (metis Engine.select_convs(1) Engine.surjective Engine.update_convs(5) frame_simps(1))

lemma readLoop_step_frame:
  assumes "readLoop_step c w label r a = Some (a', job)"
  shows "effects a' = effects a \<and> policyEngine a' = policyEngine a
    \<and> (\<forall>v. job = Some v \<longrightarrow> \<not> ignored c v \<and> mode c \<noteq> ''learn'')"
proof (cases r)
  case (Record raw)
  show ?thesis
  proof (cases "read_event label raw")
    case (Some v)
    let ?a = "a\<lparr>counters := (counters a)\<lparr>EventsProcessed := Inc label (EventsProcessed (counters a))\<rparr>\<rparr>"
    have h: "handleEvent c w v ?a = (a', job)" using assms Record Some by (simp add: readLoop_step_def)
    show ?thesis
      using handleEvent_quiet [of c w v ?a] handleEvent_job [of c w v ?a] by (auto simp: h)
  qed (use assms Record in \<open>simp add: readLoop_step_def\<close>)
qed (use assms in \<open>auto simp: readLoop_step_def\<close>)

lemma job_ok_spawn: "(\<forall>v. job = Some v \<longrightarrow> \<not> ignored c v \<and> mode c \<noteq> ''learn'') \<Longrightarrow>
    list_all (job_ok c e) (spawn job)"
  by (simp add: spawn_def job_ok_def split: option.split)

lemma decided_ok:
  assumes "same_rules (policyEngine a) e0" and "decide_stage w v ta a = (a', d)"
  shows "same_rules (policyEngine a') e0 \<and> effects a' = effects a
    \<and> (acts d \<longrightarrow> enforceMode e0 = ''live'' \<and> \<not> protected_comm e0 (vComm v))"
proof -
  have a': "a' = fst (decide_stage w v ta a)" and d: "d = snd (decide_stage w v ta a)"
    by (simp_all add: assms(2))
  show ?thesis
    using assms(1) same_rules_Evaluate [OF assms(1)]
    by (auto simp: a' d decide_stage_frame acts_iff same_rules_def)
qed

lemma assess_frame: "assess_stage client w v a = (a', r) \<Longrightarrow>
    effects a' = effects a \<and> policyEngine a' = policyEngine a"
  using assess_stage_frame(1,2) [of client w v a] by simp

lemma job_inv: "job_step c s s' \<Longrightarrow> system_inv c e0 s \<Longrightarrow> system_inv c e0 s'"
proof (induction rule: job_step.induct)
  case (Decides s js v ta ks w a' d)
  then show ?case
    using decided_ok [of "agent s" e0 w v ta a' d] by (auto simp: system_inv_def job_ok_def)
next
  case (Acts s js v d ks w)
  have "signal_ok c e0 (p, sg)" if "(p, sg) \<in> set (signals (act_effects w v d))" for p sg
    using signals_act [OF that] Acts by (auto simp: system_inv_def job_ok_def signal_ok_def)
  then show ?case
    using Acts by (auto simp: system_inv_def act_stage_frame list_all_iff)
next
  case (AssessFails s js v ks client w a')
  then show ?case using assess_frame [OF AssessFails(3)] by (auto simp: system_inv_def)
next
  case (Assesses s js v ks client w a' ta)
  then show ?case using assess_frame [OF Assesses(3)] by (auto simp: system_inv_def job_ok_def)
qed (auto simp: system_inv_def job_ok_def log_stage_frame)

lemma step_inv: "step c s s' \<Longrightarrow> system_inv c e0 s \<Longrightarrow> system_inv c e0 s'"
proof (induction rule: step.induct)
  case (Reader label w r s a' job)
  then show ?case
    using readLoop_step_frame [OF Reader(2)] job_ok_spawn [of job c e0] by (simp add: system_inv_def)
next
  case (Job s s')
  then show ?case by (rule job_inv)
qed (auto simp: system_inv_def)

lemma reachable_inv:
  assumes "(step c)\<^sup>*\<^sup>* (system_start a) s" and "effects a = []"
  shows "system_inv c (policyEngine a) s \<and> holding (jobs s) \<le> llmSlots"
  using assms(1)
proof (induction rule: rtranclp_induct)
  case base
  then show ?case using assms(2) by (simp add: system_inv_def system_start_def same_rules_def)
next
  case (step s s')
  then show ?case using step_inv step_holding by blast
qed

text \<open>A job that runs with nothing in between does what \<open>processLLM\<close> does.\<close>

lemma job_runs_processLLM:
  assumes "jobs s = js @ (v, Assessing) # ks" and "llmClient c = Some client"
  shows "(job_step c)\<^sup>*\<^sup>* s (s\<lparr>agent := processLLM client w v (agent s), jobs := js @ ks\<rparr>)"
proof (cases "snd (assess_stage client (w 0) v (agent s))")
  case None
  then have a: "assess_stage client (w 0) v (agent s) = (fst (assess_stage client (w 0) v (agent s)), None)"
    by (metis prod.collapse)
  from job_step.AssessFails [OF assms a] show ?thesis by (subst processLLM_def, subst a) simp
next
  case (Some ta)
  let ?a1 = "fst (assess_stage client (w 0) v (agent s))"
  let ?a2 = "fst (decide_stage (w 1) v ta ?a1)" and ?d = "snd (decide_stage (w 1) v ta ?a1)"
  let ?a3 = "log_stage (w 2) v ta ?d ?a2"
  have a: "assess_stage client (w 0) v (agent s) = (?a1, Some ta)"
    using Some by (metis prod.collapse)
  have s1: "job_step c s (s\<lparr>agent := ?a1, jobs := js @ (v, Deciding ta) # ks\<rparr>)"
    by (rule job_step.Assesses [OF assms a])
  have s2: "job_step c (s\<lparr>agent := ?a1, jobs := js @ (v, Deciding ta) # ks\<rparr>)
      (s\<lparr>agent := ?a2, jobs := js @ (v, Logging ta ?d) # ks\<rparr>)"
    using job_step.Decides [of "s\<lparr>agent := ?a1, jobs := js @ (v, Deciding ta) # ks\<rparr>" js v ta ks "w 1" ?a2 ?d c] by simp
  have s3: "job_step c (s\<lparr>agent := ?a2, jobs := js @ (v, Logging ta ?d) # ks\<rparr>)
      (s\<lparr>agent := ?a3, jobs := js @ (v, Acting ?d) # ks\<rparr>)"
    using job_step.Logs [of "s\<lparr>agent := ?a2, jobs := js @ (v, Logging ta ?d) # ks\<rparr>" js v ta ?d ks c "w 2"] by simp
  have s4: "job_step c (s\<lparr>agent := ?a3, jobs := js @ (v, Acting ?d) # ks\<rparr>)
      (s\<lparr>agent := act_stage (w 3) v ?d ?a3, jobs := js @ ks\<rparr>)"
    using job_step.Acts [of "s\<lparr>agent := ?a3, jobs := js @ (v, Acting ?d) # ks\<rparr>" js v ?d ks c "w 3"] by simp
  have p: "processLLM client w v (agent s) = act_stage (w 3) v ?d ?a3"
    by (subst processLLM_def, subst a) (simp add: split_def)
  show ?thesis
    unfolding p
    by (rule converse_rtranclp_into_rtranclp [of "job_step c", OF s1],
        rule converse_rtranclp_into_rtranclp [of "job_step c", OF s2],
        rule converse_rtranclp_into_rtranclp [of "job_step c", OF s3],
        rule r_into_rtranclp [of "job_step c", OF s4])
qed

lemma job_star: "(job_step c)\<^sup>*\<^sup>* s t \<Longrightarrow> (step c)\<^sup>*\<^sup>* s t"
  using rtranclp_mono [of "job_step c" "step c"] step.Job by blast

section \<open>Properties\<close>

text \<open>A run for the witnesses: one record of the openat probe, a hostile answer, live.\<close>

definition live_setup :: Setup where
  "live_setup = \<lparr>mode = ''filter'', selfPID = 100, llmClient = Some demo_ollama\<rparr>"

definition live_outside :: Outside where
  "live_outside = demo_outside\<lparr>network := (\<lambda>_. HttpResponse 200 demo_envelope)\<rparr>"

definition live_agent :: Agent where
  "live_agent = demo_agent (NewStore (\<lambda>_. Inl NotExist) ''baseline.json'')"

definition live_record :: "byte list" where
  "live_record = [7, 0, 0, 0] @ [0, 0, 0, 0] @ replicate 16 0 @ replicate 256 0"

definition live_event :: Event where
  "live_event = \<lparr>vType = ''OPEN'', vComm = cstr (replicate 16 0), vDetail = cstr (replicate 256 0),
     vPid = 7, vUid = 0\<rparr>"

lemma live_read: "read_event ''OPEN'' live_record = Some live_event"
proof -
  have "le_get [7, 0, 0, 0] = (7 :: u32)" "le_get [0, 0, 0, 0] = (0 :: u32)"
    by simp_all
  then show ?thesis
    unfolding live_record_def live_event_def read_event_def decode_record_def
    by (subst read_openEvent_append) (simp_all del: le_get.simps append_Cons)
qed

definition live_agent1 :: Agent where
  "live_agent1 = fst (handleEvent live_setup live_outside live_event
     (live_agent\<lparr>counters := (counters live_agent)\<lparr>EventsProcessed :=
        Inc ''OPEN'' (EventsProcessed (counters live_agent))\<rparr>\<rparr>))"

lemma live_reader: "readLoop_step live_setup live_outside ''OPEN'' (Record live_record) live_agent
    = Some (live_agent1, Some live_event)"
proof -
  let ?a = "live_agent\<lparr>counters := (counters live_agent)\<lparr>EventsProcessed :=
        Inc ''OPEN'' (EventsProcessed (counters live_agent))\<rparr>\<rparr>"
  have "snd (handleEvent live_setup live_outside live_event ?a) = Some live_event"
    unfolding handleEvent_job
    by (simp add: ignored_def live_setup_def live_event_def excludedComms_def cstr_def string_of_bytes_def
        live_agent_def demo_agent_def known_event_def IsKnown_def NewStore_def store_load_def ReadFile_def
        escalate_def live_outside_def demo_outside_def minute_def second_def)
  then have "handleEvent live_setup live_outside live_event ?a = (live_agent1, Some live_event)"
    by (simp add: live_agent1_def prod_eq_iff)
  then show ?thesis by (simp add: readLoop_step_def live_read)
qed

definition live_end :: System where
  "live_end = \<lparr>agent = processLLM demo_ollama (\<lambda>_. live_outside) live_event live_agent1, jobs = []\<rparr>"

lemma live_slot: "(step live_setup)\<^sup>*\<^sup>* (system_start live_agent) \<lparr>agent = live_agent1, jobs = [(live_event, Assessing)]\<rparr>"
proof -
  have "step live_setup (system_start live_agent) \<lparr>agent = live_agent1, jobs = [(live_event, Waiting)]\<rparr>"
    using step.Reader [of "''OPEN''" live_setup live_outside "Record live_record" "system_start live_agent"]
    by (simp add: system_start_def live_reader spawn_def labels_eq)
  moreover have "step live_setup \<lparr>agent = live_agent1, jobs = [(live_event, Waiting)]\<rparr>
      \<lparr>agent = live_agent1, jobs = [(live_event, Assessing)]\<rparr>"
    using job_rules(1) [of "\<lparr>agent = live_agent1, jobs = [(live_event, Waiting)]\<rparr>" "[]" live_event "[]" live_setup]
    by (simp add: llmSlots_def)
  ultimately show ?thesis by (meson converse_rtranclp_into_rtranclp r_into_rtranclp)
qed

lemma live_run: "(step live_setup)\<^sup>*\<^sup>* (system_start live_agent) live_end"
  using live_slot job_star [OF job_runs_processLLM [of "\<lparr>agent = live_agent1, jobs = [(live_event, Assessing)]\<rparr>" "[]"
      live_event "[]" live_setup demo_ollama "\<lambda>_. live_outside"]]
  by (simp add: live_end_def live_setup_def)

lemma live_effects: "effects (agent live_end) = [Kill 7 SIGKILL]"
proof -
  have e: "policyEngine live_agent1 = NewEngine ''live'' [''sshd''] 50 40 70 90" "effects live_agent1 = []"
    by (simp_all add: live_agent1_def handleEvent_quiet live_agent_def demo_agent_def)
  have n: "network live_outside = (\<lambda>_. HttpResponse 200 demo_envelope)" by (simp add: live_outside_def)
  let ?d = "fst (Evaluate (printable live_outside) (clock live_outside)
     (NewEngine ''live'' [''sshd''] 50 40 70 90) (vComm live_event) (ThreatScore demo_answer))"
  have a: "acts ?d"
    by (simp add: acts_iff NewEngine_sel) (simp add: demo_answer_def live_event_def cstr_def
        string_of_bytes_def allowAction_def NewEngine_def)
  have "dTier ?d = TierHard"
    using acting_tier [OF a] by (simp add: score_tier_def NewEngine_def demo_answer_def)
  then have "act_effects live_outside live_event ?d = [Kill 7 SIGKILL]"
    using a by (simp add: act_effects_cases kill_effects_def isolate_effects_def live_event_def)
  then show ?thesis by (simp add: live_end_def processLLM_effects e n ollama_demo)
qed

text \<open>
  In every reachable state of the running agent at most three goroutines hold a slot,
  however many events wait.
\<close>

lemma llm_calls_bounded:
  assumes "(step c)\<^sup>*\<^sup>* (system_start a) s"
  shows "length (filter (\<lambda>j. snd j \<noteq> Waiting) (jobs s)) \<le> 3"
proof -
  have "holding (jobs s) \<le> llmSlots"
    using assms by (induction rule: rtranclp_induct) (auto simp: system_start_def intro: step_holding)
  then show ?thesis by (simp add: holding_def llmSlots_def)
qed

text \<open>
  The step relation covers \<open>processLLM\<close>: a job that holds a slot can run through, and
  then the state is the one the sequential \<open>processLLM\<close> gives and the slot is free.
\<close>

lemma processLLM_refined:
  assumes "jobs s = js @ (v, Assessing) # ks" and "llmClient c = Some client"
  shows "\<exists>s'. (step c)\<^sup>*\<^sup>* s s' \<and> agent s' = processLLM client w v (agent s) \<and> jobs s' = js @ ks
    \<and> holding (jobs s) = Suc (holding (jobs s'))"
  using job_star [OF job_runs_processLLM [OF assms, of w]]
  by (intro exI [of _ "s\<lparr>agent := processLLM client w v (agent s), jobs := js @ ks\<rparr>"]) (simp add: assms(1))

lemma processLLM_refined_witness:
  "\<exists>s'. (step live_setup)\<^sup>*\<^sup>* \<lparr>agent = live_agent1, jobs = [(live_event, Assessing)]\<rparr> s'
    \<and> agent s' = processLLM demo_ollama (\<lambda>_. live_outside) live_event live_agent1"
  using processLLM_refined [of "\<lparr>agent = live_agent1, jobs = [(live_event, Assessing)]\<rparr>" "[]" live_event "[]"
      live_setup demo_ollama "\<lambda>_. live_outside"]
  by (auto simp: live_setup_def)

end
