(* ===== verification/Interleaving.thy ===== *)
theory Interleaving
  imports Concurrent "HOL-Library.Multiset"
begin

text \<open>
  \<open>Concurrent.step\<close> lets a reader handle an event in one step.  In the code only the operations
  on the shared state are atomic: between the lookup in the allowlist, the limiter, the audit
  log and the start of the goroutine the other readers and the goroutines run.  Here the
  readers go on operation by operation, and what they do is related to \<open>step\<close>.
\<close>

section \<open>The operations of a reader\<close>

definition count_processed :: "string \<Rightarrow> Agent \<Rightarrow> Agent" where
  "count_processed l st = st\<lparr>counters := (counters st)\<lparr>EventsProcessed := Inc l (EventsProcessed (counters st))\<rparr>\<rparr>"

definition is_known :: "Event \<Rightarrow> Agent \<Rightarrow> bool" where
  "is_known v st = IsKnown (store st) (vType v) (vComm v) (vDetail v)"

definition learn_stage :: "Event \<Rightarrow> Agent \<Rightarrow> Agent" where
  "learn_stage v st = print_reports [Learned (vType v) (vComm v) (vDetail v)]
     (st\<lparr>store := Learn (store st) (vType v) (vComm v) (vDetail v)\<rparr>)"

definition escalate_stage :: "Event \<Rightarrow> Agent \<Rightarrow> Agent" where
  "escalate_stage v st = print_reports [Escalated (vType v) (vComm v) (vDetail v)]
     (st\<lparr>counters := (counters st)\<lparr>EventsEscalated := Inc (vType v) (EventsEscalated (counters st))\<rparr>\<rparr>)"

text \<open>The section under \<open>escalationMu\<close>.\<close>

definition limit_stage :: "Outside \<Rightarrow> Agent \<Rightarrow> bool \<times> Agent" where
  "limit_stage w st =
    (case escalate (clock w, clock_lag w) (escalationCount st, escalationWindow st) of
       (ok, n, win) \<Rightarrow> (ok, st\<lparr>escalationCount := n, escalationWindow := win\<rparr>))"

definition refuse_stage :: "Agent \<Rightarrow> Agent" where
  "refuse_stage st = print_reports [RateLimited]
     (st\<lparr>counters := (counters st)\<lparr>EventsRateLimited := Suc (EventsRateLimited (counters st))\<rparr>\<rparr>)"

definition refuse_log :: "Outside \<Rightarrow> Event \<Rightarrow> Agent \<Rightarrow> Agent" where
  "refuse_log w v st = fst (audit_log w
     \<lparr>aEventType = vType v, aComm = vComm v, aDetail = vDetail v, aPID = vPid v,
      aScore = -1, aTier = ''rate_limited'', aReason = storm_reason, aAction = []\<rparr> st)"

text \<open>Without anything in between they are \<open>handleEvent\<close>.\<close>

lemma handleEvent_stages: "handleEvent c w v st =
    (if ignored c v then (st, None)
     else if mode c = ''learn'' then ((if is_known v st then st else learn_stage v st), None)
     else if is_known v st then (st, None)
     else case limit_stage w (escalate_stage v st) of (ok, st') \<Rightarrow>
       if \<not> ok then (refuse_log w v (refuse_stage st'), None)
       else (st', if llmClient c = None then None else Some v))"
  by (simp add: handleEvent_def ignored_def is_known_def learn_stage_def escalate_stage_def limit_stage_def
      refuse_stage_def refuse_log_def Let_def split: prod.split)

section \<open>Readers that interleave\<close>

text \<open>How far a reader has got with its event.\<close>

datatype reading =
    Idle
  | Fresh Event
  | Unknown Event
  | Escalating Event
  | Granted Event
  | Refused Event
  | is_Noted: Noted Event

record Running =
  sys_state :: System
  reader :: "string \<Rightarrow> reading"

abbreviation run_agent :: "Running \<Rightarrow> Agent" where
  "run_agent r \<equiv> agent (sys_state r)"

definition advance :: "string \<Rightarrow> reading \<Rightarrow> Agent \<Rightarrow> Event option \<Rightarrow> Running \<Rightarrow> Running" where
  "advance l p a job r = r\<lparr>sys_state := (sys_state r)\<lparr>agent := a, jobs := jobs (sys_state r) @ spawn job\<rparr>,
     reader := (reader r)(l := p)\<rparr>"

inductive fine_step :: "Setup \<Rightarrow> Running \<Rightarrow> Running \<Rightarrow> bool" for c where
  Takes: "l \<in> labels \<Longrightarrow> reader r l = Idle \<Longrightarrow> read_event l raw = Some v \<Longrightarrow>
     fine_step c r (advance l (Fresh v) (count_processed l (run_agent r)) None r)"
| Undecodable: "l \<in> labels \<Longrightarrow> reader r l = Idle \<Longrightarrow> read_event l raw = None \<Longrightarrow> fine_step c r r"
| ReadFails: "l \<in> labels \<Longrightarrow> reader r l = Idle \<Longrightarrow>
     fine_step c r (advance l Idle (print_reports [RingReadFailed l] (run_agent r)) None r)"
| Ignores: "l \<in> labels \<Longrightarrow> reader r l = Fresh v \<Longrightarrow> ignored c v \<or> is_known v (run_agent r) \<Longrightarrow>
     fine_step c r (advance l Idle (run_agent r) None r)"
| Misses: "l \<in> labels \<Longrightarrow> reader r l = Fresh v \<Longrightarrow> \<not> ignored c v \<Longrightarrow> \<not> is_known v (run_agent r) \<Longrightarrow>
     fine_step c r (advance l (Unknown v) (run_agent r) None r)"
| Learns: "l \<in> labels \<Longrightarrow> reader r l = Unknown v \<Longrightarrow> mode c = ''learn'' \<Longrightarrow>
     fine_step c r (advance l Idle (learn_stage v (run_agent r)) None r)"
| Escalates: "l \<in> labels \<Longrightarrow> reader r l = Unknown v \<Longrightarrow> mode c \<noteq> ''learn'' \<Longrightarrow>
     fine_step c r (advance l (Escalating v) (escalate_stage v (run_agent r)) None r)"
| Grants: "l \<in> labels \<Longrightarrow> reader r l = Escalating v \<Longrightarrow> limit_stage w (run_agent r) = (True, a') \<Longrightarrow>
     fine_step c r (advance l (Granted v) a' None r)"
| Refuses: "l \<in> labels \<Longrightarrow> reader r l = Escalating v \<Longrightarrow> limit_stage w (run_agent r) = (False, a') \<Longrightarrow>
     fine_step c r (advance l (Refused v) a' None r)"
| Notes: "l \<in> labels \<Longrightarrow> reader r l = Refused v \<Longrightarrow>
     fine_step c r (advance l (Noted v) (refuse_stage (run_agent r)) None r)"
| LogsRefusal: "l \<in> labels \<Longrightarrow> reader r l = Noted v \<Longrightarrow>
     fine_step c r (advance l Idle (refuse_log w v (run_agent r)) None r)"
| Spawns: "l \<in> labels \<Longrightarrow> reader r l = Granted v \<Longrightarrow>
     fine_step c r (advance l Idle (run_agent r) (if llmClient c = None then None else Some v) r)"
| Works: "job_step c (sys_state r) s' \<Longrightarrow> fine_step c r (r\<lparr>sys_state := s'\<rparr>)"
| Saves: "range_order (store (run_agent r)) order \<Longrightarrow>
     fine_step c r (r\<lparr>sys_state := (sys_state r)\<lparr>agent := (run_agent r)\<lparr>files :=
       fst (Save order out (files (run_agent r)) (store (run_agent r)))\<rparr>\<rparr>\<rparr>)"

definition running_start :: "Agent \<Rightarrow> Running" where
  "running_start a = \<lparr>sys_state = system_start a, reader = (\<lambda>_. Idle)\<rparr>"

section \<open>The simulation\<close>

text \<open>
  What the steps read: not the counters, the files of the agent or what it printed.
\<close>

definition core :: "Agent \<Rightarrow> Store \<times> Engine \<times> (int \<times> int) \<times> effect list" where
  "core a = (store a, policyEngine a, limit_state a, effects a)"

text \<open>An event granted but not yet handed to a goroutine is a waiting job of the coarse system.\<close>

definition owed :: "Setup \<Rightarrow> reading \<Rightarrow> (Event \<times> phase) multiset" where
  "owed c p = (case p of Granted v \<Rightarrow> if llmClient c = None then {#} else {#(v, Waiting)#} | _ \<Rightarrow> {#})"

definition all_owed :: "Setup \<Rightarrow> (string \<Rightarrow> reading) \<Rightarrow> (Event \<times> phase) multiset" where
  "all_owed c f = (\<Sum>l \<in> labels. owed c (f l))"

text \<open>What a reader has found out stays true until the coarse system takes the step.\<close>

definition ready :: "Setup \<Rightarrow> Agent \<Rightarrow> string \<Rightarrow> reading \<Rightarrow> bool" where
  "ready c a l p \<longleftrightarrow> (case p of
       Fresh v \<Rightarrow> \<exists>raw. read_event l raw = Some v
     | Unknown v \<Rightarrow> (\<exists>raw. read_event l raw = Some v) \<and> \<not> ignored c v \<and> (mode c = ''learn'' \<or> \<not> is_known v a)
     | Escalating v \<Rightarrow> (\<exists>raw. read_event l raw = Some v) \<and> \<not> ignored c v \<and> mode c \<noteq> ''learn'' \<and> \<not> is_known v a
     | _ \<Rightarrow> True)"

definition tracks :: "Setup \<Rightarrow> Running \<Rightarrow> System \<Rightarrow> bool" where
  "tracks c r s \<longleftrightarrow> core (run_agent r) = core (agent s)
     \<and> mset (jobs s) = mset (jobs (sys_state r)) + all_owed c (reader r)
     \<and> (\<forall>l \<in> labels. ready c (run_agent r) l (reader r l))"

lemma all_owed_upd: "l \<in> labels \<Longrightarrow> all_owed c (f(l := p)) + owed c (f l) = all_owed c f + owed c p"
  unfolding all_owed_def by (rule sum_component) (simp_all add: labels_eq)

lemma owed_waiting: "(v, p) \<in># all_owed c f \<Longrightarrow> p = Waiting"
proof -
  have "(v, p) \<in># owed c q \<Longrightarrow> p = Waiting" for q by (cases q) (auto simp: owed_def split: if_splits)
  then show "(v, p) \<in># all_owed c f \<Longrightarrow> p = Waiting" by (auto simp: all_owed_def labels_eq)
qed

lemma core_stages [simp]:
  "core (count_processed l a) = core a" "core (escalate_stage v a) = core a" "core (refuse_stage a) = core a"
  "core (refuse_log w v a) = core a" "core (print_reports rs a) = core a" "core (a\<lparr>files := fs\<rparr>) = core a"
  by (simp_all add: core_def count_processed_def escalate_stage_def refuse_stage_def refuse_log_def audit_log_frame)

lemma is_known_core: "core a = core b \<Longrightarrow> is_known v a = is_known v b"
  by (simp add: core_def is_known_def)

lemma ready_core: "core a = core b \<Longrightarrow> ready c a l p = ready c b l p"
  using is_known_core [of a b] by (simp add: ready_def split: reading.split)

lemma ready_store:
  "ready c a l p \<Longrightarrow> store b = store a \<or> mode c = ''learn'' \<Longrightarrow> ready c b l p"
  by (auto simp: ready_def is_known_def split: reading.splits)

lemma tracks_ready: "tracks c r s \<Longrightarrow> l \<in> labels \<Longrightarrow> ready c (run_agent r) l (reader r l)"
  by (simp add: tracks_def)

lemma tracks_advance:
  assumes "tracks c r s" and "l \<in> labels" and "core a' = core (agent s')"
    and "mset (jobs s') + owed c (reader r l) = mset (jobs s) + mset (spawn job) + owed c p"
    and "ready c a' l p" and "store a' = store (run_agent r) \<or> mode c = ''learn''"
  shows "tracks c (advance l p a' job r) s'"
proof -
  have "mset (jobs s') + owed c (reader r l)
      = mset (jobs (sys_state r)) + mset (spawn job) + all_owed c ((reader r)(l := p)) + owed c (reader r l)"
    using assms(1,4) all_owed_upd [OF assms(2), of c "reader r" p] by (simp add: tracks_def ac_simps)
  then have "mset (jobs s') = mset (jobs (sys_state r) @ spawn job) + all_owed c ((reader r)(l := p))"
    by (metis add_right_cancel mset_append)
  moreover have "ready c a' k (((reader r)(l := p)) k)" if "k \<in> labels" for k
    using assms(1,5,6) that ready_store by (auto simp: tracks_def)
  ultimately show ?thesis using assms(3) by (simp add: tracks_def advance_def)
qed

text \<open>A step of a reader that the coarse system does not take.\<close>

lemma tracks_silent:
  assumes "tracks c r s" and "l \<in> labels" and "core a' = core (run_agent r)"
    and "owed c (reader r l) = mset (spawn job) + owed c p" and "ready c a' l p"
  shows "tracks c (advance l p a' job r) s"
  using assms by (intro tracks_advance [OF assms(1,2)]) (simp_all add: tracks_def core_def)

text \<open>The step in which the coarse reader handles the whole event.\<close>

lemma reader_handles:
  fixes w :: Outside
  assumes "l \<in> labels" and "read_event l raw = Some v"
  shows "\<exists>s'. step c s s' \<and> jobs s' = jobs s @ spawn (snd (handleEvent c w v (count_processed l (agent s))))
    \<and> core (agent s') = core (fst (handleEvent c w v (count_processed l (agent s))))"
  using step.Reader [OF assms(1), of c w "Record raw" s] assms(2)
  by (force simp: readLoop_step_def count_processed_def prod_eq_iff)

lemma core_handleEvent: "core (fst (handleEvent c w v st)) =
    (if ignored c v then core st
     else if mode c = ''learn'' then (if is_known v st then core st else core (learn_stage v st))
     else if is_known v st then core st else core (snd (limit_stage w st)))"
  by (simp add: core_def handleEvent_store handleEvent_limit handleEvent_quiet known_event_of is_known_def
      learn_stage_def learn_event_of limit_stage_def split: prod.split)

lemma learn_known: "is_known v st \<Longrightarrow> core (learn_stage v st) = core st"
  by (cases "store st") (auto simp: is_known_def learn_stage_def core_def IsKnown_def Learn_def fun_upd_idem split: option.splits)

lemma core_learn: "core a = core b \<Longrightarrow> core (learn_stage v a) = core (learn_stage v b)"
  by (simp add: core_def learn_stage_def)

lemma core_limit:
  "core a = core b \<Longrightarrow> fst (limit_stage w a) = fst (limit_stage w b) \<and> core (snd (limit_stage w a)) = core (snd (limit_stage w b))"
  by (simp add: core_def limit_stage_def split: prod.split)

lemma store_limit: "store (snd (limit_stage w a)) = store a"
  by (simp add: limit_stage_def split: prod.split)

lemma learns_tracks:
  assumes t: "tracks c r s" and l: "l \<in> labels" "reader r l = Unknown v" and m: "mode c = ''learn''"
  shows "\<exists>s'. step c s s' \<and> tracks c (advance l Idle (learn_stage v (run_agent r)) None r) s'"
proof -
  obtain raw where v: "read_event l raw = Some v" "\<not> ignored c v"
    using tracks_ready [OF t l(1)] by (auto simp: ready_def l(2))
  fix w :: Outside
  let ?h = "handleEvent c w v (count_processed l (agent s))"
  obtain s' where s': "step c s s'" "jobs s' = jobs s @ spawn (snd ?h)" "core (agent s') = core (fst ?h)"
    using reader_handles [OF l(1) v(1)] by blast
  have "snd ?h = None" using m v(2) by (simp add: handleEvent_stages)
  moreover have "core (fst ?h) = core (learn_stage v (agent s))"
    using m v(2) is_known_core [of "count_processed l (agent s)" "agent s" v] learn_known [of v "agent s"]
      core_learn [of "count_processed l (agent s)" "agent s" v] by (simp add: core_handleEvent)
  moreover have "core (agent s) = core (run_agent r)" using t by (simp add: tracks_def)
  ultimately have "tracks c (advance l Idle (learn_stage v (run_agent r)) None r) s'"
    using s' core_learn [of "agent s" "run_agent r" v] l(2) m
    by (intro tracks_advance [OF t l(1)]) (simp_all add: spawn_def owed_def ready_def)
  then show ?thesis using s'(1) by blast
qed

lemma limits_tracks:
  assumes t: "tracks c r s" and l: "l \<in> labels" "reader r l = Escalating v"
    and g: "limit_stage w (run_agent r) = (ok, a')"
  shows "\<exists>s'. step c s s' \<and> tracks c (advance l (if ok then Granted v else Refused v) a' None r) s'"
proof -
  obtain raw where v: "read_event l raw = Some v" "\<not> ignored c v" "mode c \<noteq> ''learn''" "\<not> is_known v (run_agent r)"
    using tracks_ready [OF t l(1)] by (auto simp: ready_def l(2))
  let ?h = "handleEvent c w v (count_processed l (agent s))"
  obtain s' where s': "step c s s'" "jobs s' = jobs s @ spawn (snd ?h)" "core (agent s') = core (fst ?h)"
    using reader_handles [OF l(1) v(1)] by blast
  have e: "core (agent s) = core (run_agent r)" using t by (simp add: tracks_def)
  then have k: "\<not> is_known v (count_processed l (agent s))"
    using v(4) is_known_core [of "count_processed l (agent s)" "run_agent r" v] by simp
  have "core (escalate_stage v (count_processed l (agent s))) = core (run_agent r)" using e by simp
  note lim = core_limit [OF this, of w]
  have "core (count_processed l (agent s)) = core (run_agent r)" using e by simp
  note lim' = core_limit [OF this, of w]
  have "core (fst ?h) = core a'" using v k lim' g by (simp add: core_handleEvent)
  moreover have "snd ?h = (if ok \<and> llmClient c \<noteq> None then Some v else None)"
    using v k lim g by (simp add: handleEvent_stages split_def)
  ultimately have "tracks c (advance l (if ok then Granted v else Refused v) a' None r) s'"
    using s' l(2) g store_limit [of w "run_agent r"]
    by (intro tracks_advance [OF t l(1)]) (simp_all add: spawn_def owed_def ready_def)
  then show ?thesis using s'(1) by blast
qed

section \<open>The goroutines\<close>

lemma holding_mset: "mset js = mset ks + Q \<Longrightarrow> (\<forall>j \<in># Q. snd j = Waiting) \<Longrightarrow> holding js = holding ks"
proof -
  assume a: "mset js = mset ks + Q" "\<forall>j \<in># Q. snd j = Waiting"
  have "filter_mset (\<lambda>j. snd j \<noteq> Waiting) Q = {#}" using a(2) by (induction Q) auto
  then have "filter_mset (\<lambda>j. snd j \<noteq> Waiting) (mset js) = filter_mset (\<lambda>j. snd j \<noteq> Waiting) (mset ks)"
    by (simp add: a(1))
  then show ?thesis unfolding holding_def by (metis mset_filter size_mset)
qed

lemma same_job:
  assumes "mset ks = mset (js @ (v, p) # js') + Q"
  obtains us us' where "ks = us @ (v, p) # us'" and "mset us + mset us' = mset js + mset js' + Q"
proof -
  have "(v, p) \<in> set ks" using arg_cong [OF assms, of set_mset] by auto
  then obtain us us' where u: "ks = us @ (v, p) # us'" by (meson split_list)
  then have "mset us + mset us' = mset js + mset js' + Q" using assms by (simp add: ac_simps)
  then show ?thesis using that u by blast
qed

lemma core_assess:
  "snd (assess_stage client w v a) = snd (assess_stage client w v b)" "core (fst (assess_stage client w v a)) = core a"
  by (simp_all add: assess_stage_def core_def split: sum.split)

lemma core_decide:
  assumes "core a = core b"
  shows "snd (decide_stage w v ta a) = snd (decide_stage w v ta b)"
    and "core (fst (decide_stage w v ta a)) = core (fst (decide_stage w v ta b))"
  using assms by (simp_all add: decide_stage_def core_def split: prod.split)

lemma core_log: "core (log_stage w v ta d a) = core a"
  by (simp add: log_stage_def core_def split_def audit_log_frame split: option.split)

lemma core_act: "core a = core b \<Longrightarrow> core (act_stage w v d a) = core (act_stage w v d b)"
  by (simp add: act_stage_def core_def split: prod.split)

text \<open>A goroutine takes its step whatever other events wait, and from any state with the same core.\<close>

lemma job_step_core:
  assumes "job_step c S S'" and "core (agent T) = core (agent S)" and "mset (jobs T) = mset (jobs S) + Q"
    and "\<forall>j \<in># Q. snd j = Waiting"
  shows "\<exists>T'. job_step c T T' \<and> core (agent T') = core (agent S') \<and> mset (jobs T') = mset (jobs S') + Q"
  using assms
proof (induction rule: job_step.induct)
  case (Acquire s js v ks)
  obtain us us' where u: "jobs T = us @ (v, Waiting) # us'" "mset us + mset us' = mset js + mset ks + Q"
    using same_job [of "jobs T" js v Waiting ks Q] Acquire(1,4) by metis
  have "holding (jobs T) < llmSlots" using Acquire(2) holding_mset [OF Acquire(4,5)] by simp
  from job_step.Acquire [OF u(1) this, of c] show ?case using u(2) Acquire(3) by force
next
  case (AssessFails s js v ks client w a')
  obtain us us' where u: "jobs T = us @ (v, Assessing) # us'" "mset us + mset us' = mset js + mset ks + Q"
    using same_job [of "jobs T" js v Assessing ks Q] AssessFails(1,5) by metis
  have "assess_stage client w v (agent T) = (fst (assess_stage client w v (agent T)), None)"
    using core_assess(1) [of client w v "agent T" "agent s"] AssessFails(3) by (simp add: prod_eq_iff)
  from job_step.AssessFails [OF u(1) AssessFails(2) this] show ?case
    using u(2) AssessFails(4) core_assess(2) [of client w v "agent T"] core_assess(2) [of client w v "agent s"] AssessFails(3)
    by force
next
  case (Assesses s js v ks client w a' ta)
  obtain us us' where u: "jobs T = us @ (v, Assessing) # us'" "mset us + mset us' = mset js + mset ks + Q"
    using same_job [of "jobs T" js v Assessing ks Q] Assesses(1,5) by metis
  have "assess_stage client w v (agent T) = (fst (assess_stage client w v (agent T)), Some ta)"
    using core_assess(1) [of client w v "agent T" "agent s"] Assesses(3) by (simp add: prod_eq_iff)
  from job_step.Assesses [OF u(1) Assesses(2) this] show ?case
    using u(2) Assesses(4) core_assess(2) [of client w v "agent T"] core_assess(2) [of client w v "agent s"] Assesses(3)
    by force
next
  case (Decides s js v ta ks w a' d)
  obtain us us' where u: "jobs T = us @ (v, Deciding ta) # us'" "mset us + mset us' = mset js + mset ks + Q"
    using same_job [of "jobs T" js v "Deciding ta" ks Q] Decides(1,4) by metis
  have "decide_stage w v ta (agent T) = (fst (decide_stage w v ta (agent T)), d)"
    using core_decide(1) [OF Decides(3), of w v ta] Decides(2) by (simp add: prod_eq_iff)
  from job_step.Decides [OF u(1) this, of c] show ?case
    using u(2) core_decide(2) [OF Decides(3), of w v ta] Decides(2) by force
next
  case (Logs s js v ta d ks w)
  obtain us us' where u: "jobs T = us @ (v, Logging ta d) # us'" "mset us + mset us' = mset js + mset ks + Q"
    using same_job [of "jobs T" js v "Logging ta d" ks Q] Logs(1,3) by metis
  from job_step.Logs [OF u(1), of c w] show ?case using u(2) Logs(2) core_log by force
next
  case (Acts s js v d ks w)
  obtain us us' where u: "jobs T = us @ (v, Acting d) # us'" "mset us + mset us' = mset js + mset ks + Q"
    using same_job [of "jobs T" js v "Acting d" ks Q] Acts(1,3) by metis
  from job_step.Acts [OF u(1), of c w] show ?case using u(2) core_act [OF Acts(2), of w v d] by force
qed

lemma job_step_store: "job_step c s s' \<Longrightarrow> store (agent s') = store (agent s)"
  by (induction rule: job_step.induct)
    (auto simp: assess_stage_def decide_stage_def log_stage_frame act_stage_frame split: sum.splits prod.splits)

lemma works_tracks:
  assumes t: "tracks c r s" and j: "job_step c (sys_state r) t'"
  shows "\<exists>s'. step c s s' \<and> tracks c (r\<lparr>sys_state := t'\<rparr>) s'"
proof -
  have "\<forall>j \<in># all_owed c (reader r). snd j = Waiting" using owed_waiting by (metis prod.collapse)
  then obtain s' where s': "job_step c s s'" "core (agent s') = core (agent t')"
    "mset (jobs s') = mset (jobs t') + all_owed c (reader r)"
    using job_step_core [OF j, of s] t by (auto simp: tracks_def)
  have "\<forall>l \<in> labels. ready c (agent t') l (reader r l)"
    using t ready_store job_step_store [OF j] by (metis tracks_def)
  then show ?thesis using s' step.Job [OF s'(1)] by (intro exI [of _ s']) (simp add: tracks_def)
qed

text \<open>Every step of the readers is a step of the coarse system or none.\<close>

lemma fine_tracks: "fine_step c r r' \<Longrightarrow> tracks c r s \<Longrightarrow> \<exists>s'. (step c)\<^sup>*\<^sup>* s s' \<and> tracks c r' s'"
proof (induction rule: fine_step.induct)
  case (Takes l r raw v)
  then have "tracks c (advance l (Fresh v) (count_processed l (run_agent r)) None r) s"
    by (intro tracks_silent) (auto simp: owed_def spawn_def ready_def)
  then show ?case by blast
next
  case (ReadFails l r)
  then have "tracks c (advance l Idle (print_reports [RingReadFailed l] (run_agent r)) None r) s"
    by (intro tracks_silent) (auto simp: owed_def spawn_def ready_def)
  then show ?case by blast
next
  case (Ignores l r v)
  then have "tracks c (advance l Idle (run_agent r) None r) s"
    by (intro tracks_silent) (auto simp: owed_def spawn_def ready_def)
  then show ?case by blast
next
  case (Misses l r v)
  then have "ready c (run_agent r) l (Unknown v)" using tracks_ready [of c r s l] by (simp add: ready_def)
  then have "tracks c (advance l (Unknown v) (run_agent r) None r) s"
    using Misses by (intro tracks_silent) (simp_all add: owed_def spawn_def)
  then show ?case by blast
next
  case (Learns l r v)
  then show ?case using learns_tracks [of c r s l v] by blast
next
  case (Escalates l r v)
  then have "ready c (escalate_stage v (run_agent r)) l (Escalating v)"
    using tracks_ready [of c r s l] is_known_core [of "escalate_stage v (run_agent r)" "run_agent r" v]
    by (simp add: ready_def)
  then have "tracks c (advance l (Escalating v) (escalate_stage v (run_agent r)) None r) s"
    using Escalates by (intro tracks_silent) (simp_all add: owed_def spawn_def)
  then show ?case by blast
next
  case (Grants l r v w a')
  then show ?case using limits_tracks [of c r s l v w True a', unfolded if_True] by blast
next
  case (Refuses l r v w a')
  then show ?case using limits_tracks [of c r s l v w False a', unfolded if_False] by blast
next
  case (Notes l r v)
  then have "tracks c (advance l (Noted v) (refuse_stage (run_agent r)) None r) s"
    by (intro tracks_silent) (auto simp: owed_def spawn_def ready_def)
  then show ?case by blast
next
  case (LogsRefusal l r v w)
  then have "tracks c (advance l Idle (refuse_log w v (run_agent r)) None r) s"
    by (intro tracks_silent) (auto simp: owed_def spawn_def ready_def)
  then show ?case by blast
next
  case (Spawns l r v)
  then have "tracks c (advance l Idle (run_agent r) (if llmClient c = None then None else Some v) r) s"
    by (intro tracks_silent) (auto simp: owed_def spawn_def ready_def)
  then show ?case by blast
next
  case (Works r s')
  then show ?case using works_tracks by blast
next
  case (Saves r order out)
  let ?r' = "r\<lparr>sys_state := (sys_state r)\<lparr>agent := (run_agent r)\<lparr>files :=
    fst (Save order out (files (run_agent r)) (store (run_agent r)))\<rparr>\<rparr>\<rparr>"
  have "tracks c ?r' s" using Saves ready_core [of "run_agent ?r'" "run_agent r" c] by (simp add: tracks_def)
  then show ?case by blast
qed blast

interpretation fine: simulation "fine_step c" "step c" "tracks c" for c
  by unfold_locales (rule fine_tracks)

lemma tracks_start: "tracks c (running_start a) (system_start a)"
  by (simp add: tracks_def running_start_def system_start_def all_owed_def owed_def ready_def)

text \<open>What is known of the goroutines of the coarse system is known of those of the fine one.\<close>

lemma tracks_inv: "tracks c r s \<Longrightarrow> system_inv c e s \<Longrightarrow> system_inv c e (sys_state r)"
  by (auto simp: tracks_def core_def system_inv_def list_all_iff simp flip: set_mset_mset)

lemma running_system_inv:
  assumes "(fine_step c)\<^sup>*\<^sup>* (running_start a) r" and "effects a = []"
  shows "system_inv c (policyEngine a) (sys_state r)"
  using fine.runs [OF assms(1) tracks_start] reachable_inv [OF _ assms(2)] tracks_inv by blast

section \<open>A run of one event\<close>

lemma works_star: "(job_step c)\<^sup>*\<^sup>* (sys_state r) s \<Longrightarrow> (fine_step c)\<^sup>*\<^sup>* r (r\<lparr>sys_state := s\<rparr>)"
proof (induction rule: rtranclp_induct)
  case (step s s')
  have "fine_step c (r\<lparr>sys_state := s\<rparr>) (r\<lparr>sys_state := s'\<rparr>)"
    using fine_step.Works [of c "r\<lparr>sys_state := s\<rparr>" s'] step(2) by simp
  with step(3) show ?case by (rule rtranclp.rtrancl_into_rtrancl)
qed simp

text \<open>One event from the ring to a slot of the semaphore, and to the end of its goroutine.\<close>

lemma event_gets_slot:
  fixes w :: Outside
  assumes l: "l \<in> labels" and v: "read_event l raw = Some v" and c: "llmClient c = Some client" "mode c \<noteq> ''learn''"
    and k: "\<not> ignored c v" "\<not> is_known v (count_processed l a)"
    and g: "limit_stage w (escalate_stage v (count_processed l a)) = (True, a1)"
  shows "(fine_step c)\<^sup>*\<^sup>* (running_start a) \<lparr>sys_state = \<lparr>agent = a1, jobs = [(v, Assessing)]\<rparr>, reader = (\<lambda>_. Idle)\<rparr>"
proof -
  let ?r0 = "running_start a" and ?done = "advance l"
  let ?r1 = "?done (Fresh v) (count_processed l a) None ?r0"
  let ?r2 = "?done (Unknown v) (count_processed l a) None ?r1"
  let ?r3 = "?done (Escalating v) (escalate_stage v (count_processed l a)) None ?r2"
  let ?r4 = "?done (Granted v) a1 None ?r3"
  let ?r5 = "\<lparr>sys_state = \<lparr>agent = a1, jobs = [(v, Waiting)]\<rparr>, reader = (\<lambda>_. Idle)\<rparr>"
  note run = advance_def running_start_def system_start_def spawn_def
  have "fine_step c ?r0 ?r1"
    using fine_step.Takes [OF l _ v, of ?r0 c] by (simp add: run)
  moreover have "fine_step c ?r1 ?r2"
    using fine_step.Misses [OF l, of ?r1 v c] k by (simp add: run)
  moreover have "fine_step c ?r2 ?r3"
    using fine_step.Escalates [OF l, of ?r2 v c] c(2) by (simp add: run)
  moreover have "fine_step c ?r3 ?r4"
    using fine_step.Grants [OF l, of ?r3 v w a1 c] g by (simp add: run)
  moreover have "fine_step c ?r4 ?r5"
    using fine_step.Spawns [OF l, of ?r4 v c] c(1) by (simp add: run fun_upd_idem)
  moreover have "fine_step c ?r5 (?r5\<lparr>sys_state := \<lparr>agent = a1, jobs = [(v, Assessing)]\<rparr>\<rparr>)"
    using job_step.Acquire [of "sys_state ?r5" "[]" v "[]" c]
    by (intro fine_step.Works) (simp add: llmSlots_def)
  ultimately show ?thesis by simp
qed

lemma event_runs_through:
  assumes "llmClient c = Some client"
  shows "(fine_step c)\<^sup>*\<^sup>* \<lparr>sys_state = \<lparr>agent = a1, jobs = [(v, Assessing)]\<rparr>, reader = (\<lambda>_. Idle)\<rparr>
    \<lparr>sys_state = \<lparr>agent = processLLM client w v a1, jobs = []\<rparr>, reader = (\<lambda>_. Idle)\<rparr>"
proof -
  let ?r = "\<lparr>sys_state = \<lparr>agent = a1, jobs = [(v, Assessing)]\<rparr>, reader = (\<lambda>_. Idle)\<rparr>"
  have "(job_step c)\<^sup>*\<^sup>* (sys_state ?r) \<lparr>agent = processLLM client w v a1, jobs = []\<rparr>"
    using job_runs_processLLM [of "sys_state ?r" "[]" v "[]" c client w] assms by simp
  from works_star [OF this] show ?thesis by simp
qed

lemma live_limit: "limit_stage live_outside (escalate_stage live_event (count_processed ''OPEN'' live_agent)) = (True, live_agent1)"
proof -
  let ?a = "count_processed ''OPEN'' live_agent"
  have h: "handleEvent live_setup live_outside live_event ?a = (live_agent1, Some live_event)"
    using live_reader by (simp add: readLoop_step_def live_read count_processed_def)
  show ?thesis
    using handleEvent_job [of live_setup live_outside live_event ?a live_event] h [unfolded handleEvent_stages]
    by (auto simp: h split: if_splits prod.splits)
qed

definition live_slot_running :: Running where
  "live_slot_running = \<lparr>sys_state = \<lparr>agent = live_agent1, jobs = [(live_event, Assessing)]\<rparr>, reader = (\<lambda>_. Idle)\<rparr>"

definition live_running :: Running where
  "live_running = \<lparr>sys_state = live_end, reader = (\<lambda>_. Idle)\<rparr>"

lemma live_fine_slot: "(fine_step live_setup)\<^sup>*\<^sup>* (running_start live_agent) live_slot_running"
proof -
  have "snd (handleEvent live_setup live_outside live_event (count_processed ''OPEN'' live_agent)) = Some live_event"
    using live_reader by (simp add: readLoop_step_def live_read count_processed_def)
  then have "\<not> ignored live_setup live_event" "\<not> is_known live_event (count_processed ''OPEN'' live_agent)"
    by (simp_all add: handleEvent_job known_event_of is_known_def)
  then show ?thesis
    unfolding live_slot_running_def
    by (intro event_gets_slot [OF _ live_read _ _ _ _ live_limit]) (simp_all add: labels_eq live_setup_def)
qed

lemma live_fine_run: "(fine_step live_setup)\<^sup>*\<^sup>* (running_start live_agent) live_running"
proof -
  have "(fine_step live_setup)\<^sup>*\<^sup>* live_slot_running live_running"
    using event_runs_through [of live_setup demo_ollama live_agent1 live_event "\<lambda>_. live_outside"]
    by (simp add: live_slot_running_def live_running_def live_end_def live_setup_def)
  with live_fine_slot show ?thesis by (rule rtranclp_trans)
qed

section \<open>Properties\<close>

text \<open>
  C14: Handling an event in one step is a sound model of the readers.  However the operations
  of the readers, the goroutines and the saver interleave, the allowlist, the policy, the
  limiter and what was done to the system are those of a state that \<open>step\<close> reaches; its jobs
  are the goroutines and the events granted but not yet handed to one.
\<close>

theorem readers_linearise:
  assumes "(fine_step c)\<^sup>*\<^sup>* (running_start a) r"
  shows "\<exists>s. (step c)\<^sup>*\<^sup>* (system_start a) s
    \<and> store (agent s) = store (run_agent r) \<and> policyEngine (agent s) = policyEngine (run_agent r)
    \<and> limit_state (agent s) = limit_state (run_agent r) \<and> effects (agent s) = effects (run_agent r)
    \<and> mset (jobs s) = mset (jobs (sys_state r)) + (\<Sum>l \<in> labels. owed c (reader r l))"
  using fine.runs [OF assms tracks_start] by (auto simp: tracks_def core_def all_owed_def)

text \<open>A reader stopped between the lookup and the limiter.\<close>

theorem readers_linearise_witness:
  "\<exists>r. reader r ''OPEN'' = Escalating live_event \<and> EventsEscalated (counters (run_agent r)) ''OPEN'' = 1
     \<and> (\<exists>s. (step live_setup)\<^sup>*\<^sup>* (system_start live_agent) s \<and> jobs s = [] \<and> effects (agent s) = effects (run_agent r))"
proof -
  let ?r0 = "running_start live_agent"
  let ?r1 = "advance ''OPEN'' (Fresh live_event) (count_processed ''OPEN'' (run_agent ?r0)) None ?r0"
  let ?r2 = "advance ''OPEN'' (Unknown live_event) (run_agent ?r1) None ?r1"
  let ?r3 = "advance ''OPEN'' (Escalating live_event) (escalate_stage live_event (run_agent ?r2)) None ?r2"
  have l: "''OPEN'' \<in> labels" by (simp add: labels_eq)
  have i: "\<not> ignored live_setup live_event"
    by (simp add: ignored_def live_setup_def live_event_def excludedComms_def cstr_def string_of_bytes_def)
  have k: "\<not> is_known live_event (count_processed ''OPEN'' live_agent)"
    by (simp add: is_known_def count_processed_def live_agent_def demo_agent_def IsKnown_def NewStore_def
        store_load_def ReadFile_def)
  have "fine_step live_setup ?r0 ?r1"
    by (rule fine_step.Takes [OF l _ live_read]) (simp add: running_start_def)
  moreover have "fine_step live_setup ?r1 ?r2"
    using k i by (intro fine_step.Misses [OF l]) (simp_all add: advance_def running_start_def system_start_def)
  moreover have "fine_step live_setup ?r2 ?r3"
    by (rule fine_step.Escalates [OF l]) (simp_all add: advance_def live_setup_def)
  ultimately have "(fine_step live_setup)\<^sup>*\<^sup>* ?r0 ?r3"
    by (meson converse_rtranclp_into_rtranclp rtranclp.rtrancl_refl)
  then show ?thesis
    using readers_linearise [of live_setup live_agent ?r3]
    by (intro exI [of _ ?r3]) (auto simp: advance_def running_start_def system_start_def spawn_def labels_eq
        owed_def escalate_stage_def count_processed_def live_event_def live_agent_def demo_agent_def
        zero_counters_def Inc_def)
qed

text \<open>
  C15: At most three goroutines hold a slot of the semaphore in any reachable state, over all
  interleavings of the single operations, however many events wait.
\<close>

theorem slots_bounded:
  assumes "(fine_step c)\<^sup>*\<^sup>* (running_start a) r"
  shows "length (filter (\<lambda>j. snd j \<noteq> Waiting) (jobs (sys_state r))) \<le> 3"
proof -
  obtain s where s: "(step c)\<^sup>*\<^sup>* (system_start a) s" "mset (jobs s) = mset (jobs (sys_state r)) + all_owed c (reader r)"
    using fine.runs [OF assms tracks_start] by (auto simp: tracks_def)
  have "length (filter P (jobs (sys_state r))) \<le> length (filter P (jobs s))" for P
    using s(2) by (metis filter_union_mset mset_filter mset_subset_eq_add_left size_mset size_mset_mono)
  then show ?thesis using llm_calls_bounded [OF s(1)] le_trans by blast
qed

theorem slots_bounded_witness: "length (filter (\<lambda>j. snd j \<noteq> Waiting) [(live_event, Assessing)]) \<le> 3"
  using slots_bounded [OF live_fine_slot] by (simp add: live_slot_running_def)

end
