(* ===== verification/Startup.thy ===== *)
theory Startup
  imports Interleaving
begin

text \<open>
  The agent from its command line on: what \<open>start\<close> makes of the flags and the configuration,
  and a run of the agent that was started.
\<close>

section \<open>What start makes of the flags\<close>

lemma start_fails:
  "start yaml getenv fs0 pid now memlock f = Inl (LoadingConfig err) \<longleftrightarrow> Load yaml fs0 (fConfig f) = Inl err"
  by (auto simp: start_def Let_def split: sum.splits option.splits if_splits)

lemma start_setup:
  assumes "Load yaml fs0 (fConfig f) = Inr cfg"
    and "start yaml getenv fs0 pid now memlock f = Inr (c, a)"
  shows "mode c = fMode f" and "selfPID c = pid" and "effects a = []"
    and "policyEngine a = NewEngine (fEnforce f) (cProtected cfg) (cMaxPerMinute cfg) (cAlert cfg) (cSoft cfg) (cHard cfg)"
    and "store a = NewStore fs0 (fState f)" and "fMode f = ''learn'' \<or> fMode f = ''filter''"
    and "llmClient c = None \<longleftrightarrow> fMode f = ''learn''"
  using assms by (auto simp: start_def Let_def split: option.splits if_splits)

section \<open>A start without files, and one hostile event\<close>

definition live_flags :: Flags where
  "live_flags = \<lparr>fMode = ''filter'', fState = ''baseline.json'', fConfig = ''config.yaml'', fEnforce = ''live''\<rparr>"

definition live_start :: "fatal + Setup \<times> Agent" where
  "live_start = start (\<lambda>_ cfg. Inr cfg) (\<lambda>_. []) (\<lambda>_. Inl NotExist) 100 0 None live_flags"

lemma live_config: "Load (\<lambda>_ cfg. Inr cfg) (\<lambda>_. Inl NotExist) path = Inr Default"
  by (simp add: Load_def ReadFile_def IsNotExist_def)

lemma live_started: "\<exists>a. live_start = Inr (live_setup, a) \<and> escalationCount a = 0 \<and> escalationWindow a = 0
    \<and> known (store a) = Map.empty"
proof -
  have "NewGeminiClient (\<lambda>_. []) (\<lambda>_. Inl NotExist) PromptV1 = None"
    by (simp add: NewGeminiClient_def ReadFile_def)
  moreover have "Ollama (NewOllamaClient (\<lambda>_. []) PromptV1) = demo_ollama"
    by (simp add: NewOllamaClient_def demo_ollama_def)
  ultimately show ?thesis
    by (simp add: live_start_def start_def live_config Let_def live_flags_def live_setup_def
        NewStore_def store_load_def ReadFile_def [of "\<lambda>_. Inl NotExist" "''baseline.json''"])
qed

lemma live_default_effects:
  assumes "policyEngine a1 = NewEngine ''live'' (cProtected Default) 50 40 70 90" and "effects a1 = []"
  shows "effects (processLLM demo_ollama (\<lambda>_. live_outside) live_event a1) = [Kill 7 SIGKILL]"
proof -
  have n: "network live_outside = (\<lambda>_. HttpResponse 200 demo_envelope)" by (simp add: live_outside_def)
  let ?d = "fst (Evaluate (printable live_outside) (clock live_outside)
     (NewEngine ''live'' (cProtected Default) 50 40 70 90) (vComm live_event) (ThreatScore demo_answer))"
  have a: "acts ?d"
    by (simp add: acts_iff NewEngine_sel) (simp add: demo_answer_def live_event_def cstr_def
        string_of_bytes_def allowAction_def NewEngine_def Default_def)
  have "dTier ?d = TierHard"
    using acting_tier [OF a] by (simp add: score_tier_def NewEngine_def demo_answer_def)
  then have "act_effects live_outside live_event ?d = [Kill 7 SIGKILL]"
    using a by (simp add: act_effects_cases kill_effects_def isolate_effects_def live_event_def)
  then show ?thesis by (simp add: processLLM_effects assms n ollama_demo)
qed

lemma live_kill: "\<exists>a r. live_start = Inr (live_setup, a) \<and> (fine_step live_setup)\<^sup>*\<^sup>* (running_start a) r
    \<and> Kill 7 SIGKILL \<in> set (effects (run_agent r))"
proof -
  obtain a where a: "live_start = Inr (live_setup, a)" "escalationCount a = 0" "escalationWindow a = 0"
    "known (store a) = Map.empty" using live_started by blast
  note st = start_setup [OF live_config a(1) [unfolded live_start_def]]
  have e: "policyEngine a = NewEngine ''live'' (cProtected Default) 50 40 70 90"
    by (simp add: st(4) live_flags_def) (simp add: Default_def)
  let ?limit = "limit_stage live_outside (escalate_stage live_event (count_processed ''OPEN'' a))"
  have f: "policyEngine (snd ?limit) = policyEngine a" "effects (snd ?limit) = effects a"
    by (simp_all add: limit_stage_def escalate_stage_def count_processed_def split: prod.split)
  have "fst ?limit"
    using a(2,3) by (simp add: limit_stage_def escalate_stage_def count_processed_def escalate_def live_outside_def
        demo_outside_def minute_def second_def)
  then have g: "?limit = (True, snd ?limit)" by (metis prod.collapse)
  have slot: "(fine_step live_setup)\<^sup>*\<^sup>* (running_start a)
      \<lparr>sys_state = \<lparr>agent = snd ?limit, jobs = [(live_event, Assessing)]\<rparr>, reader = (\<lambda>_. Idle)\<rparr>"
    using a(4) by (intro event_gets_slot [OF _ live_read _ _ _ _ g])
      (simp_all add: labels_eq ignored_def live_setup_def live_event_def excludedComms_def cstr_def
        string_of_bytes_def is_known_def count_processed_def IsKnown_def)
  have "llmClient live_setup = Some demo_ollama" by (simp add: live_setup_def)
  from rtranclp_trans [OF slot event_runs_through [OF this, of _ _ "\<lambda>_. live_outside"]]
  have "(fine_step live_setup)\<^sup>*\<^sup>* (running_start a) \<lparr>sys_state =
      \<lparr>agent = processLLM demo_ollama (\<lambda>_. live_outside) live_event (snd ?limit), jobs = []\<rparr>, reader = (\<lambda>_. Idle)\<rparr>" .
  moreover have "effects (processLLM demo_ollama (\<lambda>_. live_outside) live_event (snd ?limit)) = [Kill 7 SIGKILL]"
    using f e st(3) by (intro live_default_effects) simp_all
  ultimately show ?thesis using a(1) by (metis System.select_convs(1) Running.select_convs(1) list.set_intros(1))
qed

end
