(* ===== verification/Schedule.thy ===== *)
theory Schedule
  imports Interleaving
begin

text \<open>
  The steps of the running agent by name: an \<open>action\<close> says which reader or goroutine goes on,
  with the outside it meets, and \<open>perform\<close> computes what becomes of the state.  A schedule is a
  list of actions, so that theorems can speak of what arrived and what was answered; the
  relation \<open>fine_step\<close> of \<open>Interleaving\<close> is what some action does.
\<close>

datatype action =
    Arrive string "byte list"
  | Lose string
  | Proceed string Outside
  | Work nat Outside
  | Tick "string list" write_outcome

section \<open>One action\<close>

text \<open>A reader goes on with its event by one operation.\<close>

fun proceed :: "Setup \<Rightarrow> Outside \<Rightarrow> string \<Rightarrow> reading \<Rightarrow> Running \<Rightarrow> Running option" where
  "proceed c w l Idle r = None"
| "proceed c w l (Fresh v) r =
     Some (advance l (if ignored c v \<or> is_known v (run_agent r) then Idle else Unknown v) (run_agent r) None r)"
| "proceed c w l (Unknown v) r =
     Some (if mode c = ''learn'' then advance l Idle (learn_stage v (run_agent r)) None r
           else advance l (Escalating v) (escalate_stage v (run_agent r)) None r)"
| "proceed c w l (Escalating v) r =
     (case limit_stage w (run_agent r) of
        (ok, a') \<Rightarrow> Some (advance l (if ok then Granted v else Refused v) a' None r))"
| "proceed c w l (Granted v) r =
     Some (advance l Idle (run_agent r) (if llmClient c = None then None else Some v) r)"
| "proceed c w l (Refused v) r = Some (advance l (Noted v) (refuse_stage (run_agent r)) None r)"
| "proceed c w l (Noted v) r = Some (advance l Idle (refuse_log w v (run_agent r)) None r)"

text \<open>The goroutine at place \<open>i\<close> of the list of jobs goes on; the last stage takes it off.\<close>

definition continue :: "System \<Rightarrow> nat \<Rightarrow> Event \<Rightarrow> phase \<Rightarrow> Agent \<Rightarrow> System" where
  "continue s i v p a = s\<lparr>agent := a, jobs := (jobs s)[i := (v, p)]\<rparr>"

definition finish :: "System \<Rightarrow> nat \<Rightarrow> Agent \<Rightarrow> System" where
  "finish s i a = s\<lparr>agent := a, jobs := take i (jobs s) @ drop (Suc i) (jobs s)\<rparr>"

fun go_on :: "Setup \<Rightarrow> Outside \<Rightarrow> nat \<Rightarrow> Event \<Rightarrow> phase \<Rightarrow> System \<Rightarrow> System option" where
  "go_on c w i v Waiting s =
     (if holding (jobs s) < llmSlots then Some (continue s i v Assessing (agent s)) else None)"
| "go_on c w i v Assessing s =
     (case llmClient c of
        None \<Rightarrow> None
      | Some client \<Rightarrow>
         (case assess_stage client w v (agent s) of
            (a', None) \<Rightarrow> Some (finish s i a')
          | (a', Some ta) \<Rightarrow> Some (continue s i v (Deciding ta) a')))"
| "go_on c w i v (Deciding ta) s =
     (case decide_stage w v ta (agent s) of (a', d) \<Rightarrow> Some (continue s i v (Logging ta d) a'))"
| "go_on c w i v (Logging ta d) s = Some (continue s i v (Acting d) (log_stage w v ta d (agent s)))"
| "go_on c w i v (Acting d) s = Some (finish s i (act_stage w v d (agent s)))"

definition work_on :: "Setup \<Rightarrow> Outside \<Rightarrow> nat \<Rightarrow> System \<Rightarrow> System option" where
  "work_on c w i s = (if i < length (jobs s) then go_on c w i (fst (jobs s ! i)) (snd (jobs s ! i)) s else None)"

text \<open>The saver's tick; \<open>order\<close> is the order in which \<open>range\<close> visits the map.\<close>

definition tick :: "string list \<Rightarrow> write_outcome \<Rightarrow> Running \<Rightarrow> Running" where
  "tick order out r = r\<lparr>sys_state := (sys_state r)\<lparr>agent := (run_agent r)\<lparr>files :=
     fst (Save order out (files (run_agent r)) (store (run_agent r)))\<rparr>\<rparr>\<rparr>"

fun perform :: "Setup \<Rightarrow> action \<Rightarrow> Running \<Rightarrow> Running option" where
  "perform c (Arrive l raw) r =
     (if l \<in> labels \<and> reader r l = Idle then
        (case read_event l raw of
           None \<Rightarrow> Some r
         | Some v \<Rightarrow> Some (advance l (Fresh v) (count_processed l (run_agent r)) None r))
      else None)"
| "perform c (Lose l) r =
     (if l \<in> labels \<and> reader r l = Idle
      then Some (advance l Idle (print_reports [RingReadFailed l] (run_agent r)) None r) else None)"
| "perform c (Proceed l w) r = (if l \<in> labels then proceed c w l (reader r l) r else None)"
| "perform c (Work i w) r = map_option (\<lambda>s. r\<lparr>sys_state := s\<rparr>) (work_on c w i (sys_state r))"
| "perform c (Tick order out) r = (if range_order (store (run_agent r)) order then Some (tick order out r) else None)"

primrec run_schedule :: "Setup \<Rightarrow> action list \<Rightarrow> Running \<Rightarrow> Running option" where
  "run_schedule c [] r = Some r"
| "run_schedule c (\<alpha> # \<alpha>s) r = (case perform c \<alpha> r of None \<Rightarrow> None | Some r' \<Rightarrow> run_schedule c \<alpha>s r')"

lemma run_schedule_append:
  "run_schedule c (\<alpha>s @ \<beta>s) r = (case run_schedule c \<alpha>s r of None \<Rightarrow> None | Some r' \<Rightarrow> run_schedule c \<beta>s r')"
  by (induction \<alpha>s arbitrary: r) (auto split: option.splits)

section \<open>Actions and steps\<close>

lemma split_at: "i < length xs \<Longrightarrow> xs = take i xs @ xs ! i # drop (Suc i) xs"
  by (rule id_take_nth_drop)

lemma go_on_step:
  assumes "i < length (jobs s)" and "jobs s ! i = (v, p)" and "go_on c w i v p s = Some s'"
  shows "job_step c s s'"
proof -
  have j: "jobs s = take i (jobs s) @ (v, p) # drop (Suc i) (jobs s)"
    using split_at [OF assms(1)] assms(2) by simp
  have u: "(jobs s)[i := (v, q)] = take i (jobs s) @ (v, q) # drop (Suc i) (jobs s)" for q
    using assms(1) by (simp add: upd_conv_take_nth_drop)
  show ?thesis
  proof (cases p)
    case Waiting
    then show ?thesis
      using assms(3) j job_step.Acquire [of s "take i (jobs s)" v "drop (Suc i) (jobs s)" c]
      by (auto simp: continue_def u split: if_splits)
  next
    case Assessing
    then obtain client a' res where "llmClient c = Some client" "assess_stage client w v (agent s) = (a', res)"
      using assms(3) by (auto split: option.splits prod.splits)
    then show ?thesis
      using assms(3) j Assessing job_step.AssessFails [of s "take i (jobs s)" v "drop (Suc i) (jobs s)" c client w a']
        job_step.Assesses [of s "take i (jobs s)" v "drop (Suc i) (jobs s)" c client w a']
      by (cases res) (auto simp: continue_def finish_def u)
  next
    case (Deciding ta)
    then show ?thesis
      using assms(3) j job_step.Decides [of s "take i (jobs s)" v ta "drop (Suc i) (jobs s)" w _ _ c]
      by (auto simp: continue_def u split: prod.splits)
  next
    case (Logging ta d)
    then show ?thesis
      using assms(3) j job_step.Logs [of s "take i (jobs s)" v ta d "drop (Suc i) (jobs s)" c w]
      by (auto simp: continue_def u)
  next
    case (Acting d)
    then show ?thesis
      using assms(3) j job_step.Acts [of s "take i (jobs s)" v d "drop (Suc i) (jobs s)" c w]
      by (auto simp: finish_def)
  qed
qed

lemma work_on_step: "work_on c w i s = Some s' \<Longrightarrow> job_step c s s'"
  using go_on_step [of i s "fst (jobs s ! i)" "snd (jobs s ! i)" c w s'] by (simp add: work_on_def split: if_splits)

lemma at_place:
  assumes "jobs s = js @ (v, p) # ks"
  shows "work_on c w (length js) s = go_on c w (length js) v p s"
    and "continue s (length js) v q a = s\<lparr>agent := a, jobs := js @ (v, q) # ks\<rparr>"
    and "finish s (length js) a = s\<lparr>agent := a, jobs := js @ ks\<rparr>"
  using assms by (simp_all add: work_on_def continue_def finish_def)

lemma job_step_work_on: "job_step c s s' \<Longrightarrow> \<exists>i w. work_on c w i s = Some s'"
proof (induction rule: job_step.induct)
  case (Acquire s js v ks)
  fix w :: Outside
  have "work_on c w (length js) s = Some (s\<lparr>jobs := js @ (v, Assessing) # ks\<rparr>)"
    using Acquire(2) by (simp add: at_place [OF Acquire(1)])
  then show ?case by blast
next
  case (AssessFails s js v ks client w a')
  then have "work_on c w (length js) s = Some (s\<lparr>agent := a', jobs := js @ ks\<rparr>)"
    by (simp add: at_place [OF AssessFails(1)])
  then show ?case by blast
next
  case (Assesses s js v ks client w a' ta)
  then have "work_on c w (length js) s = Some (s\<lparr>agent := a', jobs := js @ (v, Deciding ta) # ks\<rparr>)"
    by (simp add: at_place [OF Assesses(1)])
  then show ?case by blast
next
  case (Decides s js v ta ks w a' d)
  then have "work_on c w (length js) s = Some (s\<lparr>agent := a', jobs := js @ (v, Logging ta d) # ks\<rparr>)"
    by (simp add: at_place [OF Decides(1)])
  then show ?case by blast
next
  case (Logs s js v ta d ks w)
  then have "work_on c w (length js) s = Some (s\<lparr>agent := log_stage w v ta d (agent s), jobs := js @ (v, Acting d) # ks\<rparr>)"
    by (simp add: at_place [OF Logs])
  then show ?case by blast
next
  case (Acts s js v d ks w)
  then have "work_on c w (length js) s = Some (s\<lparr>agent := act_stage w v d (agent s), jobs := js @ ks\<rparr>)"
    by (simp add: at_place [OF Acts])
  then show ?case by blast
qed

lemma proceed_step: "l \<in> labels \<Longrightarrow> proceed c w l (reader r l) r = Some r' \<Longrightarrow> fine_step c r r'"
proof (cases "reader r l")
  case (Granted v)
  assume "l \<in> labels" "proceed c w l (reader r l) r = Some r'"
  then show ?thesis using Granted fine_step.Spawns [of l r v c] by auto
qed (auto intro: fine_step.intros split: if_splits prod.splits)

lemma perform_step: "perform c \<alpha> r = Some r' \<Longrightarrow> fine_step c r r'"
proof (cases \<alpha>)
  case (Arrive l raw)
  assume "perform c \<alpha> r = Some r'"
  then show ?thesis using Arrive by (auto intro: fine_step.intros split: if_splits option.splits)
next
  case (Lose l)
  assume "perform c \<alpha> r = Some r'"
  then show ?thesis using Lose fine_step.ReadFails by (auto split: if_splits)
next
  case (Proceed l w)
  assume "perform c \<alpha> r = Some r'"
  then show ?thesis using Proceed proceed_step by (auto split: if_splits)
next
  case (Work i w)
  assume "perform c \<alpha> r = Some r'"
  then show ?thesis using Work work_on_step fine_step.Works by auto
next
  case (Tick order out)
  assume "perform c \<alpha> r = Some r'"
  then show ?thesis using Tick fine_step.Saves by (auto simp: tick_def split: if_splits)
qed

lemma fine_step_performed: "fine_step c r r' \<Longrightarrow> \<exists>\<alpha>. perform c \<alpha> r = Some r'"
proof (induction rule: fine_step.induct)
  case (Takes l r raw v)
  then have "perform c (Arrive l raw) r = Some (advance l (Fresh v) (count_processed l (run_agent r)) None r)" by simp
  then show ?case by blast
next
  case (Undecodable l r raw)
  then have "perform c (Arrive l raw) r = Some r" by simp
  then show ?case by blast
next
  case (ReadFails l r)
  then have "perform c (Lose l) r = Some (advance l Idle (print_reports [RingReadFailed l] (run_agent r)) None r)" by simp
  then show ?case by blast
next
  case (Works r s')
  then show ?case using job_step_work_on by (metis option.map(2) perform.simps(4))
next
  case (Saves r order out)
  then have "perform c (Tick order out) r = Some (tick order out r)" by simp
  then show ?case unfolding tick_def by blast
next
  case (Grants l r v w a')
  then have "perform c (Proceed l w) r = Some (advance l (Granted v) a' None r)" by simp
  then show ?case by blast
next
  case (Refuses l r v w a')
  then have "perform c (Proceed l w) r = Some (advance l (Refused v) a' None r)" by simp
  then show ?case by blast
next
  case (LogsRefusal l r v w)
  then have "perform c (Proceed l w) r = Some (advance l Idle (refuse_log w v (run_agent r)) None r)" by simp
  then show ?case by blast
next
  case (Ignores l r v)
  then have "perform c (Proceed l w) r = Some (advance l Idle (run_agent r) None r)" for w by auto
  then show ?case by blast
next
  case (Misses l r v)
  then have "perform c (Proceed l w) r = Some (advance l (Unknown v) (run_agent r) None r)" for w by simp
  then show ?case by blast
next
  case (Learns l r v)
  then have "perform c (Proceed l w) r = Some (advance l Idle (learn_stage v (run_agent r)) None r)" for w by simp
  then show ?case by blast
next
  case (Escalates l r v)
  then have "perform c (Proceed l w) r = Some (advance l (Escalating v) (escalate_stage v (run_agent r)) None r)" for w
    by simp
  then show ?case by blast
next
  case (Notes l r v)
  then have "perform c (Proceed l w) r = Some (advance l (Noted v) (refuse_stage (run_agent r)) None r)" for w by simp
  then show ?case by blast
next
  case (Spawns l r v)
  then have "perform c (Proceed l w) r
      = Some (advance l Idle (run_agent r) (if llmClient c = None then None else Some v) r)" for w by simp
  then show ?case by blast
qed

lemma schedule_runs: "run_schedule c \<alpha>s r = Some r' \<Longrightarrow> (fine_step c)\<^sup>*\<^sup>* r r'"
proof (induction \<alpha>s arbitrary: r)
  case (Cons \<alpha> \<alpha>s)
  then obtain r1 where "perform c \<alpha> r = Some r1" "run_schedule c \<alpha>s r1 = Some r'"
    by (auto split: option.splits)
  then show ?case using Cons.IH perform_step converse_rtranclp_into_rtranclp [of "fine_step c"] by blast
qed simp

lemma runs_scheduled: "(fine_step c)\<^sup>*\<^sup>* r r' \<Longrightarrow> \<exists>\<alpha>s. run_schedule c \<alpha>s r = Some r'"
proof (induction rule: rtranclp_induct)
  case base
  have "run_schedule c [] r = Some r" by simp
  then show ?case by blast
next
  case (step r1 r2)
  then obtain \<alpha>s \<alpha> where "run_schedule c \<alpha>s r = Some r1" "perform c \<alpha> r1 = Some r2"
    using fine_step_performed by blast
  then have "run_schedule c (\<alpha>s @ [\<alpha>]) r = Some r2" by (simp add: run_schedule_append)
  then show ?case by blast
qed

lemma work_on_at:
  assumes "work_on c w i s = Some s'"
  obtains js v p ks where "jobs s = js @ (v, p) # ks" and "go_on c w (length js) v p s = Some s'"
proof -
  have "i < length (jobs s)" using assms by (simp add: work_on_def split: if_splits)
  then have j: "jobs s = take i (jobs s) @ (fst (jobs s ! i), snd (jobs s ! i)) # drop (Suc i) (jobs s)"
    and "length (take i (jobs s)) = i" using split_at [of i "jobs s"] by simp_all
  then show thesis using that [OF j] at_place(1) [OF j, of c w] assms by simp
qed

text \<open>An invariant of the actions of a kind holds along the schedules made of them.\<close>

lemma schedule_invariant:
  assumes "run_schedule c \<alpha>s r = Some r'" and "\<forall>\<alpha> \<in> set \<alpha>s. ok \<alpha>" and "I r"
    and step: "\<And>\<alpha> r r'. perform c \<alpha> r = Some r' \<Longrightarrow> ok \<alpha> \<Longrightarrow> I r \<Longrightarrow> I r'"
  shows "I r'"
  using assms(1-3)
proof (induction \<alpha>s arbitrary: r)
  case (Cons \<alpha> \<alpha>s)
  then obtain r1 where "perform c \<alpha> r = Some r1" "run_schedule c \<alpha>s r1 = Some r'"
    by (auto split: option.splits)
  then show ?case using Cons step by simp
qed simp

text \<open>
  An invariant may speak of the history, too: of the actions performed so far.
\<close>

lemma schedule_history:
  assumes "run_schedule c \<alpha>s r0 = Some r" and "I [] r0"
    and step: "\<And>hs \<alpha> r r'. run_schedule c hs r0 = Some r \<Longrightarrow> perform c \<alpha> r = Some r' \<Longrightarrow> I hs r \<Longrightarrow> I (hs @ [\<alpha>]) r'"
  shows "I \<alpha>s r"
  using assms(1)
proof (induction \<alpha>s arbitrary: r rule: rev_induct)
  case (snoc \<alpha> hs)
  then obtain r1 where "run_schedule c hs r0 = Some r1" "perform c \<alpha> r1 = Some r"
    by (auto simp: run_schedule_append split: option.splits)
  then show ?case using snoc.IH step by blast
qed (use assms(2) in simp)

section \<open>What an action of a reader changes\<close>

text \<open>The event a reader is at.\<close>

fun event_in :: "reading \<Rightarrow> Event option" where
  "event_in Idle = None"
| "event_in (Fresh v) = Some v"
| "event_in (Unknown v) = Some v"
| "event_in (Escalating v) = Some v"
| "event_in (Granted v) = Some v"
| "event_in (Refused v) = Some v"
| "event_in (Noted v) = Some v"

lemma limit_stage_frame:
  "limit_stage w a = (ok, a') \<Longrightarrow>
     counters a' = counters a \<and> effects a' = effects a \<and> policyEngine a' = policyEngine a"
  by (auto simp: limit_stage_def split: prod.splits)

lemma proceed_advances:
  assumes "proceed c w l (reader r l) r = Some r'"
  shows "\<exists>p a job. r' = advance l p a job r \<and> effects a = effects (run_agent r)
    \<and> policyEngine a = policyEngine (run_agent r)
    \<and> EventsProcessed (counters a) = EventsProcessed (counters (run_agent r))
    \<and> event_in p \<in> {None, event_in (reader r l)} \<and> job \<in> {None, event_in (reader r l)}
    \<and> (event_in p = None \<or> job = None)"
proof -
  define s where "s = reader r l"
  show ?thesis
    using assms unfolding s_def [symmetric]
  proof (induction c w l s r rule: proceed.induct)
    case (4 c w l v r)
    then show ?case
      using limit_stage_frame [of w "run_agent r"]
      by (auto split: prod.splits if_splits intro!: exI [of _ "if fst (limit_stage w (run_agent r)) then Granted v else Refused v"]
          exI [of _ "snd (limit_stage w (run_agent r))"] exI [of _ None])
  qed (force simp: learn_stage_def escalate_stage_def refuse_stage_def refuse_log_def audit_log_frame split: if_splits)+
qed

text \<open>
  So the relation the theorems on interleavings are about and the execution of a schedule
  reach the same states.
\<close>

lemma schedules_exact:
  "(fine_step c)\<^sup>*\<^sup>* r r' \<longleftrightarrow> (\<exists>\<alpha>s. run_schedule c \<alpha>s r = Some r')"
  using schedule_runs runs_scheduled by blast

end
