(* ===== verification/Shutdown.thy ===== *)
theory Shutdown
  imports Agent
begin

text \<open>
  How the agent stops.  \<open>stopper\<close> is one channel with room for one signal; the saver and, for
  each probe, a closer receive from it, and \<open>main\<close> returns when the three readers have.
\<close>

text \<open>
  \<open>received\<close> counts the interrupts that were sent, \<open>saver\<close> is whether the saver still waits
  (its ticker runs as long), \<open>saved\<close> whether it has written the allowlist for the last time.
\<close>

record Lifetime =
  pending :: bool
  received :: nat
  saver :: bool
  saved :: bool
  closers :: "string set"
  readers :: "string set"
  exited :: bool

definition running :: Lifetime where
  "running = \<lparr>pending = False, received = 0, saver = True, saved = False,
     closers = labels, readers = labels, exited = False\<rparr>"

text \<open>
  \<open>signal.Notify\<close> does not block: a signal that finds the channel full is lost.  A closer
  that gets one closes its ring buffer; its reader then gets \<open>ErrClosed\<close> and returns.
\<close>

inductive event :: "Lifetime \<Rightarrow> Lifetime \<Rightarrow> bool" where
  Interrupt: "\<not> exited s \<Longrightarrow> event s (s\<lparr>pending := True, received := Suc (received s)\<rparr>)"
| SaverStops: "\<not> exited s \<Longrightarrow> pending s \<Longrightarrow> saver s \<Longrightarrow>
     event s (s\<lparr>pending := False, saver := False\<rparr>)"
| LastSave: "\<not> exited s \<Longrightarrow> \<not> saver s \<Longrightarrow> \<not> saved s \<Longrightarrow> event s (s\<lparr>saved := True\<rparr>)"
| Close: "\<not> exited s \<Longrightarrow> pending s \<Longrightarrow> l \<in> closers s \<Longrightarrow>
     event s (s\<lparr>pending := False, closers := closers s - {l}\<rparr>)"
| ReaderReturns: "\<not> exited s \<Longrightarrow> l \<in> readers s \<Longrightarrow> l \<notin> closers s \<Longrightarrow>
     event s (s\<lparr>readers := readers s - {l}\<rparr>)"
| MainReturns: "\<not> exited s \<Longrightarrow> readers s = {} \<Longrightarrow> event s (s\<lparr>exited := True\<rparr>)"

inductive_cases eventE: "event s s'"

text \<open>Every signal is taken once: by the saver or by one closer.\<close>

definition lifetime_inv :: "Lifetime \<Rightarrow> bool" where
  "lifetime_inv s \<longleftrightarrow> closers s \<subseteq> readers s \<and> readers s \<subseteq> labels \<and> (saved s \<longrightarrow> \<not> saver s)
     \<and> (3 - card (closers s)) + (if saver s then 0 else 1) + (if pending s then 1 else 0) \<le> received s
     \<and> (exited s \<longrightarrow> readers s = {})"

lemma card_labels: "A \<subseteq> labels \<Longrightarrow> finite A \<and> card A \<le> 3"
proof -
  assume a: "A \<subseteq> labels"
  have "finite labels" "card labels = 3" by (simp_all add: labels_eq)
  then show ?thesis using a card_mono [of labels A] finite_subset by metis
qed

lemma event_inv: "event s s' \<Longrightarrow> lifetime_inv s \<Longrightarrow> lifetime_inv s'"
proof (induction rule: event.induct)
  case (Close s l)
  then have "closers s \<subseteq> labels" by (auto simp: lifetime_inv_def)
  from card_labels [OF this] have "finite (closers s)" "card (closers s) \<le> 3" by simp_all
  moreover have "0 < card (closers s)" using Close(3) calculation(1) by (auto simp: card_gt_0_iff)
  ultimately have "3 - card (closers s - {l}) = Suc (3 - card (closers s))" using Close(3) by simp
  then show ?case using Close by (auto simp: lifetime_inv_def)
qed (auto simp: lifetime_inv_def)

lemma reachable_lifetime: "event\<^sup>*\<^sup>* running s \<Longrightarrow> lifetime_inv s"
proof (induction rule: rtranclp_induct)
  case base
  have "card labels = 3" by (simp add: labels_eq)
  then show ?case by (simp add: running_def lifetime_inv_def)
next
  case (step s s')
  then show ?case using event_inv by blast
qed

section \<open>How many interrupts it takes\<close>

text \<open>
  One interrupt does not stop the agent.  Each one wakes a single goroutine: when \<open>main\<close>
  has returned at least three were sent, and at least four when the allowlist was also
  saved for the last time.
\<close>

lemma shutdown_needs_three_interrupts:
  assumes "event\<^sup>*\<^sup>* running s" and "exited s"
  shows "3 \<le> received s \<and> (saved s \<longrightarrow> 4 \<le> received s)"
proof -
  have i: "lifetime_inv s" by (rule reachable_lifetime [OF assms(1)])
  then have "closers s = {}" using assms(2) by (auto simp: lifetime_inv_def)
  then show ?thesis using i by (auto simp: lifetime_inv_def split: if_splits)
qed

definition closed_by :: "nat \<Rightarrow> string set \<Rightarrow> Lifetime" where
  "closed_by n ls = running\<lparr>received := n, closers := ls\<rparr>"

lemmas event_star = rtranclp.rtrancl_into_rtrancl [of event] rtranclp_trans [of event] r_into_rtranclp [of event]

lemma interrupt_closes:
  assumes "l \<in> ls" shows "event\<^sup>*\<^sup>* (closed_by n ls) (closed_by (Suc n) (ls - {l}))"
proof -
  have "event (closed_by n ls) ((closed_by n ls)\<lparr>pending := True, received := Suc (received (closed_by n ls))\<rparr>)"
    by (rule event.Interrupt) (simp add: closed_by_def running_def)
  moreover have "event ((closed_by n ls)\<lparr>pending := True, received := Suc (received (closed_by n ls))\<rparr>)
      (closed_by (Suc n) (ls - {l}))"
    using event.Close [of "(closed_by n ls)\<lparr>pending := True, received := Suc (received (closed_by n ls))\<rparr>" l] assms
    by (simp add: closed_by_def running_def)
  ultimately show ?thesis by (meson converse_rtranclp_into_rtranclp r_into_rtranclp)
qed

definition stopped :: Lifetime where
  "stopped = (closed_by 3 {})\<lparr>readers := {}, exited := True\<rparr>"

lemma all_close: "event\<^sup>*\<^sup>* running (closed_by 3 {})"
proof -
  have a: "event\<^sup>*\<^sup>* (closed_by 0 labels) (closed_by (Suc 0) {''OPEN'', ''CONNECT''})"
    using interrupt_closes [of "''EXEC''" labels 0] by (simp add: labels_eq insert_Diff_if)
  have b: "event\<^sup>*\<^sup>* (closed_by (Suc 0) {''OPEN'', ''CONNECT''}) (closed_by (Suc (Suc 0)) {''CONNECT''})"
    using interrupt_closes [of "''OPEN''" "{''OPEN'', ''CONNECT''}" "Suc 0"] by (simp add: insert_Diff_if)
  have c: "event\<^sup>*\<^sup>* (closed_by (Suc (Suc 0)) {''CONNECT''}) (closed_by 3 {})"
    using interrupt_closes [of "''CONNECT''" "{''CONNECT''}" "Suc (Suc 0)"] by (simp add: numeral_3_eq_3)
  have "closed_by 0 labels = running" by (simp add: closed_by_def running_def)
  with event_star(2) [OF event_star(2) [OF a b] c] show ?thesis by simp
qed

definition reading :: "string set \<Rightarrow> Lifetime" where
  "reading ls = (closed_by 3 {})\<lparr>readers := ls\<rparr>"

lemma reader_returns: "l \<in> ls \<Longrightarrow> event (reading ls) (reading (ls - {l}))"
  using event.ReaderReturns [of "reading ls" l] by (simp add: reading_def closed_by_def running_def)

lemma all_return: "event\<^sup>*\<^sup>* (reading labels) (reading {})"
proof -
  have a: "event (reading labels) (reading {''OPEN'', ''CONNECT''})"
    using reader_returns [of "''EXEC''" labels] by (simp add: labels_eq insert_Diff_if)
  have b: "event (reading {''OPEN'', ''CONNECT''}) (reading {''CONNECT''})"
    using reader_returns [of "''OPEN''" "{''OPEN'', ''CONNECT''}"] by (simp add: insert_Diff_if)
  have c: "event (reading {''CONNECT''}) (reading {})"
    using reader_returns [of "''CONNECT''" "{''CONNECT''}"] by simp
  show ?thesis
    by (rule event_star(1) [OF event_star(1) [OF event_star(3) [OF a] b] c])
qed

lemma stopping_run: "event\<^sup>*\<^sup>* running stopped"
proof -
  have r: "reading labels = closed_by 3 {}" by (simp add: reading_def closed_by_def running_def)
  have e: "event (reading {}) stopped"
    using event.MainReturns [of "reading {}"] by (simp add: reading_def stopped_def closed_by_def running_def)
  show ?thesis
    by (rule event_star(1) [OF event_star(2) [OF all_close all_return [unfolded r]] e])
qed

lemma close_all:
  assumes "lifetime_inv s" and "\<not> exited s"
  shows "\<exists>s'. event\<^sup>*\<^sup>* s s' \<and> lifetime_inv s' \<and> \<not> exited s' \<and> closers s' = {}
    \<and> received s' = received s + card (closers s) \<and> saved s' = saved s"
  using assms
proof (induction "card (closers s)" arbitrary: s)
  case 0
  then have "closers s \<subseteq> labels" by (auto simp: lifetime_inv_def)
  then have "closers s = {}" using card_labels [of "closers s"] 0(1) by simp
  then show ?case using 0 by (intro exI [of _ s]) simp
next
  case (Suc n)
  then obtain l where l: "l \<in> closers s" by (metis card.empty equals0I nat.distinct(1))
  have fin: "finite (closers s)" using Suc(2) by (metis card.infinite nat.distinct(1))
  let ?s1 = "s\<lparr>pending := True, received := Suc (received s)\<rparr>"
  let ?s2 = "?s1\<lparr>pending := False, closers := closers s - {l}\<rparr>"
  have e1: "event s ?s1" by (rule event.Interrupt [OF Suc(4)])
  have e2: "event ?s1 ?s2" using event.Close [of ?s1 l] Suc(4) l by simp
  have inv: "lifetime_inv ?s2" by (rule event_inv [OF e2 event_inv [OF e1 Suc(3)]])
  have "n = card (closers ?s2)" using Suc(2) fin l by simp
  from Suc(1) [OF this inv] Suc(4) obtain s' where s': "event\<^sup>*\<^sup>* ?s2 s'" "lifetime_inv s'" "\<not> exited s'"
    "closers s' = {}" "received s' = received ?s2 + card (closers ?s2)" "saved s' = saved ?s2" by auto
  have "event\<^sup>*\<^sup>* s s'"
    by (rule event_star(2) [OF event_star(1) [OF event_star(3) [OF e1] e2] s'(1)])
  moreover have "received s' = received s + card (closers s)" using s'(5) Suc(2) fin l by simp
  ultimately show ?case using s' by auto
qed

lemma return_all:
  assumes "finite (readers s)" and "closers s = {}" and "\<not> exited s"
  shows "\<exists>s'. event\<^sup>*\<^sup>* s s' \<and> readers s' = {} \<and> \<not> exited s'
    \<and> received s' = received s \<and> saved s' = saved s"
  using assms
proof (induction "readers s" arbitrary: s rule: finite_psubset_induct)
  case psubset
  show ?case
  proof (cases "readers s = {}")
    case True
    then show ?thesis using psubset by (intro exI [of _ s]) simp
  next
    case False
    then obtain l where l: "l \<in> readers s" by auto
    let ?s1 = "s\<lparr>readers := readers s - {l}\<rparr>"
    have e: "event s ?s1" using event.ReaderReturns [of s l] psubset l by simp
    obtain s' where s': "event\<^sup>*\<^sup>* ?s1 s'" "readers s' = {}" "\<not> exited s'"
      "received s' = received s" "saved s' = saved s"
      using psubset(2) [of ?s1] psubset(3,4) l by auto
    have "event\<^sup>*\<^sup>* s s'" by (rule event_star(2) [OF event_star(3) [OF e] s'(1)])
    then show ?thesis using s' by blast
  qed
qed

text \<open>
  The agent can always be stopped, and its last save can always be lost: from every
  reachable state there is a run in which one more interrupt per closer still waiting ends
  \<open>main\<close>, and in which the saver does not run.
\<close>

lemma stoppable_unsaved:
  assumes "event\<^sup>*\<^sup>* running s"
  shows "\<exists>s'. event\<^sup>*\<^sup>* s s' \<and> exited s' \<and> received s' = received s + card (closers s)
    \<and> saved s' = saved s"
proof (cases "exited s")
  case True
  moreover have "lifetime_inv s" by (rule reachable_lifetime [OF assms])
  ultimately have "closers s = {}" by (auto simp: lifetime_inv_def)
  then show ?thesis using True by (intro exI [of _ s]) simp
next
  case False
  then obtain t where t: "event\<^sup>*\<^sup>* s t" "lifetime_inv t" "\<not> exited t" "closers t = {}"
    "received t = received s + card (closers s)" "saved t = saved s"
    using close_all [OF reachable_lifetime [OF assms]] by blast
  have "finite (readers t)" using t(2) card_labels [of "readers t"] by (simp add: lifetime_inv_def)
  then obtain u where u: "event\<^sup>*\<^sup>* t u" "readers u = {}" "\<not> exited u"
    "received u = received t" "saved u = saved t"
    using return_all t(3,4) by blast
  have "event\<^sup>*\<^sup>* s (u\<lparr>exited := True\<rparr>)"
    by (rule event_star(1) [OF event_star(2) [OF t(1) u(1)] event.MainReturns [OF u(3,2)]])
  then show ?thesis using t u by (intro exI [of _ "u\<lparr>exited := True\<rparr>"]) simp
qed

end
