(* ===== verification/Progress.thy ===== *)
theory Progress
  imports Interleaving
begin

text \<open>
  The goroutines of escalated events come to an end: each has a bounded amount of work, and
  the semaphore never leaves all of them waiting.
\<close>

fun steps_left :: "phase \<Rightarrow> nat" where
  "steps_left Waiting = 5"
| "steps_left Assessing = 4"
| "steps_left (Deciding ta) = 3"
| "steps_left (Logging ta d) = 2"
| "steps_left (Acting d) = 1"

definition work :: "System \<Rightarrow> nat" where
  "work s = sum_list (map (steps_left \<circ> snd) (jobs s))"

lemma job_step_work: "job_step c s s' \<Longrightarrow> work s' < work s"
  by (induction rule: job_step.induct) (auto simp: work_def)

lemma work_bound: "work s \<le> 5 * length (jobs s)"
proof -
  have "steps_left p \<le> 5" for p by (cases p) auto
  then have "sum_list (map (steps_left \<circ> snd) js) \<le> 5 * length js" for js :: "(Event \<times> phase) list"
    by (induction js) (simp_all add: add_mono)
  then show ?thesis by (simp add: work_def)
qed

lemma job_run_work: "(job_step c ^^ n) s t \<Longrightarrow> n + work t \<le> work s"
proof (induction n arbitrary: t)
  case (Suc n)
  then obtain u where "(job_step c ^^ n) s u" "job_step c u t" by auto
  then show ?case using Suc.IH [of u] job_step_work [of c u t] by simp
qed simp

text \<open>Where there is a job, one of them can go on.\<close>

lemma job_progress:
  assumes "jobs s \<noteq> []" and "llmClient c = Some client"
  shows "\<exists>s'. job_step c s s'"
proof (cases "\<forall>j \<in> set (jobs s). snd j = Waiting")
  case True
  then have "holding (jobs s) = 0" by (simp add: holding_def)
  moreover obtain v ks where "jobs s = [] @ (v, Waiting) # ks"
    using True assms(1) by (cases "jobs s") auto
  ultimately show ?thesis using job_step.Acquire [of s "[]" v ks c] by (auto simp: llmSlots_def)
next
  case False
  then obtain v p where vp: "(v, p) \<in> set (jobs s)" "p \<noteq> Waiting" by force
  then obtain js ks where j: "jobs s = js @ (v, p) # ks" by (meson split_list)
  fix w :: Outside
  show ?thesis
  proof (cases p)
    case Assessing
    obtain a' r where ar: "assess_stage client w v (agent s) = (a', r)" by fastforce
    show ?thesis
      using job_step.AssessFails [of s js v ks c client w a'] job_step.Assesses [of s js v ks c client w a']
        j Assessing assms(2) ar by (cases r) blast+
  next
    case (Deciding ta)
    obtain a' d where "decide_stage w v ta (agent s) = (a', d)" by fastforce
    then show ?thesis using job_step.Decides j Deciding by blast
  next
    case (Logging ta d)
    then show ?thesis using job_step.Logs j by blast
  next
    case (Acting d)
    then show ?thesis using job_step.Acts j by blast
  qed (use vp in simp)
qed

lemma jobs_end:
  assumes "jobs s \<noteq> [] \<Longrightarrow> llmClient c \<noteq> None"
  shows "\<exists>t. (job_step c)\<^sup>*\<^sup>* s t \<and> jobs t = []"
  using assms
proof (induction "work s" arbitrary: s rule: less_induct)
  case less
  show ?case
  proof (cases "jobs s = []")
    case False
    then obtain client where c: "llmClient c = Some client" using less(2) by blast
    obtain s' where s': "job_step c s s'" using job_progress [OF False c] by blast
    then obtain t where "(job_step c)\<^sup>*\<^sup>* s' t" "jobs t = []"
      using less(1) [OF job_step_work [OF s']] c by auto
    then show ?thesis using s' converse_rtranclp_into_rtranclp [of "job_step c"] by blast
  qed blast
qed

text \<open>Only an agent with a client has jobs.\<close>

lemma readLoop_step_client: "readLoop_step c w label r a = Some (a', Some v) \<Longrightarrow> llmClient c \<noteq> None"
  using handleEvent_job [of c w _ _ v]
  by (auto simp: readLoop_step_def split: read_result.splits option.splits) (metis option.simps(3) snd_conv)+

lemma job_step_jobs: "job_step c s s' \<Longrightarrow> jobs s \<noteq> []"
  by (induction rule: job_step.induct) auto

lemma reachable_client:
  "(step c)\<^sup>*\<^sup>* (system_start a) s \<Longrightarrow> jobs s \<noteq> [] \<Longrightarrow> llmClient c \<noteq> None"
proof (induction rule: rtranclp_induct)
  case base
  then show ?case by (simp add: system_start_def)
next
  case (step s s')
  from step(2) show ?case
  proof (cases rule: step.cases)
    case (Reader label w r a' job)
    then show ?thesis
      using step.IH step.prems readLoop_step_client [of c w label r "agent s" a']
      by (cases job) (auto simp: spawn_def)
  next
    case Job
    then show ?thesis using step.IH job_step_jobs by blast
  next
    case (Ticked order out)
    then show ?thesis using step.IH step.prems by simp
  qed
qed

lemma running_client:
  assumes "(fine_step c)\<^sup>*\<^sup>* (running_start a) r" and "jobs (sys_state r) \<noteq> []"
  shows "llmClient c \<noteq> None"
proof -
  obtain s where "(step c)\<^sup>*\<^sup>* (system_start a) s" "mset (jobs s) = mset (jobs (sys_state r)) + all_owed c (reader r)"
    using fine.runs [OF assms(1) tracks_start] by (auto simp: tracks_def)
  moreover from this(2) assms(2) have "jobs s \<noteq> []" by auto
  ultimately show ?thesis using reachable_client by blast
qed

section \<open>Properties\<close>

text \<open>
  C16: When the rings fall silent, the agent comes to rest.  From every reachable state, over all
  interleavings of the single operations, a run of the goroutines alone takes at most five
  steps for each job, and wherever no goroutine can go on none is left: they never wait for
  the semaphore for good.
\<close>

theorem jobs_drain:
  assumes "(fine_step c)\<^sup>*\<^sup>* (running_start a) r"
  shows "(\<forall>n t. (job_step c ^^ n) (sys_state r) t \<longrightarrow> n \<le> 5 * length (jobs (sys_state r))) \<and>
    (\<forall>t. (job_step c)\<^sup>*\<^sup>* (sys_state r) t \<and> (\<nexists>u. job_step c t u) \<longrightarrow> jobs t = [])"
proof (intro conjI allI impI)
  fix n t assume "(job_step c ^^ n) (sys_state r) t"
  then show "n \<le> 5 * length (jobs (sys_state r))"
    using job_run_work [of n c "sys_state r" t] work_bound [of "sys_state r"] by linarith
next
  fix t assume t: "(job_step c)\<^sup>*\<^sup>* (sys_state r) t \<and> (\<nexists>u. job_step c t u)"
  then have "(fine_step c)\<^sup>*\<^sup>* (running_start a) (r\<lparr>sys_state := t\<rparr>)"
    using rtranclp_trans [OF assms works_star] by blast
  then show "jobs t = []" using running_client [of c a "r\<lparr>sys_state := t\<rparr>"] job_progress t by auto
qed

theorem jobs_drain_witness:
  "\<exists>n t. (job_step live_setup ^^ n) \<lparr>agent = live_agent1, jobs = [(live_event, Assessing)]\<rparr> t
     \<and> n \<le> 5 \<and> jobs t = []"
proof -
  let ?s = "\<lparr>agent = live_agent1, jobs = [(live_event, Assessing)]\<rparr>"
  have s: "sys_state live_slot_running = ?s" by (simp add: live_slot_running_def)
  have r: "(job_step live_setup)\<^sup>*\<^sup>* ?s live_end"
    using job_runs_processLLM [of ?s "[]" live_event "[]" live_setup demo_ollama "\<lambda>_. live_outside"]
    by (simp add: live_end_def live_setup_def)
  note drain = jobs_drain [OF live_fine_slot, unfolded s]
  have "\<nexists>u. job_step live_setup live_end u"
    using job_step_jobs [of live_setup live_end] by (auto simp: live_end_def)
  then have "jobs live_end = []" using drain r by blast
  moreover obtain n where "(job_step live_setup ^^ n) ?s live_end" using r by (auto dest: rtranclp_imp_relpowp)
  moreover from this have "n \<le> 5 * length (jobs ?s)" using drain by blast
  ultimately show ?thesis by auto
qed

end
