(* ===== verification/Pipeline.thy ===== *)
theory Pipeline
  imports Wire Startup Schedule Shutdown Progress
begin

text \<open>
  The whole of watchbpf: system calls run the probes, the probes fill the ring buffers, the
  readers empty them, and the agent acts.  \<open>probes\<close> of \<open>main.go\<close> ties the two sides together by
  names: of a program, of the ring buffer it is read from, and of the tracepoint.
\<close>

section \<open>The machine\<close>

text \<open>The C side: a program's name, the ring buffer it reserves from, its \<open>SEC\<close> and its body.\<close>

type_synonym program = "bpf_helpers \<Rightarrow> sys_enter \<Rightarrow> ring \<Rightarrow> int \<times> ring"

definition programs :: "(string \<times> string \<times> string \<times> program) list" where
  "programs =
    [(''handle_execve'', ''rb'', ''tp/syscalls/sys_enter_execve'', handle_execve),
     (''handle_openat'', ''rb_open'', ''tp/syscalls/sys_enter_openat'', handle_openat),
     (''handle_connect'', ''rb_connect'', ''tp/syscalls/sys_enter_connect'', handle_connect)]"

text \<open>A system call that a probe saw: its tracepoint, the helpers, the context, and the ring.\<close>

record call =
  at :: string
  helpers :: bpf_helpers
  ctx :: sys_enter
  found :: ring

text \<open>The ring buffers, the agent with its readers and goroutines, and what is left of its life.\<close>

record Machine =
  rings :: "string \<Rightarrow> ring"
  run :: Running
  life :: Lifetime
  calls :: "call list"

text \<open>
  What the running agent may do by itself: the saver ticks until it is stopped, a ring buffer
  is read until its reader has returned.  The goroutines are nowhere waited for.
\<close>

fun allowed :: "Lifetime \<Rightarrow> action \<Rightarrow> bool" where
  "allowed s (Arrive l raw) = False"
| "allowed s (Lose l) = (l \<in> readers s)"
| "allowed s (Tick order out) = saver s"
| "allowed s _ = True"

text \<open>
  \<open>Traced\<close>: a program attached to its tracepoint runs.  \<open>Taken\<close>: the reader of a probe takes
  the oldest record of the ring buffer; a read under way when the ring is closed may still
  give one.  \<open>Goes\<close>: the agent does anything else.  \<open>Controls\<close>: an interrupt comes, a closer
  closes its ring, the saver stops its ticker, a reader that is at no event returns, or \<open>main\<close>
  does.  \<open>Stops\<close>: the saver saves for the last time.  Nothing happens once \<open>main\<close> has returned.
\<close>

inductive machine_step :: "Setup \<Rightarrow> Machine \<Rightarrow> Machine \<Rightarrow> bool" for c where
  Traced: "\<not> exited (life m) \<Longrightarrow> p \<in> set probes \<Longrightarrow> (progName p, rb, sec, prog) \<in> set programs \<Longrightarrow> bpf_runtime h \<Longrightarrow>
     prog h x (rings m rb) = (ret, ring') \<Longrightarrow>
     machine_step c m (m\<lparr>rings := (rings m)(rb := ring'),
       calls := calls m @ [\<lparr>at = tpName p, helpers = h, ctx = x, found = rings m rb\<rparr>]\<rparr>)"
| Taken: "\<not> exited (life m) \<Longrightarrow> p \<in> set probes \<Longrightarrow> eventLabel p \<in> readers (life m) \<Longrightarrow>
     rings m (mapName p) = raw # rest \<Longrightarrow> perform c (Arrive (eventLabel p) raw) (run m) = Some r' \<Longrightarrow>
     machine_step c m (m\<lparr>rings := (rings m)(mapName p := rest), run := r'\<rparr>)"
| Goes: "\<not> exited (life m) \<Longrightarrow> allowed (life m) \<alpha> \<Longrightarrow> perform c \<alpha> (run m) = Some r' \<Longrightarrow>
     machine_step c m (m\<lparr>run := r'\<rparr>)"
| Controls: "event (life m) s' \<Longrightarrow> saved s' = saved (life m) \<Longrightarrow>
     \<forall>l \<in> readers (life m) - readers s'. reader (run m) l = Idle \<Longrightarrow>
     machine_step c m (m\<lparr>life := s'\<rparr>)"
| Stops: "event (life m) s' \<Longrightarrow> saved s' \<noteq> saved (life m) \<Longrightarrow> perform c (Tick order out) (run m) = Some r' \<Longrightarrow>
     machine_step c m (m\<lparr>run := r', life := s'\<rparr>)"

definition machine_start :: "Agent \<Rightarrow> Machine" where
  "machine_start a = \<lparr>rings = (\<lambda>_. []), run = running_start a, life = running, calls = []\<rparr>"

text \<open>The machine runs the agent of \<open>Schedule\<close> and \<open>Interleaving\<close>, and the life of \<open>Shutdown\<close>.\<close>

lemma machine_run: "machine_step c m m' \<Longrightarrow> (fine_step c)\<^sup>*\<^sup>* (run m) (run m')"
  by (induction rule: machine_step.induct) (auto dest: perform_step simp del: perform.simps)

lemma machine_life: "machine_step c m m' \<Longrightarrow> event\<^sup>*\<^sup>* (life m) (life m')"
  by (induction rule: machine_step.induct) auto

interpretation machine: simulation "machine_step c" "fine_step c" "\<lambda>m r. r = run m" for c
  by unfold_locales (simp add: machine_run)

interpretation lifetime: simulation "machine_step c" event "\<lambda>m s. s = life m" for c
  by unfold_locales (simp add: machine_life)

lemma machine_reachable:
  assumes "(machine_step c)\<^sup>*\<^sup>* (machine_start a) m"
  shows "(fine_step c)\<^sup>*\<^sup>* (running_start a) (run m)" and "event\<^sup>*\<^sup>* running (life m)"
  using machine.runs [OF assms] lifetime.runs [OF assms] by (simp_all add: machine_start_def)

lemma machine_system_inv:
  assumes "(machine_step c)\<^sup>*\<^sup>* (machine_start a) m" and "effects a = []"
  shows "system_inv c (policyEngine a) (sys_state (run m))"
  using running_system_inv [OF machine_reachable(1) [OF assms(1)] assms(2)] .

section \<open>What a program submits\<close>

text \<open>A record for the reader of the same label, that names the task of the call.\<close>

definition faithful :: "string \<Rightarrow> bpf_helpers \<Rightarrow> byte list \<Rightarrow> bool" where
  "faithful l h raw \<longleftrightarrow> (\<exists>d. decode_record l raw = Some (comm_string h, d, event_pid h, event_uid h))"

lemma handle_execve_faithful:
  assumes "bpf_runtime h"
  shows "snd (handle_execve h x rb) = rb \<or> (\<exists>e. faithful ''EXEC'' h e \<and> snd (handle_execve h x rb) = rb @ [e])"
proof (cases "h_reserve h rb (sizeof struct_event)")
  case (Some e0)
  have "faithful ''EXEC'' h (exec_record h x)"
    by (simp add: faithful_def decode_record_def comm_string_def bpf_runtime.read_exec_record [OF assms])
  then show ?thesis using bpf_runtime.handle_execve_record [OF assms Some] by simp
qed (simp add: handle_execve_full)

lemma handle_openat_faithful:
  assumes "bpf_runtime h"
  shows "snd (handle_openat h x rb) = rb \<or> (\<exists>e. faithful ''OPEN'' h e \<and> snd (handle_openat h x rb) = rb @ [e])"
proof (cases "h_reserve h rb (sizeof struct_open_event)")
  case (Some e0)
  then have "length e0 = 280" using bpf_runtime.reserve_length [OF assms Some] by simp
  then have "faithful ''OPEN'' h (open_record h x e0)"
    by (simp add: faithful_def bpf_runtime.decode_open_record [OF assms])
  then show ?thesis using bpf_runtime.handle_openat_record [OF assms Some] by simp
qed (simp add: handle_openat_full)

lemma handle_connect_faithful:
  assumes "bpf_runtime h"
  shows "snd (handle_connect h x rb) = rb \<or> (\<exists>e. faithful ''CONNECT'' h e \<and> snd (handle_connect h x rb) = rb @ [e])"
  using bpf_runtime.handle_connect_cases [OF assms, of x rb]
proof (elim disjE exE conjE)
  fix is6 ip6 ip port
  assume "length ip6 = 16" "length ip = 4" "handle_connect h x rb = (0, rb @ [connect_record h is6 ip6 ip port])"
  then show ?thesis
    using bpf_runtime.decode_connect_record [OF assms, of ip6 ip is6 port] by (auto simp: faithful_def)
qed simp

lemma programs_named:
  "(''handle_execve'', rb, sec, prog) \<in> set programs \<longleftrightarrow>
     rb = ''rb'' \<and> sec = ''tp/syscalls/sys_enter_execve'' \<and> prog = handle_execve"
  "(''handle_openat'', rb, sec, prog) \<in> set programs \<longleftrightarrow>
     rb = ''rb_open'' \<and> sec = ''tp/syscalls/sys_enter_openat'' \<and> prog = handle_openat"
  "(''handle_connect'', rb, sec, prog) \<in> set programs \<longleftrightarrow>
     rb = ''rb_connect'' \<and> sec = ''tp/syscalls/sys_enter_connect'' \<and> prog = handle_connect"
  by (simp_all add: programs_def)

lemma probe_program:
  assumes "p \<in> set probes" and "(progName p, rb, sec, prog) \<in> set programs"
  shows "rb = mapName p \<and> sec = ''tp/'' @ tpCategory p @ ''/'' @ tpName p \<and>
    (eventLabel p = ''EXEC'' \<and> prog = handle_execve \<or> eventLabel p = ''OPEN'' \<and> prog = handle_openat
     \<or> eventLabel p = ''CONNECT'' \<and> prog = handle_connect)"
  using assms unfolding probes_def list.set insert_iff empty_iff
  by (elim disjE) (simp_all add: programs_named)

text \<open>The names fit: a program submits to the ring its probe is read from, in the form its label says.\<close>

lemma program_of_probe:
  assumes "p \<in> set probes" and "(progName p, rb, sec, prog) \<in> set programs" and "bpf_runtime h"
  shows "rb = mapName p \<and> sec = ''tp/'' @ tpCategory p @ ''/'' @ tpName p
    \<and> (snd (prog h x ring) = ring \<or> (\<exists>e. faithful (eventLabel p) h e \<and> snd (prog h x ring) = ring @ [e]))"
  using probe_program [OF assms(1,2)] handle_execve_faithful [OF assms(3), of x ring]
    handle_openat_faithful [OF assms(3), of x ring] handle_connect_faithful [OF assms(3), of x ring]
  by (elim disjE conjE) simp_all

lemma distinct_probes:
  assumes "p \<in> set probes" and "q \<in> set probes"
  shows "mapName p = mapName q \<longleftrightarrow> p = q" and "eventLabel p = eventLabel q \<longleftrightarrow> p = q"
    and "tpName p = tpName q \<longleftrightarrow> p = q"
proof -
  have "distinct (map mapName probes)" "distinct (map eventLabel probes)" "distinct (map tpName probes)"
    by (simp_all add: probes_def)
  then have i: "inj_on mapName (set probes)" "inj_on eventLabel (set probes)" "inj_on tpName (set probes)"
    by (simp_all only: distinct_map)
  show "mapName p = mapName q \<longleftrightarrow> p = q" by (rule inj_on_eq_iff [OF i(1) assms])
  show "eventLabel p = eventLabel q \<longleftrightarrow> p = q" by (rule inj_on_eq_iff [OF i(2) assms])
  show "tpName p = tpName q \<longleftrightarrow> p = q" by (rule inj_on_eq_iff [OF i(3) assms])
qed

section \<open>Where an event comes from\<close>

text \<open>Some call at the tracepoint of the event's type was made by the task the event names.\<close>

definition caused :: "call list \<Rightarrow> Event \<Rightarrow> bool" where
  "caused cs v \<longleftrightarrow> (\<exists>x \<in> set cs. \<exists>p \<in> set probes. vType v = eventLabel p \<and> at x = tpName p
     \<and> vPid v = event_pid (helpers x) \<and> vUid v = event_uid (helpers x) \<and> vComm v = comm_string (helpers x))"

lemma caused_append: "caused cs v \<Longrightarrow> caused (cs @ ds) v"
  by (auto simp: caused_def)

definition effect_caused :: "Setup \<Rightarrow> Engine \<Rightarrow> call list \<Rightarrow> effect \<Rightarrow> bool" where
  "effect_caused c e cs x \<longleftrightarrow> enforceMode e = ''live'' \<and> mode c \<noteq> ''learn'' \<and>
     (\<exists>v. caused cs v \<and> \<not> ignored c v \<and> \<not> protected_comm e (vComm v)
        \<and> (x \<in> set (kill_effects (vPid v) SIGKILL) \<or> x \<in> set (kill_effects (vPid v) SIGSTOP)
           \<or> x \<in> set (isolate_effects v)))"

text \<open>What the agent holds, and what it did, has its cause.\<close>

definition run_inv :: "Setup \<Rightarrow> Engine \<Rightarrow> call list \<Rightarrow> Running \<Rightarrow> bool" where
  "run_inv c e cs r \<longleftrightarrow>
     (\<forall>l v. event_in (reader r l) = Some v \<longrightarrow> caused cs v)
   \<and> (\<forall>j \<in> set (jobs (sys_state r)). caused cs (fst j))
   \<and> (\<forall>x \<in> set (effects (run_agent r)). effect_caused c e cs x)"

definition machine_inv :: "Setup \<Rightarrow> Engine \<Rightarrow> Machine \<Rightarrow> bool" where
  "machine_inv c e m \<longleftrightarrow>
     (\<forall>p \<in> set probes. \<forall>raw \<in> set (rings m (mapName p)).
        \<exists>v. read_event (eventLabel p) raw = Some v \<and> caused (calls m) v)
   \<and> run_inv c e (calls m) (run m)"

lemma machine_invD:
  "machine_inv c e m \<Longrightarrow> p \<in> set probes \<Longrightarrow> raw \<in> set (rings m (mapName p)) \<Longrightarrow>
     \<exists>v. read_event (eventLabel p) raw = Some v \<and> caused (calls m) v"
  by (simp add: machine_inv_def)

lemma run_inv_append: "run_inv c e cs r \<Longrightarrow> run_inv c e (cs @ ds) r"
  unfolding run_inv_def effect_caused_def by (meson caused_append)

lemma faithful_caused:
  assumes "faithful (eventLabel p) h raw" and "p \<in> set probes"
  shows "\<exists>v. read_event (eventLabel p) raw = Some v
    \<and> caused (cs @ [\<lparr>at = tpName p, helpers = h, ctx = x, found = rb\<rparr>]) v"
  using assms by (force simp: faithful_def read_event_def caused_def)

lemma traced_inv:
  assumes "p \<in> set probes" and "(progName p, rb, sec, prog) \<in> set programs" and "bpf_runtime h"
    and "prog h x (rings m rb) = (ret, ring')" and "machine_inv c e m"
  shows "machine_inv c e (m\<lparr>rings := (rings m)(rb := ring'),
    calls := calls m @ [\<lparr>at = tpName p, helpers = h, ctx = x, found = rings m rb\<rparr>]\<rparr>)"
proof -
  let ?call = "\<lparr>at = tpName p, helpers = h, ctx = x, found = rings m rb\<rparr>"
  note q = program_of_probe [OF assms(1-3), of x "rings m rb"]
  have rb: "rb = mapName p" using q by blast
  have "\<exists>v. read_event (eventLabel r) raw = Some v \<and> caused (calls m @ [?call]) v"
    if r: "r \<in> set probes" "raw \<in> set (((rings m)(rb := ring')) (mapName r))" for r raw
  proof (cases "raw \<in> set (rings m (mapName r))")
    case True
    then show ?thesis using machine_invD [OF assms(5) r(1)] caused_append by blast
  next
    case False
    then have "r = p" using r assms(1) distinct_probes(1) rb by (metis fun_upd_other)
    then have "faithful (eventLabel p) h raw" using q r(2) False assms(4) rb by auto
    then show ?thesis using faithful_caused assms(1) \<open>r = p\<close> by blast
  qed
  then show ?thesis using assms(5) run_inv_append by (simp add: machine_inv_def)
qed

lemma advance_inv:
  assumes "run_inv c e cs r" and "effects a = effects (run_agent r)"
    and "\<And>v. event_in p = Some v \<or> job = Some v \<Longrightarrow> caused cs v"
  shows "run_inv c e cs (advance l p a job r)"
  using assms by (auto simp: run_inv_def advance_def spawn_def split: option.splits)

lemma works_inv:
  assumes "job_step c (sys_state r) s'" and "system_inv c e (sys_state r)" and "run_inv c e cs r"
  shows "run_inv c e cs (r\<lparr>sys_state := s'\<rparr>)"
proof -
  have "(\<forall>j \<in> set (jobs s'). caused cs (fst j)) \<and> (\<forall>x \<in> set (effects (agent s')). effect_caused c e cs x)"
    using assms(1)
  proof (cases rule: job_step.cases)
    case (AssessFails js v ks client w a')
    then show ?thesis using assms(3) assess_frame [OF AssessFails(4)] by (auto simp: run_inv_def)
  next
    case (Assesses js v ks client w a' ta)
    then show ?thesis using assms(3) assess_frame [OF Assesses(4)] by (auto simp: run_inv_def)
  next
    case (Decides js v ta ks w a' d)
    then show ?thesis
      using assms(2,3) decided_ok [of "run_agent r" e w v ta a' d] by (auto simp: run_inv_def system_inv_def)
  next
    case (Acts js v d ks w)
    have "effect_caused c e cs x" if "x \<in> set (act_effects w v d)" for x
      using that assms(2,3) Acts(2)
      by (auto simp: effect_caused_def run_inv_def system_inv_def job_ok_def act_effects_cases split: if_splits)
    then show ?thesis using assms(3) Acts by (auto simp: run_inv_def act_stage_frame)
  qed (use assms(3) in \<open>auto simp: run_inv_def log_stage_frame\<close>)
  then show ?thesis using assms(3) by (simp add: run_inv_def)
qed

lemma perform_inv:
  assumes "perform c \<alpha> r = Some r'" and "system_inv c e (sys_state r)" and "run_inv c e cs r"
    and "\<And>l raw v. \<alpha> = Arrive l raw \<Longrightarrow> read_event l raw = Some v \<Longrightarrow> caused cs v"
  shows "run_inv c e cs r'"
proof (cases \<alpha>)
  case (Arrive l raw)
  then show ?thesis
    using assms(1,3,4) by (auto simp: count_processed_def split: if_splits option.splits intro!: advance_inv)
next
  case (Lose l)
  then show ?thesis using assms(1,3) by (auto split: if_splits intro!: advance_inv)
next
  case (Proceed l w)
  then obtain p a job where "r' = advance l p a job r" "effects a = effects (run_agent r)"
    "event_in p \<in> {None, event_in (reader r l)}" "job \<in> {None, event_in (reader r l)}"
    using assms(1) proceed_advances [of c w l r r'] by (auto split: if_splits)
  moreover have "caused cs v" if "event_in (reader r l) = Some v" for v using assms(3) that by (auto simp: run_inv_def)
  ultimately show ?thesis using advance_inv [OF assms(3), of a p job l] by auto
next
  case (Work i w)
  then show ?thesis using assms works_inv work_on_step by auto
next
  case (Tick order out)
  then show ?thesis using assms(1,3) by (auto simp: tick_def run_inv_def split: if_splits)
qed

lemma reachable_machine_inv:
  assumes "(machine_step c)\<^sup>*\<^sup>* (machine_start a) m" and "effects a = []"
  shows "machine_inv c (policyEngine a) m"
  using assms(1)
proof (induction rule: rtranclp_induct)
  case base
  then show ?case
    using assms(2) by (simp add: machine_inv_def run_inv_def machine_start_def running_start_def system_start_def)
next
  case (step m m')
  note inv = perform_inv [OF _ machine_system_inv [OF step(1) assms(2)]]
  from step(2) show ?case
  proof (cases rule: machine_step.cases)
    case Traced
    then show ?thesis using traced_inv step.IH by blast
  next
    case (Taken p raw rest r')
    have "caused (calls m) v" if "read_event (eventLabel p) raw = Some v" for v
      using machine_invD [OF step.IH Taken(3), of raw] Taken(5) that by simp
    then have "run_inv c (policyEngine a) (calls m) r'"
      using inv [OF Taken(6)] step.IH by (auto simp: machine_inv_def)
    moreover have "set (((rings m)(mapName p := rest)) (mapName q)) \<subseteq> set (rings m (mapName q))" for q
      using Taken(5) by auto
    ultimately show ?thesis using step.IH unfolding Taken(1) machine_inv_def by fastforce
  next
    case (Goes \<alpha> r')
    then have "run_inv c (policyEngine a) (calls m) r'" using step.IH inv [OF Goes(4)] by (force simp: machine_inv_def)
    then show ?thesis using step.IH Goes(1) by (simp add: machine_inv_def)
  next
    case Controls
    then show ?thesis using step.IH by (simp add: machine_inv_def)
  next
    case (Stops s' order out r')
    then have "run_inv c (policyEngine a) (calls m) r'" using step.IH inv [OF Stops(4)] by (force simp: machine_inv_def)
    then show ?thesis using step.IH Stops(1) by (simp add: machine_inv_def)
  qed
qed

section \<open>Every submitted record is one event\<close>

definition submits :: "call \<Rightarrow> bool" where
  "submits x \<longleftrightarrow> (\<exists>(name, rb, sec, prog) \<in> set programs. sec = ''tp/syscalls/'' @ at x
     \<and> snd (prog (helpers x) (ctx x) (found x)) \<noteq> found x)"

definition submitted :: "Machine \<Rightarrow> probeConfig \<Rightarrow> nat" where
  "submitted m p = length (filter (\<lambda>x. at x = tpName p \<and> submits x) (calls m))"

definition conserved :: "Machine \<Rightarrow> bool" where
  "conserved m \<longleftrightarrow> (\<forall>p \<in> set probes. EventsProcessed (counters (run_agent (run m))) (eventLabel p)
     + length (rings m (mapName p)) = submitted m p)"

lemma submits_program:
  assumes "p \<in> set probes" and "(progName p, rb, sec, prog) \<in> set programs" and "at x = tpName p"
  shows "submits x \<longleftrightarrow> snd (prog (helpers x) (ctx x) (found x)) \<noteq> found x"
proof -
  have "submits x \<longleftrightarrow> (''sys_enter_execve'' = at x \<and> snd (handle_execve (helpers x) (ctx x) (found x)) \<noteq> found x
      \<or> ''sys_enter_openat'' = at x \<and> snd (handle_openat (helpers x) (ctx x) (found x)) \<noteq> found x
      \<or> ''sys_enter_connect'' = at x \<and> snd (handle_connect (helpers x) (ctx x) (found x)) \<noteq> found x)"
    by (simp add: submits_def programs_def)
  then show ?thesis
    using assms unfolding probes_def list.set insert_iff empty_iff
    by (elim disjE) (simp_all add: programs_named)
qed

lemma job_step_processed:
  "job_step c s s' \<Longrightarrow> EventsProcessed (counters (agent s')) = EventsProcessed (counters (agent s))"
  by (induction rule: job_step.induct)
    (auto simp: assess_stage_def decide_stage_def log_stage_frame act_stage_frame split: sum.splits prod.splits)

lemma traced_conserved:
  assumes "p \<in> set probes" and "(progName p, rb, sec, prog) \<in> set programs" and "bpf_runtime h"
    and "prog h x (rings m rb) = (ret, ring')" and "conserved m"
  shows "conserved (m\<lparr>rings := (rings m)(rb := ring'),
    calls := calls m @ [\<lparr>at = tpName p, helpers = h, ctx = x, found = rings m rb\<rparr>]\<rparr>)"
proof -
  let ?call = "\<lparr>at = tpName p, helpers = h, ctx = x, found = rings m rb\<rparr>"
  note q = program_of_probe [OF assms(1-3), of x "rings m rb"]
  have sub: "submits ?call \<longleftrightarrow> ring' \<noteq> rings m rb"
    using submits_program [OF assms(1,2), of ?call] assms(4) by simp
  have len: "length ring' = length (rings m rb) + (if submits ?call then 1 else 0)"
    using q assms(4) sub by auto
  have "EventsProcessed (counters (run_agent (run m))) (eventLabel r) + length (((rings m)(rb := ring')) (mapName r))
      = submitted m r + (if tpName p = tpName r \<and> submits ?call then 1 else 0)" if r: "r \<in> set probes" for r
    using assms(5) r len distinct_probes(1,3) [OF r assms(1)] q by (auto simp: conserved_def)
  then show ?thesis by (simp add: conserved_def submitted_def)
qed

lemma perform_processed:
  assumes "perform c \<alpha> r = Some r'" and "\<And>l raw. \<alpha> \<noteq> Arrive l raw"
  shows "EventsProcessed (counters (run_agent r')) = EventsProcessed (counters (run_agent r))"
proof (cases \<alpha>)
  case (Proceed l w)
  then show ?thesis using assms(1) proceed_advances [of c w l r r'] by (auto simp: advance_def split: if_splits)
next
  case (Work i w)
  then obtain s' where "work_on c w i (sys_state r) = Some s'" "r' = r\<lparr>sys_state := s'\<rparr>"
    using assms(1) by auto
  then show ?thesis using job_step_processed [OF work_on_step] by simp
qed (use assms in \<open>auto simp: advance_def tick_def split: if_splits\<close>)

lemma taken_conserved:
  assumes "p \<in> set probes" and "rings m (mapName p) = raw # rest"
    and r: "perform c (Arrive (eventLabel p) raw) (run m) = Some r'"
    and "machine_inv c e m" and "conserved m"
  shows "conserved (m\<lparr>rings := (rings m)(mapName p := rest), run := r'\<rparr>)"
proof -
  let ?k = "EventsProcessed (counters (run_agent (run m)))"
  obtain v where "read_event (eventLabel p) raw = Some v"
    using machine_invD [OF assms(4,1), of raw] by (auto simp: assms(2))
  then have k: "EventsProcessed (counters (run_agent r')) = Inc (eventLabel p) ?k"
    using r by (auto simp: advance_def count_processed_def split: if_splits)
  have "Inc (eventLabel p) ?k (eventLabel q) + length (((rings m)(mapName p := rest)) (mapName q)) = submitted m q"
    if q: "q \<in> set probes" for q
    using assms(2,5) q distinct_probes(1,2) [OF q assms(1)] by (cases "q = p") (auto simp: conserved_def Inc_def)
  then show ?thesis by (simp add: conserved_def submitted_def k)
qed

lemma reachable_conserved:
  assumes "(machine_step c)\<^sup>*\<^sup>* (machine_start a) m" and "effects a = []" and "counters a = zero_counters"
  shows "conserved m"
  using assms(1)
proof (induction rule: rtranclp_induct)
  case base
  then show ?case
    using assms(3) by (simp add: conserved_def submitted_def machine_start_def running_start_def system_start_def zero_counters_def)
next
  case (step m m')
  note inv = reachable_machine_inv [OF step(1) assms(2)]
  from step(2) show ?case
  proof (cases rule: machine_step.cases)
    case Traced
    then show ?thesis using traced_conserved step.IH by blast
  next
    case Taken
    then show ?thesis using taken_conserved inv step.IH by blast
  next
    case (Goes \<alpha> r')
    then have "EventsProcessed (counters (run_agent r')) = EventsProcessed (counters (run_agent (run m)))"
      by (intro perform_processed [OF Goes(4)]) auto
    then show ?thesis using step.IH Goes(1) by (simp add: conserved_def submitted_def)
  next
    case Controls
    then show ?thesis using step.IH by (simp add: conserved_def submitted_def)
  next
    case (Stops s' order out r')
    then show ?thesis using step.IH perform_processed [OF Stops(4)] by (simp add: conserved_def submitted_def)
  qed
qed

section \<open>A run of the machine\<close>

lemma goes_run:
  assumes "run_schedule c \<alpha>s (run m) = Some r" and "\<And>\<alpha>. \<alpha> \<in> set \<alpha>s \<Longrightarrow> allowed (life m) \<alpha>" and "\<not> exited (life m)"
  shows "(machine_step c)\<^sup>*\<^sup>* m (m\<lparr>run := r\<rparr>)"
  using assms
proof (induction \<alpha>s arbitrary: m)
  case (Cons \<alpha> \<alpha>s)
  then obtain r1 where r1: "perform c \<alpha> (run m) = Some r1" "run_schedule c \<alpha>s r1 = Some r"
    by (auto split: option.splits simp del: perform.simps)
  have "machine_step c m (m\<lparr>run := r1\<rparr>)" using machine_step.Goes [OF Cons(4) _ r1(1)] Cons(3) by simp
  moreover have "(machine_step c)\<^sup>*\<^sup>* (m\<lparr>run := r1\<rparr>) (m\<lparr>run := r\<rparr>)"
    using Cons(1) [of "m\<lparr>run := r1\<rparr>"] r1(2) Cons(3,4) by simp
  ultimately show ?case by (rule converse_rtranclp_into_rtranclp [of "machine_step c"])
next
  case Nil
  then show ?case by (cases m) simp
qed

lemma works_run: "(job_step c)\<^sup>*\<^sup>* (sys_state (run m)) s \<Longrightarrow> \<not> exited (life m) \<Longrightarrow>
    (machine_step c)\<^sup>*\<^sup>* m (m\<lparr>run := (run m)\<lparr>sys_state := s\<rparr>\<rparr>)"
proof (induction rule: rtranclp_induct)
  case (step s s')
  then obtain i w where "work_on c w i s = Some s'" using job_step_work_on by blast
  then have "machine_step c (m\<lparr>run := (run m)\<lparr>sys_state := s\<rparr>\<rparr>) (m\<lparr>run := (run m)\<lparr>sys_state := s'\<rparr>\<rparr>)"
    using machine_step.Goes [of "m\<lparr>run := (run m)\<lparr>sys_state := s\<rparr>\<rparr>" "Work i w" c] step.prems by simp
  with step.IH [OF step.prems] show ?case by (rule rtranclp.rtrancl_into_rtrancl)
qed simp

definition live_helpers :: bpf_helpers where
  "live_helpers = mem_helpers \<lparr>rt_pid_tgid = 0x700000009, rt_uid_gid = 0, rt_comm = [], rt_mem = (\<lambda>_. None),
     rt_stale = 0, rt_capacity = 262144\<rparr>"

definition live_call :: call where
  "live_call = \<lparr>at = ''sys_enter_openat'', helpers = live_helpers, ctx = syscall_ctx 0 0, found = []\<rparr>"

definition live_machine :: Machine where
  "live_machine = \<lparr>rings = (\<lambda>_. []), run = \<lparr>sys_state = live_end, reader = (\<lambda>_. Idle)\<rparr>, life = running, calls = [live_call]\<rparr>"

lemma str_into_nil: "str_into [] (replicate n 0) = replicate n 0"
  by (cases n) (simp_all add: str_into_def)

lemma live_open: "handle_openat live_helpers (syscall_ctx 0 0) [] = (0, [live_record])"
proof -
  have "h_reserve live_helpers [] (sizeof struct_open_event) = Some (replicate 280 0)"
    using round_up_bounds(2) [of 8 288]
    by (simp add: live_helpers_def mem_helpers_def ring_used_def ring_slot_def)
  moreover have "open_record live_helpers (syscall_ctx 0 0) (replicate 280 0) = live_record"
  proof -
    have z: "load off n (replicate 280 0) = (replicate n 0 :: byte list)" if "off + n \<le> 280" for off n
      using that by (simp add: load_def)
    have c: "str_into [] (replicate 16 0) = (replicate 16 0 :: byte list)" by (simp add: str_into_nil)
    have p: "le_put 4 (event_pid live_helpers) = [7, 0, 0, 0]" "le_put 4 (event_uid live_helpers) = [0, 0, 0, 0]"
      by (simp_all add: live_helpers_def mem_helpers_def le_put_def upt_rec)
    have "read_cstr (\<lambda>_. None) 0 256 = None" using read_cstr.simps(2) [of "\<lambda>_. None" 0 255] by simp
    then have f: "h_probe_read_user_str live_helpers (replicate 256 0) 0 = replicate 256 0"
      by (simp add: live_helpers_def mem_helpers_def)
    have g: "h_get_current_comm live_helpers (replicate 16 0) = replicate 16 0"
      using c by (simp add: live_helpers_def mem_helpers_def)
    show ?thesis unfolding open_record_def args_syscall_ctx live_record_def p
      by (subst (1 2) z) (simp_all add: f g)
  qed
  ultimately show ?thesis
    using bpf_runtime.handle_openat_record [of live_helpers "[]" "replicate 280 0" "syscall_ctx 0 0"]
    by (simp add: live_helpers_def mh.bpf_runtime_axioms)
qed

definition live_granted :: Running where
  "live_granted = \<lparr>sys_state = \<lparr>agent = live_agent1, jobs = [(live_event, Waiting)]\<rparr>, reader = (\<lambda>_. Idle)\<rparr>"

definition live_waiting :: Machine where
  "live_waiting = \<lparr>rings = (\<lambda>_. []), run = live_granted, life = running, calls = [live_call]\<rparr>"

lemma live_reads:
  "run_schedule live_setup (replicate 4 (Proceed ''OPEN'' live_outside))
     (advance ''OPEN'' (Fresh live_event) (count_processed ''OPEN'' live_agent) None (running_start live_agent)) = Some live_granted"
proof -
  have "snd (handleEvent live_setup live_outside live_event (count_processed ''OPEN'' live_agent)) = Some live_event"
    using live_reader by (simp add: readLoop_step_def live_read count_processed_def)
  then have "\<not> ignored live_setup live_event" "\<not> is_known live_event (count_processed ''OPEN'' live_agent)"
    by (simp_all add: handleEvent_job known_event_of is_known_def)
  moreover have "mode live_setup = ''filter''" "llmClient live_setup = Some demo_ollama" by (simp_all add: live_setup_def)
  ultimately show ?thesis
    by (simp add: numeral_eq_Suc advance_def running_start_def system_start_def spawn_def labels_eq live_limit
        live_granted_def fun_upd_idem)
qed

lemma live_waiting_run: "(machine_step live_setup)\<^sup>*\<^sup>* (machine_start live_agent) live_waiting"
proof -
  let ?p = "probes ! 1"
  let ?r1 = "advance ''OPEN'' (Fresh live_event) (count_processed ''OPEN'' live_agent) None (running_start live_agent)"
  let ?m1 = "\<lparr>rings = (\<lambda>_. [])(''rb_open'' := [live_record]), run = running_start live_agent, life = running, calls = [live_call]\<rparr>"
  let ?m2 = "\<lparr>rings = (\<lambda>_. []), run = ?r1, life = running, calls = [live_call]\<rparr>"
  have p: "?p \<in> set probes" "progName ?p = ''handle_openat''" "mapName ?p = ''rb_open''"
    "eventLabel ?p = ''OPEN''" "tpName ?p = ''sys_enter_openat''" by (simp_all add: probes_def)
  have prog: "(progName ?p, ''rb_open'', ''tp/syscalls/sys_enter_openat'', handle_openat) \<in> set programs"
    unfolding p(2) by (simp add: programs_def)
  have h: "bpf_runtime live_helpers" by (simp add: live_helpers_def mh.bpf_runtime_axioms)
  have on: "\<not> exited running" "''OPEN'' \<in> readers running" "''OPEN'' \<in> labels" by (simp_all add: running_def labels_eq)
  have r1: "machine_step live_setup (machine_start live_agent) ?m1"
    using machine_step.Traced [OF _ p(1) prog h, of "machine_start live_agent" "syscall_ctx 0 0" 0 "[live_record]" live_setup] on
    by (simp add: machine_start_def live_open live_call_def p(5) del: One_nat_def)
  have "perform live_setup (Arrive ''OPEN'' live_record) (running_start live_agent) = Some ?r1"
    using on(3) by (simp add: live_read running_start_def system_start_def)
  then have r2: "machine_step live_setup ?m1 ?m2"
    using machine_step.Taken [OF _ p(1), of ?m1 live_record "[]" live_setup ?r1] on
    by (simp add: p(3,4) fun_upd_idem del: One_nat_def perform.simps)
  have r3: "(machine_step live_setup)\<^sup>*\<^sup>* ?m2 live_waiting"
    using goes_run [of live_setup "replicate 4 (Proceed ''OPEN'' live_outside)" ?m2 live_granted] live_reads on(1)
    by (auto simp: live_waiting_def)
  show ?thesis
    by (rule converse_rtranclp_into_rtranclp [of "machine_step live_setup", OF r1],
        rule converse_rtranclp_into_rtranclp [of "machine_step live_setup", OF r2], rule r3)
qed

lemma live_machine_run: "(machine_step live_setup)\<^sup>*\<^sup>* (machine_start live_agent) live_machine"
proof -
  let ?s = "\<lparr>agent = live_agent1, jobs = [(live_event, Assessing)]\<rparr>"
  have "job_step live_setup (sys_state live_granted) ?s"
    using job_step.Acquire [of "sys_state live_granted" "[]" live_event "[]" live_setup]
    by (simp add: llmSlots_def live_granted_def)
  moreover have "(job_step live_setup)\<^sup>*\<^sup>* ?s live_end"
    using job_runs_processLLM [of ?s "[]" live_event "[]" live_setup demo_ollama "\<lambda>_. live_outside"]
    by (simp add: live_end_def live_setup_def)
  ultimately have "(job_step live_setup)\<^sup>*\<^sup>* (sys_state (run live_waiting)) live_end"
    using converse_rtranclp_into_rtranclp [of "job_step live_setup"] by (simp add: live_waiting_def)
  from works_run [OF this] have "(machine_step live_setup)\<^sup>*\<^sup>* live_waiting live_machine"
    by (simp add: live_waiting_def live_machine_def live_granted_def running_def)
  with live_waiting_run show ?thesis by (rule rtranclp_trans)
qed

section \<open>Stopping the machine\<close>

lemma perform_idle:
  assumes "perform c \<alpha> r = Some r'" and "reader r l = Idle" and "\<And>raw. \<alpha> \<noteq> Arrive l raw"
  shows "reader r' l = Idle"
proof (cases \<alpha>)
  case (Arrive k raw)
  then have "k \<noteq> l" using assms(3) by auto
  then show ?thesis using assms(1,2) Arrive by (auto simp: advance_def split: if_splits option.splits)
next
  case (Proceed k w)
  then have "k \<noteq> l" using assms(1,2) by (auto split: if_splits)
  then show ?thesis
    using assms(1,2) Proceed proceed_advances [of c w k r r'] by (auto simp: advance_def split: if_splits)
qed (use assms in \<open>auto simp: advance_def tick_def split: if_splits option.splits\<close>)

lemma event_shrinks: "event s s' \<Longrightarrow> readers s' \<subseteq> readers s \<and> (saved s \<longrightarrow> saved s')"
  by (induction rule: event.induct) auto

lemma last_save: "event s s' \<Longrightarrow> saved s' \<noteq> saved s \<Longrightarrow> readers s' = readers s"
  by (induction rule: event.induct) auto

text \<open>A reader that has returned is at no event.\<close>

lemma returned_idle:
  assumes "(machine_step c)\<^sup>*\<^sup>* (machine_start a) m" and "l \<in> labels" and "l \<notin> readers (life m)"
  shows "reader (run m) l = Idle"
  using assms(1,3)
proof (induction rule: rtranclp_induct)
  case base
  then show ?case by (simp add: machine_start_def running_start_def)
next
  case (step m m')
  from step(2) show ?case
  proof (cases rule: machine_step.cases)
    case Traced
    then show ?thesis using step by simp
  next
    case (Taken p raw rest r')
    then show ?thesis using step perform_idle [OF Taken(6), of l] by auto
  next
    case (Goes \<alpha> r')
    then have "\<alpha> \<noteq> Arrive l raw" for raw by auto
    then show ?thesis using step perform_idle [OF Goes(4), of l] Goes(1) by simp
  next
    case (Controls s')
    then show ?thesis using step by auto
  next
    case (Stops s' order out r')
    then show ?thesis using step perform_idle [OF Stops(4), of l] last_save [OF Stops(2,3)] by auto
  qed
qed

lemma event_alive: "event s s' \<Longrightarrow> \<not> exited s"
  by (induction rule: event.induct)

lemma nothing_after_exit: "machine_step c m m' \<Longrightarrow> \<not> exited (life m)"
  by (induction rule: machine_step.induct) (auto dest: event_alive)

text \<open>A reader that is at an event gets to the end of it, whatever the others do.\<close>

fun stages_left :: "reading \<Rightarrow> nat" where
  "stages_left Idle = 0"
| "stages_left (Fresh v) = 5"
| "stages_left (Unknown v) = 4"
| "stages_left (Escalating v) = 3"
| "stages_left (Granted v) = 1"
| "stages_left (Refused v) = 2"
| "stages_left (Noted v) = 1"

definition more_jobs :: "Running \<Rightarrow> Running \<Rightarrow> bool" where
  "more_jobs r r' \<longleftrightarrow> (\<exists>ks. jobs (sys_state r') = jobs (sys_state r) @ ks)"

lemma more_jobs_refl: "more_jobs r r"
  by (simp add: more_jobs_def)

lemma more_jobs_trans: "more_jobs r s \<Longrightarrow> more_jobs s t \<Longrightarrow> more_jobs r t"
  by (auto simp: more_jobs_def)

lemma proceed_progress: "reader r l \<noteq> Idle \<Longrightarrow>
    \<exists>r'. proceed c w l (reader r l) r = Some r' \<and> reader r' = (reader r)(l := reader r' l)
      \<and> stages_left (reader r' l) < stages_left (reader r l) \<and> more_jobs r r'"
  by (cases "reader r l") (auto simp: more_jobs_def advance_def split: prod.split)

lemma reader_settles:
  assumes "l \<in> labels"
  shows "\<exists>\<alpha>s r'. run_schedule c \<alpha>s r = Some r' \<and> (\<forall>\<alpha> \<in> set \<alpha>s. \<forall>s. allowed s \<alpha>)
    \<and> reader r' = (reader r)(l := Idle) \<and> more_jobs r r'"
proof (induction "stages_left (reader r l)" arbitrary: r rule: less_induct)
  case less
  show ?case
  proof (cases "reader r l = Idle")
    case True
    then have "run_schedule c [] r = Some r" "reader r = (reader r)(l := Idle)" by auto
    then show ?thesis using more_jobs_refl by (metis empty_iff list.set(1))
  next
    case False
    fix w :: Outside
    obtain r1 where r1: "proceed c w l (reader r l) r = Some r1" "reader r1 = (reader r)(l := reader r1 l)"
      "stages_left (reader r1 l) < stages_left (reader r l)" "more_jobs r r1"
      using proceed_progress [OF False] by blast
    obtain \<alpha>s r' where s: "run_schedule c \<alpha>s r1 = Some r'" "\<forall>\<alpha> \<in> set \<alpha>s. \<forall>s. allowed s \<alpha>"
      "reader r' = (reader r1)(l := Idle)" "more_jobs r1 r'"
      using less(1) [OF r1(3)] by blast
    then have "run_schedule c (Proceed l w # \<alpha>s) r = Some r'" using r1(1) assms by simp
    moreover have "reader r' = (reader r)(l := Idle)" using s(3) r1(2) by (metis fun_upd_upd)
    ultimately show ?thesis using s(2) more_jobs_trans [OF r1(4) s(4)] by (metis allowed.simps(4) set_ConsD)
  qed
qed

lemma machine_settles:
  assumes "l \<in> labels" and "\<not> exited (life m)"
  shows "\<exists>r. (machine_step c)\<^sup>*\<^sup>* m (m\<lparr>run := r\<rparr>) \<and> reader r = (reader (run m))(l := Idle) \<and> more_jobs (run m) r"
  using reader_settles [OF assms(1), of c "run m"] goes_run [of c _ m] assms(2) by blast

lemma all_settle:
  assumes "\<not> exited (life m)"
  shows "\<exists>r. (machine_step c)\<^sup>*\<^sup>* m (m\<lparr>run := r\<rparr>) \<and> (\<forall>l \<in> labels. reader r l = Idle) \<and> more_jobs (run m) r"
proof -
  have l: "''EXEC'' \<in> labels" "''OPEN'' \<in> labels" "''CONNECT'' \<in> labels" by (simp_all add: labels_eq)
  obtain r1 where r1: "(machine_step c)\<^sup>*\<^sup>* m (m\<lparr>run := r1\<rparr>)" "reader r1 = (reader (run m))(''EXEC'' := Idle)"
    "more_jobs (run m) r1" using machine_settles [OF l(1) assms, of c] by blast
  obtain r2 where r2: "(machine_step c)\<^sup>*\<^sup>* (m\<lparr>run := r1\<rparr>) (m\<lparr>run := r2\<rparr>)" "reader r2 = (reader r1)(''OPEN'' := Idle)"
    "more_jobs r1 r2" using machine_settles [OF l(2), of "m\<lparr>run := r1\<rparr>" c] assms by auto
  obtain r3 where r3: "(machine_step c)\<^sup>*\<^sup>* (m\<lparr>run := r2\<rparr>) (m\<lparr>run := r3\<rparr>)" "reader r3 = (reader r2)(''CONNECT'' := Idle)"
    "more_jobs r2 r3" using machine_settles [OF l(3), of "m\<lparr>run := r2\<rparr>" c] assms by auto
  have "\<forall>l \<in> labels. reader r3 l = Idle" by (simp add: labels_eq r1(2) r2(2) r3(2))
  moreover have "(machine_step c)\<^sup>*\<^sup>* m (m\<lparr>run := r3\<rparr>)" using r1(1) r2(1) r3(1) by (meson rtranclp_trans)
  ultimately show ?thesis using more_jobs_trans [OF more_jobs_trans [OF r1(3) r2(3)] r3(3)] by blast
qed

lemma control_run:
  assumes "event\<^sup>*\<^sup>* (life m) s" and "saved s = saved (life m)" and "readers (life m) \<subseteq> labels"
    and "\<forall>l \<in> labels. reader (run m) l = Idle"
  shows "(machine_step c)\<^sup>*\<^sup>* m (m\<lparr>life := s\<rparr>)"
  using assms(1,2)
proof (induction rule: rtranclp_induct)
  case base
  then show ?case by (cases m) simp
next
  case (step s s')
  have "saved (life m) \<longrightarrow> saved t" "readers t \<subseteq> readers (life m)" if "event\<^sup>*\<^sup>* (life m) t" for t
    using that by (induction rule: rtranclp_induct) (use event_shrinks in blast)+
  then have s: "saved s = saved (life m)" "readers s \<subseteq> labels"
    using step(1,2,4) assms(3) event_shrinks [OF step(2)] by blast+
  then have "machine_step c (m\<lparr>life := s\<rparr>) (m\<lparr>life := s'\<rparr>)"
    using machine_step.Controls [of "m\<lparr>life := s\<rparr>" s' c] step(2,4) assms(4) by auto
  with step(3) s(1) show ?case by (meson rtranclp.rtrancl_into_rtrancl)
qed

section \<open>Draining the machine\<close>

text \<open>A ring buffer is emptied, record by record, by a reader that finishes each event.\<close>

lemma ring_empties:
  assumes "p \<in> set probes" and "eventLabel p \<in> readers (life m)" and "\<not> exited (life m)"
    and "\<forall>l \<in> labels. reader (run m) l = Idle"
  shows "\<exists>r. (machine_step c)\<^sup>*\<^sup>* m (m\<lparr>rings := (rings m)(mapName p := []), run := r\<rparr>)
    \<and> (\<forall>l \<in> labels. reader r l = Idle)"
  using assms
proof (induction "rings m (mapName p)" arbitrary: m)
  case Nil
  then have "m\<lparr>rings := (rings m)(mapName p := []), run := run m\<rparr> = m" by (simp add: fun_upd_idem)
  then show ?case using Nil(5) by (metis rtranclp.rtrancl_refl)
next
  case (Cons raw rest)
  have l: "eventLabel p \<in> labels" using Cons(3) by (simp add: labels_def)
  then obtain r1 where "perform c (Arrive (eventLabel p) raw) (run m) = Some r1"
    using Cons(6) by (cases "read_event (eventLabel p) raw") auto
  from machine_step.Taken [OF Cons(5,3,4) Cons(2) [symmetric] this]
  have s1: "machine_step c m (m\<lparr>rings := (rings m)(mapName p := rest), run := r1\<rparr>)" (is "machine_step c m ?m1") .
  obtain r2 where r2: "(machine_step c)\<^sup>*\<^sup>* ?m1 (?m1\<lparr>run := r2\<rparr>)" "\<forall>l \<in> labels. reader r2 l = Idle"
    using all_settle [of ?m1 c] Cons(5) by auto
  obtain r where r: "(machine_step c)\<^sup>*\<^sup>* (?m1\<lparr>run := r2\<rparr>) (m\<lparr>rings := (rings m)(mapName p := []), run := r\<rparr>)"
    "\<forall>l \<in> labels. reader r l = Idle"
    using Cons(1) [of "?m1\<lparr>run := r2\<rparr>"] Cons(3-5) r2(2) by auto
  show ?case
    using converse_rtranclp_into_rtranclp [of "machine_step c", OF s1 rtranclp_trans [OF r2(1) r(1)]] r(2) by blast
qed

lemma rings_empty:
  assumes "readers (life m) = labels" and "\<not> exited (life m)"
  shows "\<exists>f r. (machine_step c)\<^sup>*\<^sup>* m (m\<lparr>rings := f, run := r\<rparr>) \<and> (\<forall>p \<in> set probes. f (mapName p) = [])
    \<and> (\<forall>l \<in> labels. reader r l = Idle)"
proof -
  have *: "\<exists>f r. (machine_step c)\<^sup>*\<^sup>* m (m\<lparr>rings := f, run := r\<rparr>) \<and> (\<forall>p \<in> set ps. f (mapName p) = [])
      \<and> (\<forall>l \<in> labels. reader r l = Idle)" if "set ps \<subseteq> set probes" for ps
    using that
  proof (induction ps)
    case Nil
    obtain r where "(machine_step c)\<^sup>*\<^sup>* m (m\<lparr>run := r\<rparr>)" "\<forall>l \<in> labels. reader r l = Idle"
      using all_settle [OF assms(2)] by blast
    then show ?case by (intro exI [of _ "rings m"] exI [of _ r]) simp
  next
    case (Cons p ps)
    then have "set ps \<subseteq> set probes" and p: "p \<in> set probes" "eventLabel p \<in> labels" by (auto simp: labels_def)
    from Cons.IH [OF this(1)]
    obtain f r where f: "(machine_step c)\<^sup>*\<^sup>* m (m\<lparr>rings := f, run := r\<rparr>)" "\<forall>p \<in> set ps. f (mapName p) = []"
      "\<forall>l \<in> labels. reader r l = Idle" by blast
    obtain r' where "(machine_step c)\<^sup>*\<^sup>* (m\<lparr>rings := f, run := r\<rparr>) (m\<lparr>rings := f(mapName p := []), run := r'\<rparr>)"
      "\<forall>l \<in> labels. reader r' l = Idle"
      using ring_empties [OF p(1), of "m\<lparr>rings := f, run := r\<rparr>" c] p(2) f(3) assms by auto
    moreover have "\<forall>q \<in> set (p # ps). (f(mapName p := [])) (mapName q) = []" using f(2) by simp
    ultimately show ?case using rtranclp_trans [OF f(1)] by blast
  qed
  show ?thesis by (rule * [OF subset_refl])
qed

section \<open>Properties\<close>

text \<open>
  C3: From the system call to the signal.  Whatever the agent does to the system, over all
  interleavings of system calls, probes, readers and goroutines, it does because of a system
  call that a probe saw: a signal goes to the process that made it, a firewall rule is added
  only after a \<open>connect\<close>.  That process, by its pid and name in the kernel, is not the agent,
  not excluded and not protected, and enforcement is live.
\<close>

theorem effects_caused:
  assumes "(machine_step c)\<^sup>*\<^sup>* (machine_start a) m" and "effects a = []"
    and "x \<in> set (effects (run_agent (run m)))"
  shows "enforceMode (policyEngine a) = ''live'' \<and>
    (\<exists>k \<in> set (calls m). let h = helpers k in
       (case x of Kill p sg \<Rightarrow> p = int (unat (event_pid h)) | Run cmd \<Rightarrow> at k = ''sys_enter_connect'')
     \<and> event_pid h \<noteq> selfPID c \<and> comm_string h \<notin> set excludedComms
     \<and> \<not> protected_comm (policyEngine a) (comm_string h))"
proof -
  have "effect_caused c (policyEngine a) (calls m) x"
    using reachable_machine_inv [OF assms(1,2)] assms(3) by (simp add: machine_inv_def run_inv_def)
  then obtain v k p where k: "k \<in> set (calls m)" "p \<in> set probes" "vType v = eventLabel p" "at k = tpName p"
      "vPid v = event_pid (helpers k)" "vComm v = comm_string (helpers k)"
    and v: "\<not> ignored c v" "\<not> protected_comm (policyEngine a) (vComm v)" "enforceMode (policyEngine a) = ''live''"
      "x \<in> set (kill_effects (vPid v) SIGKILL) \<or> x \<in> set (kill_effects (vPid v) SIGSTOP) \<or> x \<in> set (isolate_effects v)"
    by (auto simp: effect_caused_def caused_def)
  have "case x of Kill q sg \<Rightarrow> q = int (unat (vPid v)) | Run cmd \<Rightarrow> vType v = ''CONNECT''"
    using v(4) by (auto simp: kill_effects_def isolate_effects_def split: if_splits)
  moreover have "vType v = ''CONNECT'' \<Longrightarrow> at k = ''sys_enter_connect''"
    using k(2-4) unfolding probes_def list.set insert_iff empty_iff by (elim disjE; simp)
  ultimately have "case x of Kill q sg \<Rightarrow> q = int (unat (event_pid (helpers k))) | Run cmd \<Rightarrow> at k = ''sys_enter_connect''"
    using k(5) by (cases x) simp_all
  then show ?thesis using k v by (auto simp: ignored_def Let_def)
qed

theorem effects_caused_witness:
  "Kill 7 SIGKILL \<in> set (effects (run_agent (run live_machine))) \<and> calls live_machine = [live_call]
   \<and> event_pid (helpers live_call) = 7 \<and> comm_string (helpers live_call) \<notin> set excludedComms"
  using effects_caused [OF live_machine_run, of "Kill 7 SIGKILL"] live_effects
  by (simp add: live_machine_def live_call_def live_helpers_def mem_helpers_def live_agent_def demo_agent_def Let_def)

text \<open>
  C18: The agent counts what the kernel saw: for each probe, the events it has processed and
  the records still in the ring buffer are together the system calls for which the program
  submitted a record.  So no record is lost, read twice or refused by the decoder.
\<close>

theorem events_conserved:
  assumes "(machine_step c)\<^sup>*\<^sup>* (machine_start a) m" and "effects a = []" and "counters a = zero_counters"
  shows "\<forall>p \<in> set probes. EventsProcessed (counters (run_agent (run m))) (eventLabel p) + length (rings m (mapName p))
    = length (filter (\<lambda>x. at x = tpName p \<and> submits x) (calls m))"
  using reachable_conserved [OF assms] by (simp add: conserved_def submitted_def)

theorem events_conserved_witness:
  "EventsProcessed (counters (agent live_end)) ''OPEN'' = 1 \<and> submits live_call"
proof -
  have "submits live_call" by (simp add: submits_def programs_def live_call_def live_open)
  then show ?thesis
    using events_conserved [OF live_machine_run]
    by (simp add: live_agent_def demo_agent_def probes_def live_machine_def live_call_def)
qed

text \<open>
  C34: When \<open>main\<close> returns no event is left half handled by a reader: every reader is done with
  the record it took, at least three interrupts were sent, at least four when the allowlist was
  saved for the last time, and nothing happens any more, to goroutines neither.
\<close>

theorem main_returns_last:
  assumes "(machine_step c)\<^sup>*\<^sup>* (machine_start a) m" and "exited (life m)"
  shows "3 \<le> received (life m) \<and> (saved (life m) \<longrightarrow> 4 \<le> received (life m))
    \<and> (\<forall>l \<in> labels. reader (run m) l = Idle) \<and> (\<nexists>m'. machine_step c m m')"
proof -
  have e: "event\<^sup>*\<^sup>* running (life m)" by (rule machine_reachable(2) [OF assms(1)])
  then have "readers (life m) = {}" using reachable_lifetime [OF e] assms(2) by (simp add: lifetime_inv_def)
  then show ?thesis
    using shutdown_needs_three_interrupts [OF e assms(2)] returned_idle [OF assms(1)] nothing_after_exit assms(2) by auto
qed

definition lost_machine :: Machine where
  "lost_machine = live_waiting\<lparr>life := stopped\<rparr>"

lemma lost_run: "(machine_step live_setup)\<^sup>*\<^sup>* (machine_start live_agent) lost_machine"
proof -
  have "(machine_step live_setup)\<^sup>*\<^sup>* live_waiting lost_machine"
    unfolding lost_machine_def
    by (rule control_run) (use stopping_run in \<open>simp_all add: live_waiting_def live_granted_def stopped_def closed_by_def running_def\<close>)
  with live_waiting_run show ?thesis by (rule rtranclp_trans)
qed

theorem main_returns_last_witness:
  "jobs (sys_state (run lost_machine)) = [(live_event, Waiting)] \<and> received (life lost_machine) = 3
   \<and> (\<nexists>m'. machine_step live_setup lost_machine m')"
  using main_returns_last [OF lost_run]
  by (simp add: lost_machine_def live_waiting_def live_granted_def stopped_def closed_by_def)

text \<open>
  C33: The agent can always be stopped, and then leaves its work behind.  From every reachable
  state there is a run in which one more interrupt per closer still waiting ends \<open>main\<close>, in
  which the saver does not save and no goroutine goes on: the events that were escalated and
  counted are neither decided nor logged.
\<close>

theorem machine_stoppable:
  assumes "(machine_step c)\<^sup>*\<^sup>* (machine_start a) m"
  shows "\<exists>m'. (machine_step c)\<^sup>*\<^sup>* m m' \<and> exited (life m') \<and> saved (life m') = saved (life m)
    \<and> received (life m') = received (life m) + card (closers (life m))
    \<and> (\<exists>ks. jobs (sys_state (run m')) = jobs (sys_state (run m)) @ ks)"
proof -
  have e: "event\<^sup>*\<^sup>* running (life m)" by (rule machine_reachable(2) [OF assms])
  obtain s where s: "event\<^sup>*\<^sup>* (life m) s" "exited s" "received s = received (life m) + card (closers (life m))"
    "saved s = saved (life m)" using stoppable_unsaved [OF e] by blast
  have i: "lifetime_inv (life m)" "lifetime_inv s"
    using reachable_lifetime [OF e] reachable_lifetime [OF rtranclp_trans [OF e s(1)]] by blast+
  obtain r where r: "(machine_step c)\<^sup>*\<^sup>* m (m\<lparr>run := r\<rparr>)" "exited (life m) \<or> (\<forall>l \<in> labels. reader r l = Idle)"
    "more_jobs (run m) r"
  proof (cases "exited (life m)")
    case True
    then show thesis using that [of "run m"] more_jobs_refl by simp
  next
    case False
    then show thesis using all_settle that by blast
  qed
  have "(machine_step c)\<^sup>*\<^sup>* (m\<lparr>run := r\<rparr>) (m\<lparr>run := r, life := s\<rparr>)"
  proof (cases "exited (life m)")
    case True
    have "s = life m" using s(1)
    proof (cases rule: converse_rtranclpE)
      case (step t)
      then show ?thesis using event_alive [OF step(1)] True by simp
    qed simp
    then show ?thesis by simp
  next
    case False
    then show ?thesis
      using control_run [of "m\<lparr>run := r\<rparr>" s c] s i r(2) by (simp add: lifetime_inv_def)
  qed
  with r(1) have "(machine_step c)\<^sup>*\<^sup>* m (m\<lparr>run := r, life := s\<rparr>)" by (rule rtranclp_trans)
  then show ?thesis using s r(3) by (intro exI [of _ "m\<lparr>run := r, life := s\<rparr>"]) (simp add: more_jobs_def)
qed

theorem machine_stoppable_witness:
  "\<exists>m'. (machine_step live_setup)\<^sup>*\<^sup>* live_waiting m' \<and> exited (life m') \<and> \<not> saved (life m')
    \<and> (live_event, Waiting) \<in> set (jobs (sys_state (run m')))"
proof -
  obtain m' where "(machine_step live_setup)\<^sup>*\<^sup>* live_waiting m'" "exited (life m')"
    "saved (life m') = saved (life live_waiting)"
    "\<exists>ks. jobs (sys_state (run m')) = jobs (sys_state (run live_waiting)) @ ks"
    using machine_stoppable [OF live_waiting_run] by blast
  then show ?thesis by (auto simp: live_waiting_def live_granted_def running_def)
qed

text \<open>
  C32: The whole machine can always come to rest.  From every reachable state in which the
  readers still run, the agent alone, without a further system call, can take every record of
  every ring buffer, finish every event it has read and end every goroutine.
\<close>

theorem machine_drains:
  assumes "(machine_step c)\<^sup>*\<^sup>* (machine_start a) m" and "readers (life m) = labels"
  shows "\<exists>m'. (machine_step c)\<^sup>*\<^sup>* m m' \<and> calls m' = calls m \<and> life m' = life m
    \<and> (\<forall>p \<in> set probes. rings m' (mapName p) = []) \<and> (\<forall>l \<in> labels. reader (run m') l = Idle)
    \<and> jobs (sys_state (run m')) = []"
proof -
  have "lifetime_inv (life m)" by (rule reachable_lifetime [OF machine_reachable(2) [OF assms(1)]])
  then have e: "\<not> exited (life m)" using assms(2) by (auto simp: lifetime_inv_def labels_eq)
  obtain f r where f: "(machine_step c)\<^sup>*\<^sup>* m (m\<lparr>rings := f, run := r\<rparr>)" "\<forall>p \<in> set probes. f (mapName p) = []"
    "\<forall>l \<in> labels. reader r l = Idle" using rings_empty [OF assms(2) e] by blast
  have "(fine_step c)\<^sup>*\<^sup>* (running_start a) r"
    using machine_reachable(1) [OF rtranclp_trans [OF assms(1) f(1)]] by simp
  then obtain t where t: "(job_step c)\<^sup>*\<^sup>* (sys_state r) t" "jobs t = []"
    using jobs_end [of "sys_state r" c] running_client by blast
  have "(machine_step c)\<^sup>*\<^sup>* (m\<lparr>rings := f, run := r\<rparr>) (m\<lparr>rings := f, run := r\<lparr>sys_state := t\<rparr>\<rparr>)"
    using works_run [of c "m\<lparr>rings := f, run := r\<rparr>" t] t(1) e by simp
  with f(1) have "(machine_step c)\<^sup>*\<^sup>* m (m\<lparr>rings := f, run := r\<lparr>sys_state := t\<rparr>\<rparr>)" by (rule rtranclp_trans)
  then show ?thesis using f t(2) by (intro exI [of _ "m\<lparr>rings := f, run := r\<lparr>sys_state := t\<rparr>\<rparr>"]) simp
qed

theorem machine_drains_witness:
  "\<exists>m'. (machine_step live_setup)\<^sup>*\<^sup>* live_waiting m' \<and> jobs (sys_state (run live_waiting)) \<noteq> []
    \<and> jobs (sys_state (run m')) = [] \<and> calls m' = [live_call]"
  using machine_drains [OF live_waiting_run]
  by (auto simp: live_waiting_def live_granted_def running_def)

end
