(* ===== verification/Accounting.thy ===== *)
theory Accounting
  imports Schedule
begin

text \<open>
  The counters and the goroutines: what the metrics say of the running agent at any moment,
  whichever operations interleave.
\<close>

section \<open>What a step counts\<close>

lemma sum_Inc: "finite A \<Longrightarrow> t \<in> A \<Longrightarrow> sum (Inc t f) A = Suc (sum f A)"
  by (simp add: Inc_def sum.remove [of A t])

lemma tier_string_inject [simp]: "tier_string s = tier_string t \<longleftrightarrow> s = t"
  by (cases s; cases t) simp_all

lemma finite_tiers: "finite (range tier_string)"
proof -
  have "t \<in> {TierLog, TierAlert, TierSoft, TierHard}" for t by (cases t) simp_all
  then have "range tier_string \<subseteq> tier_string ` {TierLog, TierAlert, TierSoft, TierHard}" by blast
  then show ?thesis by (rule finite_subset) simp
qed

section \<open>The invariant\<close>

definition unassessed :: "(Event \<times> phase) list \<Rightarrow> nat" where
  "unassessed js = length (filter (\<lambda>j. snd j = Waiting \<or> snd j = Assessing) js)"

definition undecided :: "(Event \<times> phase) list \<Rightarrow> nat" where
  "undecided js = length (filter (\<lambda>j. is_Deciding (snd j)) js)"

text \<open>A reader whose event was counted as escalated, with what becomes of it still to be counted.\<close>

fun is_counted :: "reading \<Rightarrow> bool" where
  "is_counted (Escalating v) = True"
| "is_counted (Granted v) = True"
| "is_counted (Refused v) = True"
| "is_counted _ = False"

definition counted :: "(string \<Rightarrow> reading) \<Rightarrow> nat" where
  "counted f = (\<Sum>l \<in> labels. if is_counted (f l) then 1 else 0)"

text \<open>\<open>n\<close> is the number of those readers.\<close>

definition accounts :: "string \<Rightarrow> nat \<Rightarrow> System \<Rightarrow> bool" where
  "accounts name n s \<longleftrightarrow>
    (let k = counters (agent s) in
       sum (EventsEscalated k) labels = EventsRateLimited k + n + unassessed (jobs s)
         + LLMCalls k (name, ''error'') + LLMCalls k (name, ''success'')
     \<and> LLMCalls k (name, ''success'') = sum (Decisions k) (range tier_string) + undecided (jobs s)
     \<and> Actions k = (\<lambda>_. 0))"

text \<open>A reader's event is of its own probe, and was counted as processed before it was escalated.\<close>

fun to_escalate :: "reading \<Rightarrow> nat" where
  "to_escalate (Fresh v) = 1"
| "to_escalate (Unknown v) = 1"
| "to_escalate _ = 0"

definition tallied :: "Running \<Rightarrow> bool" where
  "tallied r \<longleftrightarrow> (\<forall>l. (\<forall>v. event_in (reader r l) = Some v \<longrightarrow> vType v = l)
     \<and> EventsEscalated (counters (run_agent r)) l + to_escalate (reader r l) \<le> EventsProcessed (counters (run_agent r)) l)"

lemma count_simps [simp]:
  "unassessed [] = 0" "unassessed (js @ ks) = unassessed js + unassessed ks"
  "unassessed ((v, p) # js) = (if p = Waiting \<or> p = Assessing then Suc (unassessed js) else unassessed js)"
  "undecided [] = 0" "undecided (js @ ks) = undecided js + undecided ks"
  "undecided ((v, p) # js) = (if is_Deciding p then Suc (undecided js) else undecided js)"
  by (simp_all add: unassessed_def undecided_def)

lemma count_spawn [simp]:
  "unassessed (spawn job) = (case job of None \<Rightarrow> 0 | Some v \<Rightarrow> 1)" "undecided (spawn job) = 0"
  by (simp_all add: spawn_def split: option.split)

lemma read_event_type: "read_event l raw = Some v \<Longrightarrow> vType v = l"
  by (auto simp: read_event_def)

lemma finite_labels: "finite labels"
  by (simp add: labels_eq)

lemma counted_upd: "l \<in> labels \<Longrightarrow>
    counted (f(l := p)) + (if is_counted (f l) then 1 else 0) = counted f + (if is_counted p then 1 else 0)"
  unfolding counted_def by (rule sum_component [OF finite_labels])

lemma counted_card: "counted f = card {l \<in> labels. is_counted (f l)}"
  unfolding counted_def using finite_labels by (simp add: sum.If_cases Int_def)

section \<open>The readers\<close>

text \<open>The counters of escalated and refused events against the reader and the job it hands over.\<close>

lemma advance_accounts:
  assumes "accounts name (counted (reader r)) (sys_state r)" and "l \<in> labels"
    and "sum (EventsEscalated (counters a)) labels + EventsRateLimited (counters (run_agent r))
         + (if is_counted (reader r l) then 1 else 0)
       = sum (EventsEscalated (counters (run_agent r))) labels + EventsRateLimited (counters a)
         + (if is_counted p then 1 else 0) + (if job = None then 0 else 1)"
    and "LLMCalls (counters a) = LLMCalls (counters (run_agent r))"
    and "Decisions (counters a) = Decisions (counters (run_agent r))"
    and "Actions (counters a) = Actions (counters (run_agent r))"
  shows "accounts name (counted (reader (advance l p a job r))) (sys_state (advance l p a job r))"
  using assms counted_upd [OF assms(2), of "reader r" p]
  by (cases job) (auto simp: accounts_def Let_def advance_def)

lemma advance_tallied:
  assumes "tallied r" and "\<And>v. event_in p = Some v \<Longrightarrow> vType v = l"
    and "\<And>k. k \<noteq> l \<Longrightarrow> EventsEscalated (counters a) k = EventsEscalated (counters (run_agent r)) k
       \<and> EventsProcessed (counters a) k = EventsProcessed (counters (run_agent r)) k"
    and "EventsEscalated (counters a) l + to_escalate p + EventsProcessed (counters (run_agent r)) l
       \<le> EventsEscalated (counters (run_agent r)) l + to_escalate (reader r l) + EventsProcessed (counters a) l"
  shows "tallied (advance l p a job r)"
  unfolding tallied_def
proof (intro allI conjI impI)
  fix k v assume "event_in (reader (advance l p a job r) k) = Some v"
  then show "vType v = k" using assms(1,2) by (auto simp: tallied_def advance_def split: if_splits)
next
  fix k
  have "EventsEscalated (counters (run_agent r)) k + to_escalate (reader r k) \<le> EventsProcessed (counters (run_agent r)) k"
    using assms(1) by (simp add: tallied_def)
  then show "EventsEscalated (counters (run_agent (advance l p a job r))) k + to_escalate (reader (advance l p a job r) k)
      \<le> EventsProcessed (counters (run_agent (advance l p a job r))) k"
    using assms(3) [of k] assms(4) by (cases "k = l") (auto simp: advance_def)
qed

lemma job_accounts:
  assumes "job_step c s s'" and "llmClient c = Some client" and "accounts (client_name client) n s"
  shows "accounts (client_name client) n s'"
  using assms
proof (induction rule: job_step.induct)
  case (AssessFails s js v ks client' w a')
  then show ?case
    by (auto simp: accounts_def Let_def assess_stage_def Inc_def split: sum.splits)
next
  case (Assesses s js v ks client' w a' ta)
  then show ?case
    by (auto simp: accounts_def Let_def assess_stage_def Inc_def split: sum.splits)
next
  case (Decides s js v ta ks w a' d)
  then show ?case
    by (auto simp: accounts_def Let_def decide_stage_def sum_Inc [OF finite_tiers] split: prod.splits)
qed (auto simp: accounts_def Let_def act_stage_frame log_stage_frame)

lemma job_counts: "job_step c s s' \<Longrightarrow> EventsEscalated (counters (agent s')) = EventsEscalated (counters (agent s))
    \<and> EventsProcessed (counters (agent s')) = EventsProcessed (counters (agent s))"
  by (induction rule: job_step.induct)
    (auto simp: assess_stage_def decide_stage_def log_stage_frame act_stage_frame split: sum.splits prod.splits)

lemmas reader_stages = learn_stage_def escalate_stage_def refuse_stage_def refuse_log_def audit_log_frame count_processed_def

lemma proceed_books:
  assumes p: "proceed c w l (reader r l) r = Some r'" and l: "l \<in> labels" and c: "llmClient c = Some client"
    and a: "accounts name (counted (reader r)) (sys_state r)" and t: "tallied r"
  shows "accounts name (counted (reader r')) (sys_state r') \<and> tallied r'"
proof -
  have v: "vType v = l" if "event_in (reader r l) = Some v" for v using t that by (auto simp: tallied_def)
  show ?thesis
  proof (cases "reader r l")
    case (Unknown u)
    have u: "vType u = l" using v Unknown by simp
    note sum_Inc = sum_Inc [OF finite_labels l, of "EventsEscalated (counters (run_agent r))"]
    show ?thesis
    proof (cases "mode c = ''learn''")
      case True
      then have "r' = advance l Idle (learn_stage u (run_agent r)) None r" using p Unknown by simp
      then show ?thesis
        using Unknown by (auto simp: learn_stage_def intro!: advance_accounts [OF a l] advance_tallied [OF t])
    next
      case False
      then have "r' = advance l (Escalating u) (escalate_stage u (run_agent r)) None r" using p Unknown by simp
      moreover have e: "EventsEscalated (counters (escalate_stage u (run_agent r))) = Inc l (EventsEscalated (counters (run_agent r)))"
        "EventsProcessed (counters (escalate_stage u (run_agent r))) = EventsProcessed (counters (run_agent r))"
        "EventsRateLimited (counters (escalate_stage u (run_agent r))) = EventsRateLimited (counters (run_agent r))"
        "LLMCalls (counters (escalate_stage u (run_agent r))) = LLMCalls (counters (run_agent r))"
        "Decisions (counters (escalate_stage u (run_agent r))) = Decisions (counters (run_agent r))"
        "Actions (counters (escalate_stage u (run_agent r))) = Actions (counters (run_agent r))"
        by (simp_all add: escalate_stage_def u)
      have "accounts name (counted (reader (advance l (Escalating u) (escalate_stage u (run_agent r)) None r)))
          (sys_state (advance l (Escalating u) (escalate_stage u (run_agent r)) None r))"
        by (rule advance_accounts [OF a l]) (simp_all add: e Unknown sum_Inc)
      moreover have "tallied (advance l (Escalating u) (escalate_stage u (run_agent r)) None r)"
        by (rule advance_tallied [OF t]) (simp_all add: e Unknown u Inc_def)
      ultimately show ?thesis by simp
    qed
  next
    case (Escalating u)
    obtain ok a' where g: "limit_stage w (run_agent r) = (ok, a')" by (cases "limit_stage w (run_agent r)")
    note k = limit_stage_frame [OF g]
    have "accounts name (counted (reader (advance l q a' None r))) (sys_state (advance l q a' None r))
        \<and> tallied (advance l q a' None r)" if "q = Granted u \<or> q = Refused u" for q
      by (intro conjI advance_accounts [OF a l] advance_tallied [OF t]) (use that Escalating k v in auto)
    then show ?thesis using p Escalating g by (cases ok) auto
  qed (use p v c l in \<open>auto simp: reader_stages split: if_splits intro!: advance_accounts [OF a] advance_tallied [OF t]\<close>)
qed

lemma perform_books:
  assumes "perform c \<alpha> r = Some r'" and c: "llmClient c = Some client"
    and a: "accounts (client_name client) (counted (reader r)) (sys_state r)" and t: "tallied r"
  shows "accounts (client_name client) (counted (reader r')) (sys_state r') \<and> tallied r'"
proof (cases \<alpha>)
  case (Arrive l raw)
  then show ?thesis
    using assms(1) a t read_event_type [of l raw]
    by (auto simp: reader_stages Inc_def split: if_splits option.splits
        intro!: advance_accounts [OF a] advance_tallied [OF t])
next
  case (Lose l)
  then show ?thesis
    using assms(1) by (auto split: if_splits intro!: advance_accounts [OF a] advance_tallied [OF t])
next
  case (Proceed l w)
  then show ?thesis using assms(1) proceed_books [OF _ _ c a t] by (auto split: if_splits)
next
  case (Work i w)
  then obtain s' where s: "job_step c (sys_state r) s'" "r' = r\<lparr>sys_state := s'\<rparr>"
    using assms(1) work_on_step [of c w i "sys_state r"] by auto
  then show ?thesis using job_accounts [OF s(1) c a] job_counts [OF s(1)] t by (simp add: tallied_def)
next
  case (Tick order out)
  then show ?thesis using assms(1) a t by (auto simp: tick_def accounts_def tallied_def split: if_splits)
qed

section \<open>Properties\<close>

text \<open>
  C17: The counters account for every event, in every reachable state and over all
  interleavings of the single operations.  What was escalated is what the storm limiter
  refused, the events a reader is still at, those whose call to the language model is still
  to come, and the calls that failed and succeeded; each successful call has led to one
  decision or is about to; an escalated event was processed; and the counter of actions never
  moves, whatever the agent did.
\<close>

theorem counters_account:
  assumes "(fine_step c)\<^sup>*\<^sup>* (running_start a) r" and "counters a = zero_counters"
    and "llmClient c = Some client"
  shows "let k = counters (run_agent r); calls = (\<lambda>r. LLMCalls k (client_name client, r)); js = jobs (sys_state r) in
      (\<Sum>l \<in> labels. EventsEscalated k l) = EventsRateLimited k + card {l \<in> labels. is_counted (reader r l)}
        + length (filter (\<lambda>j. snd j = Waiting \<or> snd j = Assessing) js) + calls ''error'' + calls ''success''
    \<and> calls ''success'' = (\<Sum>t \<in> range tier_string. Decisions k t) + length (filter (\<lambda>j. is_Deciding (snd j)) js)
    \<and> (\<forall>l. EventsEscalated k l \<le> EventsProcessed k l) \<and> Actions k = (\<lambda>_. 0)"
proof -
  have "accounts (client_name client) (counted (reader r)) (sys_state r) \<and> tallied r"
    using assms(1)
  proof (induction rule: rtranclp_induct)
    case base
    then show ?case
      using assms(2) by (simp add: accounts_def tallied_def running_start_def system_start_def zero_counters_def counted_def)
  next
    case (step r r')
    then show ?case using fine_step_performed perform_books assms(3) by blast
  qed
  then have b: "accounts (client_name client) (counted (reader r)) (sys_state r)" "tallied r" by blast+
  have "EventsEscalated (counters (run_agent r)) l \<le> EventsProcessed (counters (run_agent r)) l" for l
    using b(2) add_leD1 unfolding tallied_def by blast
  then show ?thesis using b(1) by (simp add: accounts_def Let_def unassessed_def undecided_def counted_card)
qed

text \<open>A kill was sent and is in no counter of actions.\<close>

theorem counters_account_witness:
  "effects (agent live_end) = [Kill 7 SIGKILL] \<and> Actions (counters (agent live_end)) (''kill'', ''live'') = 0
   \<and> (\<Sum>l \<in> labels. EventsEscalated (counters (agent live_end)) l)
       = EventsRateLimited (counters (agent live_end)) + LLMCalls (counters (agent live_end)) (client_name demo_ollama, ''error'')
         + LLMCalls (counters (agent live_end)) (client_name demo_ollama, ''success'')"
proof -
  have "jobs live_end = []" by (simp add: live_end_def)
  then show ?thesis
    using counters_account [OF live_fine_run, of demo_ollama] live_effects
    by (simp add: Let_def live_agent_def demo_agent_def live_setup_def live_running_def)
qed

end
