(* ===== verification/Trail.thy ===== *)
theory Trail
  imports Schedule Accounting
begin

text \<open>
  The audit log of the running agent: what the file holds, and what \<open>VerifyChain\<close> says of it,
  at any moment of any schedule.
\<close>

section \<open>What can be logged\<close>

text \<open>The strings of an event that \<open>json.Marshal\<close> keeps as they are.\<close>

definition clean_event :: "Event \<Rightarrow> bool" where
  "clean_event v \<longleftrightarrow> valid_utf8 (vType v) \<and> valid_utf8 (vComm v) \<and> valid_utf8 (vDetail v)"

text \<open>An action is sound when the names it brings are UTF-8 and the write it makes succeeds.\<close>

fun sound :: "action \<Rightarrow> bool" where
  "sound (Arrive l raw) = (case read_event l raw of None \<Rightarrow> True | Some v \<Rightarrow> valid_utf8 (vComm v) \<and> valid_utf8 (vDetail v))"
| "sound (Proceed l w) = (log_write w = Written)"
| "sound (Work i w) = (log_write w = Written)"
| "sound _ = True"

lemma valid_tier [simp]: "valid_utf8 (tier_string t)"
  by (cases t) (simp_all add: valid_ascii)

lemma valid_em_dash: "valid_utf8 (em_dash @ s) = valid_utf8 s"
  by (rule valid_append) (simp add: em_dash_def valid_utf8.simps utf8_size_def in_range_def)

lemma valid_Evaluate: "valid_utf8 (dReason (fst (Evaluate ip now e comm score)))"
  by (simp add: Evaluate_def Let_def protected_reason_def dry_run_reason_def rate_limit_reason_def
      threshold_reason_def valid_ascii valid_append valid_fmt_q valid_em_dash split: prod.split bool.split)

definition scored :: "ThreatAssessment \<Rightarrow> bool" where
  "scored ta \<longleftrightarrow> 0 \<le> ThreatScore ta \<and> ThreatScore ta \<le> 100"

lemma assess_scored: "assess_stage client w v a = (a', Some ta) \<Longrightarrow> scored ta"
  using assess_stage_frame(4) [of client w v a ta] Assess_sound by (auto simp: scored_def)

lemma decide_valid: "decide_stage w v ta a = (a', d) \<Longrightarrow> valid_utf8 (dReason d)"
  using decide_stage_frame(4) [of w v ta a] by (simp add: valid_Evaluate)

lemma clean_refusal: "clean_event v \<Longrightarrow> clean_args
     \<lparr>aEventType = vType v, aComm = vComm v, aDetail = vDetail v, aPID = vPid v,
      aScore = -1, aTier = ''rate_limited'', aReason = storm_reason, aAction = []\<rparr>"
  by (simp add: clean_args_def clean_event_def storm_reason_def valid_ascii valid_em_dash)

lemma clean_decision: "clean_event v \<Longrightarrow> scored ta \<Longrightarrow> valid_utf8 (dReason d) \<Longrightarrow> clean_args
     \<lparr>aEventType = vType v, aComm = vComm v, aDetail = vDetail v, aPID = vPid v,
      aScore = ThreatScore ta, aTier = tier_string (dTier d), aReason = dReason d, aAction = []\<rparr>"
  by (simp add: clean_args_def clean_event_def scored_def)

section \<open>The log in the agent\<close>

definition verdicts :: "string set" where
  "verdicts = insert ''rate_limited'' (range tier_string)"

definition books :: "string \<Rightarrow> Entry list \<Rightarrow> Agent \<Rightarrow> bool" where
  "books path es a \<longleftrightarrow> (\<exists>lg. auditLogger a = Some lg \<and> lFilePath lg = path \<and> synced (lg, files a) es)
     \<and> filePath (store a) \<noteq> path \<and> list_all (\<lambda>e. eTier e \<in> verdicts) es"

lemma books_frame:
  "books path es a \<Longrightarrow> auditLogger b = auditLogger a \<Longrightarrow> files b = files a \<Longrightarrow>
     filePath (store b) = filePath (store a) \<Longrightarrow> books path es b"
  by (simp add: books_def)

lemma books_audit:
  assumes "books path es a" and "log_write w = Written" and "clean_args args" and "aTier args \<in> verdicts"
  obtains e where "eTier e = aTier args" and "books path (es @ [e]) (fst (audit_log w args a))"
    and "snd (audit_log w args a) = None"
proof -
  obtain lg where lg: "auditLogger a = Some lg" "lFilePath lg = path" "synced (lg, files a) es"
    using assms(1) by (auto simp: books_def)
  let ?e = "new_entry (wall_seconds w) args (chain_end ''genesis'' es)"
  have t: "eTier ?e = aTier args" by (simp add: new_entry_def Let_def)
  have "synced (log_written (wall_seconds w, args) (lg, files a)) (es @ [?e])"
    using synced_log [OF lg(3), of "(wall_seconds w, args)"] assms(3) by simp
  then have "books path (es @ [?e]) (fst (audit_log w args a))"
    using assms lg t by (auto simp: books_def audit_log_def log_written_def Log_def Let_def)
  moreover have "snd (audit_log w args a) = None"
    using assms(2) lg(1) by (simp add: audit_log_def Log_def Let_def)
  ultimately show thesis using that t by blast
qed

lemma books_refusal:
  assumes "books path es a" and "log_write w = Written" and "clean_event v"
  shows "\<exists>e. eTier e = ''rate_limited'' \<and> books path (es @ [e]) (refuse_log w v a)"
  unfolding refuse_log_def
  by (rule books_audit [OF assms(1,2) clean_refusal [OF assms(3)]]) (auto simp: verdicts_def)

lemma books_decision:
  assumes "books path es a" and "log_write w = Written" and "clean_event v" "scored ta" "valid_utf8 (dReason d)"
  shows "\<exists>e. eTier e = tier_string (dTier d) \<and> books path (es @ [e]) (log_stage w v ta d a)"
  unfolding log_stage_def split_def
  by (rule books_audit [OF assms(1,2) clean_decision [OF assms(3-5)]]) (auto simp: verdicts_def)

lemma save_other: "p \<noteq> filePath s \<Longrightarrow> ReadFile (fst (Save order out fs s)) p = ReadFile fs p"
  by (cases out) (simp_all add: Save_def)

lemma books_save: "books path es a \<Longrightarrow> books path es (a\<lparr>files := fst (Save order out (files a) (store a))\<rparr>)"
  by (auto simp: books_def synced_def save_other)

lemma books_stages:
  assumes "books path es a"
  shows "books path es (count_processed l a)" and "books path es (learn_stage v a)"
    and "books path es (escalate_stage v a)" and "books path es (snd (limit_stage w a))"
    and "books path es (refuse_stage a)" and "books path es (print_reports rs a)"
    and "books path es (fst (assess_stage client w v a))" and "books path es (fst (decide_stage w v ta a))"
    and "books path es (act_stage w v d a)"
  by (rule books_frame [OF assms];
      simp add: count_processed_def learn_stage_def escalate_stage_def limit_stage_def refuse_stage_def
        assess_stage_def decide_stage_def act_stage_def Learn_def split: prod.split sum.split)+

section \<open>The invariant\<close>

definition tally :: "string \<Rightarrow> Entry list \<Rightarrow> nat" where
  "tally t es = length (filter (\<lambda>e. eTier e = t) es)"

text \<open>The decisions of a tier that were counted and are not in the log yet.\<close>

fun decided :: "Tier \<Rightarrow> phase \<Rightarrow> bool" where
  "decided t (Logging ta d) = (dTier d = t)"
| "decided t _ = False"

definition unlogged :: "Tier \<Rightarrow> (Event \<times> phase) list \<Rightarrow> nat" where
  "unlogged t js = length (filter (\<lambda>j. decided t (snd j)) js)"

definition noted :: "(string \<Rightarrow> reading) \<Rightarrow> nat" where
  "noted f = (\<Sum>l \<in> labels. if is_Noted (f l) then 1 else 0)"

fun clean_reading :: "reading \<Rightarrow> bool" where
  "clean_reading Idle = True"
| "clean_reading (Fresh v) = clean_event v"
| "clean_reading (Unknown v) = clean_event v"
| "clean_reading (Escalating v) = clean_event v"
| "clean_reading (Granted v) = clean_event v"
| "clean_reading (Refused v) = clean_event v"
| "clean_reading (Noted v) = clean_event v"

definition clean_job :: "Event \<times> phase \<Rightarrow> bool" where
  "clean_job j \<longleftrightarrow> clean_event (fst j) \<and>
     (case snd j of Deciding ta \<Rightarrow> scored ta | Logging ta d \<Rightarrow> scored ta \<and> valid_utf8 (dReason d) | _ \<Rightarrow> True)"

definition agrees :: "string \<Rightarrow> Entry list \<Rightarrow> Running \<Rightarrow> bool" where
  "agrees path es r \<longleftrightarrow> books path es (run_agent r)
     \<and> (\<forall>t. tally (tier_string t) es + unlogged t (jobs (sys_state r)) = Decisions (counters (run_agent r)) (tier_string t))
     \<and> tally ''rate_limited'' es + noted (reader r) = EventsRateLimited (counters (run_agent r))
     \<and> (\<forall>l. clean_reading (reader r l)) \<and> list_all clean_job (jobs (sys_state r))"

lemma tally_simps [simp]: "tally t [] = 0" "tally t (es @ [e]) = tally t es + (if eTier e = t then 1 else 0)"
  by (simp_all add: tally_def)

lemma unlogged_simps [simp]:
  "unlogged t [] = 0" "unlogged t (js @ ks) = unlogged t js + unlogged t ks"
  "unlogged t ((v, p) # js) = (if decided t p then 1 else 0) + unlogged t js"
  "unlogged t (spawn job) = 0"
  by (simp_all add: unlogged_def spawn_def split: option.split)

lemma noted_upd: "l \<in> labels \<Longrightarrow>
    noted (f(l := p)) + (if is_Noted (f l) then 1 else 0) = noted f + (if is_Noted p then 1 else 0)"
  unfolding noted_def by (rule sum_component) (simp_all add: labels_eq)

lemma tier_not_limited [simp]: "tier_string t \<noteq> ''rate_limited''" "''rate_limited'' \<noteq> tier_string t"
  by (cases t; simp)+

lemma clean_spawn: "list_all clean_job (spawn job) \<longleftrightarrow> (\<forall>v. job = Some v \<longrightarrow> clean_event v)"
  by (simp add: spawn_def clean_job_def split: option.split)

text \<open>A reader's operation: what it logs goes with what it counts.\<close>

lemma advance_agrees:
  assumes "agrees path es r" and "l \<in> labels" and "books path es' a"
    and "Decisions (counters a) = Decisions (counters (run_agent r))"
    and "\<And>t. tally (tier_string t) es' = tally (tier_string t) es"
    and "tally ''rate_limited'' es' + EventsRateLimited (counters (run_agent r)) + (if is_Noted p then 1 else 0)
      = tally ''rate_limited'' es + EventsRateLimited (counters a) + (if is_Noted (reader r l) then 1 else 0)"
    and "clean_reading p" and "\<And>v. job = Some v \<Longrightarrow> clean_event v"
  shows "agrees path es' (advance l p a job r)"
  using assms noted_upd [OF assms(2), of "reader r" p] by (auto simp: agrees_def advance_def clean_spawn)

lemma agreesD:
  assumes "agrees path es r"
  shows "books path es (run_agent r)" and "clean_reading (reader r l)"
  using assms by (simp_all add: agrees_def)

lemma proceed_agrees:
  assumes p: "proceed c w l (reader r l) r = Some r'" and l: "l \<in> labels"
    and w: "log_write w = Written" and a: "agrees path es r"
  shows "\<exists>es'. agrees path es' r'"
proof (cases "reader r l")
  case Idle
  then show ?thesis using p by simp
next
  case (Fresh v)
  then show ?thesis
    using p agreesD [OF a] agreesD(2) [OF a, of l] by (auto intro!: exI [of _ es] advance_agrees [OF a l])
next
  case (Unknown v)
  then show ?thesis
    using p agreesD [OF a] agreesD(2) [OF a, of l] books_stages(2,3) [OF agreesD(1) [OF a], of v]
    by (auto simp: learn_stage_def escalate_stage_def split: if_splits
        intro!: exI [of _ es] advance_agrees [OF a l])
next
  case (Escalating v)
  obtain ok a' where g: "limit_stage w (run_agent r) = (ok, a')" by (cases "limit_stage w (run_agent r)")
  then show ?thesis
    using p agreesD(2) [OF a, of l] Escalating books_stages(4) [OF agreesD(1) [OF a], of w] limit_stage_frame [OF g]
    by (auto intro!: exI [of _ es] advance_agrees [OF a l])
next
  case (Granted v)
  then show ?thesis
    using p agreesD [OF a] agreesD(2) [OF a, of l]
    by (auto split: if_splits intro!: exI [of _ es] advance_agrees [OF a l])
next
  case (Refused v)
  then show ?thesis
    using p agreesD(2) [OF a, of l] books_stages(5) [OF agreesD(1) [OF a]]
    by (auto simp: refuse_stage_def intro!: exI [of _ es] advance_agrees [OF a l])
next
  case (Noted v)
  have v: "clean_event v" using agreesD(2) [OF a, of l] Noted by simp
  obtain e where e: "eTier e = ''rate_limited''" "books path (es @ [e]) (refuse_log w v (run_agent r))"
    using books_refusal [OF agreesD(1) [OF a] w v] by blast
  then have "agrees path (es @ [e]) (advance l Idle (refuse_log w v (run_agent r)) None r)"
    using Noted by (intro advance_agrees [OF a l]) (simp_all add: refuse_log_def audit_log_frame)
  then show ?thesis using p Noted by auto
qed

section \<open>The goroutines\<close>

text \<open>A goroutine's operation: its job becomes \<open>q\<close>, and what it logs goes with what it counts.\<close>

lemma job_agrees:
  assumes "agrees path es r" and "jobs (sys_state r) = js @ (v, p) # ks" and "books path es' a"
    and "\<And>t. tally (tier_string t) es' + unlogged t q + Decisions (counters (run_agent r)) (tier_string t)
      = tally (tier_string t) es + unlogged t [(v, p)] + Decisions (counters a) (tier_string t)"
    and "tally ''rate_limited'' es' = tally ''rate_limited'' es"
    and "EventsRateLimited (counters a) = EventsRateLimited (counters (run_agent r))"
    and "list_all clean_job q"
  shows "agrees path es' (r\<lparr>sys_state := (sys_state r)\<lparr>agent := a, jobs := js @ q @ ks\<rparr>\<rparr>)"
proof -
  have "tally (tier_string t) es' + unlogged t (js @ q @ ks) = Decisions (counters a) (tier_string t)" for t
  proof -
    have "tally (tier_string t) es + unlogged t (js @ [(v, p)] @ ks) = Decisions (counters (run_agent r)) (tier_string t)"
      using assms(1,2) by (simp add: agrees_def)
    then show ?thesis using assms(4) [of t] unfolding unlogged_simps(2) by linarith
  qed
  then show ?thesis using assms(1,2,3,5,6,7) by (simp add: agrees_def)
qed

lemma work_agrees:
  assumes k: "work_on c w i (sys_state r) = Some s'" and w: "log_write w = Written" and a: "agrees path es r"
  shows "\<exists>es'. agrees path es' (r\<lparr>sys_state := s'\<rparr>)"
proof -
  let ?s = "sys_state r"
  obtain js v p ks where j: "jobs ?s = js @ (v, p) # ks" and g: "go_on c w (length js) v p ?s = Some s'"
    using k by (rule work_on_at)
  note at = at_place(2,3) [OF j] and job = job_agrees [OF a j, where es' = es]
  have b: "books path es (agent ?s)" by (rule agreesD(1) [OF a])
  have v: "clean_job (v, p)" using a by (simp add: agrees_def j)
  show ?thesis
  proof (cases p)
    case Waiting
    then show ?thesis
      using g v job [OF b, of "[(v, Assessing)]"] by (auto simp: at clean_job_def split: if_splits)
  next
    case Assessing
    then obtain client a' res where f: "assess_stage client w v (agent ?s) = (a', res)"
      "s' = (case res of None \<Rightarrow> finish ?s (length js) a' | Some ta \<Rightarrow> continue ?s (length js) v (Deciding ta) a')"
      using g by (auto split: option.splits prod.splits)
    have a': "books path es a'" using books_stages(7) [OF b, of client w v] f(1) by simp
    have "Decisions (counters a') = Decisions (counters (agent ?s))"
      "EventsRateLimited (counters a') = EventsRateLimited (counters (agent ?s))"
      using f(1) by (auto simp: assess_stage_def split: sum.splits)
    then show ?thesis
      using Assessing v f assess_scored [of client w v "agent ?s" a'] job [OF a', of "[]"]
        job [OF a', of "[(v, Deciding (the res))]"] by (cases res) (auto simp: at clean_job_def)
  next
    case (Deciding ta)
    obtain a' d where f: "decide_stage w v ta (agent ?s) = (a', d)" by (cases "decide_stage w v ta (agent ?s)")
    have a': "books path es a'" using books_stages(8) [OF b, of w v ta] f by simp
    have "EventsRateLimited (counters a') = EventsRateLimited (counters (agent ?s))"
      "Decisions (counters a') = Inc (tier_string (dTier d)) (Decisions (counters (agent ?s)))"
      using f by (auto simp: decide_stage_def split: prod.splits)
    then have "agrees path es (r\<lparr>sys_state := ?s\<lparr>agent := a', jobs := js @ [(v, Logging ta d)] @ ks\<rparr>\<rparr>)"
      using v decide_valid [OF f] by (intro job [OF a']) (auto simp: Deciding clean_job_def Inc_def)
    then show ?thesis using g f Deciding by (auto simp: at)
  next
    case (Logging ta d)
    have c: "clean_event v" "scored ta" "valid_utf8 (dReason d)" using v Logging by (simp_all add: clean_job_def)
    obtain e where e: "eTier e = tier_string (dTier d)" "books path (es @ [e]) (log_stage w v ta d (agent ?s))"
      using books_decision [OF b w c] by blast
    have "agrees path (es @ [e]) (r\<lparr>sys_state := ?s\<lparr>agent := log_stage w v ta d (agent ?s),
        jobs := js @ [(v, Acting d)] @ ks\<rparr>\<rparr>)"
      by (rule job_agrees [OF a j e(2)]) (use Logging c e(1) in \<open>auto simp: clean_job_def log_stage_frame\<close>)
    then show ?thesis using g Logging by (auto simp: at)
  next
    case (Acting d)
    then show ?thesis
      using g job [OF books_stages(9) [OF b, of w v d], of "[]"] by (auto simp: at act_stage_frame)
  qed
qed

lemma perform_agrees:
  assumes "perform c \<alpha> r = Some r'" and "sound \<alpha>" and a: "agrees path es r"
  shows "\<exists>es'. agrees path es' r'"
proof (cases \<alpha>)
  case (Arrive l raw)
  have t: "l \<in> labels \<Longrightarrow> valid_utf8 l" by (auto simp: labels_eq valid_ascii)
  show ?thesis
    using assms(1,2) Arrive a t books_stages(1) [OF agreesD(1) [OF a], of l] agreesD(2) [OF a, of l]
    by (auto simp: count_processed_def clean_event_def read_event_type split: if_splits option.splits
        intro!: exI [of _ es] advance_agrees [OF a])
next
  case (Lose l)
  then show ?thesis
    using assms(1) books_stages(6) [OF agreesD(1) [OF a]]
    by (auto split: if_splits intro!: exI [of _ es] advance_agrees [OF a])
next
  case (Proceed l w)
  then show ?thesis using assms proceed_agrees by (auto split: if_splits)
next
  case (Work i w)
  then show ?thesis using assms work_agrees by auto
next
  case (Tick order out)
  then have "agrees path es r'"
    using assms(1) a books_save [OF agreesD(1) [OF a]] by (auto simp: tick_def agrees_def split: if_splits)
  then show ?thesis by blast
qed

section \<open>Properties\<close>

lemma noted_card: "noted f = card {l \<in> labels. is_Noted (f l)}"
proof -
  have "finite labels" by (simp add: labels_eq)
  then show ?thesis unfolding noted_def by (simp add: sum.If_cases Int_def)
qed

text \<open>
  C12: The audit log and the metrics agree.  Along every schedule whose names are UTF-8 and whose
  writes of the log succeed, the file holds one entry for each decision counted, by tier, and
  one for each refusal of the storm limiter, but for those a goroutine or a reader is about to
  write; and once it has an entry, \<open>VerifyChain\<close> accepts the file and counts them all.
\<close>

theorem audit_complete:
  assumes "run_schedule c \<alpha>s (running_start a) = Some r" and "\<forall>\<alpha> \<in> set \<alpha>s. sound \<alpha>"
    and "auditLogger a = Some (NewLogger (files a) path)" and "ReadFile (files a) path = Inl NotExist"
    and "filePath (store a) \<noteq> path" and "counters a = zero_counters"
  shows "\<exists>es. (\<forall>t. tally (tier_string t) es + unlogged t (jobs (sys_state r)) = Decisions (counters (run_agent r)) (tier_string t))
    \<and> tally ''rate_limited'' es + card {l \<in> labels. is_Noted (reader r l)} = EventsRateLimited (counters (run_agent r))
    \<and> (\<forall>e \<in> set es. eTier e = ''rate_limited'' \<or> eTier e \<in> range tier_string)
    \<and> (if es = [] then ReadFile (files (run_agent r)) path \<in> {Inl NotExist, Inr []}
       else ReadFile (files (run_agent r)) path = Inr (log_text es)
         \<and> VerifyChain (files (run_agent r)) path = (True, length es, None))"
proof -
  have l0: "NewLogger (files a) path = \<lparr>lFilePath = path, lastHash = ''genesis''\<rparr>"
    using assms(4) by (simp add: NewLogger_def loadLastHash_def)
  have "\<exists>es. agrees path es (running_start a)"
    by (rule exI [of _ "[]"]) (use assms(3-6) l0 in \<open>simp add: agrees_def books_def running_start_def
        system_start_def synced_def noted_def zero_counters_def\<close>)
  then obtain es where es: "agrees path es r"
    using schedule_invariant [OF assms(1,2), of "\<lambda>r. \<exists>es. agrees path es r"] perform_agrees by blast
  then obtain lg where lg: "auditLogger (run_agent r) = Some lg" "lFilePath lg = path"
    "synced (lg, files (run_agent r)) es" by (auto simp: agrees_def books_def)
  have "\<forall>e \<in> set es. eTier e \<in> verdicts" using es by (auto simp: agrees_def books_def list_all_iff)
  then show ?thesis
    using es lg synced_verify [OF lg(3)]
    by (intro exI [of _ es]) (auto simp: agrees_def verdicts_def synced_def noted_card log_text_def)
qed

text \<open>A refusal, logged.\<close>

definition storm_agent :: Agent where
  "storm_agent = live_agent\<lparr>auditLogger := Some (NewLogger (\<lambda>_. Inl NotExist) ''log''), escalationCount := 50\<rparr>"

definition storm_schedule :: "action list" where
  "storm_schedule = Arrive ''OPEN'' live_record # replicate 5 (Proceed ''OPEN'' live_outside)"

lemma storm_run: "\<exists>r. run_schedule live_setup storm_schedule (running_start storm_agent) = Some r
    \<and> reader r = (\<lambda>_. Idle) \<and> jobs (sys_state r) = [] \<and> EventsRateLimited (counters (run_agent r)) = 1
    \<and> Decisions (counters (run_agent r)) = (\<lambda>_. 0)"
proof -
  have i: "\<not> ignored live_setup live_event"
    by (simp add: ignored_def live_setup_def live_event_def excludedComms_def cstr_def string_of_bytes_def)
  have m: "mode live_setup = ''filter''" by (simp add: live_setup_def)
  have k: "known (store a) = Map.empty \<Longrightarrow> \<not> is_known v a" for a v
    by (simp add: is_known_def IsKnown_def)
  have s: "known (store storm_agent) = Map.empty" "escalationCount storm_agent = 50" "escalationWindow storm_agent = 0"
    "counters storm_agent = zero_counters"
    by (simp_all add: storm_agent_def live_agent_def demo_agent_def NewStore_def store_load_def ReadFile_def)
  have t: "clock live_outside = 0 " by (simp add: live_outside_def demo_outside_def)
  show ?thesis
    by (simp add: storm_schedule_def numeral_eq_Suc live_read running_start_def system_start_def labels_eq advance_def
        i k m s t count_processed_def escalate_stage_def limit_stage_def escalate_def refuse_stage_def refuse_log_def
        audit_log_frame zero_counters_def spawn_def minute_def second_def fun_upd_idem)
qed

theorem audit_complete_witness:
  "\<exists>r. run_schedule live_setup storm_schedule (running_start storm_agent) = Some r
    \<and> VerifyChain (files (run_agent r)) ''log'' = (True, 1, None)"
proof -
  obtain r where r: "run_schedule live_setup storm_schedule (running_start storm_agent) = Some r"
    "reader r = (\<lambda>_. Idle)" "jobs (sys_state r) = []" "EventsRateLimited (counters (run_agent r)) = 1"
    "Decisions (counters (run_agent r)) = (\<lambda>_. 0)"
    using storm_run by blast
  have s: "\<forall>\<alpha> \<in> set storm_schedule. sound \<alpha>"
    by (auto simp: storm_schedule_def live_read live_event_def cstr_def string_of_bytes_def live_outside_def demo_outside_def)
  have a: "auditLogger storm_agent = Some (NewLogger (files storm_agent) ''log'')"
    "ReadFile (files storm_agent) ''log'' = Inl NotExist" "filePath (store storm_agent) \<noteq> ''log''"
    "counters storm_agent = zero_counters"
    by (simp_all add: storm_agent_def live_agent_def demo_agent_def NewStore_def store_load_def ReadFile_def)
  obtain es where es: "\<And>t. tally (tier_string t) es = 0" "tally ''rate_limited'' es = 1"
    "\<forall>e \<in> set es. eTier e = ''rate_limited'' \<or> eTier e \<in> range tier_string"
    "es \<noteq> [] \<longrightarrow> VerifyChain (files (run_agent r)) ''log'' = (True, length es, None)"
    using audit_complete [OF r(1) s a] r(2-5) by (auto split: if_splits)
  have "filter (\<lambda>e. eTier e = ''rate_limited'') es = es"
    using es(1,3) by (force simp: tally_def filter_empty_conv filter_id_conv)
  then have "length es = 1" using es(2) by (simp add: tally_def)
  then show ?thesis using r(1) es(4) by auto
qed

end
