(* ===== verification/Provenance.thy ===== *)
theory Provenance
  imports Startup Schedule
begin

text \<open>
  What the running agent does, traced back to what it was given: along every schedule, each
  effect belongs to an event that arrived and to the assessment of that same event.
\<close>

section \<open>The history of a run\<close>

fun arrival :: "action \<Rightarrow> Event option" where
  "arrival (Arrive l raw) = read_event l raw"
| "arrival _ = None"

definition arrived :: "action list \<Rightarrow> Event \<Rightarrow> bool" where
  "arrived hs v \<longleftrightarrow> (\<exists>l raw. Arrive l raw \<in> set hs \<and> read_event l raw = Some v)"

definition judged :: "Setup \<Rightarrow> action list \<Rightarrow> Event \<Rightarrow> ThreatAssessment \<Rightarrow> bool" where
  "judged c hs v ta \<longleftrightarrow> (\<exists>i w client. Work i w \<in> set hs \<and> llmClient c = Some client
     \<and> Assess client (network w) (event_story v) = Inr ta)"

lemma history_grows:
  "arrived hs v \<Longrightarrow> arrived (hs @ gs) v" "judged c hs v ta \<Longrightarrow> judged c (hs @ gs) v ta"
  by (auto simp: arrived_def judged_def)

section \<open>Where a job and an effect come from\<close>

definition licensed :: "Setup \<Rightarrow> Engine \<Rightarrow> action list \<Rightarrow> Event \<Rightarrow> Decision \<Rightarrow> bool" where
  "licensed c e hs v d \<longleftrightarrow> (acts d \<longrightarrow> (\<exists>ta. judged c hs v ta \<and> dTier d = score_tier e (ThreatScore ta)))"

fun phase_from :: "Setup \<Rightarrow> Engine \<Rightarrow> action list \<Rightarrow> Event \<Rightarrow> phase \<Rightarrow> bool" where
  "phase_from c e hs v (Deciding ta) = judged c hs v ta"
| "phase_from c e hs v (Logging ta d) = licensed c e hs v d"
| "phase_from c e hs v (Acting d) = licensed c e hs v d"
| "phase_from c e hs v _ = True"

definition job_from :: "Setup \<Rightarrow> Engine \<Rightarrow> action list \<Rightarrow> Event \<times> phase \<Rightarrow> bool" where
  "job_from c e hs j \<longleftrightarrow> arrived hs (fst j) \<and> phase_from c e hs (fst j) (snd j)"

definition effect_from :: "Setup \<Rightarrow> Engine \<Rightarrow> action list \<Rightarrow> effect \<Rightarrow> bool" where
  "effect_from c e hs x \<longleftrightarrow> enforceMode e = ''live'' \<and> mode c \<noteq> ''learn'' \<and>
     (\<exists>v ta. arrived hs v \<and> judged c hs v ta \<and> \<not> ignored c v \<and> \<not> protected_comm e (vComm v)
        \<and> (score_tier e (ThreatScore ta) = TierHard \<and> x \<in> set (kill_effects (vPid v) SIGKILL @ isolate_effects v)
           \<or> score_tier e (ThreatScore ta) = TierSoft \<and> x \<in> set (kill_effects (vPid v) SIGSTOP)))"

lemma licensed_grows: "licensed c e hs v d \<Longrightarrow> licensed c e (hs @ gs) v d"
  unfolding licensed_def using history_grows(2) by blast

lemma from_grows:
  "job_from c e hs j \<Longrightarrow> job_from c e (hs @ gs) j" "effect_from c e hs x \<Longrightarrow> effect_from c e (hs @ gs) x"
proof -
  show "job_from c e hs j \<Longrightarrow> job_from c e (hs @ gs) j"
    by (cases "snd j") (auto simp: job_from_def licensed_grows history_grows)
  show "effect_from c e hs x \<Longrightarrow> effect_from c e (hs @ gs) x"
    unfolding effect_from_def using history_grows by blast
qed

definition from_inv :: "Setup \<Rightarrow> Engine \<Rightarrow> action list \<Rightarrow> Running \<Rightarrow> bool" where
  "from_inv c e hs r \<longleftrightarrow> (\<forall>l v. event_in (reader r l) = Some v \<longrightarrow> arrived hs v)
     \<and> list_all (job_from c e hs) (jobs (sys_state r)) \<and> list_all (effect_from c e hs) (effects (run_agent r))
     \<and> score_tier (policyEngine (run_agent r)) = score_tier e"

lemma from_inv_grows: "from_inv c e hs r \<Longrightarrow> from_inv c e (hs @ gs) r"
  by (auto simp: from_inv_def list_all_iff history_grows from_grows)

lemma score_tier_Evaluate: "score_tier (snd (Evaluate ip now e comm score)) = score_tier e"
proof -
  have "score_tier (snd (allowAction now e)) = score_tier e"
    by (subst allowAction_frame) (simp add: score_tier_def fun_eq_iff)
  then show ?thesis by (simp add: Evaluate_engine)
qed

lemma act_from:
  assumes "x \<in> set (act_effects w v d)" and "job_from c e hs (v, Acting d)" and "job_ok c e (v, Acting d)"
  shows "effect_from c e hs x"
proof -
  have "acts d" using assms(1) by (auto simp: act_effects_cases split: if_splits)
  then obtain ta where ta: "judged c hs v ta" "dTier d = score_tier e (ThreatScore ta)"
    using assms(2) by (auto simp: job_from_def licensed_def)
  have "dTier d = TierHard \<or> dTier d = TierSoft" using \<open>acts d\<close> by (simp add: acts_def is_action_def)
  then have "dTier d = TierHard \<and> x \<in> set (kill_effects (vPid v) SIGKILL @ isolate_effects v)
      \<or> dTier d = TierSoft \<and> x \<in> set (kill_effects (vPid v) SIGSTOP)"
    using assms(1) \<open>acts d\<close> by (auto simp: act_effects_cases)
  moreover have "arrived hs v" using assms(2) by (simp add: job_from_def)
  moreover have "enforceMode e = ''live''" "mode c \<noteq> ''learn''" "\<not> ignored c v" "\<not> protected_comm e (vComm v)"
    using assms(3) \<open>acts d\<close> by (simp_all add: job_ok_def)
  ultimately show ?thesis unfolding effect_from_def using ta by metis
qed

text \<open>A goroutine's operation, with the job it leaves.\<close>

lemma job_from_inv:
  assumes "from_inv c e hs r" and "jobs (sys_state r) = js @ (v, p) # ks"
    and "score_tier (policyEngine a) = score_tier e" and "list_all (effect_from c e hs) (effects a)"
    and "list_all (job_from c e hs) q"
  shows "from_inv c e hs (r\<lparr>sys_state := (sys_state r)\<lparr>agent := a, jobs := js @ q @ ks\<rparr>\<rparr>)"
  using assms by (auto simp: from_inv_def)

lemma work_from:
  assumes k: "work_on c w i (sys_state r) = Some s'" and h: "Work i w \<in> set hs"
    and s: "system_inv c e (sys_state r)" and a: "from_inv c e hs r"
  shows "from_inv c e hs (r\<lparr>sys_state := s'\<rparr>)"
proof -
  let ?s = "sys_state r"
  obtain js v p ks where j: "jobs ?s = js @ (v, p) # ks" and g: "go_on c w (length js) v p ?s = Some s'"
    using k by (rule work_on_at)
  note at = at_place(2,3) [OF j] and job = job_from_inv [OF a j]
  have b: "score_tier (policyEngine (agent ?s)) = score_tier e" "list_all (effect_from c e hs) (effects (agent ?s))"
    using a by (simp_all add: from_inv_def)
  have v: "job_from c e hs (v, p)" "arrived hs v" using a by (simp_all add: from_inv_def j job_from_def)
  show ?thesis
  proof (cases p)
    case Waiting
    then show ?thesis
      using g v job [OF b, of "[(v, Assessing)]"] by (auto simp: at job_from_def split: if_splits)
  next
    case Assessing
    then obtain client a' res where f: "llmClient c = Some client" "assess_stage client w v (agent ?s) = (a', res)"
      "s' = (case res of None \<Rightarrow> finish ?s (length js) a' | Some ta \<Rightarrow> continue ?s (length js) v (Deciding ta) a')"
      using g by (auto split: option.splits prod.splits)
    have a': "score_tier (policyEngine a') = score_tier e" "list_all (effect_from c e hs) (effects a')"
      using b assess_frame [OF f(2)] by simp_all
    have "judged c hs v ta" if "res = Some ta" for ta
      using that f(1,2) h assess_stage_frame(4) [of client w v "agent ?s" ta] by (auto simp: judged_def)
    then show ?thesis
      using f(3) v(2) job [OF a', of "[]"] job [OF a', of "[(v, Deciding (the res))]"]
      by (cases res) (auto simp: at job_from_def)
  next
    case (Deciding ta)
    obtain a' d where f: "decide_stage w v ta (agent ?s) = (a', d)" by (cases "decide_stage w v ta (agent ?s)")
    note fr = decide_stage_frame [of w v ta "agent ?s", unfolded f fst_conv snd_conv]
    have a': "score_tier (policyEngine a') = score_tier e" "list_all (effect_from c e hs) (effects a')"
      using b by (simp_all add: fr score_tier_Evaluate)
    have "licensed c e hs v d"
      using v(1) b(1) acting_tier [of "printable w" "clock w" "policyEngine (agent ?s)" "vComm v" "ThreatScore ta"]
      by (auto simp: licensed_def job_from_def Deciding fr)
    then show ?thesis
      using g v(2) job [OF a', of "[(v, Logging ta d)]"] by (simp add: Deciding f at job_from_def)
  next
    case (Logging ta d)
    then show ?thesis
      using g v b job [of "log_stage w v ta d (agent ?s)" "[(v, Acting d)]"]
      by (simp add: at job_from_def log_stage_frame)
  next
    case (Acting d)
    have "job_ok c e (v, Acting d)" using s by (simp add: system_inv_def j Acting)
    then have "list_all (effect_from c e hs) (act_effects w v d)"
      using act_from [of _ w v d c e hs] v(1) by (simp add: list_all_iff Acting)
    then show ?thesis
      using g b job [of "act_stage w v d (agent ?s)" "[]"] by (simp add: at Acting act_stage_frame)
  qed
qed

lemma advance_from:
  assumes "from_inv c e hs r" and "effects a = effects (run_agent r)" and "policyEngine a = policyEngine (run_agent r)"
    and "\<And>v. event_in p = Some v \<or> job = Some v \<Longrightarrow> arrived hs v"
  shows "from_inv c e hs (advance l p a job r)"
  using assms by (auto simp: from_inv_def advance_def spawn_def job_from_def split: option.splits)

lemma perform_from:
  assumes p: "perform c \<alpha> r = Some r'" and s: "system_inv c e (sys_state r)" and a: "from_inv c e hs r"
  shows "from_inv c e (hs @ [\<alpha>]) r'"
proof -
  have a': "from_inv c e (hs @ [\<alpha>]) r" by (rule from_inv_grows [OF a])
  show ?thesis
  proof (cases \<alpha>)
    case (Arrive l raw)
    then have "arrived (hs @ [\<alpha>]) v" if "read_event l raw = Some v" for v
      using that unfolding arrived_def by auto
    then show ?thesis
      using p a' Arrive by (auto simp: count_processed_def split: if_splits option.splits intro!: advance_from)
  next
    case (Lose l)
    then show ?thesis using p a' by (auto split: if_splits intro!: advance_from)
  next
    case (Proceed l w)
    then obtain q b job where "r' = advance l q b job r" "effects b = effects (run_agent r)"
      "policyEngine b = policyEngine (run_agent r)"
      "event_in q \<in> {None, event_in (reader r l)}" "job \<in> {None, event_in (reader r l)}"
      using p proceed_advances [of c w l r r'] by (auto split: if_splits)
    moreover have "arrived (hs @ [\<alpha>]) v" if "event_in (reader r l) = Some v" for v
      using a' that by (auto simp: from_inv_def)
    ultimately show ?thesis using advance_from [OF a', of b q job l] by auto
  next
    case (Work i w)
    then show ?thesis using p s a' work_from [of c w i r _ "hs @ [\<alpha>]" e] by auto
  next
    case (Tick order out)
    then show ?thesis using p a' by (auto simp: tick_def from_inv_def split: if_splits)
  qed
qed

lemma schedule_from:
  assumes "run_schedule c \<alpha>s (running_start a) = Some r" and "effects a = []"
  shows "from_inv c (policyEngine a) \<alpha>s r"
  using assms(1)
proof (rule schedule_history)
  show "from_inv c (policyEngine a) [] (running_start a)"
    using assms(2) by (simp add: from_inv_def running_start_def system_start_def)
  show "from_inv c (policyEngine a) (hs @ [\<alpha>]) r'"
    if "run_schedule c hs (running_start a) = Some r" "perform c \<alpha> r = Some r'" "from_inv c (policyEngine a) hs r"
    for hs \<alpha> r r'
    using perform_from [OF that(2) running_system_inv [OF schedule_runs [OF that(1)] assms(2)] that(3)] .
qed

section \<open>One signal for each event\<close>

text \<open>An event that may be acted on by a signal to \<open>p\<close>.\<close>

definition fair_target :: "Setup \<Rightarrow> Engine \<Rightarrow> int \<Rightarrow> Event \<Rightarrow> bool" where
  "fair_target c e p v \<longleftrightarrow> int (unat (vPid v)) = p \<and> vPid v \<noteq> selfPID c \<and> vComm v \<notin> set excludedComms
     \<and> \<not> protected_comm e (vComm v)"

definition arrivals :: "(Event \<Rightarrow> bool) \<Rightarrow> action list \<Rightarrow> nat" where
  "arrivals P hs = length (filter (\<lambda>\<alpha>. case arrival \<alpha> of None \<Rightarrow> False | Some v \<Rightarrow> P v) hs)"

definition signals_to :: "int \<Rightarrow> effect list \<Rightarrow> nat" where
  "signals_to p xs = length (filter (\<lambda>s. fst s = p) (signals xs))"

definition one_if :: "(Event \<Rightarrow> bool) \<Rightarrow> Event option \<Rightarrow> nat" where
  "one_if P ev = (case ev of None \<Rightarrow> 0 | Some v \<Rightarrow> if P v then 1 else 0)"

text \<open>The events the agent still holds: those of the goroutines and those the readers are at.\<close>

definition in_jobs :: "(Event \<Rightarrow> bool) \<Rightarrow> (Event \<times> phase) list \<Rightarrow> nat" where
  "in_jobs P js = length (filter (\<lambda>j. P (fst j)) js)"

definition in_readers :: "(Event \<Rightarrow> bool) \<Rightarrow> (string \<Rightarrow> reading) \<Rightarrow> nat" where
  "in_readers P f = (\<Sum>l \<in> labels. one_if P (event_in (f l)))"

lemma toll_simps [simp]:
  "arrivals P [] = 0" "arrivals P (hs @ [\<alpha>]) = arrivals P hs + one_if P (arrival \<alpha>)"
  "signals_to p [] = 0" "signals_to p (xs @ ys) = signals_to p xs + signals_to p ys"
  "in_jobs P [] = 0" "in_jobs P (js @ ks) = in_jobs P js + in_jobs P ks"
  "in_jobs P ((v, q) # js) = (if P v then 1 else 0) + in_jobs P js" "in_jobs P (spawn job) = one_if P job"
  "one_if P None = 0" "one_if P (Some v) = (if P v then 1 else 0)"
  by (simp_all add: arrivals_def signals_to_def in_jobs_def one_if_def spawn_def split: option.split)

lemma in_readers_upd: "l \<in> labels \<Longrightarrow>
    in_readers P (f(l := p)) + one_if P (event_in (f l)) = in_readers P f + one_if P (event_in p)"
  unfolding in_readers_def by (rule sum_component) (simp_all add: labels_eq)

text \<open>What was done to \<open>p\<close> and what may still be done.\<close>

definition toll :: "(Event \<Rightarrow> bool) \<Rightarrow> int \<Rightarrow> Running \<Rightarrow> nat" where
  "toll P p r = signals_to p (effects (run_agent r)) + in_jobs P (jobs (sys_state r)) + in_readers P (reader r)"

lemma advance_toll:
  assumes "l \<in> labels" and "effects a = effects (run_agent r)"
  shows "toll P p (advance l q a job r) + one_if P (event_in (reader r l))
    = toll P p r + one_if P (event_in q) + one_if P job"
  using in_readers_upd [OF assms(1), of P "reader r" q] assms(2) by (simp add: toll_def advance_def)

lemma act_signals_to:
  assumes "job_ok c e (v, Acting d)"
  shows "signals_to p (act_effects w v d) \<le> (if fair_target c e p v then 1 else 0)"
  using assms
  by (auto simp: act_effects_cases signals_to_def kill_effects_def isolate_effects_def job_ok_def fair_target_def ignored_def)

lemma work_toll:
  assumes k: "work_on c w i (sys_state r) = Some s'" and s: "system_inv c e (sys_state r)"
  shows "toll (fair_target c e p) p (r\<lparr>sys_state := s'\<rparr>) \<le> toll (fair_target c e p) p r"
proof -
  let ?s = "sys_state r"
  obtain js v q ks where j: "jobs ?s = js @ (v, q) # ks" and g: "go_on c w (length js) v q ?s = Some s'"
    using k by (rule work_on_at)
  note at = at_place(2,3) [OF j]
  show ?thesis
  proof (cases q)
    case Assessing
    then obtain client a' res where f: "assess_stage client w v (agent ?s) = (a', res)"
      "s' = (case res of None \<Rightarrow> finish ?s (length js) a' | Some ta \<Rightarrow> continue ?s (length js) v (Deciding ta) a')"
      using g by (auto split: option.splits prod.splits)
    then show ?thesis using assess_frame [OF f(1)] by (cases res) (simp_all add: toll_def j at)
  next
    case (Deciding ta)
    then show ?thesis
      using g decide_stage_frame(1) [of w v ta "agent ?s"] by (auto simp: toll_def j at split: prod.splits)
  next
    case (Acting d)
    have "job_ok c e (v, Acting d)" using s by (simp add: system_inv_def j Acting)
    then show ?thesis
      using g act_signals_to [of c e v d p w] by (auto simp: toll_def j at Acting act_stage_frame split: if_splits)
  qed (use g in \<open>auto simp: toll_def j at log_stage_frame split: if_splits\<close>)
qed

lemma perform_toll:
  assumes p: "perform c \<alpha> r = Some r'" and s: "system_inv c e (sys_state r)"
  shows "toll (fair_target c e n) n r' \<le> toll (fair_target c e n) n r + one_if (fair_target c e n) (arrival \<alpha>)"
proof (cases \<alpha>)
  case (Arrive l raw)
  then show ?thesis
    using p advance_toll [of l "count_processed l (run_agent r)" r "fair_target c e n" n "Fresh _" None]
    by (auto simp: count_processed_def split: if_splits option.splits)
next
  case (Lose l)
  then show ?thesis
    using p advance_toll [of l "print_reports [RingReadFailed l] (run_agent r)" r "fair_target c e n" n Idle None]
    by (auto split: if_splits)
next
  case (Proceed l w)
  then obtain q b job where "r' = advance l q b job r" "effects b = effects (run_agent r)" "l \<in> labels"
    "event_in q \<in> {None, event_in (reader r l)}" "job \<in> {None, event_in (reader r l)}" "event_in q = None \<or> job = None"
    using p proceed_advances [of c w l r r'] by (auto split: if_splits)
  then show ?thesis using advance_toll [of l b r "fair_target c e n" n q job] Proceed by auto
next
  case (Work i w)
  then show ?thesis using p work_toll [OF _ s] by auto
next
  case (Tick order out)
  then show ?thesis using p by (auto simp: tick_def toll_def split: if_splits)
qed

lemma schedule_toll:
  assumes "run_schedule c \<alpha>s (running_start a) = Some r" and "effects a = []"
  shows "toll (fair_target c (policyEngine a) p) p r \<le> arrivals (fair_target c (policyEngine a) p) \<alpha>s"
  using assms(1)
proof (rule schedule_history)
  let ?P = "fair_target c (policyEngine a) p"
  show "toll ?P p (running_start a) \<le> arrivals ?P []"
    using assms(2) by (simp add: toll_def running_start_def system_start_def in_readers_def)
  show "toll ?P p r' \<le> arrivals ?P (hs @ [\<alpha>])"
    if "run_schedule c hs (running_start a) = Some r" "perform c \<alpha> r = Some r'" "toll ?P p r \<le> arrivals ?P hs"
    for hs \<alpha> r r'
    using perform_toll [OF that(2) running_system_inv [OF schedule_runs [OF that(1)] assms(2)], of p] that(3) by simp
qed

section \<open>Properties\<close>

text \<open>
  C2: The agent from its command line on.  When \<open>main\<close> gets through with some flags and
  configuration, everything the agent does along any schedule it does with \<open>-enforce live\<close> and
  \<open>-mode filter\<close>, and for an event that arrived in that run and the model's answer about that
  same event in that run: the event is not the agent's own, nor of an excluded or a configured
  protected name; the answer's score has reached the configured hard threshold, and then
  the process of the event is killed or, for a connection, a firewall command run; or it has
  only reached the soft threshold, and then that process is stopped.  The pids 0 and 1 are
  never signalled.
\<close>

theorem started_agent_safe:
  assumes "Load yaml fs0 (fConfig f) = Inr cfg"
    and "start yaml getenv fs0 pid now memlock f = Inr (c, a)"
    and "run_schedule c \<alpha>s (running_start a) = Some r"
    and "x \<in> set (effects (run_agent r))"
  shows "fEnforce f = ''live'' \<and> fMode f = ''filter'' \<and>
    (\<exists>l raw v i w client ta.
        Arrive l raw \<in> set \<alpha>s \<and> read_event l raw = Some v
      \<and> Work i w \<in> set \<alpha>s \<and> llmClient c = Some client \<and> Assess client (network w) (event_story v) = Inr ta
      \<and> vPid v \<noteq> pid \<and> vComm v \<notin> set excludedComms \<and> vComm v \<notin> set (cProtected cfg)
      \<and> (if cHard cfg \<le> ThreatScore ta
         then vPid v \<notin> {0, 1} \<and> x = Kill (int (unat (vPid v))) SIGKILL
           \<or> vType v = ''CONNECT'' \<and> x \<in> {Run chain_command, Run (rule_command (hd (Split (vDetail v) (CHR '':''))))}
         else cSoft cfg \<le> ThreatScore ta \<and> vPid v \<notin> {0, 1} \<and> x = Kill (int (unat (vPid v))) SIGSTOP))"
proof -
  note st = start_setup [OF assms(1,2)]
  have "effect_from c (policyEngine a) \<alpha>s x"
    using schedule_from [OF assms(3) st(3)] assms(4) by (simp add: from_inv_def list_all_iff)
  then obtain v ta where live: "enforceMode (policyEngine a) = ''live''" "mode c \<noteq> ''learn''"
    and v: "arrived \<alpha>s v" "judged c \<alpha>s v ta" "\<not> ignored c v" "\<not> protected_comm (policyEngine a) (vComm v)"
    and x: "score_tier (policyEngine a) (ThreatScore ta) = TierHard \<and> x \<in> set (kill_effects (vPid v) SIGKILL @ isolate_effects v)
       \<or> score_tier (policyEngine a) (ThreatScore ta) = TierSoft \<and> x \<in> set (kill_effects (vPid v) SIGSTOP)"
    by (auto simp: effect_from_def)
  have "fEnforce f = ''live''" "fMode f = ''filter''" using live st by (auto simp: NewEngine_sel)
  moreover obtain l raw i w client where "Arrive l raw \<in> set \<alpha>s" "read_event l raw = Some v" "Work i w \<in> set \<alpha>s"
      "llmClient c = Some client" "Assess client (network w) (event_story v) = Inr ta"
    using v(1,2) by (auto simp: arrived_def judged_def)
  moreover have "vPid v \<noteq> pid" "vComm v \<notin> set excludedComms" "vComm v \<notin> set (cProtected cfg)"
    using v(3,4) st(2,4) by (auto simp: ignored_def NewEngine_sel)
  moreover have "if cHard cfg \<le> ThreatScore ta
         then vPid v \<notin> {0, 1} \<and> x = Kill (int (unat (vPid v))) SIGKILL
           \<or> vType v = ''CONNECT'' \<and> x \<in> {Run chain_command, Run (rule_command (hd (Split (vDetail v) (CHR '':''))))}
         else cSoft cfg \<le> ThreatScore ta \<and> vPid v \<notin> {0, 1} \<and> x = Kill (int (unat (vPid v))) SIGSTOP"
    using x st(4) by (auto simp: score_tier_def NewEngine_def kill_effects_def isolate_effects_def split: if_splits)
  ultimately show ?thesis by blast
qed

theorem started_agent_safe_witness:
  "\<exists>a \<alpha>s r. live_start = Inr (live_setup, a) \<and> run_schedule live_setup \<alpha>s (running_start a) = Some r
    \<and> Kill 7 SIGKILL \<in> set (effects (run_agent r))
    \<and> (\<exists>l raw v. Arrive l raw \<in> set \<alpha>s \<and> read_event l raw = Some v \<and> vComm v \<notin> set (cProtected Default))"
proof -
  obtain a r where a: "live_start = Inr (live_setup, a)" "(fine_step live_setup)\<^sup>*\<^sup>* (running_start a) r"
    "Kill 7 SIGKILL \<in> set (effects (run_agent r))" using live_kill by blast
  obtain \<alpha>s where s: "run_schedule live_setup \<alpha>s (running_start a) = Some r" using runs_scheduled [OF a(2)] by blast
  have "\<exists>l raw v. Arrive l raw \<in> set \<alpha>s \<and> read_event l raw = Some v \<and> vComm v \<notin> set (cProtected Default)"
    using started_agent_safe [OF live_config a(1) [unfolded live_start_def] s a(3)] by blast
  then show ?thesis using a s by blast
qed

text \<open>
  C4: Signals are paid for by events.  Along any schedule, however the operations of readers
  and goroutines interleave, a process has been signalled at most as often as events arrived
  that name it and are not the agent's own, not of an excluded and not of a protected
  name; in particular never, when no such event arrived.  A signal needs live enforcement and
  filter mode, and its pid is above 1.
\<close>

theorem signals_justified:
  assumes "run_schedule c \<alpha>s (running_start a) = Some r" and "effects a = []"
  shows "signals_to p (effects (run_agent r)) \<le> arrivals (fair_target c (policyEngine a) p) \<alpha>s \<and>
    (0 < signals_to p (effects (run_agent r)) \<longrightarrow>
       enforceMode (policyEngine a) = ''live'' \<and> mode c \<noteq> ''learn'' \<and> 1 < p)"
proof -
  have "list_all (signal_ok c (policyEngine a)) (signals (effects (run_agent r)))"
    using running_system_inv [OF schedule_runs [OF assms(1)] assms(2)] by (simp add: system_inv_def)
  then have "0 < signals_to p (effects (run_agent r)) \<longrightarrow>
      enforceMode (policyEngine a) = ''live'' \<and> mode c \<noteq> ''learn'' \<and> 1 < p"
    by (auto simp: signals_to_def list_all_iff signal_ok_def filter_empty_conv)
  moreover have "signals_to p (effects (run_agent r)) \<le> arrivals (fair_target c (policyEngine a) p) \<alpha>s"
    using schedule_toll [OF assms, of p] by (simp add: toll_def)
  ultimately show ?thesis by blast
qed

theorem signals_justified_witness:
  "\<exists>\<alpha>s. run_schedule live_setup \<alpha>s (running_start live_agent) = Some live_running
    \<and> 0 < arrivals (fair_target live_setup (policyEngine live_agent) 7) \<alpha>s"
proof -
  obtain \<alpha>s where s: "run_schedule live_setup \<alpha>s (running_start live_agent) = Some live_running"
    using runs_scheduled [OF live_fine_run] by blast
  have "0 < signals_to 7 (effects (run_agent live_running))"
    by (simp add: live_running_def live_effects signals_to_def)
  then have "0 < arrivals (fair_target live_setup (policyEngine live_agent) 7) \<alpha>s"
    using signals_justified [OF s, of 7] by (simp add: live_agent_def demo_agent_def)
  then show ?thesis using s by blast
qed

end
