(* ===== verification/ActionWindow.thy ===== *)
theory ActionWindow
  imports Policy
begin

text \<open>
  The action limiter as \<open>allowAction\<close> of \<open>internal/policy/policy.go\<close> runs it: \<open>filtered\<close> is a slice of
  the same array as \<open>e.actionTimestamps\<close>, so the loop writes the array it reads.  Arrays live in a
  heap, a slice is an address and a length, and the capacity is the length of the array.
  \<open>Policy.allowAction\<close>, which the other theories use, is the specification.
\<close>

type_synonym arrays = "int list list"

record slice =
  sArray :: nat
  sLen :: nat

definition contents :: "arrays \<Rightarrow> slice \<Rightarrow> int list" where
  "contents h s = take (sLen s) (h ! sArray s)"

definition slice_ok :: "arrays \<Rightarrow> slice \<Rightarrow> bool" where
  "slice_ok h s \<longleftrightarrow> sArray s < length h \<and> sLen s \<le> length (h ! sArray s)"

text \<open>
  \<open>append\<close> of one element.  Past the capacity it copies to a new array; how much room that
  array has to spare (\<open>room\<close>) is up to the Go runtime.
\<close>

definition append_slice :: "nat \<Rightarrow> int \<Rightarrow> arrays \<times> slice \<Rightarrow> arrays \<times> slice" where
  "append_slice room x hs = (case hs of (h, s) \<Rightarrow>
     let a = h ! sArray s in
     if sLen s < length a then (h[sArray s := a[sLen s := x]], s\<lparr>sLen := Suc (sLen s)\<rparr>)
     else (h @ [take (sLen s) a @ x # replicate room 0], \<lparr>sArray = length h, sLen = Suc (sLen s)\<rparr>))"

text \<open>
  The loop: \<open>range\<close> fixes the slice \<open>src\<close> it runs over, but reads each element when it gets
  there; \<open>hs\<close> is the heap and \<open>filtered\<close>.
\<close>

function filter_loop :: "nat \<Rightarrow> int \<Rightarrow> slice \<Rightarrow> nat \<Rightarrow> arrays \<times> slice \<Rightarrow> arrays \<times> slice" where
  "filter_loop room cutoff src i hs =
    (if sLen src \<le> i then hs
     else let t = fst hs ! sArray src ! i in
       filter_loop room cutoff src (Suc i) (if cutoff < t then append_slice room t hs else hs))"
  by pat_completeness auto
termination by (relation "measure (\<lambda>(room, cutoff, src, i, hs). sLen src - i)") auto

declare filter_loop.simps [simp del]

definition allowAction_slices :: "nat \<Rightarrow> int \<Rightarrow> Engine \<Rightarrow> arrays \<times> slice \<Rightarrow> bool \<times> arrays \<times> slice" where
  "allowAction_slices room now e hs = (case hs of (h, s) \<Rightarrow>
     let cutoff = now - actionWindow e;
         (h1, filtered) = filter_loop room cutoff s 0 (h, s\<lparr>sLen := 0\<rparr>)
     in if maxActionsPerWindow e \<le> int (sLen filtered) then (False, h1, filtered)
        else (True, append_slice room now (h1, filtered)))"

section \<open>The loop\<close>

text \<open>
  What holds at index \<open>i\<close>: \<open>filtered\<close> has not left the array and is not ahead of the
  reader, the elements still to come are as they were, and \<open>filtered\<close> holds what the
  filter keeps of those that have been read.
\<close>

definition loop_inv :: "int \<Rightarrow> arrays \<Rightarrow> slice \<Rightarrow> nat \<Rightarrow> arrays \<times> slice \<Rightarrow> bool" where
  "loop_inv cutoff h0 src i hs \<longleftrightarrow> (case hs of (h, f) \<Rightarrow>
     length h = length h0 \<and> sArray f = sArray src \<and> sLen f \<le> i
     \<and> (\<forall>b. b \<noteq> sArray src \<longrightarrow> h ! b = h0 ! b)
     \<and> length (h ! sArray src) = length (h0 ! sArray src)
     \<and> drop i (h ! sArray src) = drop i (h0 ! sArray src)
     \<and> contents h f = filter (\<lambda>t. cutoff < t) (take i (h0 ! sArray src)))"

lemma contents_append:
  "slice_ok h s \<Longrightarrow> contents (fst (append_slice room x (h, s))) (snd (append_slice room x (h, s))) = contents h s @ [x]"
  by (auto simp: append_slice_def contents_def slice_ok_def Let_def take_Suc_conv_app_nth nth_append)

lemma append_ok:
  "slice_ok h s \<Longrightarrow> slice_ok (fst (append_slice room x (h, s))) (snd (append_slice room x (h, s)))"
  by (auto simp: append_slice_def slice_ok_def Let_def nth_append)

lemma loop_inv_step:
  assumes inv: "loop_inv cutoff h0 src i hs" and i: "i < sLen src" and ok: "slice_ok h0 src"
  shows "loop_inv cutoff h0 src (Suc i)
    (let t = fst hs ! sArray src ! i in if cutoff < t then append_slice room t hs else hs)"
proof -
  obtain h f where hs: "hs = (h, f)" by force
  let ?a = "h ! sArray src" and ?old = "h0 ! sArray src"
  have n: "i < length ?old" using i ok by (simp add: slice_ok_def)
  have len: "length ?a = length ?old" "length h = length h0" "sLen f \<le> i" "sArray f = sArray src"
    and d: "drop i ?a = drop i ?old" and c: "take (sLen f) ?a = filter (\<lambda>t. cutoff < t) (take i ?old)"
    and o: "\<forall>b. b \<noteq> sArray src \<longrightarrow> h ! b = h0 ! b"
    using inv by (auto simp: loop_inv_def hs contents_def)
  have t: "?a ! i = ?old ! i" using d n len by (metis Cons_nth_drop_Suc list.inject)
  have d': "drop (Suc i) ?a = drop (Suc i) ?old" using d by (metis drop_Suc drop_drop tl_drop plus_1_eq_Suc)
  have snoc: "take (Suc i) ?old = take i ?old @ [?old ! i]" using n by (simp add: take_Suc_conv_app_nth)
  show ?thesis
  proof (cases "cutoff < ?old ! i")
    case True
    have "append_slice room (?old ! i) (h, f) = (h[sArray src := ?a[sLen f := ?old ! i]], f\<lparr>sLen := Suc (sLen f)\<rparr>)"
      using len n by (simp add: append_slice_def Let_def)
    moreover have "take (Suc (sLen f)) (?a[sLen f := ?old ! i]) = take (sLen f) ?a @ [?old ! i]"
      using len n by (simp add: take_Suc_conv_app_nth)
    moreover have "sArray src < length h" using ok len by (simp add: slice_ok_def)
    ultimately show ?thesis
      using True len n d' o c by (simp add: loop_inv_def hs t contents_def snoc)
  next
    case False
    then show ?thesis using len d' o c by (simp add: loop_inv_def hs t contents_def snoc)
  qed
qed

lemma filter_loop_inv:
  assumes "loop_inv cutoff h0 src i hs" and "slice_ok h0 src" and "i \<le> sLen src"
  shows "loop_inv cutoff h0 src (sLen src) (filter_loop room cutoff src i hs)"
  using assms
proof (induction room cutoff src i hs rule: filter_loop.induct)
  case (1 room cutoff src i hs)
  show ?case
  proof (cases "sLen src \<le> i")
    case True
    then show ?thesis using 1 by (simp add: filter_loop.simps)
  next
    case False
    then show ?thesis
      using 1(1) [OF False refl] loop_inv_step [OF 1(2) _ 1(3), of room] 1(3)
      by (subst filter_loop.simps) (simp add: Let_def)
  qed
qed

section \<open>The refinement\<close>

lemma allowAction_slices_correct:
  assumes "slice_ok h s" and "contents h s = actionTimestamps e"
  shows "case allowAction_slices room now e (h, s) of (ok, h', s') \<Rightarrow>
      ok = fst (allowAction now e) \<and> contents h' s' = actionTimestamps (snd (allowAction now e))
    \<and> slice_ok h' s' \<and> (\<forall>b < length h. b \<noteq> sArray s \<longrightarrow> h' ! b = h ! b)
    \<and> (length h' \<noteq> length h \<longrightarrow> ok \<and> length (contents h' s') = Suc (length (h ! sArray s)))"
proof -
  let ?cut = "now - actionWindow e" and ?kept = "filter (\<lambda>t. now - actionWindow e < t) (actionTimestamps e)"
  obtain h1 f where l: "filter_loop room ?cut s 0 (h, s\<lparr>sLen := 0\<rparr>) = (h1, f)" by force
  have "loop_inv ?cut h s 0 (h, s\<lparr>sLen := 0\<rparr>)" by (simp add: loop_inv_def contents_def)
  then have inv: "loop_inv ?cut h s (sLen s) (h1, f)"
    using filter_loop_inv [of ?cut h s 0 "(h, s\<lparr>sLen := 0\<rparr>)" room] assms(1) l by simp
  have f: "length h1 = length h" "sArray f = sArray s" "sLen f \<le> sLen s"
    "\<forall>b. b \<noteq> sArray s \<longrightarrow> h1 ! b = h ! b" "length (h1 ! sArray s) = length (h ! sArray s)"
    and c: "contents h1 f = ?kept"
    using inv assms by (auto simp: loop_inv_def contents_def)
  have ok: "slice_ok h1 f" using f assms(1) by (simp add: slice_ok_def)
  then have n: "sLen f = length ?kept" using arg_cong [OF c, of length] f by (simp add: contents_def slice_ok_def)
  show ?thesis
  proof (cases "maxActionsPerWindow e \<le> int (sLen f)")
    case True
    then show ?thesis using l c ok f by (simp add: allowAction_slices_def allowAction_def n [symmetric] Let_def)
  next
    case False
    obtain h2 g where a: "append_slice room now (h1, f) = (h2, g)" by force
    have g: "contents h2 g = ?kept @ [now]" "slice_ok h2 g"
      using contents_append [OF ok, of room now] append_ok [OF ok, of room now] a c by simp_all
    have "\<forall>b < length h. b \<noteq> sArray s \<longrightarrow> h2 ! b = h ! b"
      using a f by (auto simp: append_slice_def Let_def nth_append split: if_splits)
    moreover have "length h2 \<noteq> length h \<longrightarrow> length (h ! sArray s) = length ?kept"
      using a f ok by (auto simp: append_slice_def Let_def slice_ok_def n split: if_splits)
    ultimately show ?thesis
      using False l a g by (simp add: allowAction_slices_def allowAction_def n [symmetric] Let_def)
  qed
qed

text \<open>So it is a limiter of the same contract: the slice is a representation of the time stamps.\<close>

definition stamps_of :: "Engine \<times> arrays \<times> slice \<Rightarrow> Engine" where
  "stamps_of st = (case st of (e, h, s) \<Rightarrow> e\<lparr>actionTimestamps := contents h s\<rparr>)"

definition slices_step :: "nat \<Rightarrow> int \<Rightarrow> Engine \<times> arrays \<times> slice \<Rightarrow> bool \<times> Engine \<times> arrays \<times> slice" where
  "slices_step room now st = (case st of (e, hs) \<Rightarrow>
     (case allowAction_slices room now e hs of (ok, hs') \<Rightarrow> (ok, e, hs')))"

definition slices_inv :: "int \<Rightarrow> nat \<Rightarrow> Engine \<times> arrays \<times> slice \<Rightarrow> int \<Rightarrow> int list \<Rightarrow> bool" where
  "slices_inv w k st t0 g \<longleftrightarrow> slice_ok (fst (snd st)) (snd (snd st)) \<and> window_inv w k (stamps_of st) t0 g"

lemma slices_step_simulates:
  assumes "slice_ok (fst (snd st)) (snd (snd st))"
  shows "fst (slices_step room now st) = fst (allowAction now (stamps_of st))"
    and "stamps_of (snd (slices_step room now st)) = snd (allowAction now (stamps_of st))"
    and "slice_ok (fst (snd (snd (slices_step room now st)))) (snd (snd (snd (slices_step room now st))))"
proof -
  obtain e h s where st: "st = (e, h, s)" by (cases st) auto
  have eq: "allowAction_slices room now (stamps_of st) (h, s) = allowAction_slices room now e (h, s)"
    by (simp add: st stamps_of_def allowAction_slices_def)
  have "contents h s = actionTimestamps (stamps_of st)" by (simp add: st stamps_of_def)
  note c = allowAction_slices_correct [OF assms [unfolded st fst_conv snd_conv] this, of now room, unfolded eq]
  obtain ok h' s' where r: "allowAction_slices room now e (h, s) = (ok, h', s')" by (metis prod_cases3)
  have frame: "snd (allowAction now (stamps_of st))
      = e\<lparr>actionTimestamps := actionTimestamps (snd (allowAction now (stamps_of st)))\<rparr>"
    by (simp add: allowAction_def Let_def st stamps_of_def)
  show "fst (slices_step room now st) = fst (allowAction now (stamps_of st))"
    and "slice_ok (fst (snd (snd (slices_step room now st)))) (snd (snd (snd (slices_step room now st))))"
    using c by (simp_all add: slices_step_def st r)
  show "stamps_of (snd (slices_step room now st)) = snd (allowAction now (stamps_of st))"
    using c frame by (simp add: slices_step_def st r) (simp add: stamps_of_def)
qed

interpretation sl: limiter "slices_step room" "\<lambda>t. t" "slices_inv w k" w k for room w k
proof unfold_locales
  fix st t0 g now
  assume "slices_inv w k st t0 g" "t0 \<le> now"
  then show "slices_inv w k (snd (slices_step room now st)) now (if fst (slices_step room now st) then now # g else g)"
    using slices_step_simulates [of st room now] allowAction_refines [of w k "stamps_of st" t0 g now]
    by (simp add: slices_inv_def)
qed (simp add: slices_inv_def window_inv_def)

text \<open>In particular it keeps the bound on the rate of actions.\<close>

lemma slices_rate_bounded:
  assumes "slices_inv w k st t0 []" and "sorted (t0 # ts)"
  shows "in_window w t (grants (slices_step room) (\<lambda>t. t) ts st []) \<le> k"
  using sl.bounded [OF assms(1), of ts] assms(2) by simp

section \<open>Properties\<close>

text \<open>
  C19: The limiter filters its time stamps in place, in the array it reads them from, and
  that is sound: with any capacity and any growth of the array it grants the same actions
  and keeps the same time stamps as the specification.  No other array is written, and a new
  one is made only for a granted action that does not fit.
\<close>

theorem allowAction_in_place:
  assumes "slice_ok h s" and "contents h s = actionTimestamps e"
  shows "case allowAction_slices room now e (h, s) of (ok, h', s') \<Rightarrow>
      ok = fst (allowAction now e) \<and> contents h' s' = actionTimestamps (snd (allowAction now e))
    \<and> slice_ok h' s' \<and> (\<forall>b < length h. b \<noteq> sArray s \<longrightarrow> h' ! b = h ! b)
    \<and> (length h' \<noteq> length h \<longrightarrow> ok \<and> length (contents h' s') = Suc (length (h ! sArray s)))"
  by (rule allowAction_slices_correct [OF assms])

text \<open>Of three stamps one is in the window of a minute; the new one takes the place of the second.\<close>

theorem allowAction_in_place_witness:
  "(let e = (NewEngine ''live'' [] 2 40 70 90)\<lparr>actionTimestamps := [0, second, 70 * second]\<rparr> in
     fst (allowAction_slices 4 (80 * second) e ([[0, second, 70 * second]], \<lparr>sArray = 0, sLen = 3\<rparr>))
       = fst (allowAction (80 * second) e))
   \<and> allowAction_slices 4 (80 * second) (NewEngine ''live'' [] 2 40 70 90)
       ([[0, second, 70 * second]], \<lparr>sArray = 0, sLen = 3\<rparr>)
     = (True, [[70 * second, 80 * second, 70 * second]], \<lparr>sArray = 0, sLen = 2\<rparr>)"
proof (rule conjI)
  let ?e = "(NewEngine ''live'' [] 2 40 70 90)\<lparr>actionTimestamps := [0, second, 70 * second]\<rparr>"
  show "let e = ?e in fst (allowAction_slices 4 (80 * second) e ([[0, second, 70 * second]], \<lparr>sArray = 0, sLen = 3\<rparr>))
       = fst (allowAction (80 * second) e)"
    using allowAction_in_place [of "[[0, second, 70 * second]]" "\<lparr>sArray = 0, sLen = 3\<rparr>" ?e "80 * second" 4]
    by (simp add: slice_ok_def contents_def split_def)
qed (simp add: allowAction_slices_def filter_loop.simps append_slice_def NewEngine_def Let_def second_def minute_def)

end
