(* ===== verification/TaskTypes.thy ===== *)
theory TaskTypes
  imports KernelTypes
begin

text \<open>
  The kernel objects of a task: what \<open>bpf_get_current_pid_tgid\<close>, \<open>bpf_get_current_uid_gid\<close> and
  \<open>bpf_get_current_comm\<close> read, \<open>task_struct\<close> and its credentials, with every type they hold by value.
  The definitions follow the declarations of \<open>bpf/vmlinux.h\<close>; the lemmas compute sizes and
  alignments.
\<close>

definition struct_llist_node :: ctype where
  "struct_llist_node =
    CStruct False
     [Field ''next'' CPtr]"

lemma lay_struct_llist_node [layouts]: "lay struct_llist_node = (8, 8)"
  by (simp add: struct_llist_node_def layouts lay_eval)

lemma wf_struct_llist_node [wf_types]: "wf_type struct_llist_node"
  by (simp add: struct_llist_node_def wf_types)

definition t_atomic_t :: ctype where "t_atomic_t = CStruct False [Field ''counter'' (CInt 4)]"

lemma lay_t_atomic_t [layouts]: "lay t_atomic_t = (4, 4)"
  by (simp add: t_atomic_t_def layouts lay_eval)

lemma wf_t_atomic_t [wf_types]: "wf_type t_atomic_t"
  by (simp add: t_atomic_t_def wf_types)

definition t_u16 :: ctype where "t_u16 = t___u16"

lemma lay_t_u16 [layouts]: "lay t_u16 = (2, 2)"
  by (simp add: t_u16_def layouts lay_eval)

lemma wf_t_u16 [wf_types]: "wf_type t_u16"
  by (simp add: t_u16_def wf_types)

definition struct___call_single_node :: ctype where
  "struct___call_single_node =
    CStruct False
     [Field ''llist'' struct_llist_node,
      Field [] (CUnion False [Field ''u_flags'' (CInt 4), Field ''a_flags'' t_atomic_t]),
      Field ''src'' t_u16,
      Field ''dst'' t_u16]"

lemma lay_struct___call_single_node [layouts]: "lay struct___call_single_node = (16, 8)"
  by (simp add: struct___call_single_node_def layouts lay_eval)

lemma wf_struct___call_single_node [wf_types]: "wf_type struct___call_single_node"
  by (simp add: struct___call_single_node_def wf_types)

definition struct_callback_head :: ctype where
  "struct_callback_head =
    CStruct False
     [Field ''next'' CPtr,
      Field ''func'' CPtr]"

lemma lay_struct_callback_head [layouts]: "lay struct_callback_head = (16, 8)"
  by (simp add: struct_callback_head_def layouts lay_eval)

lemma wf_struct_callback_head [wf_types]: "wf_type struct_callback_head"
  by (simp add: struct_callback_head_def wf_types)

definition struct_hlist_head :: ctype where
  "struct_hlist_head =
    CStruct False
     [Field ''first'' CPtr]"

lemma lay_struct_hlist_head [layouts]: "lay struct_hlist_head = (8, 8)"
  by (simp add: struct_hlist_head_def layouts lay_eval)

lemma wf_struct_hlist_head [wf_types]: "wf_type struct_hlist_head"
  by (simp add: struct_hlist_head_def wf_types)

definition struct_hlist_node :: ctype where
  "struct_hlist_node =
    CStruct False
     [Field ''next'' CPtr,
      Field ''pprev'' CPtr]"

lemma lay_struct_hlist_node [layouts]: "lay struct_hlist_node = (16, 8)"
  by (simp add: struct_hlist_node_def layouts lay_eval)

lemma wf_struct_hlist_node [wf_types]: "wf_type struct_hlist_node"
  by (simp add: struct_hlist_node_def wf_types)

definition struct_kmap_ctrl :: ctype where
  "struct_kmap_ctrl = CStruct False []"

lemma lay_struct_kmap_ctrl [layouts]: "lay struct_kmap_ctrl = (0, 1)"
  by (simp add: struct_kmap_ctrl_def layouts lay_eval)

lemma wf_struct_kmap_ctrl [wf_types]: "wf_type struct_kmap_ctrl"
  by (simp add: struct_kmap_ctrl_def wf_types)

definition struct_latency_record :: ctype where
  "struct_latency_record =
    CStruct False
     [Field ''backtrace'' (CArr (CInt 8) 12),
      Field ''count'' (CInt 4),
      Field ''time'' (CInt 8),
      Field ''max'' (CInt 8)]"

lemma lay_struct_latency_record [layouts]: "lay struct_latency_record = (120, 8)"
  by (simp add: struct_latency_record_def layouts lay_eval)

lemma wf_struct_latency_record [wf_types]: "wf_type struct_latency_record"
  by (simp add: struct_latency_record_def wf_types)

definition t_u8 :: ctype where "t_u8 = t___u8"

lemma lay_t_u8 [layouts]: "lay t_u8 = (1, 1)"
  by (simp add: t_u8_def layouts lay_eval)

lemma wf_t_u8 [wf_types]: "wf_type t_u8"
  by (simp add: t_u8_def wf_types)

definition struct_lazy_mmu_state :: ctype where
  "struct_lazy_mmu_state =
    CStruct False
     [Field ''enable_count'' t_u8,
      Field ''pause_count'' t_u8]"

lemma lay_struct_lazy_mmu_state [layouts]: "lay struct_lazy_mmu_state = (2, 1)"
  by (simp add: struct_lazy_mmu_state_def layouts lay_eval)

lemma wf_struct_lazy_mmu_state [wf_types]: "wf_type struct_lazy_mmu_state"
  by (simp add: struct_lazy_mmu_state_def wf_types)

definition struct_list_head :: ctype where
  "struct_list_head =
    CStruct False
     [Field ''next'' CPtr,
      Field ''prev'' CPtr]"

lemma lay_struct_list_head [layouts]: "lay struct_list_head = (16, 8)"
  by (simp add: struct_list_head_def layouts lay_eval)

lemma wf_struct_list_head [wf_types]: "wf_type struct_list_head"
  by (simp add: struct_list_head_def wf_types)

definition struct_llist_head :: ctype where
  "struct_llist_head =
    CStruct False
     [Field ''first'' CPtr]"

lemma lay_struct_llist_head [layouts]: "lay struct_llist_head = (8, 8)"
  by (simp add: struct_llist_head_def layouts lay_eval)

lemma wf_struct_llist_head [wf_types]: "wf_type struct_llist_head"
  by (simp add: struct_llist_head_def wf_types)

definition struct_optimistic_spin_queue :: ctype where
  "struct_optimistic_spin_queue =
    CStruct False
     [Field ''tail'' t_atomic_t]"

lemma lay_struct_optimistic_spin_queue [layouts]: "lay struct_optimistic_spin_queue = (4, 4)"
  by (simp add: struct_optimistic_spin_queue_def layouts lay_eval)

lemma wf_struct_optimistic_spin_queue [wf_types]: "wf_type struct_optimistic_spin_queue"
  by (simp add: struct_optimistic_spin_queue_def wf_types)

definition t___s64 :: ctype where "t___s64 = CInt 8"

lemma lay_t___s64 [layouts]: "lay t___s64 = (8, 8)"
  by (simp add: t___s64_def layouts lay_eval)

lemma wf_t___s64 [wf_types]: "wf_type t___s64"
  by (simp add: t___s64_def wf_types)

definition t_s64 :: ctype where "t_s64 = t___s64"

lemma lay_t_s64 [layouts]: "lay t_s64 = (8, 8)"
  by (simp add: t_s64_def layouts lay_eval)

lemma wf_t_s64 [wf_types]: "wf_type t_s64"
  by (simp add: t_s64_def wf_types)

definition t_atomic64_t :: ctype where "t_atomic64_t = CStruct False [Field ''counter'' t_s64]"

lemma lay_t_atomic64_t [layouts]: "lay t_atomic64_t = (8, 8)"
  by (simp add: t_atomic64_t_def layouts lay_eval)

lemma wf_t_atomic64_t [wf_types]: "wf_type t_atomic64_t"
  by (simp add: t_atomic64_t_def wf_types)

definition t_atomic_long_t :: ctype where "t_atomic_long_t = t_atomic64_t"

lemma lay_t_atomic_long_t [layouts]: "lay t_atomic_long_t = (8, 8)"
  by (simp add: t_atomic_long_t_def layouts lay_eval)

lemma wf_t_atomic_long_t [wf_types]: "wf_type t_atomic_long_t"
  by (simp add: t_atomic_long_t_def wf_types)

definition struct_qspinlock :: ctype where
  "struct_qspinlock =
    CStruct False
     [Field [] (CUnion False [Field ''val'' t_atomic_t, Field [] (CStruct False [Field ''locked''
        t_u8, Field ''pending'' t_u8]), Field [] (CStruct False [Field ''locked_pending'' t_u16,
        Field ''tail'' t_u16])])]"

lemma lay_struct_qspinlock [layouts]: "lay struct_qspinlock = (4, 4)"
  by (simp add: struct_qspinlock_def layouts lay_eval)

lemma wf_struct_qspinlock [wf_types]: "wf_type struct_qspinlock"
  by (simp add: struct_qspinlock_def wf_types)

definition t_arch_spinlock_t :: ctype where "t_arch_spinlock_t = struct_qspinlock"

lemma lay_t_arch_spinlock_t [layouts]: "lay t_arch_spinlock_t = (4, 4)"
  by (simp add: t_arch_spinlock_t_def layouts lay_eval)

lemma wf_t_arch_spinlock_t [wf_types]: "wf_type t_arch_spinlock_t"
  by (simp add: t_arch_spinlock_t_def wf_types)

definition struct_raw_spinlock :: ctype where
  "struct_raw_spinlock =
    CStruct False
     [Field ''raw_lock'' t_arch_spinlock_t]"

lemma lay_struct_raw_spinlock [layouts]: "lay struct_raw_spinlock = (4, 4)"
  by (simp add: struct_raw_spinlock_def layouts lay_eval)

lemma wf_struct_raw_spinlock [wf_types]: "wf_type struct_raw_spinlock"
  by (simp add: struct_raw_spinlock_def wf_types)

definition t_raw_spinlock_t :: ctype where "t_raw_spinlock_t = struct_raw_spinlock"

lemma lay_t_raw_spinlock_t [layouts]: "lay t_raw_spinlock_t = (4, 4)"
  by (simp add: t_raw_spinlock_t_def layouts lay_eval)

lemma wf_t_raw_spinlock_t [wf_types]: "wf_type t_raw_spinlock_t"
  by (simp add: t_raw_spinlock_t_def wf_types)

definition struct_mutex :: ctype where
  "struct_mutex =
    CStruct False
     [Field ''owner'' t_atomic_long_t,
      Field ''wait_lock'' t_raw_spinlock_t,
      Field ''osq'' struct_optimistic_spin_queue,
      Field ''wait_list'' struct_list_head]"

lemma lay_struct_mutex [layouts]: "lay struct_mutex = (32, 8)"
  by (simp add: struct_mutex_def layouts lay_eval)

lemma wf_struct_mutex [wf_types]: "wf_type struct_mutex"
  by (simp add: struct_mutex_def wf_types)

definition struct_page_frag :: ctype where
  "struct_page_frag =
    CStruct False
     [Field ''page'' CPtr,
      Field ''offset'' t___u32,
      Field ''size'' t___u32]"

lemma lay_struct_page_frag [layouts]: "lay struct_page_frag = (16, 8)"
  by (simp add: struct_page_frag_def layouts lay_eval)

lemma wf_struct_page_frag [wf_types]: "wf_type struct_page_frag"
  by (simp add: struct_page_frag_def wf_types)

definition struct_plist_node :: ctype where
  "struct_plist_node =
    CStruct False
     [Field ''prio'' (CInt 4),
      Field ''prio_list'' struct_list_head,
      Field ''node_list'' struct_list_head]"

lemma lay_struct_plist_node [layouts]: "lay struct_plist_node = (40, 8)"
  by (simp add: struct_plist_node_def layouts lay_eval)

lemma wf_struct_plist_node [wf_types]: "wf_type struct_plist_node"
  by (simp add: struct_plist_node_def wf_types)

definition struct_rb_root :: ctype where
  "struct_rb_root =
    CStruct False
     [Field ''rb_node'' CPtr]"

lemma lay_struct_rb_root [layouts]: "lay struct_rb_root = (8, 8)"
  by (simp add: struct_rb_root_def layouts lay_eval)

lemma wf_struct_rb_root [wf_types]: "wf_type struct_rb_root"
  by (simp add: struct_rb_root_def wf_types)

definition struct_rb_root_cached :: ctype where
  "struct_rb_root_cached =
    CStruct False
     [Field ''rb_root'' struct_rb_root,
      Field ''rb_leftmost'' CPtr]"

lemma lay_struct_rb_root_cached [layouts]: "lay struct_rb_root_cached = (16, 8)"
  by (simp add: struct_rb_root_cached_def layouts lay_eval)

lemma wf_struct_rb_root_cached [wf_types]: "wf_type struct_rb_root_cached"
  by (simp add: struct_rb_root_cached_def wf_types)

definition struct_timerqueue_head :: ctype where
  "struct_timerqueue_head =
    CStruct False
     [Field ''rb_root'' struct_rb_root_cached]"

lemma lay_struct_timerqueue_head [layouts]: "lay struct_timerqueue_head = (16, 8)"
  by (simp add: struct_timerqueue_head_def layouts lay_eval)

lemma wf_struct_timerqueue_head [wf_types]: "wf_type struct_timerqueue_head"
  by (simp add: struct_timerqueue_head_def wf_types)

definition t___u64 :: ctype where "t___u64 = CInt 8"

lemma lay_t___u64 [layouts]: "lay t___u64 = (8, 8)"
  by (simp add: t___u64_def layouts lay_eval)

lemma wf_t___u64 [wf_types]: "wf_type t___u64"
  by (simp add: t___u64_def wf_types)

definition t_u64 :: ctype where "t_u64 = t___u64"

lemma lay_t_u64 [layouts]: "lay t_u64 = (8, 8)"
  by (simp add: t_u64_def layouts lay_eval)

lemma wf_t_u64 [wf_types]: "wf_type t_u64"
  by (simp add: t_u64_def wf_types)

definition struct_posix_cputimer_base :: ctype where
  "struct_posix_cputimer_base =
    CStruct False
     [Field ''nextevt'' t_u64,
      Field ''tqhead'' struct_timerqueue_head]"

lemma lay_struct_posix_cputimer_base [layouts]: "lay struct_posix_cputimer_base = (24, 8)"
  by (simp add: struct_posix_cputimer_base_def layouts lay_eval)

lemma wf_struct_posix_cputimer_base [wf_types]: "wf_type struct_posix_cputimer_base"
  by (simp add: struct_posix_cputimer_base_def wf_types)

definition struct_posix_cputimers :: ctype where
  "struct_posix_cputimers =
    CStruct False
     [Field ''bases'' (CArr struct_posix_cputimer_base 3),
      Field ''timers_active'' (CInt 4),
      Field ''expiry_active'' (CInt 4)]"

lemma lay_struct_posix_cputimers [layouts]: "lay struct_posix_cputimers = (80, 8)"
  by (simp add: struct_posix_cputimers_def layouts lay_eval)

lemma wf_struct_posix_cputimers [wf_types]: "wf_type struct_posix_cputimers"
  by (simp add: struct_posix_cputimers_def wf_types)

definition struct_posix_cputimers_work :: ctype where
  "struct_posix_cputimers_work =
    CStruct False
     [Field ''work'' struct_callback_head,
      Field ''mutex'' struct_mutex,
      Field ''scheduled'' (CInt 4)]"

lemma lay_struct_posix_cputimers_work [layouts]: "lay struct_posix_cputimers_work = (56, 8)"
  by (simp add: struct_posix_cputimers_work_def layouts lay_eval)

lemma wf_struct_posix_cputimers_work [wf_types]: "wf_type struct_posix_cputimers_work"
  by (simp add: struct_posix_cputimers_work_def wf_types)

definition struct_prev_cputime :: ctype where
  "struct_prev_cputime =
    CStruct False
     [Field ''utime'' t_u64,
      Field ''stime'' t_u64,
      Field ''lock'' t_raw_spinlock_t]"

lemma lay_struct_prev_cputime [layouts]: "lay struct_prev_cputime = (24, 8)"
  by (simp add: struct_prev_cputime_def layouts lay_eval)

lemma wf_struct_prev_cputime [wf_types]: "wf_type struct_prev_cputime"
  by (simp add: struct_prev_cputime_def wf_types)

definition struct_rb_node :: ctype where
  "struct_rb_node =
    CStruct False
     [Field ''__rb_parent_color'' (CInt 8),
      Field ''rb_right'' CPtr,
      Field ''rb_left'' CPtr]"

lemma lay_struct_rb_node [layouts]: "lay struct_rb_node = (24, 8)"
  by (simp add: struct_rb_node_def layouts lay_eval)

lemma wf_struct_rb_node [wf_types]: "wf_type struct_rb_node"
  by (simp add: struct_rb_node_def wf_types)

definition enum_timespec_type :: enumerators where
  "enum_timespec_type =
    [(''TT_NONE'', 0), (''TT_NATIVE'', 1), (''TT_COMPAT'', 2)]"

lemma lay_enum_timespec_type [layouts]: "lay (c_enum enum_timespec_type) = (4, 4)"
  by (simp add: c_enum_def enum_timespec_type_def)

lemma wf_enum_timespec_type [wf_types]: "wf_type (c_enum enum_timespec_type)"
  by (simp add: c_enum_def)

definition t_time64_t :: ctype where "t_time64_t = t___s64"

lemma lay_t_time64_t [layouts]: "lay t_time64_t = (8, 8)"
  by (simp add: t_time64_t_def layouts lay_eval)

lemma wf_t_time64_t [wf_types]: "wf_type t_time64_t"
  by (simp add: t_time64_t_def wf_types)

definition struct_timespec64 :: ctype where
  "struct_timespec64 =
    CStruct False
     [Field ''tv_sec'' t_time64_t,
      Field ''tv_nsec'' (CInt 8)]"

lemma lay_struct_timespec64 [layouts]: "lay struct_timespec64 = (16, 8)"
  by (simp add: struct_timespec64_def layouts lay_eval)

lemma wf_struct_timespec64 [wf_types]: "wf_type struct_timespec64"
  by (simp add: struct_timespec64_def wf_types)

definition t___kernel_clockid_t :: ctype where "t___kernel_clockid_t = CInt 4"

lemma lay_t___kernel_clockid_t [layouts]: "lay t___kernel_clockid_t = (4, 4)"
  by (simp add: t___kernel_clockid_t_def layouts lay_eval)

lemma wf_t___kernel_clockid_t [wf_types]: "wf_type t___kernel_clockid_t"
  by (simp add: t___kernel_clockid_t_def wf_types)

definition t_clockid_t :: ctype where "t_clockid_t = t___kernel_clockid_t"

lemma lay_t_clockid_t [layouts]: "lay t_clockid_t = (4, 4)"
  by (simp add: t_clockid_t_def layouts lay_eval)

lemma wf_t_clockid_t [wf_types]: "wf_type t_clockid_t"
  by (simp add: t_clockid_t_def wf_types)

definition t_ktime_t :: ctype where "t_ktime_t = t_s64"

lemma lay_t_ktime_t [layouts]: "lay t_ktime_t = (8, 8)"
  by (simp add: t_ktime_t_def layouts lay_eval)

lemma wf_t_ktime_t [wf_types]: "wf_type t_ktime_t"
  by (simp add: t_ktime_t_def wf_types)

definition t_u32 :: ctype where "t_u32 = t___u32"

lemma lay_t_u32 [layouts]: "lay t_u32 = (4, 4)"
  by (simp add: t_u32_def layouts lay_eval)

lemma wf_t_u32 [wf_types]: "wf_type t_u32"
  by (simp add: t_u32_def wf_types)

definition struct_restart_block :: ctype where
  "struct_restart_block =
    CStruct False
     [Field ''arch_data'' (CInt 8),
      Field ''fn'' CPtr,
      Field [] (CUnion False [Field ''futex'' (CStruct False [Field ''uaddr'' CPtr, Field ''val''
        t_u32, Field ''flags'' t_u32, Field ''bitset'' t_u32, Field ''time'' t_ktime_t, Field
        ''uaddr2'' CPtr]), Field ''nanosleep'' (CStruct False [Field ''clockid'' t_clockid_t, Field
        ''type'' (c_enum enum_timespec_type), Field [] (CUnion False [Field ''rmtp'' CPtr, Field
        ''compat_rmtp'' CPtr]), Field ''expires'' t_ktime_t]), Field ''poll'' (CStruct False [Field
        ''ufds'' CPtr, Field ''nfds'' (CInt 4), Field ''has_timeout'' (CInt 4), Field ''end_time''
        struct_timespec64])])]"

lemma lay_struct_restart_block [layouts]: "lay struct_restart_block = (56, 8)"
  by (simp add: struct_restart_block_def layouts lay_eval)

lemma wf_struct_restart_block [wf_types]: "wf_type struct_restart_block"
  by (simp add: struct_restart_block_def wf_types)

definition struct_rseq_event :: ctype where
  "struct_rseq_event =
    CStruct False
     [Field [] (CUnion False [Field ''all'' t_u64, Field [] (CStruct False [Field [] (CUnion False
        [Field ''events'' t_u32, Field [] (CStruct False [Field ''sched_switch'' t_u8, Field
        ''ids_changed'' t_u8, Field ''user_irq'' t_u8])]), Field ''has_rseq'' t_u8, Field ''__pad''
        t_u8, Field [] (CUnion False [Field ''error'' t_u16, Field [] (CStruct False [Field
        ''fatal'' t_u8, Field ''slowpath'' t_u8])])])])]"

lemma lay_struct_rseq_event [layouts]: "lay struct_rseq_event = (8, 8)"
  by (simp add: struct_rseq_event_def layouts lay_eval)

lemma wf_struct_rseq_event [wf_types]: "wf_type struct_rseq_event"
  by (simp add: struct_rseq_event_def wf_types)

definition struct_rseq_ids :: ctype where
  "struct_rseq_ids =
    CStruct False
     [Field [] (CUnion False [Field ''cpu_cid'' t_u64, Field [] (CStruct False [Field ''cpu_id''
        t_u32, Field ''mm_cid'' t_u32])])]"

lemma lay_struct_rseq_ids [layouts]: "lay struct_rseq_ids = (8, 8)"
  by (simp add: struct_rseq_ids_def layouts lay_eval)

lemma wf_struct_rseq_ids [wf_types]: "wf_type struct_rseq_ids"
  by (simp add: struct_rseq_ids_def wf_types)

definition struct_rseq_data :: ctype where
  "struct_rseq_data =
    CStruct False
     [Field ''usrptr'' CPtr,
      Field ''len'' t_u32,
      Field ''sig'' t_u32,
      Field ''event'' struct_rseq_event,
      Field ''ids'' struct_rseq_ids]"

lemma lay_struct_rseq_data [layouts]: "lay struct_rseq_data = (32, 8)"
  by (simp add: struct_rseq_data_def layouts lay_eval)

lemma wf_struct_rseq_data [wf_types]: "wf_type struct_rseq_data"
  by (simp add: struct_rseq_data_def wf_types)

definition struct_timerqueue_node :: ctype where
  "struct_timerqueue_node =
    CStruct False
     [Field ''node'' struct_rb_node,
      Field ''expires'' t_ktime_t]"

lemma lay_struct_timerqueue_node [layouts]: "lay struct_timerqueue_node = (32, 8)"
  by (simp add: struct_timerqueue_node_def layouts lay_eval)

lemma wf_struct_timerqueue_node [wf_types]: "wf_type struct_timerqueue_node"
  by (simp add: struct_timerqueue_node_def wf_types)

definition struct_hrtimer :: ctype where
  "struct_hrtimer =
    CStruct False
     [Field ''node'' struct_timerqueue_node,
      Field ''_softexpires'' t_ktime_t,
      Field ''function'' CPtr,
      Field ''base'' CPtr,
      Field ''state'' t_u8,
      Field ''is_rel'' t_u8,
      Field ''is_soft'' t_u8,
      Field ''is_hard'' t_u8]"

lemma lay_struct_hrtimer [layouts]: "lay struct_hrtimer = (64, 8)"
  by (simp add: struct_hrtimer_def layouts lay_eval)

lemma wf_struct_hrtimer [wf_types]: "wf_type struct_hrtimer"
  by (simp add: struct_hrtimer_def wf_types)

definition t_dl_server_pick_f :: ctype where "t_dl_server_pick_f = CPtr"

lemma lay_t_dl_server_pick_f [layouts]: "lay t_dl_server_pick_f = (8, 8)"
  by (simp add: t_dl_server_pick_f_def layouts lay_eval)

lemma wf_t_dl_server_pick_f [wf_types]: "wf_type t_dl_server_pick_f"
  by (simp add: t_dl_server_pick_f_def wf_types)

definition struct_sched_dl_entity :: ctype where
  "struct_sched_dl_entity =
    CStruct False
     [Field ''rb_node'' struct_rb_node,
      Field ''dl_runtime'' t_u64,
      Field ''dl_deadline'' t_u64,
      Field ''dl_period'' t_u64,
      Field ''dl_bw'' t_u64,
      Field ''dl_density'' t_u64,
      Field ''runtime'' t_s64,
      Field ''deadline'' t_u64,
      Field ''flags'' (CInt 4),
      Bits ''dl_throttled'' 4 1,
      Bits ''dl_yielded'' 4 1,
      Bits ''dl_non_contending'' 4 1,
      Bits ''dl_overrun'' 4 1,
      Bits ''dl_server'' 4 1,
      Bits ''dl_server_active'' 4 1,
      Bits ''dl_defer'' 4 1,
      Bits ''dl_defer_armed'' 4 1,
      Bits ''dl_defer_running'' 4 1,
      Bits ''dl_defer_idle'' 4 1,
      Field ''dl_timer'' struct_hrtimer,
      Field ''inactive_timer'' struct_hrtimer,
      Field ''rq'' CPtr,
      Field ''server_pick_task'' t_dl_server_pick_f,
      Field ''pi_se'' CPtr]"

lemma lay_struct_sched_dl_entity [layouts]: "lay struct_sched_dl_entity = (240, 8)"
  by (simp add: struct_sched_dl_entity_def layouts lay_eval)

lemma wf_struct_sched_dl_entity [wf_types]: "wf_type struct_sched_dl_entity"
  by (simp add: struct_sched_dl_entity_def wf_types)

definition struct_load_weight :: ctype where
  "struct_load_weight =
    CStruct False
     [Field ''weight'' (CInt 8),
      Field ''inv_weight'' t_u32]"

lemma lay_struct_load_weight [layouts]: "lay struct_load_weight = (16, 8)"
  by (simp add: struct_load_weight_def layouts lay_eval)

lemma wf_struct_load_weight [wf_types]: "wf_type struct_load_weight"
  by (simp add: struct_load_weight_def wf_types)

definition struct_sched_avg :: ctype where
  "struct_sched_avg =
    CStruct False
     [Field ''last_update_time'' t_u64,
      Field ''load_sum'' t_u64,
      Field ''runnable_sum'' t_u64,
      Field ''util_sum'' t_u32,
      Field ''period_contrib'' t_u32,
      Field ''load_avg'' (CInt 8),
      Field ''runnable_avg'' (CInt 8),
      Field ''util_avg'' (CInt 8),
      Field ''util_est'' (CInt 4)]"

lemma lay_struct_sched_avg [layouts]: "lay struct_sched_avg = (64, 8)"
  by (simp add: struct_sched_avg_def layouts lay_eval)

lemma wf_struct_sched_avg [wf_types]: "wf_type struct_sched_avg"
  by (simp add: struct_sched_avg_def wf_types)

definition struct_sched_entity :: ctype where
  "struct_sched_entity =
    CStruct False
     [Field ''load'' struct_load_weight,
      Field ''run_node'' struct_rb_node,
      Field ''deadline'' t_u64,
      Field ''min_vruntime'' t_u64,
      Field ''min_slice'' t_u64,
      Field ''max_slice'' t_u64,
      Field ''group_node'' struct_list_head,
      Field ''on_rq'' (CInt 1),
      Field ''sched_delayed'' (CInt 1),
      Field ''rel_deadline'' (CInt 1),
      Field ''custom_slice'' (CInt 1),
      Field ''exec_start'' t_u64,
      Field ''sum_exec_runtime'' t_u64,
      Field ''prev_sum_exec_runtime'' t_u64,
      Field ''vruntime'' t_u64,
      Field ''vlag'' t_s64,
      Field ''vprot'' t_u64,
      Field ''slice'' t_u64,
      Field ''nr_migrations'' t_u64,
      Field ''depth'' (CInt 4),
      Field ''parent'' CPtr,
      Field ''cfs_rq'' CPtr,
      Field ''my_q'' CPtr,
      Field ''runnable_weight'' (CInt 8),
      Pad 8 64,
      Pad 8 64,
      Pad 8 64,
      Pad 8 64,
      Pad 8 64,
      Pad 8 64,
      Pad 8 64,
      Field ''avg'' struct_sched_avg]"

lemma lay_struct_sched_entity [layouts]: "lay struct_sched_entity = (320, 8)"
  by (simp add: struct_sched_entity_def layouts lay_eval)

lemma wf_struct_sched_entity [wf_types]: "wf_type struct_sched_entity"
  by (simp add: struct_sched_entity_def wf_types)

definition struct_scx_dsq_list_node :: ctype where
  "struct_scx_dsq_list_node =
    CStruct False
     [Field ''node'' struct_list_head,
      Field ''flags'' t_u32,
      Field ''priv'' t_u32]"

lemma lay_struct_scx_dsq_list_node [layouts]: "lay struct_scx_dsq_list_node = (24, 8)"
  by (simp add: struct_scx_dsq_list_node_def layouts lay_eval)

lemma wf_struct_scx_dsq_list_node [wf_types]: "wf_type struct_scx_dsq_list_node"
  by (simp add: struct_scx_dsq_list_node_def wf_types)

definition t___s32 :: ctype where "t___s32 = CInt 4"

lemma lay_t___s32 [layouts]: "lay t___s32 = (4, 4)"
  by (simp add: t___s32_def layouts lay_eval)

lemma wf_t___s32 [wf_types]: "wf_type t___s32"
  by (simp add: t___s32_def wf_types)

definition t_s32 :: ctype where "t_s32 = t___s32"

lemma lay_t_s32 [layouts]: "lay t_s32 = (4, 4)"
  by (simp add: t_s32_def layouts lay_eval)

lemma wf_t_s32 [wf_types]: "wf_type t_s32"
  by (simp add: t_s32_def wf_types)

definition struct_sched_ext_entity :: ctype where
  "struct_sched_ext_entity =
    CStruct False
     [Field ''dsq'' CPtr,
      Field ''dsq_list'' struct_scx_dsq_list_node,
      Field ''dsq_priq'' struct_rb_node,
      Field ''dsq_seq'' t_u32,
      Field ''dsq_flags'' t_u32,
      Field ''flags'' t_u32,
      Field ''weight'' t_u32,
      Field ''sticky_cpu'' t_s32,
      Field ''holding_cpu'' t_s32,
      Field ''selected_cpu'' t_s32,
      Field ''kf_mask'' t_u32,
      Field ''kf_tasks'' (CArr CPtr 2),
      Field ''ops_state'' t_atomic_long_t,
      Field ''runnable_node'' struct_list_head,
      Field ''runnable_at'' (CInt 8),
      Field ''core_sched_at'' t_u64,
      Field ''ddsp_dsq_id'' t_u64,
      Field ''ddsp_enq_flags'' t_u64,
      Field ''slice'' t_u64,
      Field ''dsq_vtime'' t_u64,
      Field ''disallow'' (CInt 1),
      Field ''cgrp_moving_from'' CPtr,
      Field ''tasks_node'' struct_list_head]"

lemma lay_struct_sched_ext_entity [layouts]: "lay struct_sched_ext_entity = (208, 8)"
  by (simp add: struct_sched_ext_entity_def layouts lay_eval)

lemma wf_struct_sched_ext_entity [wf_types]: "wf_type struct_sched_ext_entity"
  by (simp add: struct_sched_ext_entity_def wf_types)

definition struct_sched_info :: ctype where
  "struct_sched_info =
    CStruct False
     [Field ''pcount'' (CInt 8),
      Field ''run_delay'' (CInt 8),
      Field ''max_run_delay'' (CInt 8),
      Field ''min_run_delay'' (CInt 8),
      Field ''last_arrival'' (CInt 8),
      Field ''last_queued'' (CInt 8),
      Field ''max_run_delay_ts'' struct_timespec64]"

lemma lay_struct_sched_info [layouts]: "lay struct_sched_info = (64, 8)"
  by (simp add: struct_sched_info_def layouts lay_eval)

lemma wf_struct_sched_info [wf_types]: "wf_type struct_sched_info"
  by (simp add: struct_sched_info_def wf_types)

definition struct_sched_mm_cid :: ctype where
  "struct_sched_mm_cid =
    CStruct False
     [Field ''active'' (CInt 4),
      Field ''cid'' (CInt 4),
      Field ''node'' struct_hlist_node]"

lemma lay_struct_sched_mm_cid [layouts]: "lay struct_sched_mm_cid = (24, 8)"
  by (simp add: struct_sched_mm_cid_def layouts lay_eval)

lemma wf_struct_sched_mm_cid [wf_types]: "wf_type struct_sched_mm_cid"
  by (simp add: struct_sched_mm_cid_def wf_types)

definition struct_sched_rt_entity :: ctype where
  "struct_sched_rt_entity =
    CStruct False
     [Field ''run_list'' struct_list_head,
      Field ''timeout'' (CInt 8),
      Field ''watchdog_stamp'' (CInt 8),
      Field ''time_slice'' (CInt 4),
      Field ''on_rq'' (CInt 2),
      Field ''on_list'' (CInt 2),
      Field ''back'' CPtr]"

lemma lay_struct_sched_rt_entity [layouts]: "lay struct_sched_rt_entity = (48, 8)"
  by (simp add: struct_sched_rt_entity_def layouts lay_eval)

lemma wf_struct_sched_rt_entity [wf_types]: "wf_type struct_sched_rt_entity"
  by (simp add: struct_sched_rt_entity_def wf_types)

definition struct_sched_statistics :: ctype where
  "struct_sched_statistics =
    CStruct False
     [Field ''wait_start'' t_u64,
      Field ''wait_max'' t_u64,
      Field ''wait_count'' t_u64,
      Field ''wait_sum'' t_u64,
      Field ''iowait_count'' t_u64,
      Field ''iowait_sum'' t_u64,
      Field ''sleep_start'' t_u64,
      Field ''sleep_max'' t_u64,
      Field ''sum_sleep_runtime'' t_s64,
      Field ''block_start'' t_u64,
      Field ''block_max'' t_u64,
      Field ''sum_block_runtime'' t_s64,
      Field ''exec_max'' t_s64,
      Field ''slice_max'' t_u64,
      Field ''nr_migrations_cold'' t_u64,
      Field ''nr_failed_migrations_affine'' t_u64,
      Field ''nr_failed_migrations_running'' t_u64,
      Field ''nr_failed_migrations_hot'' t_u64,
      Field ''nr_forced_migrations'' t_u64,
      Field ''nr_wakeups'' t_u64,
      Field ''nr_wakeups_sync'' t_u64,
      Field ''nr_wakeups_migrate'' t_u64,
      Field ''nr_wakeups_local'' t_u64,
      Field ''nr_wakeups_remote'' t_u64,
      Field ''nr_wakeups_affine'' t_u64,
      Field ''nr_wakeups_affine_attempts'' t_u64,
      Field ''nr_wakeups_passive'' t_u64,
      Field ''nr_wakeups_idle'' t_u64,
      Field ''core_forceidle_sum'' t_u64,
      Pad 8 64,
      Pad 8 64,
      Pad 8 64]"

lemma lay_struct_sched_statistics [layouts]: "lay struct_sched_statistics = (256, 8)"
  by (simp add: struct_sched_statistics_def layouts lay_eval)

lemma wf_struct_sched_statistics [wf_types]: "wf_type struct_sched_statistics"
  by (simp add: struct_sched_statistics_def wf_types)

definition struct_seccomp :: ctype where
  "struct_seccomp =
    CStruct False
     [Field ''mode'' (CInt 4),
      Field ''filter_count'' t_atomic_t,
      Field ''filter'' CPtr]"

lemma lay_struct_seccomp [layouts]: "lay struct_seccomp = (16, 8)"
  by (simp add: struct_seccomp_def layouts lay_eval)

lemma wf_struct_seccomp [wf_types]: "wf_type struct_seccomp"
  by (simp add: struct_seccomp_def wf_types)

definition t_sigset_t :: ctype where "t_sigset_t = CStruct False [Field ''sig'' (CArr (CInt 8) 1)]"

lemma lay_t_sigset_t [layouts]: "lay t_sigset_t = (8, 8)"
  by (simp add: t_sigset_t_def layouts lay_eval)

lemma wf_t_sigset_t [wf_types]: "wf_type t_sigset_t"
  by (simp add: t_sigset_t_def wf_types)

definition struct_sigpending :: ctype where
  "struct_sigpending =
    CStruct False
     [Field ''list'' struct_list_head,
      Field ''signal'' t_sigset_t]"

lemma lay_struct_sigpending [layouts]: "lay struct_sigpending = (24, 8)"
  by (simp add: struct_sigpending_def layouts lay_eval)

lemma wf_struct_sigpending [wf_types]: "wf_type struct_sigpending"
  by (simp add: struct_sigpending_def wf_types)

definition struct_syscall_user_dispatch :: ctype where
  "struct_syscall_user_dispatch = CStruct False []"

lemma lay_struct_syscall_user_dispatch [layouts]: "lay struct_syscall_user_dispatch = (0, 1)"
  by (simp add: struct_syscall_user_dispatch_def layouts lay_eval)

lemma wf_struct_syscall_user_dispatch [wf_types]: "wf_type struct_syscall_user_dispatch"
  by (simp add: struct_syscall_user_dispatch_def wf_types)

definition struct_sysv_sem :: ctype where
  "struct_sysv_sem =
    CStruct False
     [Field ''undo_list'' CPtr]"

lemma lay_struct_sysv_sem [layouts]: "lay struct_sysv_sem = (8, 8)"
  by (simp add: struct_sysv_sem_def layouts lay_eval)

lemma wf_struct_sysv_sem [wf_types]: "wf_type struct_sysv_sem"
  by (simp add: struct_sysv_sem_def wf_types)

definition struct_sysv_shm :: ctype where
  "struct_sysv_shm =
    CStruct False
     [Field ''shm_clist'' struct_list_head]"

lemma lay_struct_sysv_shm [layouts]: "lay struct_sysv_shm = (16, 8)"
  by (simp add: struct_sysv_shm_def layouts lay_eval)

lemma wf_struct_sysv_shm [wf_types]: "wf_type struct_sysv_shm"
  by (simp add: struct_sysv_shm_def wf_types)

definition struct_task_io_accounting :: ctype where
  "struct_task_io_accounting =
    CStruct False
     [Field ''rchar'' t_u64,
      Field ''wchar'' t_u64,
      Field ''syscr'' t_u64,
      Field ''syscw'' t_u64,
      Field ''read_bytes'' t_u64,
      Field ''write_bytes'' t_u64,
      Field ''cancelled_write_bytes'' t_u64]"

lemma lay_struct_task_io_accounting [layouts]: "lay struct_task_io_accounting = (56, 8)"
  by (simp add: struct_task_io_accounting_def layouts lay_eval)

lemma wf_struct_task_io_accounting [wf_types]: "wf_type struct_task_io_accounting"
  by (simp add: struct_task_io_accounting_def wf_types)

definition struct_thread_info :: ctype where
  "struct_thread_info =
    CStruct False
     [Field ''flags'' (CInt 8),
      Field ''ttbr0'' t_u64,
      Field [] (CUnion False [Field ''preempt_count'' t_u64, Field ''preempt'' (CStruct False [Field
        ''count'' t_u32, Field ''need_resched'' t_u32])]),
      Field ''scs_base'' CPtr,
      Field ''scs_sp'' CPtr,
      Field ''cpu'' t_u32]"

lemma lay_struct_thread_info [layouts]: "lay struct_thread_info = (48, 8)"
  by (simp add: struct_thread_info_def layouts lay_eval)

lemma wf_struct_thread_info [wf_types]: "wf_type struct_thread_info"
  by (simp add: struct_thread_info_def wf_types)

definition enum_fp_type :: enumerators where
  "enum_fp_type =
    [(''FP_STATE_CURRENT'', 0), (''FP_STATE_FPSIMD'', 1), (''FP_STATE_SVE'', 2)]"

lemma lay_enum_fp_type [layouts]: "lay (c_enum enum_fp_type) = (4, 4)"
  by (simp add: c_enum_def enum_fp_type_def)

lemma wf_enum_fp_type [wf_types]: "wf_type (c_enum enum_fp_type)"
  by (simp add: c_enum_def)

definition struct_cpu_context :: ctype where
  "struct_cpu_context =
    CStruct False
     [Field ''x19'' (CInt 8),
      Field ''x20'' (CInt 8),
      Field ''x21'' (CInt 8),
      Field ''x22'' (CInt 8),
      Field ''x23'' (CInt 8),
      Field ''x24'' (CInt 8),
      Field ''x25'' (CInt 8),
      Field ''x26'' (CInt 8),
      Field ''x27'' (CInt 8),
      Field ''x28'' (CInt 8),
      Field ''fp'' (CInt 8),
      Field ''sp'' (CInt 8),
      Field ''pc'' (CInt 8)]"

lemma lay_struct_cpu_context [layouts]: "lay struct_cpu_context = (104, 8)"
  by (simp add: struct_cpu_context_def layouts lay_eval)

lemma wf_struct_cpu_context [wf_types]: "wf_type struct_cpu_context"
  by (simp add: struct_cpu_context_def wf_types)

definition struct_debug_info :: ctype where
  "struct_debug_info =
    CStruct False
     [Field ''suspended_step'' (CInt 4),
      Field ''bps_disabled'' (CInt 4),
      Field ''wps_disabled'' (CInt 4),
      Field ''hbp_break'' (CArr CPtr 16),
      Field ''hbp_watch'' (CArr CPtr 16)]"

lemma lay_struct_debug_info [layouts]: "lay struct_debug_info = (272, 8)"
  by (simp add: struct_debug_info_def layouts lay_eval)

lemma wf_struct_debug_info [wf_types]: "wf_type struct_debug_info"
  by (simp add: struct_debug_info_def wf_types)

definition struct_ptrauth_key :: ctype where
  "struct_ptrauth_key =
    CStruct False
     [Field ''lo'' (CInt 8),
      Field ''hi'' (CInt 8)]"

lemma lay_struct_ptrauth_key [layouts]: "lay struct_ptrauth_key = (16, 8)"
  by (simp add: struct_ptrauth_key_def layouts lay_eval)

lemma wf_struct_ptrauth_key [wf_types]: "wf_type struct_ptrauth_key"
  by (simp add: struct_ptrauth_key_def wf_types)

definition struct_ptrauth_keys_kernel :: ctype where
  "struct_ptrauth_keys_kernel =
    CStruct False
     [Field ''apia'' struct_ptrauth_key]"

lemma lay_struct_ptrauth_keys_kernel [layouts]: "lay struct_ptrauth_keys_kernel = (16, 8)"
  by (simp add: struct_ptrauth_keys_kernel_def layouts lay_eval)

lemma wf_struct_ptrauth_keys_kernel [wf_types]: "wf_type struct_ptrauth_keys_kernel"
  by (simp add: struct_ptrauth_keys_kernel_def wf_types)

definition struct_ptrauth_keys_user :: ctype where
  "struct_ptrauth_keys_user =
    CStruct False
     [Field ''apia'' struct_ptrauth_key,
      Field ''apib'' struct_ptrauth_key,
      Field ''apda'' struct_ptrauth_key,
      Field ''apdb'' struct_ptrauth_key,
      Field ''apga'' struct_ptrauth_key]"

lemma lay_struct_ptrauth_keys_user [layouts]: "lay struct_ptrauth_keys_user = (80, 8)"
  by (simp add: struct_ptrauth_keys_user_def layouts lay_eval)

lemma wf_struct_ptrauth_keys_user [wf_types]: "wf_type struct_ptrauth_keys_user"
  by (simp add: struct_ptrauth_keys_user_def wf_types)

definition struct_user_fpsimd_state :: ctype where
  "struct_user_fpsimd_state =
    CStruct False
     [Field ''vregs'' (CArr (CInt 16) 32),
      Field ''fpsr'' t___u32,
      Field ''fpcr'' t___u32,
      Field ''__reserved'' (CArr t___u32 2)]"

lemma lay_struct_user_fpsimd_state [layouts]: "lay struct_user_fpsimd_state = (528, 16)"
  by (simp add: struct_user_fpsimd_state_def layouts lay_eval)

lemma wf_struct_user_fpsimd_state [wf_types]: "wf_type struct_user_fpsimd_state"
  by (simp add: struct_user_fpsimd_state_def wf_types)

definition struct_thread_struct :: ctype where
  "struct_thread_struct =
    CStruct False
     [Field ''cpu_context'' struct_cpu_context,
      Pad 8 64,
      Field ''uw'' (CStruct False [Field ''tp_value'' (CInt 8), Field ''tp2_value'' (CInt 8), Field
        ''fpmr'' t_u64, Field ''pad'' (CInt 8), Field ''fpsimd_state'' struct_user_fpsimd_state]),
      Field ''fp_type'' (c_enum enum_fp_type),
      Field ''fpsimd_cpu'' (CInt 4),
      Field ''sve_state'' CPtr,
      Field ''sme_state'' CPtr,
      Field ''vl'' (CArr (CInt 4) 2),
      Field ''vl_onexec'' (CArr (CInt 4) 2),
      Field ''fault_address'' (CInt 8),
      Field ''fault_code'' (CInt 8),
      Field ''debug'' struct_debug_info,
      Field ''kernel_fpsimd_state'' CPtr,
      Field ''kernel_fpsimd_cpu'' (CInt 4),
      Field ''keys_user'' struct_ptrauth_keys_user,
      Field ''keys_kernel'' struct_ptrauth_keys_kernel,
      Field ''mte_ctrl'' t_u64,
      Field ''sctlr_user'' t_u64,
      Field ''svcr'' t_u64,
      Field ''tpidr2_el0'' t_u64,
      Field ''por_el0'' t_u64,
      Field ''gcs_el0_mode'' (CInt 4),
      Field ''gcs_el0_locked'' (CInt 4),
      Field ''gcspr_el0'' t_u64,
      Field ''gcs_base'' t_u64,
      Field ''gcs_size'' t_u64]"

lemma lay_struct_thread_struct [layouts]: "lay struct_thread_struct = (1184, 16)"
  by (simp add: struct_thread_struct_def layouts lay_eval)

lemma wf_struct_thread_struct [wf_types]: "wf_type struct_thread_struct"
  by (simp add: struct_thread_struct_def wf_types)

definition struct_timer_list :: ctype where
  "struct_timer_list =
    CStruct False
     [Field ''entry'' struct_hlist_node,
      Field ''expires'' (CInt 8),
      Field ''function'' CPtr,
      Field ''flags'' t_u32]"

lemma lay_struct_timer_list [layouts]: "lay struct_timer_list = (40, 8)"
  by (simp add: struct_timer_list_def layouts lay_eval)

lemma wf_struct_timer_list [wf_types]: "wf_type struct_timer_list"
  by (simp add: struct_timer_list_def wf_types)

definition struct_arch_tlbflush_unmap_batch :: ctype where
  "struct_arch_tlbflush_unmap_batch = CStruct False []"

lemma lay_struct_arch_tlbflush_unmap_batch [layouts]: "lay struct_arch_tlbflush_unmap_batch = (0, 1)"
  by (simp add: struct_arch_tlbflush_unmap_batch_def layouts lay_eval)

lemma wf_struct_arch_tlbflush_unmap_batch [wf_types]: "wf_type struct_arch_tlbflush_unmap_batch"
  by (simp add: struct_arch_tlbflush_unmap_batch_def wf_types)

definition struct_tlbflush_unmap_batch :: ctype where
  "struct_tlbflush_unmap_batch =
    CStruct False
     [Field ''arch'' struct_arch_tlbflush_unmap_batch,
      Field ''flush_required'' (CInt 1),
      Field ''writable'' (CInt 1)]"

lemma lay_struct_tlbflush_unmap_batch [layouts]: "lay struct_tlbflush_unmap_batch = (2, 1)"
  by (simp add: struct_tlbflush_unmap_batch_def layouts lay_eval)

lemma wf_struct_tlbflush_unmap_batch [wf_types]: "wf_type struct_tlbflush_unmap_batch"
  by (simp add: struct_tlbflush_unmap_batch_def wf_types)

definition struct_uclamp_se :: ctype where
  "struct_uclamp_se =
    CStruct False
     [Bits ''value'' 4 11,
      Bits ''bucket_id'' 4 3,
      Bits ''active'' 4 1,
      Bits ''user_defined'' 4 1]"

lemma lay_struct_uclamp_se [layouts]: "lay struct_uclamp_se = (4, 4)"
  by (simp add: struct_uclamp_se_def layouts lay_eval)

lemma wf_struct_uclamp_se [wf_types]: "wf_type struct_uclamp_se"
  by (simp add: struct_uclamp_se_def wf_types)

definition enum_vtime_state :: enumerators where
  "enum_vtime_state =
    [(''VTIME_INACTIVE'', 0), (''VTIME_IDLE'', 1), (''VTIME_SYS'', 2), (''VTIME_USER'', 3),
      (''VTIME_GUEST'', 4)]"

lemma lay_enum_vtime_state [layouts]: "lay (c_enum enum_vtime_state) = (4, 4)"
  by (simp add: c_enum_def enum_vtime_state_def)

lemma wf_enum_vtime_state [wf_types]: "wf_type (c_enum enum_vtime_state)"
  by (simp add: c_enum_def)

definition struct_seqcount :: ctype where
  "struct_seqcount =
    CStruct False
     [Field ''sequence'' (CInt 4)]"

lemma lay_struct_seqcount [layouts]: "lay struct_seqcount = (4, 4)"
  by (simp add: struct_seqcount_def layouts lay_eval)

lemma wf_struct_seqcount [wf_types]: "wf_type struct_seqcount"
  by (simp add: struct_seqcount_def wf_types)

definition t_seqcount_t :: ctype where "t_seqcount_t = struct_seqcount"

lemma lay_t_seqcount_t [layouts]: "lay t_seqcount_t = (4, 4)"
  by (simp add: t_seqcount_t_def layouts lay_eval)

lemma wf_t_seqcount_t [wf_types]: "wf_type t_seqcount_t"
  by (simp add: t_seqcount_t_def wf_types)

definition struct_vtime :: ctype where
  "struct_vtime =
    CStruct False
     [Field ''seqcount'' t_seqcount_t,
      Field ''starttime'' (CInt 8),
      Field ''state'' (c_enum enum_vtime_state),
      Field ''cpu'' (CInt 4),
      Field ''utime'' t_u64,
      Field ''stime'' t_u64,
      Field ''gtime'' t_u64]"

lemma lay_struct_vtime [layouts]: "lay struct_vtime = (48, 8)"
  by (simp add: struct_vtime_def layouts lay_eval)

lemma wf_struct_vtime [wf_types]: "wf_type struct_vtime"
  by (simp add: struct_vtime_def wf_types)

definition struct_wake_q_node :: ctype where
  "struct_wake_q_node =
    CStruct False
     [Field ''next'' CPtr]"

lemma lay_struct_wake_q_node [layouts]: "lay struct_wake_q_node = (8, 8)"
  by (simp add: struct_wake_q_node_def layouts lay_eval)

lemma wf_struct_wake_q_node [wf_types]: "wf_type struct_wake_q_node"
  by (simp add: struct_wake_q_node_def wf_types)

definition struct_cpumask :: ctype where
  "struct_cpumask =
    CStruct False
     [Field ''bits'' (CArr (CInt 8) 8)]"

lemma lay_struct_cpumask [layouts]: "lay struct_cpumask = (64, 8)"
  by (simp add: struct_cpumask_def layouts lay_eval)

lemma wf_struct_cpumask [wf_types]: "wf_type struct_cpumask"
  by (simp add: struct_cpumask_def wf_types)

definition t_cpumask_t :: ctype where "t_cpumask_t = struct_cpumask"

lemma lay_t_cpumask_t [layouts]: "lay t_cpumask_t = (64, 8)"
  by (simp add: t_cpumask_t_def layouts lay_eval)

lemma wf_t_cpumask_t [wf_types]: "wf_type t_cpumask_t"
  by (simp add: t_cpumask_t_def wf_types)

definition t___kernel_uid32_t :: ctype where "t___kernel_uid32_t = CInt 4"

lemma lay_t___kernel_uid32_t [layouts]: "lay t___kernel_uid32_t = (4, 4)"
  by (simp add: t___kernel_uid32_t_def layouts lay_eval)

lemma wf_t___kernel_uid32_t [wf_types]: "wf_type t___kernel_uid32_t"
  by (simp add: t___kernel_uid32_t_def wf_types)

definition t_uid_t :: ctype where "t_uid_t = t___kernel_uid32_t"

lemma lay_t_uid_t [layouts]: "lay t_uid_t = (4, 4)"
  by (simp add: t_uid_t_def layouts lay_eval)

lemma wf_t_uid_t [wf_types]: "wf_type t_uid_t"
  by (simp add: t_uid_t_def wf_types)

definition t_kuid_t :: ctype where "t_kuid_t = CStruct False [Field ''val'' t_uid_t]"

lemma lay_t_kuid_t [layouts]: "lay t_kuid_t = (4, 4)"
  by (simp add: t_kuid_t_def layouts lay_eval)

lemma wf_t_kuid_t [wf_types]: "wf_type t_kuid_t"
  by (simp add: t_kuid_t_def wf_types)

definition t_nodemask_t :: ctype where "t_nodemask_t = CStruct False [Field ''bits'' (CArr (CInt 8) 1)]"

lemma lay_t_nodemask_t [layouts]: "lay t_nodemask_t = (8, 8)"
  by (simp add: t_nodemask_t_def layouts lay_eval)

lemma wf_t_nodemask_t [wf_types]: "wf_type t_nodemask_t"
  by (simp add: t_nodemask_t_def wf_types)

definition t___kernel_pid_t :: ctype where "t___kernel_pid_t = CInt 4"

lemma lay_t___kernel_pid_t [layouts]: "lay t___kernel_pid_t = (4, 4)"
  by (simp add: t___kernel_pid_t_def layouts lay_eval)

lemma wf_t___kernel_pid_t [wf_types]: "wf_type t___kernel_pid_t"
  by (simp add: t___kernel_pid_t_def wf_types)

definition t_pid_t :: ctype where "t_pid_t = t___kernel_pid_t"

lemma lay_t_pid_t [layouts]: "lay t_pid_t = (4, 4)"
  by (simp add: t_pid_t_def layouts lay_eval)

lemma wf_t_pid_t [wf_types]: "wf_type t_pid_t"
  by (simp add: t_pid_t_def wf_types)

definition struct_refcount_struct :: ctype where
  "struct_refcount_struct =
    CStruct False
     [Field ''refs'' t_atomic_t]"

lemma lay_struct_refcount_struct [layouts]: "lay struct_refcount_struct = (4, 4)"
  by (simp add: struct_refcount_struct_def layouts lay_eval)

lemma wf_struct_refcount_struct [wf_types]: "wf_type struct_refcount_struct"
  by (simp add: struct_refcount_struct_def wf_types)

definition t_refcount_t :: ctype where "t_refcount_t = struct_refcount_struct"

lemma lay_t_refcount_t [layouts]: "lay t_refcount_t = (4, 4)"
  by (simp add: t_refcount_t_def layouts lay_eval)

lemma wf_t_refcount_t [wf_types]: "wf_type t_refcount_t"
  by (simp add: t_refcount_t_def wf_types)

definition struct_seqcount_spinlock :: ctype where
  "struct_seqcount_spinlock =
    CStruct False
     [Field ''seqcount'' t_seqcount_t]"

lemma lay_struct_seqcount_spinlock [layouts]: "lay struct_seqcount_spinlock = (4, 4)"
  by (simp add: struct_seqcount_spinlock_def layouts lay_eval)

lemma wf_struct_seqcount_spinlock [wf_types]: "wf_type struct_seqcount_spinlock"
  by (simp add: struct_seqcount_spinlock_def wf_types)

definition t_seqcount_spinlock_t :: ctype where "t_seqcount_spinlock_t = struct_seqcount_spinlock"

lemma lay_t_seqcount_spinlock_t [layouts]: "lay t_seqcount_spinlock_t = (4, 4)"
  by (simp add: t_seqcount_spinlock_t_def layouts lay_eval)

lemma wf_t_seqcount_spinlock_t [wf_types]: "wf_type t_seqcount_spinlock_t"
  by (simp add: t_seqcount_spinlock_t_def wf_types)

definition t___kernel_ulong_t :: ctype where "t___kernel_ulong_t = CInt 8"

lemma lay_t___kernel_ulong_t [layouts]: "lay t___kernel_ulong_t = (8, 8)"
  by (simp add: t___kernel_ulong_t_def layouts lay_eval)

lemma wf_t___kernel_ulong_t [wf_types]: "wf_type t___kernel_ulong_t"
  by (simp add: t___kernel_ulong_t_def wf_types)

definition t___kernel_size_t :: ctype where "t___kernel_size_t = t___kernel_ulong_t"

lemma lay_t___kernel_size_t [layouts]: "lay t___kernel_size_t = (8, 8)"
  by (simp add: t___kernel_size_t_def layouts lay_eval)

lemma wf_t___kernel_size_t [wf_types]: "wf_type t___kernel_size_t"
  by (simp add: t___kernel_size_t_def wf_types)

definition t_size_t :: ctype where "t_size_t = t___kernel_size_t"

lemma lay_t_size_t [layouts]: "lay t_size_t = (8, 8)"
  by (simp add: t_size_t_def layouts lay_eval)

lemma wf_t_size_t [wf_types]: "wf_type t_size_t"
  by (simp add: t_size_t_def wf_types)

definition struct_spinlock :: ctype where
  "struct_spinlock =
    CStruct False
     [Field [] (CUnion False [Field ''rlock'' struct_raw_spinlock])]"

lemma lay_struct_spinlock [layouts]: "lay struct_spinlock = (4, 4)"
  by (simp add: struct_spinlock_def layouts lay_eval)

lemma wf_struct_spinlock [wf_types]: "wf_type struct_spinlock"
  by (simp add: struct_spinlock_def wf_types)

definition t_spinlock_t :: ctype where "t_spinlock_t = struct_spinlock"

lemma lay_t_spinlock_t [layouts]: "lay t_spinlock_t = (4, 4)"
  by (simp add: t_spinlock_t_def layouts lay_eval)

lemma wf_t_spinlock_t [wf_types]: "wf_type t_spinlock_t"
  by (simp add: t_spinlock_t_def wf_types)

definition struct_task_struct :: ctype where
  "struct_task_struct =
    CStruct False
     [Field ''thread_info'' struct_thread_info,
      Field ''__state'' (CInt 4),
      Field ''saved_state'' (CInt 4),
      Field ''stack'' CPtr,
      Field ''usage'' t_refcount_t,
      Field ''flags'' (CInt 4),
      Field ''ptrace'' (CInt 4),
      Field ''on_cpu'' (CInt 4),
      Field ''wake_entry'' struct___call_single_node,
      Field ''wakee_flips'' (CInt 4),
      Field ''wakee_flip_decay_ts'' (CInt 8),
      Field ''last_wakee'' CPtr,
      Field ''recent_used_cpu'' (CInt 4),
      Field ''wake_cpu'' (CInt 4),
      Field ''on_rq'' (CInt 4),
      Field ''prio'' (CInt 4),
      Field ''static_prio'' (CInt 4),
      Field ''normal_prio'' (CInt 4),
      Field ''rt_priority'' (CInt 4),
      Pad 8 64,
      Pad 8 64,
      Pad 8 64,
      Pad 8 64,
      Pad 8 64,
      Field ''se'' struct_sched_entity,
      Field ''rt'' struct_sched_rt_entity,
      Field ''dl'' struct_sched_dl_entity,
      Field ''dl_server'' CPtr,
      Field ''scx'' struct_sched_ext_entity,
      Field ''sched_class'' CPtr,
      Field ''core_node'' struct_rb_node,
      Field ''core_cookie'' (CInt 8),
      Field ''core_occupation'' (CInt 4),
      Field ''sched_task_group'' CPtr,
      Field ''sched_throttle_work'' struct_callback_head,
      Field ''throttle_node'' struct_list_head,
      Field ''throttled'' (CInt 1),
      Field ''uclamp_req'' (CArr struct_uclamp_se 2),
      Field ''uclamp'' (CArr struct_uclamp_se 2),
      Pad 8 64,
      Pad 8 64,
      Pad 8 64,
      Field ''stats'' struct_sched_statistics,
      Field ''preempt_notifiers'' struct_hlist_head,
      Field ''btrace_seq'' (CInt 4),
      Field ''policy'' (CInt 4),
      Field ''max_allowed_capacity'' (CInt 8),
      Field ''nr_cpus_allowed'' (CInt 4),
      Field ''cpus_ptr'' CPtr,
      Field ''user_cpus_ptr'' CPtr,
      Field ''cpus_mask'' t_cpumask_t,
      Field ''migration_pending'' CPtr,
      Field ''migration_disabled'' (CInt 2),
      Field ''migration_flags'' (CInt 2),
      Field ''rcu_tasks_nvcsw'' (CInt 8),
      Field ''rcu_tasks_holdout'' t_u8,
      Field ''rcu_tasks_idx'' t_u8,
      Field ''rcu_tasks_idle_cpu'' (CInt 4),
      Field ''rcu_tasks_holdout_list'' struct_list_head,
      Field ''rcu_tasks_exit_cpu'' (CInt 4),
      Field ''rcu_tasks_exit_list'' struct_list_head,
      Field ''trc_reader_nesting'' (CInt 4),
      Field ''trc_reader_scp'' CPtr,
      Field ''sched_info'' struct_sched_info,
      Field ''tasks'' struct_list_head,
      Field ''pushable_tasks'' struct_plist_node,
      Field ''pushable_dl_tasks'' struct_rb_node,
      Field ''mm'' CPtr,
      Field ''active_mm'' CPtr,
      Field ''exit_state'' (CInt 4),
      Field ''exit_code'' (CInt 4),
      Field ''exit_signal'' (CInt 4),
      Field ''pdeath_signal'' (CInt 4),
      Field ''jobctl'' (CInt 8),
      Field ''personality'' (CInt 4),
      Bits ''sched_reset_on_fork'' 4 1,
      Bits ''sched_contributes_to_load'' 4 1,
      Bits ''sched_migrated'' 4 1,
      Bits ''sched_task_hot'' 4 1,
      Pad 8 28,
      Bits ''sched_remote_wakeup'' 4 1,
      Bits ''sched_rt_mutex'' 4 1,
      Bits ''user_dumpable'' 4 1,
      Bits ''in_execve'' 4 1,
      Bits ''in_iowait'' 4 1,
      Bits ''in_lru_fault'' 4 1,
      Bits ''no_cgroup_migration'' 4 1,
      Bits ''frozen'' 4 1,
      Bits ''use_memdelay'' 4 1,
      Bits ''in_memstall'' 4 1,
      Bits ''in_eventfd'' 4 1,
      Bits ''in_thrashing'' 4 1,
      Bits ''in_nf_duplicate'' 4 1,
      Field ''atomic_flags'' (CInt 8),
      Field ''restart_block'' struct_restart_block,
      Field ''pid'' t_pid_t,
      Field ''tgid'' t_pid_t,
      Field ''stack_canary'' (CInt 8),
      Field ''real_parent'' CPtr,
      Field ''parent'' CPtr,
      Field ''children'' struct_list_head,
      Field ''sibling'' struct_list_head,
      Field ''group_leader'' CPtr,
      Field ''ptraced'' struct_list_head,
      Field ''ptrace_entry'' struct_list_head,
      Field ''thread_pid'' CPtr,
      Field ''pid_links'' (CArr struct_hlist_node 4),
      Field ''thread_node'' struct_list_head,
      Field ''vfork_done'' CPtr,
      Field ''set_child_tid'' CPtr,
      Field ''clear_child_tid'' CPtr,
      Field ''worker_private'' CPtr,
      Field ''utime'' t_u64,
      Field ''stime'' t_u64,
      Field ''gtime'' t_u64,
      Field ''prev_cputime'' struct_prev_cputime,
      Field ''vtime'' struct_vtime,
      Field ''tick_dep_mask'' t_atomic_t,
      Field ''nvcsw'' (CInt 8),
      Field ''nivcsw'' (CInt 8),
      Field ''start_time'' t_u64,
      Field ''start_boottime'' t_u64,
      Field ''min_flt'' (CInt 8),
      Field ''maj_flt'' (CInt 8),
      Field ''posix_cputimers'' struct_posix_cputimers,
      Field ''posix_cputimers_work'' struct_posix_cputimers_work,
      Field ''ptracer_cred'' CPtr,
      Field ''real_cred'' CPtr,
      Field ''cred'' CPtr,
      Field ''cached_requested_key'' CPtr,
      Field ''comm'' (CArr (CInt 1) 16),
      Field ''nameidata'' CPtr,
      Field ''sysvsem'' struct_sysv_sem,
      Field ''sysvshm'' struct_sysv_shm,
      Field ''last_switch_count'' (CInt 8),
      Field ''last_switch_time'' (CInt 8),
      Field ''fs'' CPtr,
      Field ''files'' CPtr,
      Field ''io_uring'' CPtr,
      Field ''io_uring_restrict'' CPtr,
      Field ''nsproxy'' CPtr,
      Field ''signal'' CPtr,
      Field ''sighand'' CPtr,
      Field ''blocked'' t_sigset_t,
      Field ''real_blocked'' t_sigset_t,
      Field ''saved_sigmask'' t_sigset_t,
      Field ''pending'' struct_sigpending,
      Field ''sas_ss_sp'' (CInt 8),
      Field ''sas_ss_size'' t_size_t,
      Field ''sas_ss_flags'' (CInt 4),
      Field ''task_works'' CPtr,
      Field ''audit_context'' CPtr,
      Field ''loginuid'' t_kuid_t,
      Field ''sessionid'' (CInt 4),
      Field ''seccomp'' struct_seccomp,
      Field ''syscall_dispatch'' struct_syscall_user_dispatch,
      Field ''parent_exec_id'' t_u64,
      Field ''self_exec_id'' t_u64,
      Field ''alloc_lock'' t_spinlock_t,
      Field ''pi_lock'' t_raw_spinlock_t,
      Field ''wake_q'' struct_wake_q_node,
      Field ''pi_waiters'' struct_rb_root_cached,
      Field ''pi_top_task'' CPtr,
      Field ''pi_blocked_on'' CPtr,
      Field ''blocked_on'' CPtr,
      Field ''blocker'' (CInt 8),
      Field ''in_ubsan'' (CInt 4),
      Field ''journal_info'' CPtr,
      Field ''bio_list'' CPtr,
      Field ''plug'' CPtr,
      Field ''reclaim_state'' CPtr,
      Field ''io_context'' CPtr,
      Field ''capture_control'' CPtr,
      Field ''ptrace_message'' (CInt 8),
      Field ''last_siginfo'' CPtr,
      Field ''ioac'' struct_task_io_accounting,
      Field ''psi_flags'' (CInt 4),
      Field ''acct_rss_mem1'' t_u64,
      Field ''acct_vm_mem1'' t_u64,
      Field ''acct_timexpd'' t_u64,
      Field ''mems_allowed'' t_nodemask_t,
      Field ''mems_allowed_seq'' t_seqcount_spinlock_t,
      Field ''cpuset_mem_spread_rotor'' (CInt 4),
      Field ''cgroups'' CPtr,
      Field ''cg_list'' struct_list_head,
      Field ''robust_list'' CPtr,
      Field ''compat_robust_list'' CPtr,
      Field ''pi_state_list'' struct_list_head,
      Field ''pi_state_cache'' CPtr,
      Field ''futex_exit_mutex'' struct_mutex,
      Field ''futex_state'' (CInt 4),
      Field ''perf_recursion'' (CArr t_u8 4),
      Field ''perf_event_ctxp'' CPtr,
      Field ''perf_event_mutex'' struct_mutex,
      Field ''perf_event_list'' struct_list_head,
      Field ''perf_ctx_data'' CPtr,
      Field ''mempolicy'' CPtr,
      Field ''il_prev'' (CInt 2),
      Field ''il_weight'' t_u8,
      Field ''pref_node_fork'' (CInt 2),
      Field ''numa_scan_seq'' (CInt 4),
      Field ''numa_scan_period'' (CInt 4),
      Field ''numa_scan_period_max'' (CInt 4),
      Field ''numa_preferred_nid'' (CInt 4),
      Field ''numa_migrate_retry'' (CInt 8),
      Field ''node_stamp'' t_u64,
      Field ''last_task_numa_placement'' t_u64,
      Field ''last_sum_exec_runtime'' t_u64,
      Field ''numa_work'' struct_callback_head,
      Field ''numa_group'' CPtr,
      Field ''numa_faults'' CPtr,
      Field ''total_numa_faults'' (CInt 8),
      Field ''numa_faults_locality'' (CArr (CInt 8) 3),
      Field ''numa_pages_migrated'' (CInt 8),
      Field ''rseq'' struct_rseq_data,
      Field ''mm_cid'' struct_sched_mm_cid,
      Field ''tlb_ubc'' struct_tlbflush_unmap_batch,
      Field ''splice_pipe'' CPtr,
      Field ''task_frag'' struct_page_frag,
      Field ''lazy_mmu_state'' struct_lazy_mmu_state,
      Field ''delays'' CPtr,
      Field ''nr_dirtied'' (CInt 4),
      Field ''nr_dirtied_pause'' (CInt 4),
      Field ''dirty_paused_when'' (CInt 8),
      Field ''latency_record_count'' (CInt 4),
      Field ''latency_record'' (CArr struct_latency_record 32),
      Field ''timer_slack_ns'' t_u64,
      Field ''default_timer_slack_ns'' t_u64,
      Field ''curr_ret_stack'' (CInt 4),
      Field ''curr_ret_depth'' (CInt 4),
      Field ''ret_stack'' CPtr,
      Field ''ftrace_timestamp'' (CInt 8),
      Field ''ftrace_sleeptime'' (CInt 8),
      Field ''trace_overrun'' t_atomic_t,
      Field ''tracing_graph_pause'' t_atomic_t,
      Field ''trace_recursion'' (CInt 8),
      Field ''memcg_nr_pages_over_high'' (CInt 4),
      Field ''active_memcg'' CPtr,
      Field ''objcg'' CPtr,
      Field ''throttle_disk'' CPtr,
      Field ''utask'' CPtr,
      Field ''sequential_io'' (CInt 4),
      Field ''sequential_io_avg'' (CInt 4),
      Field ''kmap_ctrl'' struct_kmap_ctrl,
      Field ''rcu'' struct_callback_head,
      Field ''rcu_users'' t_refcount_t,
      Field ''pagefault_disabled'' (CInt 4),
      Field ''oom_reaper_list'' CPtr,
      Field ''oom_reaper_timer'' struct_timer_list,
      Field ''stack_vm_area'' CPtr,
      Field ''stack_refcount'' t_refcount_t,
      Field ''patch_state'' (CInt 4),
      Field ''security'' CPtr,
      Field ''bpf_storage'' CPtr,
      Field ''bpf_ctx'' CPtr,
      Field ''bpf_net_context'' CPtr,
      Field ''kretprobe_instances'' struct_llist_head,
      Field ''user_event_mm'' CPtr,
      Field ''thread'' struct_thread_struct,
      Pad 8 64,
      Pad 8 64,
      Pad 8 64,
      Pad 8 64]"

lemma lay_struct_task_struct [layouts]: "lay struct_task_struct = (8640, 16)"
  by (simp add: struct_task_struct_def layouts lay_eval)

lemma wf_struct_task_struct [wf_types]: "wf_type struct_task_struct"
  by (simp add: struct_task_struct_def wf_types)

definition struct_cpu_itimer :: ctype where
  "struct_cpu_itimer =
    CStruct False
     [Field ''expires'' t_u64,
      Field ''incr'' t_u64]"

lemma lay_struct_cpu_itimer [layouts]: "lay struct_cpu_itimer = (16, 8)"
  by (simp add: struct_cpu_itimer_def layouts lay_eval)

lemma wf_struct_cpu_itimer [wf_types]: "wf_type struct_cpu_itimer"
  by (simp add: struct_cpu_itimer_def wf_types)

definition struct_pacct_struct :: ctype where
  "struct_pacct_struct =
    CStruct False
     [Field ''ac_flag'' (CInt 4),
      Field ''ac_exitcode'' (CInt 8),
      Field ''ac_mem'' (CInt 8),
      Field ''ac_utime'' t_u64,
      Field ''ac_stime'' t_u64,
      Field ''ac_minflt'' (CInt 8),
      Field ''ac_majflt'' (CInt 8)]"

lemma lay_struct_pacct_struct [layouts]: "lay struct_pacct_struct = (56, 8)"
  by (simp add: struct_pacct_struct_def layouts lay_eval)

lemma wf_struct_pacct_struct [wf_types]: "wf_type struct_pacct_struct"
  by (simp add: struct_pacct_struct_def wf_types)

definition struct_rlimit :: ctype where
  "struct_rlimit =
    CStruct False
     [Field ''rlim_cur'' t___kernel_ulong_t,
      Field ''rlim_max'' t___kernel_ulong_t]"

lemma lay_struct_rlimit [layouts]: "lay struct_rlimit = (16, 8)"
  by (simp add: struct_rlimit_def layouts lay_eval)

lemma wf_struct_rlimit [wf_types]: "wf_type struct_rlimit"
  by (simp add: struct_rlimit_def wf_types)

definition struct_rw_semaphore :: ctype where
  "struct_rw_semaphore =
    CStruct False
     [Field ''count'' t_atomic_long_t,
      Field ''owner'' t_atomic_long_t,
      Field ''osq'' struct_optimistic_spin_queue,
      Field ''wait_lock'' t_raw_spinlock_t,
      Field ''wait_list'' struct_list_head]"

lemma lay_struct_rw_semaphore [layouts]: "lay struct_rw_semaphore = (40, 8)"
  by (simp add: struct_rw_semaphore_def layouts lay_eval)

lemma wf_struct_rw_semaphore [wf_types]: "wf_type struct_rw_semaphore"
  by (simp add: struct_rw_semaphore_def wf_types)

definition struct_task_cputime_atomic :: ctype where
  "struct_task_cputime_atomic =
    CStruct False
     [Field ''utime'' t_atomic64_t,
      Field ''stime'' t_atomic64_t,
      Field ''sum_exec_runtime'' t_atomic64_t]"

lemma lay_struct_task_cputime_atomic [layouts]: "lay struct_task_cputime_atomic = (24, 8)"
  by (simp add: struct_task_cputime_atomic_def layouts lay_eval)

lemma wf_struct_task_cputime_atomic [wf_types]: "wf_type struct_task_cputime_atomic"
  by (simp add: struct_task_cputime_atomic_def wf_types)

definition struct_thread_group_cputimer :: ctype where
  "struct_thread_group_cputimer =
    CStruct False
     [Field ''cputime_atomic'' struct_task_cputime_atomic]"

lemma lay_struct_thread_group_cputimer [layouts]: "lay struct_thread_group_cputimer = (24, 8)"
  by (simp add: struct_thread_group_cputimer_def layouts lay_eval)

lemma wf_struct_thread_group_cputimer [wf_types]: "wf_type struct_thread_group_cputimer"
  by (simp add: struct_thread_group_cputimer_def wf_types)

definition struct_seqlock :: ctype where
  "struct_seqlock =
    CStruct False
     [Field ''seqcount'' t_seqcount_spinlock_t,
      Field ''lock'' t_spinlock_t]"

lemma lay_struct_seqlock [layouts]: "lay struct_seqlock = (8, 4)"
  by (simp add: struct_seqlock_def layouts lay_eval)

lemma wf_struct_seqlock [wf_types]: "wf_type struct_seqlock"
  by (simp add: struct_seqlock_def wf_types)

definition t_seqlock_t :: ctype where "t_seqlock_t = struct_seqlock"

lemma lay_t_seqlock_t [layouts]: "lay t_seqlock_t = (8, 4)"
  by (simp add: t_seqlock_t_def layouts lay_eval)

lemma wf_t_seqlock_t [wf_types]: "wf_type t_seqlock_t"
  by (simp add: t_seqlock_t_def wf_types)

definition struct_wait_queue_head :: ctype where
  "struct_wait_queue_head =
    CStruct False
     [Field ''lock'' t_spinlock_t,
      Field ''head'' struct_list_head]"

lemma lay_struct_wait_queue_head [layouts]: "lay struct_wait_queue_head = (24, 8)"
  by (simp add: struct_wait_queue_head_def layouts lay_eval)

lemma wf_struct_wait_queue_head [wf_types]: "wf_type struct_wait_queue_head"
  by (simp add: struct_wait_queue_head_def wf_types)

definition t_wait_queue_head_t :: ctype where "t_wait_queue_head_t = struct_wait_queue_head"

lemma lay_t_wait_queue_head_t [layouts]: "lay t_wait_queue_head_t = (24, 8)"
  by (simp add: t_wait_queue_head_t_def layouts lay_eval)

lemma wf_t_wait_queue_head_t [wf_types]: "wf_type t_wait_queue_head_t"
  by (simp add: t_wait_queue_head_t_def wf_types)

definition struct_signal_struct :: ctype where
  "struct_signal_struct =
    CStruct False
     [Field ''sigcnt'' t_refcount_t,
      Field ''live'' t_atomic_t,
      Field ''nr_threads'' (CInt 4),
      Field ''quick_threads'' (CInt 4),
      Field ''thread_head'' struct_list_head,
      Field ''wait_chldexit'' t_wait_queue_head_t,
      Field ''curr_target'' CPtr,
      Field ''shared_pending'' struct_sigpending,
      Field ''multiprocess'' struct_hlist_head,
      Field ''group_exit_code'' (CInt 4),
      Field ''notify_count'' (CInt 4),
      Field ''group_exec_task'' CPtr,
      Field ''group_stop_count'' (CInt 4),
      Field ''flags'' (CInt 4),
      Field ''core_state'' CPtr,
      Bits ''is_child_subreaper'' 4 1,
      Bits ''has_child_subreaper'' 4 1,
      Bits ''timer_create_restore_ids'' 4 1,
      Field ''next_posix_timer_id'' t_atomic_t,
      Field ''posix_timers'' struct_hlist_head,
      Field ''ignored_posix_timers'' struct_hlist_head,
      Field ''real_timer'' struct_hrtimer,
      Field ''it_real_incr'' t_ktime_t,
      Field ''it'' (CArr struct_cpu_itimer 2),
      Field ''cputimer'' struct_thread_group_cputimer,
      Field ''posix_cputimers'' struct_posix_cputimers,
      Field ''pids'' (CArr CPtr 4),
      Field ''tick_dep_mask'' t_atomic_t,
      Field ''tty_old_pgrp'' CPtr,
      Field ''leader'' (CInt 4),
      Field ''tty'' CPtr,
      Field ''autogroup'' CPtr,
      Field ''stats_lock'' t_seqlock_t,
      Field ''utime'' t_u64,
      Field ''stime'' t_u64,
      Field ''cutime'' t_u64,
      Field ''cstime'' t_u64,
      Field ''gtime'' t_u64,
      Field ''cgtime'' t_u64,
      Field ''prev_cputime'' struct_prev_cputime,
      Field ''nvcsw'' (CInt 8),
      Field ''nivcsw'' (CInt 8),
      Field ''cnvcsw'' (CInt 8),
      Field ''cnivcsw'' (CInt 8),
      Field ''min_flt'' (CInt 8),
      Field ''maj_flt'' (CInt 8),
      Field ''cmin_flt'' (CInt 8),
      Field ''cmaj_flt'' (CInt 8),
      Field ''inblock'' (CInt 8),
      Field ''oublock'' (CInt 8),
      Field ''cinblock'' (CInt 8),
      Field ''coublock'' (CInt 8),
      Field ''maxrss'' (CInt 8),
      Field ''cmaxrss'' (CInt 8),
      Field ''ioac'' struct_task_io_accounting,
      Field ''sum_sched_runtime'' (CInt 8),
      Field ''rlim'' (CArr struct_rlimit 16),
      Field ''pacct'' struct_pacct_struct,
      Field ''stats'' CPtr,
      Field ''audit_tty'' (CInt 4),
      Field ''tty_audit_buf'' CPtr,
      Field ''cgroup_threadgroup_rwsem'' struct_rw_semaphore,
      Field ''oom_flag_origin'' (CInt 1),
      Field ''oom_score_adj'' (CInt 2),
      Field ''oom_score_adj_min'' (CInt 2),
      Field ''oom_mm'' CPtr,
      Field ''cred_guard_mutex'' struct_mutex,
      Field ''exec_update_lock'' struct_rw_semaphore]"

lemma lay_struct_signal_struct [layouts]: "lay struct_signal_struct = (1152, 8)"
  by (simp add: struct_signal_struct_def layouts lay_eval)

lemma wf_struct_signal_struct [wf_types]: "wf_type struct_signal_struct"
  by (simp add: struct_signal_struct_def wf_types)

definition t___sighandler_t :: ctype where "t___sighandler_t = CPtr"

lemma lay_t___sighandler_t [layouts]: "lay t___sighandler_t = (8, 8)"
  by (simp add: t___sighandler_t_def layouts lay_eval)

lemma wf_t___sighandler_t [wf_types]: "wf_type t___sighandler_t"
  by (simp add: t___sighandler_t_def wf_types)

definition t___sigrestore_t :: ctype where "t___sigrestore_t = CPtr"

lemma lay_t___sigrestore_t [layouts]: "lay t___sigrestore_t = (8, 8)"
  by (simp add: t___sigrestore_t_def layouts lay_eval)

lemma wf_t___sigrestore_t [wf_types]: "wf_type t___sigrestore_t"
  by (simp add: t___sigrestore_t_def wf_types)

definition struct_sigaction :: ctype where
  "struct_sigaction =
    CStruct False
     [Field ''sa_handler'' t___sighandler_t,
      Field ''sa_flags'' (CInt 8),
      Field ''sa_restorer'' t___sigrestore_t,
      Field ''sa_mask'' t_sigset_t]"

lemma lay_struct_sigaction [layouts]: "lay struct_sigaction = (32, 8)"
  by (simp add: struct_sigaction_def layouts lay_eval)

lemma wf_struct_sigaction [wf_types]: "wf_type struct_sigaction"
  by (simp add: struct_sigaction_def wf_types)

definition struct_k_sigaction :: ctype where
  "struct_k_sigaction =
    CStruct False
     [Field ''sa'' struct_sigaction]"

lemma lay_struct_k_sigaction [layouts]: "lay struct_k_sigaction = (32, 8)"
  by (simp add: struct_k_sigaction_def layouts lay_eval)

lemma wf_struct_k_sigaction [wf_types]: "wf_type struct_k_sigaction"
  by (simp add: struct_k_sigaction_def wf_types)

definition struct_sighand_struct :: ctype where
  "struct_sighand_struct =
    CStruct False
     [Field ''siglock'' t_spinlock_t,
      Field ''count'' t_refcount_t,
      Field ''signalfd_wqh'' t_wait_queue_head_t,
      Field ''action'' (CArr struct_k_sigaction 64)]"

lemma lay_struct_sighand_struct [layouts]: "lay struct_sighand_struct = (2080, 8)"
  by (simp add: struct_sighand_struct_def layouts lay_eval)

lemma wf_struct_sighand_struct [wf_types]: "wf_type struct_sighand_struct"
  by (simp add: struct_sighand_struct_def wf_types)

definition t_kernel_cap_t :: ctype where "t_kernel_cap_t = CStruct False [Field ''val'' t_u64]"

lemma lay_t_kernel_cap_t [layouts]: "lay t_kernel_cap_t = (8, 8)"
  by (simp add: t_kernel_cap_t_def layouts lay_eval)

lemma wf_t_kernel_cap_t [wf_types]: "wf_type t_kernel_cap_t"
  by (simp add: t_kernel_cap_t_def wf_types)

definition t___kernel_gid32_t :: ctype where "t___kernel_gid32_t = CInt 4"

lemma lay_t___kernel_gid32_t [layouts]: "lay t___kernel_gid32_t = (4, 4)"
  by (simp add: t___kernel_gid32_t_def layouts lay_eval)

lemma wf_t___kernel_gid32_t [wf_types]: "wf_type t___kernel_gid32_t"
  by (simp add: t___kernel_gid32_t_def wf_types)

definition t_gid_t :: ctype where "t_gid_t = t___kernel_gid32_t"

lemma lay_t_gid_t [layouts]: "lay t_gid_t = (4, 4)"
  by (simp add: t_gid_t_def layouts lay_eval)

lemma wf_t_gid_t [wf_types]: "wf_type t_gid_t"
  by (simp add: t_gid_t_def wf_types)

definition t_kgid_t :: ctype where "t_kgid_t = CStruct False [Field ''val'' t_gid_t]"

lemma lay_t_kgid_t [layouts]: "lay t_kgid_t = (4, 4)"
  by (simp add: t_kgid_t_def layouts lay_eval)

lemma wf_t_kgid_t [wf_types]: "wf_type t_kgid_t"
  by (simp add: t_kgid_t_def wf_types)

definition struct_cred :: ctype where
  "struct_cred =
    CStruct False
     [Field ''usage'' t_atomic_long_t,
      Field ''uid'' t_kuid_t,
      Field ''gid'' t_kgid_t,
      Field ''suid'' t_kuid_t,
      Field ''sgid'' t_kgid_t,
      Field ''euid'' t_kuid_t,
      Field ''egid'' t_kgid_t,
      Field ''fsuid'' t_kuid_t,
      Field ''fsgid'' t_kgid_t,
      Field ''securebits'' (CInt 4),
      Field ''cap_inheritable'' t_kernel_cap_t,
      Field ''cap_permitted'' t_kernel_cap_t,
      Field ''cap_effective'' t_kernel_cap_t,
      Field ''cap_bset'' t_kernel_cap_t,
      Field ''cap_ambient'' t_kernel_cap_t,
      Field ''jit_keyring'' (CInt 1),
      Field ''session_keyring'' CPtr,
      Field ''process_keyring'' CPtr,
      Field ''thread_keyring'' CPtr,
      Field ''request_key_auth'' CPtr,
      Field ''security'' CPtr,
      Field ''user'' CPtr,
      Field ''user_ns'' CPtr,
      Field ''ucounts'' CPtr,
      Field ''group_info'' CPtr,
      Field [] (CUnion False [Field ''non_rcu'' (CInt 4), Field ''rcu'' struct_callback_head])]"

lemma lay_struct_cred [layouts]: "lay struct_cred = (184, 8)"
  by (simp add: struct_cred_def layouts lay_eval)

lemma wf_struct_cred [wf_types]: "wf_type struct_cred"
  by (simp add: struct_cred_def wf_types)

definition struct_rhash_head :: ctype where
  "struct_rhash_head =
    CStruct False
     [Field ''next'' CPtr]"

lemma lay_struct_rhash_head [layouts]: "lay struct_rhash_head = (8, 8)"
  by (simp add: struct_rhash_head_def layouts lay_eval)

lemma wf_struct_rhash_head [wf_types]: "wf_type struct_rhash_head"
  by (simp add: struct_rhash_head_def wf_types)

definition struct_upid :: ctype where
  "struct_upid =
    CStruct False
     [Field ''nr'' (CInt 4),
      Field ''ns'' CPtr]"

lemma lay_struct_upid [layouts]: "lay struct_upid = (16, 8)"
  by (simp add: struct_upid_def layouts lay_eval)

lemma wf_struct_upid [wf_types]: "wf_type struct_upid"
  by (simp add: struct_upid_def wf_types)

definition struct_pid :: ctype where
  "struct_pid =
    CStruct False
     [Field ''count'' t_refcount_t,
      Field ''level'' (CInt 4),
      Field ''lock'' t_spinlock_t,
      Field [] (CStruct False [Field ''ino'' t_u64, Field ''pidfs_hash'' struct_rhash_head, Field
        ''stashed'' CPtr, Field ''attr'' CPtr]),
      Field ''tasks'' (CArr struct_hlist_head 4),
      Field ''inodes'' struct_hlist_head,
      Field ''wait_pidfd'' t_wait_queue_head_t,
      Field ''rcu'' struct_callback_head,
      Field ''numbers'' (CArr struct_upid 0)]"

lemma lay_struct_pid [layouts]: "lay struct_pid = (128, 8)"
  by (simp add: struct_pid_def layouts lay_eval)

lemma wf_struct_pid [wf_types]: "wf_type struct_pid"
  by (simp add: struct_pid_def wf_types)

definition struct_ctl_table_header :: ctype where
  "struct_ctl_table_header =
    CStruct False
     [Field [] (CUnion False [Field [] (CStruct False [Field ''ctl_table'' CPtr, Field
        ''ctl_table_size'' (CInt 4), Field ''used'' (CInt 4), Field ''count'' (CInt 4), Field
        ''nreg'' (CInt 4)]), Field ''rcu'' struct_callback_head]),
      Field ''unregistering'' CPtr,
      Field ''ctl_table_arg'' CPtr,
      Field ''root'' CPtr,
      Field ''set'' CPtr,
      Field ''parent'' CPtr,
      Field ''node'' CPtr,
      Field ''inodes'' struct_hlist_head,
      Field ''type'' (CInt 4)]"

lemma lay_struct_ctl_table_header [layouts]: "lay struct_ctl_table_header = (88, 8)"
  by (simp add: struct_ctl_table_header_def layouts lay_eval)

lemma wf_struct_ctl_table_header [wf_types]: "wf_type struct_ctl_table_header"
  by (simp add: struct_ctl_table_header_def wf_types)

definition struct_ctl_dir :: ctype where
  "struct_ctl_dir =
    CStruct False
     [Field ''header'' struct_ctl_table_header,
      Field ''root'' struct_rb_root]"

lemma lay_struct_ctl_dir [layouts]: "lay struct_ctl_dir = (96, 8)"
  by (simp add: struct_ctl_dir_def layouts lay_eval)

lemma wf_struct_ctl_dir [wf_types]: "wf_type struct_ctl_dir"
  by (simp add: struct_ctl_dir_def wf_types)

definition struct_ctl_table_set :: ctype where
  "struct_ctl_table_set =
    CStruct False
     [Field ''is_seen'' CPtr,
      Field ''dir'' struct_ctl_dir]"

lemma lay_struct_ctl_table_set [layouts]: "lay struct_ctl_table_set = (104, 8)"
  by (simp add: struct_ctl_table_set_def layouts lay_eval)

lemma wf_struct_ctl_table_set [wf_types]: "wf_type struct_ctl_table_set"
  by (simp add: struct_ctl_table_set_def wf_types)

definition t_gfp_t :: ctype where "t_gfp_t = CInt 4"

lemma lay_t_gfp_t [layouts]: "lay t_gfp_t = (4, 4)"
  by (simp add: t_gfp_t_def layouts lay_eval)

lemma wf_t_gfp_t [wf_types]: "wf_type t_gfp_t"
  by (simp add: t_gfp_t_def wf_types)

definition struct_xarray :: ctype where
  "struct_xarray =
    CStruct False
     [Field ''xa_lock'' t_spinlock_t,
      Field ''xa_flags'' t_gfp_t,
      Field ''xa_head'' CPtr]"

lemma lay_struct_xarray [layouts]: "lay struct_xarray = (16, 8)"
  by (simp add: struct_xarray_def layouts lay_eval)

lemma wf_struct_xarray [wf_types]: "wf_type struct_xarray"
  by (simp add: struct_xarray_def wf_types)

definition struct_idr :: ctype where
  "struct_idr =
    CStruct False
     [Field ''idr_rt'' struct_xarray,
      Field ''idr_base'' (CInt 4),
      Field ''idr_next'' (CInt 4)]"

lemma lay_struct_idr [layouts]: "lay struct_idr = (24, 8)"
  by (simp add: struct_idr_def layouts lay_eval)

lemma wf_struct_idr [wf_types]: "wf_type struct_idr"
  by (simp add: struct_idr_def wf_types)

definition struct_ns_tree_node :: ctype where
  "struct_ns_tree_node =
    CStruct False
     [Field ''ns_node'' struct_rb_node,
      Field ''ns_list_entry'' struct_list_head]"

lemma lay_struct_ns_tree_node [layouts]: "lay struct_ns_tree_node = (40, 8)"
  by (simp add: struct_ns_tree_node_def layouts lay_eval)

lemma wf_struct_ns_tree_node [wf_types]: "wf_type struct_ns_tree_node"
  by (simp add: struct_ns_tree_node_def wf_types)

definition struct_ns_tree_root :: ctype where
  "struct_ns_tree_root =
    CStruct False
     [Field ''ns_rb'' struct_rb_root,
      Field ''ns_list_head'' struct_list_head]"

lemma lay_struct_ns_tree_root [layouts]: "lay struct_ns_tree_root = (24, 8)"
  by (simp add: struct_ns_tree_root_def layouts lay_eval)

lemma wf_struct_ns_tree_root [wf_types]: "wf_type struct_ns_tree_root"
  by (simp add: struct_ns_tree_root_def wf_types)

definition struct_ns_tree :: ctype where
  "struct_ns_tree =
    CStruct False
     [Field ''ns_id'' t_u64,
      Field ''__ns_ref_active'' t_atomic_t,
      Field ''ns_unified_node'' struct_ns_tree_node,
      Field ''ns_tree_node'' struct_ns_tree_node,
      Field ''ns_owner_node'' struct_ns_tree_node,
      Field ''ns_owner_root'' struct_ns_tree_root]"

lemma lay_struct_ns_tree [layouts]: "lay struct_ns_tree = (160, 8)"
  by (simp add: struct_ns_tree_def layouts lay_eval)

lemma wf_struct_ns_tree [wf_types]: "wf_type struct_ns_tree"
  by (simp add: struct_ns_tree_def wf_types)

definition struct_ns_common :: ctype where
  "struct_ns_common =
    CStruct False
     [Field [] (CStruct False [Field ''__ns_ref'' t_refcount_t, Pad 8 64, Pad 8 64, Pad 8 64, Pad 8
        64, Pad 8 64, Pad 8 64, Pad 8 64]),
      Field ''ns_type'' t_u32,
      Field ''stashed'' CPtr,
      Field ''ops'' CPtr,
      Field ''inum'' (CInt 4),
      Field [] (CUnion False [Field [] struct_ns_tree, Field ''ns_rcu'' struct_callback_head])]"

lemma lay_struct_ns_common [layouts]: "lay struct_ns_common = (256, 8)"
  by (simp add: struct_ns_common_def layouts lay_eval)

lemma wf_struct_ns_common [wf_types]: "wf_type struct_ns_common"
  by (simp add: struct_ns_common_def wf_types)

definition t_work_func_t :: ctype where "t_work_func_t = CPtr"

lemma lay_t_work_func_t [layouts]: "lay t_work_func_t = (8, 8)"
  by (simp add: t_work_func_t_def layouts lay_eval)

lemma wf_t_work_func_t [wf_types]: "wf_type t_work_func_t"
  by (simp add: t_work_func_t_def wf_types)

definition struct_work_struct :: ctype where
  "struct_work_struct =
    CStruct False
     [Field ''data'' t_atomic_long_t,
      Field ''entry'' struct_list_head,
      Field ''func'' t_work_func_t]"

lemma lay_struct_work_struct [layouts]: "lay struct_work_struct = (32, 8)"
  by (simp add: struct_work_struct_def layouts lay_eval)

lemma wf_struct_work_struct [wf_types]: "wf_type struct_work_struct"
  by (simp add: struct_work_struct_def wf_types)

definition struct_pid_namespace :: ctype where
  "struct_pid_namespace =
    CStruct False
     [Field ''idr'' struct_idr,
      Field ''rcu'' struct_callback_head,
      Field ''pid_allocated'' (CInt 4),
      Field ''memfd_noexec_scope'' (CInt 4),
      Field ''set'' struct_ctl_table_set,
      Field ''sysctls'' CPtr,
      Field ''child_reaper'' CPtr,
      Field ''pid_cachep'' CPtr,
      Field ''level'' (CInt 4),
      Field ''pid_max'' (CInt 4),
      Field ''parent'' CPtr,
      Field ''bacct'' CPtr,
      Field ''user_ns'' CPtr,
      Field ''ucounts'' CPtr,
      Field ''reboot'' (CInt 4),
      Pad 8 64,
      Pad 8 64,
      Pad 8 64,
      Pad 8 64,
      Field ''ns'' struct_ns_common,
      Field ''work'' struct_work_struct,
      Pad 8 64,
      Pad 8 64,
      Pad 8 64,
      Pad 8 64]"

lemma lay_struct_pid_namespace [layouts]: "lay struct_pid_namespace = (576, 8)"
  by (simp add: struct_pid_namespace_def layouts lay_eval)

lemma wf_struct_pid_namespace [wf_types]: "wf_type struct_pid_namespace"
  by (simp add: struct_pid_namespace_def wf_types)

definition struct_uid_gid_extent :: ctype where
  "struct_uid_gid_extent =
    CStruct False
     [Field ''first'' t_u32,
      Field ''lower_first'' t_u32,
      Field ''count'' t_u32]"

lemma lay_struct_uid_gid_extent [layouts]: "lay struct_uid_gid_extent = (12, 4)"
  by (simp add: struct_uid_gid_extent_def layouts lay_eval)

lemma wf_struct_uid_gid_extent [wf_types]: "wf_type struct_uid_gid_extent"
  by (simp add: struct_uid_gid_extent_def wf_types)

definition struct_uid_gid_map :: ctype where
  "struct_uid_gid_map =
    CStruct False
     [Field [] (CUnion False [Field [] (CStruct False [Field ''extent'' (CArr struct_uid_gid_extent
        5), Field ''nr_extents'' t_u32]), Field [] (CStruct False [Field ''forward'' CPtr, Field
        ''reverse'' CPtr])])]"

lemma lay_struct_uid_gid_map [layouts]: "lay struct_uid_gid_map = (64, 8)"
  by (simp add: struct_uid_gid_map_def layouts lay_eval)

lemma wf_struct_uid_gid_map [wf_types]: "wf_type struct_uid_gid_map"
  by (simp add: struct_uid_gid_map_def wf_types)

definition struct_user_namespace :: ctype where
  "struct_user_namespace =
    CStruct False
     [Field ''uid_map'' struct_uid_gid_map,
      Field ''gid_map'' struct_uid_gid_map,
      Field ''projid_map'' struct_uid_gid_map,
      Field ''parent'' CPtr,
      Field ''level'' (CInt 4),
      Field ''owner'' t_kuid_t,
      Field ''group'' t_kgid_t,
      Pad 8 64,
      Pad 8 64,
      Pad 8 64,
      Pad 8 64,
      Pad 8 64,
      Field ''ns'' struct_ns_common,
      Field ''flags'' (CInt 8),
      Field ''parent_could_setfcap'' (CInt 1),
      Field ''keyring_name_list'' struct_list_head,
      Field ''user_keyring_register'' CPtr,
      Field ''keyring_sem'' struct_rw_semaphore,
      Field ''persistent_keyring_register'' CPtr,
      Field ''work'' struct_work_struct,
      Field ''set'' struct_ctl_table_set,
      Field ''sysctls'' CPtr,
      Field ''ucounts'' CPtr,
      Field ''ucount_max'' (CArr (CInt 8) 12),
      Field ''rlimit_max'' (CArr (CInt 8) 4),
      Field ''binfmt_misc'' CPtr,
      Pad 8 64]"

lemma lay_struct_user_namespace [layouts]: "lay struct_user_namespace = (896, 8)"
  by (simp add: struct_user_namespace_def layouts lay_eval)

lemma wf_struct_user_namespace [wf_types]: "wf_type struct_user_namespace"
  by (simp add: struct_user_namespace_def wf_types)

definition struct_nsproxy :: ctype where
  "struct_nsproxy =
    CStruct False
     [Field ''count'' t_refcount_t,
      Field ''uts_ns'' CPtr,
      Field ''ipc_ns'' CPtr,
      Field ''mnt_ns'' CPtr,
      Field ''pid_ns_for_children'' CPtr,
      Field ''net_ns'' CPtr,
      Field ''time_ns'' CPtr,
      Field ''time_ns_for_children'' CPtr,
      Field ''cgroup_ns'' CPtr]"

lemma lay_struct_nsproxy [layouts]: "lay struct_nsproxy = (72, 8)"
  by (simp add: struct_nsproxy_def layouts lay_eval)

lemma wf_struct_nsproxy [wf_types]: "wf_type struct_nsproxy"
  by (simp add: struct_nsproxy_def wf_types)

definition struct_fdtable :: ctype where
  "struct_fdtable =
    CStruct False
     [Field ''max_fds'' (CInt 4),
      Field ''fd'' CPtr,
      Field ''close_on_exec'' CPtr,
      Field ''open_fds'' CPtr,
      Field ''full_fds_bits'' CPtr,
      Field ''rcu'' struct_callback_head]"

lemma lay_struct_fdtable [layouts]: "lay struct_fdtable = (56, 8)"
  by (simp add: struct_fdtable_def layouts lay_eval)

lemma wf_struct_fdtable [wf_types]: "wf_type struct_fdtable"
  by (simp add: struct_fdtable_def wf_types)

definition struct_files_struct :: ctype where
  "struct_files_struct =
    CStruct False
     [Field ''count'' t_atomic_t,
      Field ''resize_in_progress'' (CInt 1),
      Field ''resize_wait'' t_wait_queue_head_t,
      Field ''fdt'' CPtr,
      Field ''fdtab'' struct_fdtable,
      Pad 8 64,
      Pad 8 64,
      Pad 8 64,
      Pad 8 64,
      Field ''file_lock'' t_spinlock_t,
      Field ''next_fd'' (CInt 4),
      Field ''close_on_exec_init'' (CArr (CInt 8) 1),
      Field ''open_fds_init'' (CArr (CInt 8) 1),
      Field ''full_fds_bits_init'' (CArr (CInt 8) 1),
      Field ''fd_array'' (CArr CPtr 64),
      Pad 8 64,
      Pad 8 64,
      Pad 8 64,
      Pad 8 64]"

lemma lay_struct_files_struct [layouts]: "lay struct_files_struct = (704, 8)"
  by (simp add: struct_files_struct_def layouts lay_eval)

lemma wf_struct_files_struct [wf_types]: "wf_type struct_files_struct"
  by (simp add: struct_files_struct_def wf_types)

definition struct_path :: ctype where
  "struct_path =
    CStruct False
     [Field ''mnt'' CPtr,
      Field ''dentry'' CPtr]"

lemma lay_struct_path [layouts]: "lay struct_path = (16, 8)"
  by (simp add: struct_path_def layouts lay_eval)

lemma wf_struct_path [wf_types]: "wf_type struct_path"
  by (simp add: struct_path_def wf_types)

definition struct_fs_struct :: ctype where
  "struct_fs_struct =
    CStruct False
     [Field ''users'' (CInt 4),
      Field ''seq'' t_seqlock_t,
      Field ''umask'' (CInt 4),
      Field ''in_exec'' (CInt 4),
      Field ''root'' struct_path,
      Field ''pwd'' struct_path]"

lemma lay_struct_fs_struct [layouts]: "lay struct_fs_struct = (56, 8)"
  by (simp add: struct_fs_struct_def layouts lay_eval)

lemma wf_struct_fs_struct [wf_types]: "wf_type struct_fs_struct"
  by (simp add: struct_fs_struct_def wf_types)

end
