(* ===== verification/FileTypes.thy ===== *)
theory FileTypes
  imports TaskTypes
begin

text \<open>
  The kernel objects behind \<open>execve\<close> and \<open>openat\<close>: the address space the user strings lie in, the
  program being executed, and files, inodes and directory entries.
  The definitions follow the declarations of \<open>bpf/vmlinux.h\<close>; the lemmas compute sizes and
  alignments.
\<close>

definition struct_maple_tree :: ctype where
  "struct_maple_tree =
    CStruct False
     [Field [] (CUnion False [Field ''ma_lock'' t_spinlock_t]),
      Field ''ma_flags'' (CInt 4),
      Field ''ma_root'' CPtr]"

lemma lay_struct_maple_tree [layouts]: "lay struct_maple_tree = (16, 8)"
  by (simp add: struct_maple_tree_def layouts lay_eval)

lemma wf_struct_maple_tree [wf_types]: "wf_type struct_maple_tree"
  by (simp add: struct_maple_tree_def wf_types)

definition struct_rcuwait :: ctype where
  "struct_rcuwait =
    CStruct False
     [Field ''task'' CPtr]"

lemma lay_struct_rcuwait [layouts]: "lay struct_rcuwait = (8, 8)"
  by (simp add: struct_rcuwait_def layouts lay_eval)

lemma wf_struct_rcuwait [wf_types]: "wf_type struct_rcuwait"
  by (simp add: struct_rcuwait_def wf_types)

definition struct_irq_work :: ctype where
  "struct_irq_work =
    CStruct False
     [Field ''node'' struct___call_single_node,
      Field ''func'' CPtr,
      Field ''irqwait'' struct_rcuwait]"

lemma lay_struct_irq_work [layouts]: "lay struct_irq_work = (32, 8)"
  by (simp add: struct_irq_work_def layouts lay_eval)

lemma wf_struct_irq_work [wf_types]: "wf_type struct_irq_work"
  by (simp add: struct_irq_work_def wf_types)

definition struct_mm_mm_cid :: ctype where
  "struct_mm_mm_cid =
    CStruct False
     [Field ''pcpu'' CPtr,
      Field ''mode'' (CInt 4),
      Field ''max_cids'' (CInt 4),
      Field ''irq_work'' struct_irq_work,
      Field ''work'' struct_work_struct,
      Field ''lock'' t_raw_spinlock_t,
      Field ''mutex'' struct_mutex,
      Field ''user_list'' struct_hlist_head,
      Field ''nr_cpus_allowed'' (CInt 4),
      Field ''users'' (CInt 4),
      Field ''pcpu_thrs'' (CInt 4),
      Field ''update_deferred'' (CInt 4),
      Pad 8 64,
      Pad 8 64,
      Pad 8 64,
      Pad 8 64,
      Pad 8 64,
      Pad 8 64]"

lemma lay_struct_mm_mm_cid [layouts]: "lay struct_mm_mm_cid = (192, 8)"
  by (simp add: struct_mm_mm_cid_def layouts lay_eval)

lemma wf_struct_mm_mm_cid [wf_types]: "wf_type struct_mm_mm_cid"
  by (simp add: struct_mm_mm_cid_def wf_types)

definition struct_percpu_counter :: ctype where
  "struct_percpu_counter =
    CStruct False
     [Field ''lock'' t_raw_spinlock_t,
      Field ''count'' t_s64,
      Field ''list'' struct_list_head,
      Field ''counters'' CPtr]"

lemma lay_struct_percpu_counter [layouts]: "lay struct_percpu_counter = (40, 8)"
  by (simp add: struct_percpu_counter_def layouts lay_eval)

lemma wf_struct_percpu_counter [wf_types]: "wf_type struct_percpu_counter"
  by (simp add: struct_percpu_counter_def wf_types)

definition struct_uprobes_state :: ctype where
  "struct_uprobes_state =
    CStruct False
     [Field ''xol_area'' CPtr]"

lemma lay_struct_uprobes_state [layouts]: "lay struct_uprobes_state = (8, 8)"
  by (simp add: struct_uprobes_state_def layouts lay_eval)

lemma wf_struct_uprobes_state [wf_types]: "wf_type struct_uprobes_state"
  by (simp add: struct_uprobes_state_def wf_types)

definition t_mm_context_t :: ctype where
  "t_mm_context_t =
    CStruct False [Field ''id'' t_atomic64_t, Field ''sigpage'' CPtr, Field ''pinned'' t_refcount_t,
      Field ''vdso'' CPtr, Field ''flags'' (CInt 8), Field ''pkey_allocation_map'' t_u8]"

lemma lay_t_mm_context_t [layouts]: "lay t_mm_context_t = (48, 8)"
  by (simp add: t_mm_context_t_def layouts lay_eval)

lemma wf_t_mm_context_t [wf_types]: "wf_type t_mm_context_t"
  by (simp add: t_mm_context_t_def wf_types)

definition t_mm_flags_t :: ctype where "t_mm_flags_t = CStruct False [Field ''__mm_flags'' (CArr (CInt 8) 1)]"

lemma lay_t_mm_flags_t [layouts]: "lay t_mm_flags_t = (8, 8)"
  by (simp add: t_mm_flags_t_def layouts lay_eval)

lemma wf_t_mm_flags_t [wf_types]: "wf_type t_mm_flags_t"
  by (simp add: t_mm_flags_t_def wf_types)

definition t_mm_id_t :: ctype where "t_mm_id_t = CInt 4"

lemma lay_t_mm_id_t [layouts]: "lay t_mm_id_t = (4, 4)"
  by (simp add: t_mm_id_t_def layouts lay_eval)

lemma wf_t_mm_id_t [wf_types]: "wf_type t_mm_id_t"
  by (simp add: t_mm_id_t_def wf_types)

definition t_vm_flags_t :: ctype where "t_vm_flags_t = CInt 8"

lemma lay_t_vm_flags_t [layouts]: "lay t_vm_flags_t = (8, 8)"
  by (simp add: t_vm_flags_t_def layouts lay_eval)

lemma wf_t_vm_flags_t [wf_types]: "wf_type t_vm_flags_t"
  by (simp add: t_vm_flags_t_def wf_types)

definition struct_mm_struct :: ctype where
  "struct_mm_struct =
    CStruct False
     [Field [] (CStruct False [Field [] (CStruct False [Field ''mm_count'' t_atomic_t, Pad 8 64, Pad
        8 64, Pad 8 64, Pad 8 64, Pad 8 64, Pad 8 64, Pad 8 64]), Field ''mm_mt'' struct_maple_tree,
        Field ''mmap_base'' (CInt 8), Field ''mmap_legacy_base'' (CInt 8), Field ''task_size'' (CInt
        8), Field ''pgd'' CPtr, Field ''membarrier_state'' t_atomic_t, Field ''mm_users''
        t_atomic_t, Pad 8 64, Field ''mm_cid'' struct_mm_mm_cid, Field ''pgtables_bytes''
        t_atomic_long_t, Field ''map_count'' (CInt 4), Field ''page_table_lock'' t_spinlock_t, Field
        ''mmap_lock'' struct_rw_semaphore, Field ''mmlist'' struct_list_head, Field
        ''vma_writer_wait'' struct_rcuwait, Field ''mm_lock_seq'' t_seqcount_t, Field
        ''futex_hash_lock'' struct_mutex, Field ''futex_phash'' CPtr, Field ''futex_phash_new''
        CPtr, Field ''futex_batches'' (CInt 8), Field ''futex_rcu'' struct_callback_head, Field
        ''futex_atomic'' t_atomic_long_t, Field ''futex_ref'' CPtr, Field ''hiwater_rss'' (CInt 8),
        Field ''hiwater_vm'' (CInt 8), Field ''total_vm'' (CInt 8), Field ''locked_vm'' (CInt 8),
        Field ''pinned_vm'' t_atomic64_t, Field ''data_vm'' (CInt 8), Field ''exec_vm'' (CInt 8),
        Field ''stack_vm'' (CInt 8), Field ''def_flags'' t_vm_flags_t, Field ''write_protect_seq''
        t_seqcount_t, Field ''arg_lock'' t_spinlock_t, Field ''start_code'' (CInt 8), Field
        ''end_code'' (CInt 8), Field ''start_data'' (CInt 8), Field ''end_data'' (CInt 8), Field
        ''start_brk'' (CInt 8), Field ''brk'' (CInt 8), Field ''start_stack'' (CInt 8), Field
        ''arg_start'' (CInt 8), Field ''arg_end'' (CInt 8), Field ''env_start'' (CInt 8), Field
        ''env_end'' (CInt 8), Field ''saved_auxv'' (CArr (CInt 8) 54), Field ''rss_stat'' (CArr
        struct_percpu_counter 4), Field ''binfmt'' CPtr, Field ''context'' t_mm_context_t, Field
        ''flags'' t_mm_flags_t, Field ''ioctx_lock'' t_spinlock_t, Field ''ioctx_table'' CPtr, Field
        ''owner'' CPtr, Field ''user_ns'' CPtr, Field ''exe_file'' CPtr, Field
        ''notifier_subscriptions'' CPtr, Field ''numa_next_scan'' (CInt 8), Field
        ''numa_scan_offset'' (CInt 8), Field ''numa_scan_seq'' (CInt 4), Field ''tlb_flush_pending''
        t_atomic_t, Field ''tlb_flush_batched'' t_atomic_t, Field ''uprobes_state''
        struct_uprobes_state, Field ''hugetlb_usage'' t_atomic_long_t, Field ''async_put_work''
        struct_work_struct, Field ''iommu_mm'' CPtr, Field ''ksm_merging_pages'' (CInt 8), Field
        ''ksm_rmap_items'' (CInt 8), Field ''ksm_zero_pages'' t_atomic_long_t, Field ''lru_gen''
        (CStruct False [Field ''list'' struct_list_head, Field ''bitmap'' (CInt 8), Field ''memcg''
        CPtr]), Field ''mm_id'' t_mm_id_t, Pad 8 64, Pad 8 64]),
      Field ''flexible_array'' (CArr (CInt 1) 0)]"

lemma lay_struct_mm_struct [layouts]: "lay struct_mm_struct = (1536, 8)"
  by (simp add: struct_mm_struct_def layouts lay_eval)

lemma wf_struct_mm_struct [wf_types]: "wf_type struct_mm_struct"
  by (simp add: struct_mm_struct_def wf_types)

definition struct_vm_userfaultfd_ctx :: ctype where
  "struct_vm_userfaultfd_ctx =
    CStruct False
     [Field ''ctx'' CPtr]"

lemma lay_struct_vm_userfaultfd_ctx [layouts]: "lay struct_vm_userfaultfd_ctx = (8, 8)"
  by (simp add: struct_vm_userfaultfd_ctx_def layouts lay_eval)

lemma wf_struct_vm_userfaultfd_ctx [wf_types]: "wf_type struct_vm_userfaultfd_ctx"
  by (simp add: struct_vm_userfaultfd_ctx_def wf_types)

definition t_freeptr_t :: ctype where "t_freeptr_t = CStruct False [Field ''v'' (CInt 8)]"

lemma lay_t_freeptr_t [layouts]: "lay t_freeptr_t = (8, 8)"
  by (simp add: t_freeptr_t_def layouts lay_eval)

lemma wf_t_freeptr_t [wf_types]: "wf_type t_freeptr_t"
  by (simp add: t_freeptr_t_def wf_types)

definition t_ptdesc_t :: ctype where "t_ptdesc_t = t_u64"

lemma lay_t_ptdesc_t [layouts]: "lay t_ptdesc_t = (8, 8)"
  by (simp add: t_ptdesc_t_def layouts lay_eval)

lemma wf_t_ptdesc_t [wf_types]: "wf_type t_ptdesc_t"
  by (simp add: t_ptdesc_t_def wf_types)

definition t_pgprot_t :: ctype where "t_pgprot_t = CStruct False [Field ''pgprot'' t_ptdesc_t]"

lemma lay_t_pgprot_t [layouts]: "lay t_pgprot_t = (8, 8)"
  by (simp add: t_pgprot_t_def layouts lay_eval)

lemma wf_t_pgprot_t [wf_types]: "wf_type t_pgprot_t"
  by (simp add: t_pgprot_t_def wf_types)

definition t_vma_flags_t :: ctype where "t_vma_flags_t = CStruct False [Field ''__vma_flags'' (CArr (CInt 8) 1)]"

lemma lay_t_vma_flags_t [layouts]: "lay t_vma_flags_t = (8, 8)"
  by (simp add: t_vma_flags_t_def layouts lay_eval)

lemma wf_t_vma_flags_t [wf_types]: "wf_type t_vma_flags_t"
  by (simp add: t_vma_flags_t_def wf_types)

definition struct_vm_area_struct :: ctype where
  "struct_vm_area_struct =
    CStruct False
     [Field [] (CUnion False [Field [] (CStruct False [Field ''vm_start'' (CInt 8), Field ''vm_end''
        (CInt 8)]), Field ''vm_freeptr'' t_freeptr_t]),
      Field ''vm_mm'' CPtr,
      Field ''vm_page_prot'' t_pgprot_t,
      Field [] (CUnion False [Field ''vm_flags'' t_vm_flags_t, Field ''flags'' t_vma_flags_t]),
      Field ''vm_lock_seq'' (CInt 4),
      Field ''anon_vma_chain'' struct_list_head,
      Field ''anon_vma'' CPtr,
      Field ''vm_ops'' CPtr,
      Field ''vm_pgoff'' (CInt 8),
      Field ''vm_file'' CPtr,
      Field ''vm_private_data'' CPtr,
      Field ''swap_readahead_info'' t_atomic_long_t,
      Field ''vm_policy'' CPtr,
      Field ''numab_state'' CPtr,
      Field ''vm_refcnt'' t_refcount_t,
      Field ''shared'' (CStruct False [Field ''rb'' struct_rb_node, Field ''rb_subtree_last'' (CInt
        8)]),
      Field ''anon_name'' CPtr,
      Field ''vm_userfaultfd_ctx'' struct_vm_userfaultfd_ctx,
      Pad 8 64]"

lemma lay_struct_vm_area_struct [layouts]: "lay struct_vm_area_struct = (192, 8)"
  by (simp add: struct_vm_area_struct_def layouts lay_eval)

lemma wf_struct_vm_area_struct [wf_types]: "wf_type struct_vm_area_struct"
  by (simp add: struct_vm_area_struct_def wf_types)

definition struct_linux_binprm :: ctype where
  "struct_linux_binprm =
    CStruct False
     [Field ''vma'' CPtr,
      Field ''vma_pages'' (CInt 8),
      Field ''argmin'' (CInt 8),
      Field ''mm'' CPtr,
      Field ''p'' (CInt 8),
      Bits ''have_execfd'' 4 1,
      Bits ''execfd_creds'' 4 1,
      Bits ''secureexec'' 4 1,
      Bits ''point_of_no_return'' 4 1,
      Bits ''comm_from_dentry'' 4 1,
      Bits ''is_check'' 4 1,
      Field ''executable'' CPtr,
      Field ''interpreter'' CPtr,
      Field ''file'' CPtr,
      Field ''cred'' CPtr,
      Field ''unsafe'' (CInt 4),
      Field ''per_clear'' (CInt 4),
      Field ''argc'' (CInt 4),
      Field ''envc'' (CInt 4),
      Field ''filename'' CPtr,
      Field ''interp'' CPtr,
      Field ''fdpath'' CPtr,
      Field ''interp_flags'' (CInt 4),
      Field ''execfd'' (CInt 4),
      Field ''exec'' (CInt 8),
      Field ''rlim_stack'' struct_rlimit,
      Field ''buf'' (CArr (CInt 1) 256)]"

lemma lay_struct_linux_binprm [layouts]: "lay struct_linux_binprm = (408, 8)"
  by (simp add: struct_linux_binprm_def layouts lay_eval)

lemma wf_struct_linux_binprm [wf_types]: "wf_type struct_linux_binprm"
  by (simp add: struct_linux_binprm_def wf_types)

definition t___kernel_loff_t :: ctype where "t___kernel_loff_t = CInt 8"

lemma lay_t___kernel_loff_t [layouts]: "lay t___kernel_loff_t = (8, 8)"
  by (simp add: t___kernel_loff_t_def layouts lay_eval)

lemma wf_t___kernel_loff_t [wf_types]: "wf_type t___kernel_loff_t"
  by (simp add: t___kernel_loff_t_def wf_types)

definition t_loff_t :: ctype where "t_loff_t = t___kernel_loff_t"

lemma lay_t_loff_t [layouts]: "lay t_loff_t = (8, 8)"
  by (simp add: t_loff_t_def layouts lay_eval)

lemma wf_t_loff_t [wf_types]: "wf_type t_loff_t"
  by (simp add: t_loff_t_def wf_types)

definition struct_file_ra_state :: ctype where
  "struct_file_ra_state =
    CStruct False
     [Field ''start'' (CInt 8),
      Field ''size'' (CInt 4),
      Field ''async_size'' (CInt 4),
      Field ''ra_pages'' (CInt 4),
      Field ''order'' (CInt 2),
      Field ''mmap_miss'' (CInt 2),
      Field ''prev_pos'' t_loff_t]"

lemma lay_struct_file_ra_state [layouts]: "lay struct_file_ra_state = (32, 8)"
  by (simp add: struct_file_ra_state_def layouts lay_eval)

lemma wf_struct_file_ra_state [wf_types]: "wf_type struct_file_ra_state"
  by (simp add: struct_file_ra_state_def wf_types)

definition t_errseq_t :: ctype where "t_errseq_t = t_u32"

lemma lay_t_errseq_t [layouts]: "lay t_errseq_t = (4, 4)"
  by (simp add: t_errseq_t_def layouts lay_eval)

lemma wf_t_errseq_t [wf_types]: "wf_type t_errseq_t"
  by (simp add: t_errseq_t_def wf_types)

definition t_file_ref_t :: ctype where "t_file_ref_t = CStruct False [Field ''refcnt'' t_atomic64_t]"

lemma lay_t_file_ref_t [layouts]: "lay t_file_ref_t = (8, 8)"
  by (simp add: t_file_ref_t_def layouts lay_eval)

lemma wf_t_file_ref_t [wf_types]: "wf_type t_file_ref_t"
  by (simp add: t_file_ref_t_def wf_types)

definition t_fmode_t :: ctype where "t_fmode_t = CInt 4"

lemma lay_t_fmode_t [layouts]: "lay t_fmode_t = (4, 4)"
  by (simp add: t_fmode_t_def layouts lay_eval)

lemma wf_t_fmode_t [wf_types]: "wf_type t_fmode_t"
  by (simp add: t_fmode_t_def wf_types)

definition struct_file :: ctype where
  "struct_file =
    CStruct False
     [Field ''f_lock'' t_spinlock_t,
      Field ''f_mode'' t_fmode_t,
      Field ''f_op'' CPtr,
      Field ''f_mapping'' CPtr,
      Field ''private_data'' CPtr,
      Field ''f_inode'' CPtr,
      Field ''f_flags'' (CInt 4),
      Field ''f_iocb_flags'' (CInt 4),
      Field ''f_cred'' CPtr,
      Field ''f_owner'' CPtr,
      Field [] (CUnion False [Field ''f_path'' struct_path, Field ''__f_path'' struct_path]),
      Field [] (CUnion False [Field ''f_pos_lock'' struct_mutex, Field ''f_pipe'' t_u64]),
      Field ''f_pos'' t_loff_t,
      Field ''f_security'' CPtr,
      Field ''f_wb_err'' t_errseq_t,
      Field ''f_sb_err'' t_errseq_t,
      Field ''f_ep'' CPtr,
      Field [] (CUnion False [Field ''f_task_work'' struct_callback_head, Field ''f_llist''
        struct_llist_node, Field ''f_ra'' struct_file_ra_state, Field ''f_freeptr'' t_freeptr_t]),
      Field ''f_ref'' t_file_ref_t]"

lemma lay_struct_file [layouts]: "lay struct_file = (184, 8)"
  by (simp add: struct_file_def layouts lay_eval)

lemma wf_struct_file [wf_types]: "wf_type struct_file"
  by (simp add: struct_file_def wf_types)

definition enum_rw_hint :: enumerators where
  "enum_rw_hint =
    [(''WRITE_LIFE_NOT_SET'', 0), (''WRITE_LIFE_NONE'', 1), (''WRITE_LIFE_SHORT'', 2),
      (''WRITE_LIFE_MEDIUM'', 3), (''WRITE_LIFE_LONG'', 4), (''WRITE_LIFE_EXTREME'', 5),
      (''WRITE_LIFE_HINT_NR'', 6)]"

definition struct_address_space :: ctype where
  "struct_address_space =
    CStruct False
     [Field ''host'' CPtr,
      Field ''i_pages'' struct_xarray,
      Field ''invalidate_lock'' struct_rw_semaphore,
      Field ''gfp_mask'' t_gfp_t,
      Field ''i_mmap_writable'' t_atomic_t,
      Field ''i_mmap'' struct_rb_root_cached,
      Field ''nrpages'' (CInt 8),
      Field ''writeback_index'' (CInt 8),
      Field ''a_ops'' CPtr,
      Field ''flags'' (CInt 8),
      Field ''wb_err'' t_errseq_t,
      Field ''i_private_lock'' t_spinlock_t,
      Field ''i_private_list'' struct_list_head,
      Field ''i_mmap_rwsem'' struct_rw_semaphore,
      Field ''i_private_data'' CPtr]"

lemma lay_struct_address_space [layouts]: "lay struct_address_space = (192, 8)"
  by (simp add: struct_address_space_def layouts lay_eval)

lemma wf_struct_address_space [wf_types]: "wf_type struct_address_space"
  by (simp add: struct_address_space_def wf_types)

definition enum_inode_state_flags_enum :: enumerators where
  "enum_inode_state_flags_enum =
    [(''I_NEW'', 1), (''I_SYNC'', 2), (''I_LRU_ISOLATING'', 4), (''I_DIRTY_SYNC'', 16),
      (''I_DIRTY_DATASYNC'', 32), (''I_DIRTY_PAGES'', 64), (''I_WILL_FREE'', 128), (''I_FREEING'',
      256), (''I_CLEAR'', 512), (''I_REFERENCED'', 1024), (''I_LINKABLE'', 2048), (''I_DIRTY_TIME'',
      4096), (''I_WB_SWITCH'', 8192), (''I_OVL_INUSE'', 16384), (''I_CREATING'', 32768),
      (''I_DONTCACHE'', 65536), (''I_SYNC_QUEUED'', 131072), (''I_PINNING_NETFS_WB'', 262144)]"

lemma lay_enum_inode_state_flags_enum [layouts]: "lay (c_enum enum_inode_state_flags_enum) = (4, 4)"
  by (simp add: c_enum_def enum_inode_state_flags_enum_def)

lemma wf_enum_inode_state_flags_enum [wf_types]: "wf_type (c_enum enum_inode_state_flags_enum)"
  by (simp add: c_enum_def)

definition struct_inode_state_flags :: ctype where
  "struct_inode_state_flags =
    CStruct False
     [Field ''__state'' (c_enum enum_inode_state_flags_enum)]"

lemma lay_struct_inode_state_flags [layouts]: "lay struct_inode_state_flags = (4, 4)"
  by (simp add: struct_inode_state_flags_def layouts lay_eval)

lemma wf_struct_inode_state_flags [wf_types]: "wf_type struct_inode_state_flags"
  by (simp add: struct_inode_state_flags_def wf_types)

definition t_blkcnt_t :: ctype where "t_blkcnt_t = t_u64"

lemma lay_t_blkcnt_t [layouts]: "lay t_blkcnt_t = (8, 8)"
  by (simp add: t_blkcnt_t_def layouts lay_eval)

lemma wf_t_blkcnt_t [wf_types]: "wf_type t_blkcnt_t"
  by (simp add: t_blkcnt_t_def wf_types)

definition t___kernel_dev_t :: ctype where "t___kernel_dev_t = t_u32"

lemma lay_t___kernel_dev_t [layouts]: "lay t___kernel_dev_t = (4, 4)"
  by (simp add: t___kernel_dev_t_def layouts lay_eval)

lemma wf_t___kernel_dev_t [wf_types]: "wf_type t___kernel_dev_t"
  by (simp add: t___kernel_dev_t_def wf_types)

definition t_dev_t :: ctype where "t_dev_t = t___kernel_dev_t"

lemma lay_t_dev_t [layouts]: "lay t_dev_t = (4, 4)"
  by (simp add: t_dev_t_def layouts lay_eval)

lemma wf_t_dev_t [wf_types]: "wf_type t_dev_t"
  by (simp add: t_dev_t_def wf_types)

definition t_umode_t :: ctype where "t_umode_t = CInt 2"

lemma lay_t_umode_t [layouts]: "lay t_umode_t = (2, 2)"
  by (simp add: t_umode_t_def layouts lay_eval)

lemma wf_t_umode_t [wf_types]: "wf_type t_umode_t"
  by (simp add: t_umode_t_def wf_types)

definition struct_inode :: ctype where
  "struct_inode =
    CStruct False
     [Field ''i_mode'' t_umode_t,
      Field ''i_opflags'' (CInt 2),
      Field ''i_flags'' (CInt 4),
      Field ''i_acl'' CPtr,
      Field ''i_default_acl'' CPtr,
      Field ''i_uid'' t_kuid_t,
      Field ''i_gid'' t_kgid_t,
      Field ''i_op'' CPtr,
      Field ''i_sb'' CPtr,
      Field ''i_mapping'' CPtr,
      Field ''i_security'' CPtr,
      Field ''i_ino'' (CInt 8),
      Field [] (CUnion False [Field ''i_nlink'' (CInt 4), Field ''__i_nlink'' (CInt 4)]),
      Field ''i_rdev'' t_dev_t,
      Field ''i_size'' t_loff_t,
      Field ''i_atime_sec'' t_time64_t,
      Field ''i_mtime_sec'' t_time64_t,
      Field ''i_ctime_sec'' t_time64_t,
      Field ''i_atime_nsec'' t_u32,
      Field ''i_mtime_nsec'' t_u32,
      Field ''i_ctime_nsec'' t_u32,
      Field ''i_generation'' t_u32,
      Field ''i_lock'' t_spinlock_t,
      Field ''i_bytes'' (CInt 2),
      Field ''i_blkbits'' t_u8,
      Field ''i_write_hint'' (CInt 1),
      Field ''i_blocks'' t_blkcnt_t,
      Field ''i_state'' struct_inode_state_flags,
      Field ''i_rwsem'' struct_rw_semaphore,
      Field ''dirtied_when'' (CInt 8),
      Field ''dirtied_time_when'' (CInt 8),
      Field ''i_hash'' struct_hlist_node,
      Field ''i_io_list'' struct_list_head,
      Field ''i_wb'' CPtr,
      Field ''i_wb_frn_winner'' (CInt 4),
      Field ''i_wb_frn_avg_time'' t_u16,
      Field ''i_wb_frn_history'' t_u16,
      Field ''i_lru'' struct_list_head,
      Field ''i_sb_list'' struct_list_head,
      Field ''i_wb_list'' struct_list_head,
      Field [] (CUnion False [Field ''i_dentry'' struct_hlist_head, Field ''i_rcu''
        struct_callback_head]),
      Field ''i_version'' t_atomic64_t,
      Field ''i_sequence'' t_atomic64_t,
      Field ''i_count'' t_atomic_t,
      Field ''i_dio_count'' t_atomic_t,
      Field ''i_writecount'' t_atomic_t,
      Field ''i_readcount'' t_atomic_t,
      Field [] (CUnion False [Field ''i_fop'' CPtr, Field ''free_inode'' CPtr]),
      Field ''i_flctx'' CPtr,
      Field ''i_data'' struct_address_space,
      Field [] (CUnion False [Field ''i_devices'' struct_list_head, Field ''i_linklen'' (CInt 4)]),
      Field [] (CUnion False [Field ''i_pipe'' CPtr, Field ''i_cdev'' CPtr, Field ''i_link'' CPtr,
        Field ''i_dir_seq'' (CInt 4)]),
      Field ''i_fsnotify_mask'' t___u32,
      Field ''i_fsnotify_marks'' CPtr,
      Field ''i_private'' CPtr]"

lemma lay_struct_inode [layouts]: "lay struct_inode = (608, 8)"
  by (simp add: struct_inode_def layouts lay_eval)

lemma wf_struct_inode [wf_types]: "wf_type struct_inode"
  by (simp add: struct_inode_def wf_types)

definition struct_hlist_bl_head :: ctype where
  "struct_hlist_bl_head =
    CStruct False
     [Field ''first'' CPtr]"

lemma lay_struct_hlist_bl_head [layouts]: "lay struct_hlist_bl_head = (8, 8)"
  by (simp add: struct_hlist_bl_head_def layouts lay_eval)

lemma wf_struct_hlist_bl_head [wf_types]: "wf_type struct_hlist_bl_head"
  by (simp add: struct_hlist_bl_head_def wf_types)

definition struct_list_lru :: ctype where
  "struct_list_lru =
    CStruct False
     [Field ''node'' CPtr,
      Field ''list'' struct_list_head,
      Field ''shrinker_id'' (CInt 4),
      Field ''memcg_aware'' (CInt 1),
      Field ''xa'' struct_xarray]"

lemma lay_struct_list_lru [layouts]: "lay struct_list_lru = (48, 8)"
  by (simp add: struct_list_lru_def layouts lay_eval)

lemma wf_struct_list_lru [wf_types]: "wf_type struct_list_lru"
  by (simp add: struct_list_lru_def wf_types)

definition t_qsize_t :: ctype where "t_qsize_t = CInt 8"

lemma lay_t_qsize_t [layouts]: "lay t_qsize_t = (8, 8)"
  by (simp add: t_qsize_t_def layouts lay_eval)

lemma wf_t_qsize_t [wf_types]: "wf_type t_qsize_t"
  by (simp add: t_qsize_t_def wf_types)

definition struct_mem_dqinfo :: ctype where
  "struct_mem_dqinfo =
    CStruct False
     [Field ''dqi_format'' CPtr,
      Field ''dqi_fmt_id'' (CInt 4),
      Field ''dqi_dirty_list'' struct_list_head,
      Field ''dqi_flags'' (CInt 8),
      Field ''dqi_bgrace'' (CInt 4),
      Field ''dqi_igrace'' (CInt 4),
      Field ''dqi_max_spc_limit'' t_qsize_t,
      Field ''dqi_max_ino_limit'' t_qsize_t,
      Field ''dqi_priv'' CPtr]"

lemma lay_struct_mem_dqinfo [layouts]: "lay struct_mem_dqinfo = (72, 8)"
  by (simp add: struct_mem_dqinfo_def layouts lay_eval)

lemma wf_struct_mem_dqinfo [wf_types]: "wf_type struct_mem_dqinfo"
  by (simp add: struct_mem_dqinfo_def wf_types)

definition struct_quota_info :: ctype where
  "struct_quota_info =
    CStruct False
     [Field ''flags'' (CInt 4),
      Field ''dqio_sem'' struct_rw_semaphore,
      Field ''files'' (CArr CPtr 3),
      Field ''info'' (CArr struct_mem_dqinfo 3),
      Field ''ops'' (CArr CPtr 3)]"

lemma lay_struct_quota_info [layouts]: "lay struct_quota_info = (312, 8)"
  by (simp add: struct_quota_info_def layouts lay_eval)

lemma wf_struct_quota_info [wf_types]: "wf_type struct_quota_info"
  by (simp add: struct_quota_info_def wf_types)

definition struct_rcu_sync :: ctype where
  "struct_rcu_sync =
    CStruct False
     [Field ''gp_state'' (CInt 4),
      Field ''gp_count'' (CInt 4),
      Field ''gp_wait'' t_wait_queue_head_t,
      Field ''cb_head'' struct_callback_head]"

lemma lay_struct_rcu_sync [layouts]: "lay struct_rcu_sync = (48, 8)"
  by (simp add: struct_rcu_sync_def layouts lay_eval)

lemma wf_struct_rcu_sync [wf_types]: "wf_type struct_rcu_sync"
  by (simp add: struct_rcu_sync_def wf_types)

definition struct_percpu_rw_semaphore :: ctype where
  "struct_percpu_rw_semaphore =
    CStruct False
     [Field ''rss'' struct_rcu_sync,
      Field ''read_count'' CPtr,
      Field ''writer'' struct_rcuwait,
      Field ''waiters'' t_wait_queue_head_t,
      Field ''block'' t_atomic_t]"

lemma lay_struct_percpu_rw_semaphore [layouts]: "lay struct_percpu_rw_semaphore = (96, 8)"
  by (simp add: struct_percpu_rw_semaphore_def layouts lay_eval)

lemma wf_struct_percpu_rw_semaphore [wf_types]: "wf_type struct_percpu_rw_semaphore"
  by (simp add: struct_percpu_rw_semaphore_def wf_types)

definition struct_sb_writers :: ctype where
  "struct_sb_writers =
    CStruct False
     [Field ''frozen'' (CInt 2),
      Field ''freeze_kcount'' (CInt 4),
      Field ''freeze_ucount'' (CInt 4),
      Field ''freeze_owner'' CPtr,
      Field ''rw_sem'' (CArr struct_percpu_rw_semaphore 3)]"

lemma lay_struct_sb_writers [layouts]: "lay struct_sb_writers = (312, 8)"
  by (simp add: struct_sb_writers_def layouts lay_eval)

lemma wf_struct_sb_writers [wf_types]: "wf_type struct_sb_writers"
  by (simp add: struct_sb_writers_def wf_types)

definition t_uuid_t :: ctype where "t_uuid_t = CStruct False [Field ''b'' (CArr t___u8 16)]"

lemma lay_t_uuid_t [layouts]: "lay t_uuid_t = (16, 1)"
  by (simp add: t_uuid_t_def layouts lay_eval)

lemma wf_t_uuid_t [wf_types]: "wf_type t_uuid_t"
  by (simp add: t_uuid_t_def wf_types)

definition struct_super_block :: ctype where
  "struct_super_block =
    CStruct False
     [Field ''s_list'' struct_list_head,
      Field ''s_dev'' t_dev_t,
      Field ''s_blocksize_bits'' (CInt 1),
      Field ''s_blocksize'' (CInt 8),
      Field ''s_maxbytes'' t_loff_t,
      Field ''s_type'' CPtr,
      Field ''s_op'' CPtr,
      Field ''dq_op'' CPtr,
      Field ''s_qcop'' CPtr,
      Field ''s_export_op'' CPtr,
      Field ''s_flags'' (CInt 8),
      Field ''s_iflags'' (CInt 8),
      Field ''s_magic'' (CInt 8),
      Field ''s_root'' CPtr,
      Field ''s_umount'' struct_rw_semaphore,
      Field ''s_count'' (CInt 4),
      Field ''s_active'' t_atomic_t,
      Field ''s_security'' CPtr,
      Field ''s_xattr'' CPtr,
      Field ''s_cop'' CPtr,
      Field ''s_master_keys'' CPtr,
      Field ''s_vop'' CPtr,
      Field ''s_encoding'' CPtr,
      Field ''s_encoding_flags'' t___u16,
      Field ''s_roots'' struct_hlist_bl_head,
      Field ''s_mounts'' CPtr,
      Field ''s_bdev'' CPtr,
      Field ''s_bdev_file'' CPtr,
      Field ''s_bdi'' CPtr,
      Field ''s_mtd'' CPtr,
      Field ''s_instances'' struct_hlist_node,
      Field ''s_quota_types'' (CInt 4),
      Field ''s_dquot'' struct_quota_info,
      Field ''s_writers'' struct_sb_writers,
      Field ''s_fs_info'' CPtr,
      Field ''s_time_gran'' t_u32,
      Field ''s_time_min'' t_time64_t,
      Field ''s_time_max'' t_time64_t,
      Field ''s_fsnotify_mask'' t_u32,
      Field ''s_fsnotify_info'' CPtr,
      Field ''s_id'' (CArr (CInt 1) 32),
      Field ''s_uuid'' t_uuid_t,
      Field ''s_uuid_len'' t_u8,
      Field ''s_sysfs_name'' (CArr (CInt 1) 37),
      Field ''s_max_links'' (CInt 4),
      Field ''s_d_flags'' (CInt 4),
      Field ''s_vfs_rename_mutex'' struct_mutex,
      Field ''s_subtype'' CPtr,
      Field ''__s_d_op'' CPtr,
      Field ''s_shrink'' CPtr,
      Field ''s_remove_count'' t_atomic_long_t,
      Field ''s_readonly_remount'' (CInt 4),
      Field ''s_wb_err'' t_errseq_t,
      Field ''s_dio_done_wq'' CPtr,
      Field ''s_pins'' struct_hlist_head,
      Field ''s_user_ns'' CPtr,
      Field ''s_dentry_lru'' struct_list_lru,
      Field ''s_inode_lru'' struct_list_lru,
      Field ''rcu'' struct_callback_head,
      Field ''destroy_work'' struct_work_struct,
      Field ''s_sync_lock'' struct_mutex,
      Field ''s_stack_depth'' (CInt 4),
      Pad 8 64,
      Field ''s_inode_list_lock'' t_spinlock_t,
      Field ''s_inodes'' struct_list_head,
      Field ''s_inode_wblist_lock'' t_spinlock_t,
      Field ''s_inodes_wb'' struct_list_head,
      Field ''s_min_writeback_pages'' (CInt 8),
      Field ''s_pending_errors'' t_refcount_t]"

lemma lay_struct_super_block [layouts]: "lay struct_super_block = (1408, 8)"
  by (simp add: struct_super_block_def layouts lay_eval)

lemma wf_struct_super_block [wf_types]: "wf_type struct_super_block"
  by (simp add: struct_super_block_def wf_types)

definition struct_hlist_bl_node :: ctype where
  "struct_hlist_bl_node =
    CStruct False
     [Field ''next'' CPtr,
      Field ''pprev'' CPtr]"

lemma lay_struct_hlist_bl_node [layouts]: "lay struct_hlist_bl_node = (16, 8)"
  by (simp add: struct_hlist_bl_node_def layouts lay_eval)

lemma wf_struct_hlist_bl_node [wf_types]: "wf_type struct_hlist_bl_node"
  by (simp add: struct_hlist_bl_node_def wf_types)

definition struct_lockref :: ctype where
  "struct_lockref =
    CStruct False
     [Field [] (CUnion False [Field ''lock_count'' t___u64, Field [] (CStruct False [Field ''lock''
        t_spinlock_t, Field ''count'' (CInt 4)])])]"

lemma lay_struct_lockref [layouts]: "lay struct_lockref = (8, 8)"
  by (simp add: struct_lockref_def layouts lay_eval)

lemma wf_struct_lockref [wf_types]: "wf_type struct_lockref"
  by (simp add: struct_lockref_def wf_types)

definition struct_qstr :: ctype where
  "struct_qstr =
    CStruct False
     [Field [] (CUnion False [Field [] (CStruct False [Field ''hash'' t_u32, Field ''len'' t_u32]),
        Field ''hash_len'' t_u64]),
      Field ''name'' CPtr]"

lemma lay_struct_qstr [layouts]: "lay struct_qstr = (16, 8)"
  by (simp add: struct_qstr_def layouts lay_eval)

lemma wf_struct_qstr [wf_types]: "wf_type struct_qstr"
  by (simp add: struct_qstr_def wf_types)

definition union_shortname_store :: ctype where
  "union_shortname_store =
    CUnion False
     [Field ''string'' (CArr (CInt 1) 40),
      Field ''words'' (CArr (CInt 8) 5)]"

lemma lay_union_shortname_store [layouts]: "lay union_shortname_store = (40, 8)"
  by (simp add: union_shortname_store_def layouts lay_eval)

lemma wf_union_shortname_store [wf_types]: "wf_type union_shortname_store"
  by (simp add: union_shortname_store_def wf_types)

definition struct_dentry :: ctype where
  "struct_dentry =
    CStruct False
     [Field ''d_flags'' (CInt 4),
      Field ''d_seq'' t_seqcount_spinlock_t,
      Field ''d_hash'' struct_hlist_bl_node,
      Field ''d_parent'' CPtr,
      Field [] (CUnion False [Field ''__d_name'' struct_qstr, Field ''d_name'' struct_qstr]),
      Field ''d_inode'' CPtr,
      Field ''d_shortname'' union_shortname_store,
      Field ''d_op'' CPtr,
      Field ''d_sb'' CPtr,
      Field ''d_time'' (CInt 8),
      Field ''d_fsdata'' CPtr,
      Field ''d_lockref'' struct_lockref,
      Field [] (CUnion False [Field ''d_lru'' struct_list_head, Field ''d_wait'' CPtr]),
      Field ''d_sib'' struct_hlist_node,
      Field ''d_children'' struct_hlist_head,
      Field ''d_u'' (CUnion False [Field ''d_alias'' struct_hlist_node, Field ''d_in_lookup_hash''
        struct_hlist_bl_node, Field ''d_rcu'' struct_callback_head])]"

lemma lay_struct_dentry [layouts]: "lay struct_dentry = (192, 8)"
  by (simp add: struct_dentry_def layouts lay_eval)

lemma wf_struct_dentry [wf_types]: "wf_type struct_dentry"
  by (simp add: struct_dentry_def wf_types)

definition t_memdesc_flags_t :: ctype where "t_memdesc_flags_t = CStruct False [Field ''f'' (CInt 8)]"

lemma lay_t_memdesc_flags_t [layouts]: "lay t_memdesc_flags_t = (8, 8)"
  by (simp add: t_memdesc_flags_t_def layouts lay_eval)

lemma wf_t_memdesc_flags_t [wf_types]: "wf_type t_memdesc_flags_t"
  by (simp add: t_memdesc_flags_t_def wf_types)

definition struct_page :: ctype where
  "struct_page =
    CStruct False
     [Field ''flags'' t_memdesc_flags_t,
      Field [] (CUnion False [Field [] (CStruct False [Field [] (CUnion False [Field ''lru''
        struct_list_head, Field ''buddy_list'' struct_list_head, Field ''pcp_list''
        struct_list_head, Field ''pcp_llist'' struct_llist_node]), Field ''mapping'' CPtr, Field []
        (CUnion False [Field ''__folio_index'' (CInt 8), Field ''share'' (CInt 8)]), Field
        ''private'' (CInt 8)]), Field [] (CStruct False [Field ''pp_magic'' (CInt 8), Field ''pp''
        CPtr, Field ''_pp_mapping_pad'' (CInt 8), Field ''dma_addr'' (CInt 8), Field
        ''pp_ref_count'' t_atomic_long_t]), Field [] (CStruct False [Field ''compound_head'' (CInt
        8)]), Field [] (CStruct False [Field ''_unused_pgmap_compound_head'' CPtr, Field
        ''zone_device_data'' CPtr]), Field ''callback_head'' struct_callback_head]),
      Field [] (CUnion False [Field ''page_type'' (CInt 4), Field ''_mapcount'' t_atomic_t]),
      Field ''_refcount'' t_atomic_t,
      Field ''memcg_data'' (CInt 8)]"

lemma lay_struct_page [layouts]: "lay struct_page = (64, 8)"
  by (simp add: struct_page_def layouts lay_eval)

lemma wf_struct_page [wf_types]: "wf_type struct_page"
  by (simp add: struct_page_def wf_types)

end
