(* ===== verification/BpfTypes.thy ===== *)
theory BpfTypes
  imports FileTypes
begin

text \<open>
  The kernel objects of the eBPF runtime: ring buffers, maps and programs, the tracepoint and the
  registers.
  The definitions follow the declarations of \<open>bpf/vmlinux.h\<close>; the lemmas compute sizes and
  alignments.
\<close>

definition enum_bpf_map_type :: enumerators where
  "enum_bpf_map_type =
    [(''BPF_MAP_TYPE_UNSPEC'', 0), (''BPF_MAP_TYPE_HASH'', 1), (''BPF_MAP_TYPE_ARRAY'', 2),
      (''BPF_MAP_TYPE_PROG_ARRAY'', 3), (''BPF_MAP_TYPE_PERF_EVENT_ARRAY'', 4),
      (''BPF_MAP_TYPE_PERCPU_HASH'', 5), (''BPF_MAP_TYPE_PERCPU_ARRAY'', 6),
      (''BPF_MAP_TYPE_STACK_TRACE'', 7), (''BPF_MAP_TYPE_CGROUP_ARRAY'', 8),
      (''BPF_MAP_TYPE_LRU_HASH'', 9), (''BPF_MAP_TYPE_LRU_PERCPU_HASH'', 10),
      (''BPF_MAP_TYPE_LPM_TRIE'', 11), (''BPF_MAP_TYPE_ARRAY_OF_MAPS'', 12),
      (''BPF_MAP_TYPE_HASH_OF_MAPS'', 13), (''BPF_MAP_TYPE_DEVMAP'', 14), (''BPF_MAP_TYPE_SOCKMAP'',
      15), (''BPF_MAP_TYPE_CPUMAP'', 16), (''BPF_MAP_TYPE_XSKMAP'', 17), (''BPF_MAP_TYPE_SOCKHASH'',
      18), (''BPF_MAP_TYPE_CGROUP_STORAGE_DEPRECATED'', 19), (''BPF_MAP_TYPE_CGROUP_STORAGE'', 19),
      (''BPF_MAP_TYPE_REUSEPORT_SOCKARRAY'', 20),
      (''BPF_MAP_TYPE_PERCPU_CGROUP_STORAGE_DEPRECATED'', 21),
      (''BPF_MAP_TYPE_PERCPU_CGROUP_STORAGE'', 21), (''BPF_MAP_TYPE_QUEUE'', 22),
      (''BPF_MAP_TYPE_STACK'', 23), (''BPF_MAP_TYPE_SK_STORAGE'', 24),
      (''BPF_MAP_TYPE_DEVMAP_HASH'', 25), (''BPF_MAP_TYPE_STRUCT_OPS'', 26),
      (''BPF_MAP_TYPE_RINGBUF'', 27), (''BPF_MAP_TYPE_INODE_STORAGE'', 28),
      (''BPF_MAP_TYPE_TASK_STORAGE'', 29), (''BPF_MAP_TYPE_BLOOM_FILTER'', 30),
      (''BPF_MAP_TYPE_USER_RINGBUF'', 31), (''BPF_MAP_TYPE_CGRP_STORAGE'', 32),
      (''BPF_MAP_TYPE_ARENA'', 33), (''BPF_MAP_TYPE_INSN_ARRAY'', 34), (''__MAX_BPF_MAP_TYPE'', 35)]"

lemma lay_enum_bpf_map_type [layouts]: "lay (c_enum enum_bpf_map_type) = (4, 4)"
  by (simp add: c_enum_def enum_bpf_map_type_def)

lemma wf_enum_bpf_map_type [wf_types]: "wf_type (c_enum enum_bpf_map_type)"
  by (simp add: c_enum_def)

definition struct_bpf_map :: ctype where
  "struct_bpf_map =
    CStruct False
     [Field ''sha'' (CArr t_u8 32),
      Field ''ops'' CPtr,
      Field ''inner_map_meta'' CPtr,
      Field ''security'' CPtr,
      Field ''map_type'' (c_enum enum_bpf_map_type),
      Field ''key_size'' t_u32,
      Field ''value_size'' t_u32,
      Field ''max_entries'' t_u32,
      Field ''map_extra'' t_u64,
      Field ''map_flags'' t_u32,
      Field ''id'' t_u32,
      Field ''record'' CPtr,
      Field ''numa_node'' (CInt 4),
      Field ''btf_key_type_id'' t_u32,
      Field ''btf_value_type_id'' t_u32,
      Field ''btf_vmlinux_value_type_id'' t_u32,
      Field ''btf'' CPtr,
      Field ''objcg'' CPtr,
      Field ''name'' (CArr (CInt 1) 16),
      Field ''freeze_mutex'' struct_mutex,
      Field ''refcnt'' t_atomic64_t,
      Field ''usercnt'' t_atomic64_t,
      Field [] (CUnion False [Field ''work'' struct_work_struct, Field ''rcu''
        struct_callback_head]),
      Field ''writecnt'' t_atomic64_t,
      Field ''owner_lock'' t_spinlock_t,
      Field ''owner'' CPtr,
      Field ''bypass_spec_v1'' (CInt 1),
      Field ''frozen'' (CInt 1),
      Field ''free_after_mult_rcu_gp'' (CInt 1),
      Field ''free_after_rcu_gp'' (CInt 1),
      Field ''sleepable_refcnt'' t_atomic64_t,
      Field ''elem_count'' CPtr,
      Field ''cookie'' t_u64,
      Field ''excl_prog_sha'' CPtr]"

lemma lay_struct_bpf_map [layouts]: "lay struct_bpf_map = (288, 8)"
  by (simp add: struct_bpf_map_def layouts lay_eval)

lemma wf_struct_bpf_map [wf_types]: "wf_type struct_bpf_map"
  by (simp add: struct_bpf_map_def wf_types)

definition struct_bpf_ringbuf_map :: ctype where
  "struct_bpf_ringbuf_map =
    CStruct False
     [Field ''map'' struct_bpf_map,
      Field ''rb'' CPtr]"

lemma lay_struct_bpf_ringbuf_map [layouts]: "lay struct_bpf_ringbuf_map = (296, 8)"
  by (simp add: struct_bpf_ringbuf_map_def layouts lay_eval)

lemma wf_struct_bpf_ringbuf_map [wf_types]: "wf_type struct_bpf_ringbuf_map"
  by (simp add: struct_bpf_ringbuf_map_def wf_types)

definition enum_bpf_attach_type :: enumerators where
  "enum_bpf_attach_type =
    [(''BPF_CGROUP_INET_INGRESS'', 0), (''BPF_CGROUP_INET_EGRESS'', 1),
      (''BPF_CGROUP_INET_SOCK_CREATE'', 2), (''BPF_CGROUP_SOCK_OPS'', 3),
      (''BPF_SK_SKB_STREAM_PARSER'', 4), (''BPF_SK_SKB_STREAM_VERDICT'', 5), (''BPF_CGROUP_DEVICE'',
      6), (''BPF_SK_MSG_VERDICT'', 7), (''BPF_CGROUP_INET4_BIND'', 8), (''BPF_CGROUP_INET6_BIND'',
      9), (''BPF_CGROUP_INET4_CONNECT'', 10), (''BPF_CGROUP_INET6_CONNECT'', 11),
      (''BPF_CGROUP_INET4_POST_BIND'', 12), (''BPF_CGROUP_INET6_POST_BIND'', 13),
      (''BPF_CGROUP_UDP4_SENDMSG'', 14), (''BPF_CGROUP_UDP6_SENDMSG'', 15), (''BPF_LIRC_MODE2'',
      16), (''BPF_FLOW_DISSECTOR'', 17), (''BPF_CGROUP_SYSCTL'', 18), (''BPF_CGROUP_UDP4_RECVMSG'',
      19), (''BPF_CGROUP_UDP6_RECVMSG'', 20), (''BPF_CGROUP_GETSOCKOPT'', 21),
      (''BPF_CGROUP_SETSOCKOPT'', 22), (''BPF_TRACE_RAW_TP'', 23), (''BPF_TRACE_FENTRY'', 24),
      (''BPF_TRACE_FEXIT'', 25), (''BPF_MODIFY_RETURN'', 26), (''BPF_LSM_MAC'', 27),
      (''BPF_TRACE_ITER'', 28), (''BPF_CGROUP_INET4_GETPEERNAME'', 29),
      (''BPF_CGROUP_INET6_GETPEERNAME'', 30), (''BPF_CGROUP_INET4_GETSOCKNAME'', 31),
      (''BPF_CGROUP_INET6_GETSOCKNAME'', 32), (''BPF_XDP_DEVMAP'', 33),
      (''BPF_CGROUP_INET_SOCK_RELEASE'', 34), (''BPF_XDP_CPUMAP'', 35), (''BPF_SK_LOOKUP'', 36),
      (''BPF_XDP'', 37), (''BPF_SK_SKB_VERDICT'', 38), (''BPF_SK_REUSEPORT_SELECT'', 39),
      (''BPF_SK_REUSEPORT_SELECT_OR_MIGRATE'', 40), (''BPF_PERF_EVENT'', 41),
      (''BPF_TRACE_KPROBE_MULTI'', 42), (''BPF_LSM_CGROUP'', 43), (''BPF_STRUCT_OPS'', 44),
      (''BPF_NETFILTER'', 45), (''BPF_TCX_INGRESS'', 46), (''BPF_TCX_EGRESS'', 47),
      (''BPF_TRACE_UPROBE_MULTI'', 48), (''BPF_CGROUP_UNIX_CONNECT'', 49),
      (''BPF_CGROUP_UNIX_SENDMSG'', 50), (''BPF_CGROUP_UNIX_RECVMSG'', 51),
      (''BPF_CGROUP_UNIX_GETPEERNAME'', 52), (''BPF_CGROUP_UNIX_GETSOCKNAME'', 53),
      (''BPF_NETKIT_PRIMARY'', 54), (''BPF_NETKIT_PEER'', 55), (''BPF_TRACE_KPROBE_SESSION'', 56),
      (''BPF_TRACE_UPROBE_SESSION'', 57), (''BPF_TRACE_FSESSION'', 58), (''__MAX_BPF_ATTACH_TYPE'',
      59)]"

lemma lay_enum_bpf_attach_type [layouts]: "lay (c_enum enum_bpf_attach_type) = (4, 4)"
  by (simp add: c_enum_def enum_bpf_attach_type_def)

lemma wf_enum_bpf_attach_type [wf_types]: "wf_type (c_enum enum_bpf_attach_type)"
  by (simp add: c_enum_def)

definition enum_bpf_prog_type :: enumerators where
  "enum_bpf_prog_type =
    [(''BPF_PROG_TYPE_UNSPEC'', 0), (''BPF_PROG_TYPE_SOCKET_FILTER'', 1), (''BPF_PROG_TYPE_KPROBE'',
      2), (''BPF_PROG_TYPE_SCHED_CLS'', 3), (''BPF_PROG_TYPE_SCHED_ACT'', 4),
      (''BPF_PROG_TYPE_TRACEPOINT'', 5), (''BPF_PROG_TYPE_XDP'', 6), (''BPF_PROG_TYPE_PERF_EVENT'',
      7), (''BPF_PROG_TYPE_CGROUP_SKB'', 8), (''BPF_PROG_TYPE_CGROUP_SOCK'', 9),
      (''BPF_PROG_TYPE_LWT_IN'', 10), (''BPF_PROG_TYPE_LWT_OUT'', 11), (''BPF_PROG_TYPE_LWT_XMIT'',
      12), (''BPF_PROG_TYPE_SOCK_OPS'', 13), (''BPF_PROG_TYPE_SK_SKB'', 14),
      (''BPF_PROG_TYPE_CGROUP_DEVICE'', 15), (''BPF_PROG_TYPE_SK_MSG'', 16),
      (''BPF_PROG_TYPE_RAW_TRACEPOINT'', 17), (''BPF_PROG_TYPE_CGROUP_SOCK_ADDR'', 18),
      (''BPF_PROG_TYPE_LWT_SEG6LOCAL'', 19), (''BPF_PROG_TYPE_LIRC_MODE2'', 20),
      (''BPF_PROG_TYPE_SK_REUSEPORT'', 21), (''BPF_PROG_TYPE_FLOW_DISSECTOR'', 22),
      (''BPF_PROG_TYPE_CGROUP_SYSCTL'', 23), (''BPF_PROG_TYPE_RAW_TRACEPOINT_WRITABLE'', 24),
      (''BPF_PROG_TYPE_CGROUP_SOCKOPT'', 25), (''BPF_PROG_TYPE_TRACING'', 26),
      (''BPF_PROG_TYPE_STRUCT_OPS'', 27), (''BPF_PROG_TYPE_EXT'', 28), (''BPF_PROG_TYPE_LSM'', 29),
      (''BPF_PROG_TYPE_SK_LOOKUP'', 30), (''BPF_PROG_TYPE_SYSCALL'', 31),
      (''BPF_PROG_TYPE_NETFILTER'', 32), (''__MAX_BPF_PROG_TYPE'', 33)]"

lemma lay_enum_bpf_prog_type [layouts]: "lay (c_enum enum_bpf_prog_type) = (4, 4)"
  by (simp add: c_enum_def enum_bpf_prog_type_def)

lemma wf_enum_bpf_prog_type [wf_types]: "wf_type (c_enum enum_bpf_prog_type)"
  by (simp add: c_enum_def)

definition t___s16 :: ctype where "t___s16 = CInt 2"

lemma lay_t___s16 [layouts]: "lay t___s16 = (2, 2)"
  by (simp add: t___s16_def layouts lay_eval)

lemma wf_t___s16 [wf_types]: "wf_type t___s16"
  by (simp add: t___s16_def wf_types)

definition struct_bpf_insn :: ctype where
  "struct_bpf_insn =
    CStruct False
     [Field ''code'' t___u8,
      Bits ''dst_reg'' 1 4,
      Bits ''src_reg'' 1 4,
      Field ''off'' t___s16,
      Field ''imm'' t___s32]"

lemma lay_struct_bpf_insn [layouts]: "lay struct_bpf_insn = (8, 4)"
  by (simp add: struct_bpf_insn_def layouts lay_eval)

lemma wf_struct_bpf_insn [wf_types]: "wf_type struct_bpf_insn"
  by (simp add: struct_bpf_insn_def wf_types)

definition struct_sock_filter :: ctype where
  "struct_sock_filter =
    CStruct False
     [Field ''code'' t___u16,
      Field ''jt'' t___u8,
      Field ''jf'' t___u8,
      Field ''k'' t___u32]"

lemma lay_struct_sock_filter [layouts]: "lay struct_sock_filter = (8, 4)"
  by (simp add: struct_sock_filter_def layouts lay_eval)

lemma wf_struct_sock_filter [wf_types]: "wf_type struct_sock_filter"
  by (simp add: struct_sock_filter_def wf_types)

definition struct_bpf_prog :: ctype where
  "struct_bpf_prog =
    CStruct False
     [Field ''pages'' t_u16,
      Bits ''jited'' 2 1,
      Bits ''jit_requested'' 2 1,
      Bits ''gpl_compatible'' 2 1,
      Bits ''cb_access'' 2 1,
      Bits ''dst_needed'' 2 1,
      Bits ''blinding_requested'' 2 1,
      Bits ''blinded'' 2 1,
      Bits ''is_func'' 2 1,
      Bits ''kprobe_override'' 2 1,
      Bits ''has_callchain_buf'' 2 1,
      Bits ''enforce_expected_attach_type'' 2 1,
      Bits ''call_get_stack'' 2 1,
      Bits ''call_get_func_ip'' 2 1,
      Bits ''call_session_cookie'' 2 1,
      Bits ''tstamp_type_access'' 2 1,
      Bits ''sleepable'' 2 1,
      Field ''type'' (c_enum enum_bpf_prog_type),
      Field ''expected_attach_type'' (c_enum enum_bpf_attach_type),
      Field ''len'' t_u32,
      Field ''jited_len'' t_u32,
      Field [] (CUnion False [Field ''digest'' (CArr t_u8 32), Field ''tag'' (CArr t_u8 8)]),
      Field ''stats'' CPtr,
      Field ''active'' CPtr,
      Field ''bpf_func'' CPtr,
      Field ''aux'' CPtr,
      Field ''orig_prog'' CPtr,
      Field [] (CUnion False [Field [] (CStruct False [Field ''__empty_insns'' (CStruct False []),
        Field ''insns'' (CArr struct_sock_filter 0)]), Field [] (CStruct False [Field
        ''__empty_insnsi'' (CStruct False []), Field ''insnsi'' (CArr struct_bpf_insn 0)])])]"

lemma lay_struct_bpf_prog [layouts]: "lay struct_bpf_prog = (96, 8)"
  by (simp add: struct_bpf_prog_def layouts lay_eval)

lemma wf_struct_bpf_prog [wf_types]: "wf_type struct_bpf_prog"
  by (simp add: struct_bpf_prog_def wf_types)

definition struct_latch_tree_node :: ctype where
  "struct_latch_tree_node =
    CStruct False
     [Field ''node'' (CArr struct_rb_node 2)]"

lemma lay_struct_latch_tree_node [layouts]: "lay struct_latch_tree_node = (48, 8)"
  by (simp add: struct_latch_tree_node_def layouts lay_eval)

lemma wf_struct_latch_tree_node [wf_types]: "wf_type struct_latch_tree_node"
  by (simp add: struct_latch_tree_node_def wf_types)

definition struct_bpf_ksym :: ctype where
  "struct_bpf_ksym =
    CStruct False
     [Field ''start'' (CInt 8),
      Field ''end'' (CInt 8),
      Field ''name'' (CArr (CInt 1) 512),
      Field ''lnode'' struct_list_head,
      Field ''tnode'' struct_latch_tree_node,
      Field ''prog'' (CInt 1),
      Field ''fp_start'' t_u32,
      Field ''fp_end'' t_u32]"

lemma lay_struct_bpf_ksym [layouts]: "lay struct_bpf_ksym = (608, 8)"
  by (simp add: struct_bpf_ksym_def layouts lay_eval)

lemma wf_struct_bpf_ksym [wf_types]: "wf_type struct_bpf_ksym"
  by (simp add: struct_bpf_ksym_def wf_types)

definition struct_bpf_stream :: ctype where
  "struct_bpf_stream =
    CStruct False
     [Field ''capacity'' t_atomic_t,
      Field ''log'' struct_llist_head,
      Field ''lock'' struct_mutex,
      Field ''backlog_head'' CPtr,
      Field ''backlog_tail'' CPtr]"

lemma lay_struct_bpf_stream [layouts]: "lay struct_bpf_stream = (64, 8)"
  by (simp add: struct_bpf_stream_def layouts lay_eval)

lemma wf_struct_bpf_stream [wf_types]: "wf_type struct_bpf_stream"
  by (simp add: struct_bpf_stream_def wf_types)

definition struct_bpf_prog_aux :: ctype where
  "struct_bpf_prog_aux =
    CStruct False
     [Field ''refcnt'' t_atomic64_t,
      Field ''used_map_cnt'' t_u32,
      Field ''used_btf_cnt'' t_u32,
      Field ''max_ctx_offset'' t_u32,
      Field ''max_pkt_offset'' t_u32,
      Field ''max_tp_access'' t_u32,
      Field ''stack_depth'' t_u32,
      Field ''id'' t_u32,
      Field ''func_cnt'' t_u32,
      Field ''real_func_cnt'' t_u32,
      Field ''func_idx'' t_u32,
      Field ''attach_btf_id'' t_u32,
      Field ''attach_st_ops_member_off'' t_u32,
      Field ''ctx_arg_info_size'' t_u32,
      Field ''max_rdonly_access'' t_u32,
      Field ''max_rdwr_access'' t_u32,
      Field ''subprog_start'' t_u32,
      Field ''attach_btf'' CPtr,
      Field ''ctx_arg_info'' CPtr,
      Field ''priv_stack_ptr'' CPtr,
      Field ''dst_mutex'' struct_mutex,
      Field ''dst_prog'' CPtr,
      Field ''dst_trampoline'' CPtr,
      Field ''saved_dst_prog_type'' (c_enum enum_bpf_prog_type),
      Field ''saved_dst_attach_type'' (c_enum enum_bpf_attach_type),
      Field ''verifier_zext'' (CInt 1),
      Field ''dev_bound'' (CInt 1),
      Field ''offload_requested'' (CInt 1),
      Field ''attach_btf_trace'' (CInt 1),
      Field ''attach_tracing_prog'' (CInt 1),
      Field ''func_proto_unreliable'' (CInt 1),
      Field ''tail_call_reachable'' (CInt 1),
      Field ''xdp_has_frags'' (CInt 1),
      Field ''exception_cb'' (CInt 1),
      Field ''exception_boundary'' (CInt 1),
      Field ''is_extended'' (CInt 1),
      Field ''jits_use_priv_stack'' (CInt 1),
      Field ''priv_stack_requested'' (CInt 1),
      Field ''changes_pkt_data'' (CInt 1),
      Field ''might_sleep'' (CInt 1),
      Field ''kprobe_write_ctx'' (CInt 1),
      Field ''prog_array_member_cnt'' t_u64,
      Field ''ext_mutex'' struct_mutex,
      Field ''arena'' CPtr,
      Field ''recursion_detected'' CPtr,
      Field ''attach_func_proto'' CPtr,
      Field ''attach_func_name'' CPtr,
      Field ''func'' CPtr,
      Field ''main_prog_aux'' CPtr,
      Field ''jit_data'' CPtr,
      Field ''poke_tab'' CPtr,
      Field ''kfunc_tab'' CPtr,
      Field ''kfunc_btf_tab'' CPtr,
      Field ''size_poke_tab'' t_u32,
      Field ''ksym'' struct_bpf_ksym,
      Field ''ops'' CPtr,
      Field ''st_ops'' CPtr,
      Field ''used_maps'' CPtr,
      Field ''used_maps_mutex'' struct_mutex,
      Field ''used_btfs'' CPtr,
      Field ''prog'' CPtr,
      Field ''user'' CPtr,
      Field ''load_time'' t_u64,
      Field ''verified_insns'' t_u32,
      Field ''cgroup_atype'' (CInt 4),
      Field ''cgroup_storage'' (CArr CPtr 2),
      Field ''name'' (CArr (CInt 1) 16),
      Field ''bpf_exception_cb'' CPtr,
      Field ''security'' CPtr,
      Field ''token'' CPtr,
      Field ''offload'' CPtr,
      Field ''btf'' CPtr,
      Field ''func_info'' CPtr,
      Field ''func_info_aux'' CPtr,
      Field ''linfo'' CPtr,
      Field ''jited_linfo'' CPtr,
      Field ''func_info_cnt'' t_u32,
      Field ''nr_linfo'' t_u32,
      Field ''linfo_idx'' t_u32,
      Field ''mod'' CPtr,
      Field ''num_exentries'' t_u32,
      Field ''extable'' CPtr,
      Field [] (CUnion False [Field ''work'' struct_work_struct, Field ''rcu''
        struct_callback_head]),
      Field ''stream'' (CArr struct_bpf_stream 2),
      Field ''st_ops_assoc_mutex'' struct_mutex,
      Field ''st_ops_assoc'' CPtr]"

lemma lay_struct_bpf_prog_aux [layouts]: "lay struct_bpf_prog_aux = (1344, 8)"
  by (simp add: struct_bpf_prog_aux_def layouts lay_eval)

lemma wf_struct_bpf_prog_aux [wf_types]: "wf_type struct_bpf_prog_aux"
  by (simp add: struct_bpf_prog_aux_def wf_types)

definition struct_trace_event :: ctype where
  "struct_trace_event =
    CStruct False
     [Field ''node'' struct_hlist_node,
      Field ''type'' (CInt 4),
      Field ''funcs'' CPtr]"

lemma lay_struct_trace_event [layouts]: "lay struct_trace_event = (32, 8)"
  by (simp add: struct_trace_event_def layouts lay_eval)

lemma wf_struct_trace_event [wf_types]: "wf_type struct_trace_event"
  by (simp add: struct_trace_event_def wf_types)

definition struct_trace_event_call :: ctype where
  "struct_trace_event_call =
    CStruct False
     [Field ''list'' struct_list_head,
      Field ''class'' CPtr,
      Field [] (CUnion False [Field ''name'' CPtr, Field ''tp'' CPtr]),
      Field ''event'' struct_trace_event,
      Field ''print_fmt'' CPtr,
      Field [] (CUnion False [Field ''module'' CPtr, Field ''refcnt'' t_atomic_t]),
      Field ''data'' CPtr,
      Field ''flags'' (CInt 4),
      Field ''perf_refcount'' (CInt 4),
      Field ''perf_events'' CPtr,
      Field ''prog_array'' CPtr,
      Field ''perf_perm'' CPtr]"

lemma lay_struct_trace_event_call [layouts]: "lay struct_trace_event_call = (120, 8)"
  by (simp add: struct_trace_event_call_def layouts lay_eval)

lemma wf_struct_trace_event_call [wf_types]: "wf_type struct_trace_event_call"
  by (simp add: struct_trace_event_call_def wf_types)

definition struct_frame_record :: ctype where
  "struct_frame_record =
    CStruct False
     [Field ''fp'' t_u64,
      Field ''lr'' t_u64]"

lemma lay_struct_frame_record [layouts]: "lay struct_frame_record = (16, 8)"
  by (simp add: struct_frame_record_def layouts lay_eval)

lemma wf_struct_frame_record [wf_types]: "wf_type struct_frame_record"
  by (simp add: struct_frame_record_def wf_types)

definition struct_frame_record_meta :: ctype where
  "struct_frame_record_meta =
    CStruct False
     [Field ''record'' struct_frame_record,
      Field ''type'' t_u64]"

lemma lay_struct_frame_record_meta [layouts]: "lay struct_frame_record_meta = (24, 8)"
  by (simp add: struct_frame_record_meta_def layouts lay_eval)

lemma wf_struct_frame_record_meta [wf_types]: "wf_type struct_frame_record_meta"
  by (simp add: struct_frame_record_meta_def wf_types)

definition struct_user_pt_regs :: ctype where
  "struct_user_pt_regs =
    CStruct False
     [Field ''regs'' (CArr t___u64 31),
      Field ''sp'' t___u64,
      Field ''pc'' t___u64,
      Field ''pstate'' t___u64]"

lemma lay_struct_user_pt_regs [layouts]: "lay struct_user_pt_regs = (272, 8)"
  by (simp add: struct_user_pt_regs_def layouts lay_eval)

lemma wf_struct_user_pt_regs [wf_types]: "wf_type struct_user_pt_regs"
  by (simp add: struct_user_pt_regs_def wf_types)

definition struct_pt_regs :: ctype where
  "struct_pt_regs =
    CStruct False
     [Field [] (CUnion False [Field ''user_regs'' struct_user_pt_regs, Field [] (CStruct False
        [Field ''regs'' (CArr t_u64 31), Field ''sp'' t_u64, Field ''pc'' t_u64, Field ''pstate''
        t_u64])]),
      Field ''orig_x0'' t_u64,
      Field ''syscallno'' t_s32,
      Field ''pmr'' t_u32,
      Field ''sdei_ttbr1'' t_u64,
      Field ''stackframe'' struct_frame_record_meta]"

lemma lay_struct_pt_regs [layouts]: "lay struct_pt_regs = (320, 8)"
  by (simp add: struct_pt_regs_def layouts lay_eval)

lemma wf_struct_pt_regs [wf_types]: "wf_type struct_pt_regs"
  by (simp add: struct_pt_regs_def wf_types)

end
