(* ===== verification/SocketTypes.thy ===== *)
theory SocketTypes
  imports BpfTypes
begin

text \<open>
  The kernel objects behind \<open>connect\<close>: sockets and their buffers.
  The definitions follow the declarations of \<open>bpf/vmlinux.h\<close>; the lemmas compute sizes and
  alignments.
\<close>

definition struct_socket_wq :: ctype where
  "struct_socket_wq =
    CStruct False
     [Field ''wait'' t_wait_queue_head_t,
      Field ''fasync_list'' CPtr,
      Field ''flags'' (CInt 8),
      Field ''rcu'' struct_callback_head,
      Pad 8 64]"

lemma lay_struct_socket_wq [layouts]: "lay struct_socket_wq = (64, 8)"
  by (simp add: struct_socket_wq_def layouts lay_eval)

lemma wf_struct_socket_wq [wf_types]: "wf_type struct_socket_wq"
  by (simp add: struct_socket_wq_def wf_types)

definition t_socket_state :: ctype where "t_socket_state = CInt 4"

lemma lay_t_socket_state [layouts]: "lay t_socket_state = (4, 4)"
  by (simp add: t_socket_state_def layouts lay_eval)

lemma wf_t_socket_state [wf_types]: "wf_type t_socket_state"
  by (simp add: t_socket_state_def wf_types)

definition struct_socket :: ctype where
  "struct_socket =
    CStruct False
     [Field ''state'' t_socket_state,
      Field ''type'' (CInt 2),
      Field ''flags'' (CInt 8),
      Field ''file'' CPtr,
      Field ''sk'' CPtr,
      Field ''ops'' CPtr,
      Pad 8 64,
      Pad 8 64,
      Pad 8 64,
      Field ''wq'' struct_socket_wq]"

lemma lay_struct_socket [layouts]: "lay struct_socket = (128, 8)"
  by (simp add: struct_socket_def layouts lay_eval)

lemma wf_struct_socket [wf_types]: "wf_type struct_socket"
  by (simp add: struct_socket_def wf_types)

definition t___be64 :: ctype where "t___be64 = t___u64"

lemma lay_t___be64 [layouts]: "lay t___be64 = (8, 8)"
  by (simp add: t___be64_def layouts lay_eval)

lemma wf_t___be64 [wf_types]: "wf_type t___be64"
  by (simp add: t___be64_def wf_types)

definition struct_flowi_tunnel :: ctype where
  "struct_flowi_tunnel =
    CStruct False
     [Field ''tun_id'' t___be64]"

lemma lay_struct_flowi_tunnel [layouts]: "lay struct_flowi_tunnel = (8, 8)"
  by (simp add: struct_flowi_tunnel_def layouts lay_eval)

lemma wf_struct_flowi_tunnel [wf_types]: "wf_type struct_flowi_tunnel"
  by (simp add: struct_flowi_tunnel_def wf_types)

definition t_dscp_t :: ctype where "t_dscp_t = t_u8"

lemma lay_t_dscp_t [layouts]: "lay t_dscp_t = (1, 1)"
  by (simp add: t_dscp_t_def layouts lay_eval)

lemma wf_t_dscp_t [wf_types]: "wf_type t_dscp_t"
  by (simp add: t_dscp_t_def wf_types)

definition struct_flowi_common :: ctype where
  "struct_flowi_common =
    CStruct False
     [Field ''flowic_oif'' (CInt 4),
      Field ''flowic_iif'' (CInt 4),
      Field ''flowic_l3mdev'' (CInt 4),
      Field ''flowic_mark'' t___u32,
      Field ''flowic_dscp'' t_dscp_t,
      Field ''flowic_scope'' t___u8,
      Field ''flowic_proto'' t___u8,
      Field ''flowic_flags'' t___u8,
      Field ''flowic_secid'' t___u32,
      Field ''flowic_uid'' t_kuid_t,
      Field ''flowic_multipath_hash'' t___u32,
      Field ''flowic_tun_key'' struct_flowi_tunnel]"

lemma lay_struct_flowi_common [layouts]: "lay struct_flowi_common = (40, 8)"
  by (simp add: struct_flowi_common_def layouts lay_eval)

lemma wf_struct_flowi_common [wf_types]: "wf_type struct_flowi_common"
  by (simp add: struct_flowi_common_def wf_types)

definition union_flowi_uli :: ctype where
  "union_flowi_uli =
    CUnion False
     [Field ''ports'' (CStruct False [Field ''dport'' t___be16, Field ''sport'' t___be16]),
      Field ''icmpt'' (CStruct False [Field ''type'' t___u8, Field ''code'' t___u8]),
      Field ''gre_key'' t___be32,
      Field ''mht'' (CStruct False [Field ''type'' t___u8])]"

lemma lay_union_flowi_uli [layouts]: "lay union_flowi_uli = (4, 4)"
  by (simp add: union_flowi_uli_def layouts lay_eval)

lemma wf_union_flowi_uli [wf_types]: "wf_type union_flowi_uli"
  by (simp add: union_flowi_uli_def wf_types)

definition struct_flowi4 :: ctype where
  "struct_flowi4 =
    CStruct False
     [Field ''__fl_common'' struct_flowi_common,
      Field ''saddr'' t___be32,
      Field ''daddr'' t___be32,
      Field ''uli'' union_flowi_uli]"

lemma lay_struct_flowi4 [layouts]: "lay struct_flowi4 = (56, 8)"
  by (simp add: struct_flowi4_def layouts lay_eval)

lemma wf_struct_flowi4 [wf_types]: "wf_type struct_flowi4"
  by (simp add: struct_flowi4_def wf_types)

definition struct_flowi6 :: ctype where
  "struct_flowi6 =
    CStruct False
     [Field ''__fl_common'' struct_flowi_common,
      Field ''daddr'' struct_in6_addr,
      Field ''saddr'' struct_in6_addr,
      Field ''flowlabel'' t___be32,
      Field ''uli'' union_flowi_uli,
      Field ''mp_hash'' t___u32]"

lemma lay_struct_flowi6 [layouts]: "lay struct_flowi6 = (88, 8)"
  by (simp add: struct_flowi6_def layouts lay_eval)

lemma wf_struct_flowi6 [wf_types]: "wf_type struct_flowi6"
  by (simp add: struct_flowi6_def wf_types)

definition struct_flowi :: ctype where
  "struct_flowi =
    CStruct False
     [Field ''u'' (CUnion False [Field ''__fl_common'' struct_flowi_common, Field ''ip4''
        struct_flowi4, Field ''ip6'' struct_flowi6])]"

lemma lay_struct_flowi [layouts]: "lay struct_flowi = (88, 8)"
  by (simp add: struct_flowi_def layouts lay_eval)

lemma wf_struct_flowi [wf_types]: "wf_type struct_flowi"
  by (simp add: struct_flowi_def wf_types)

definition struct_inet6_cork :: ctype where
  "struct_inet6_cork =
    CStruct False
     [Field ''opt'' CPtr,
      Field ''hop_limit'' t_u8,
      Field ''tclass'' t_u8,
      Bits ''dontfrag'' 1 1]"

lemma lay_struct_inet6_cork [layouts]: "lay struct_inet6_cork = (16, 8)"
  by (simp add: struct_inet6_cork_def layouts lay_eval)

lemma wf_struct_inet6_cork [wf_types]: "wf_type struct_inet6_cork"
  by (simp add: struct_inet6_cork_def wf_types)

definition struct_inet_cork :: ctype where
  "struct_inet_cork =
    CStruct False
     [Field ''flags'' (CInt 4),
      Field ''addr'' t___be32,
      Field ''opt'' CPtr,
      Field ''fragsize'' (CInt 4),
      Field ''length'' (CInt 4),
      Field ''dst'' CPtr,
      Field ''tx_flags'' t_u8,
      Field ''ttl'' t___u8,
      Field ''tos'' t___s16,
      Field ''priority'' t_u32,
      Field ''gso_size'' t___u16,
      Field ''ts_opt_id'' t_u32,
      Field ''transmit_time'' t_u64,
      Field ''mark'' t_u32]"

lemma lay_struct_inet_cork [layouts]: "lay struct_inet_cork = (64, 8)"
  by (simp add: struct_inet_cork_def layouts lay_eval)

lemma wf_struct_inet_cork [wf_types]: "wf_type struct_inet_cork"
  by (simp add: struct_inet_cork_def wf_types)

definition struct_inet_cork_full :: ctype where
  "struct_inet_cork_full =
    CStruct False
     [Field ''base'' struct_inet_cork,
      Field ''fl'' struct_flowi,
      Field ''base6'' struct_inet6_cork]"

lemma lay_struct_inet_cork_full [layouts]: "lay struct_inet_cork_full = (168, 8)"
  by (simp add: struct_inet_cork_full_def layouts lay_eval)

lemma wf_struct_inet_cork_full [wf_types]: "wf_type struct_inet_cork_full"
  by (simp add: struct_inet_cork_full_def wf_types)

definition struct_sk_buff_list :: ctype where
  "struct_sk_buff_list =
    CStruct False
     [Field ''next'' CPtr,
      Field ''prev'' CPtr]"

lemma lay_struct_sk_buff_list [layouts]: "lay struct_sk_buff_list = (16, 8)"
  by (simp add: struct_sk_buff_list_def layouts lay_eval)

lemma wf_struct_sk_buff_list [wf_types]: "wf_type struct_sk_buff_list"
  by (simp add: struct_sk_buff_list_def wf_types)

definition struct_sk_buff_head :: ctype where
  "struct_sk_buff_head =
    CStruct False
     [Field [] (CUnion False [Field [] (CStruct False [Field ''next'' CPtr, Field ''prev'' CPtr]),
        Field ''list'' struct_sk_buff_list]),
      Field ''qlen'' t___u32,
      Field ''lock'' t_spinlock_t]"

lemma lay_struct_sk_buff_head [layouts]: "lay struct_sk_buff_head = (24, 8)"
  by (simp add: struct_sk_buff_head_def layouts lay_eval)

lemma wf_struct_sk_buff_head [wf_types]: "wf_type struct_sk_buff_head"
  by (simp add: struct_sk_buff_head_def wf_types)

definition struct_sock_cgroup_data :: ctype where
  "struct_sock_cgroup_data =
    CStruct False
     [Field ''cgroup'' CPtr,
      Field ''classid'' t_u32,
      Field ''prioidx'' t_u16]"

lemma lay_struct_sock_cgroup_data [layouts]: "lay struct_sock_cgroup_data = (16, 8)"
  by (simp add: struct_sock_cgroup_data_def layouts lay_eval)

lemma wf_struct_sock_cgroup_data [wf_types]: "wf_type struct_sock_cgroup_data"
  by (simp add: struct_sock_cgroup_data_def wf_types)

definition struct_hlist_nulls_node :: ctype where
  "struct_hlist_nulls_node =
    CStruct False
     [Field ''next'' CPtr,
      Field ''pprev'' CPtr]"

lemma lay_struct_hlist_nulls_node [layouts]: "lay struct_hlist_nulls_node = (16, 8)"
  by (simp add: struct_hlist_nulls_node_def layouts lay_eval)

lemma wf_struct_hlist_nulls_node [wf_types]: "wf_type struct_hlist_nulls_node"
  by (simp add: struct_hlist_nulls_node_def wf_types)

definition t___addrpair :: ctype where "t___addrpair = t___u64"

lemma lay_t___addrpair [layouts]: "lay t___addrpair = (8, 8)"
  by (simp add: t___addrpair_def layouts lay_eval)

lemma wf_t___addrpair [wf_types]: "wf_type t___addrpair"
  by (simp add: t___addrpair_def wf_types)

definition t___portpair :: ctype where "t___portpair = t___u32"

lemma lay_t___portpair [layouts]: "lay t___portpair = (4, 4)"
  by (simp add: t___portpair_def layouts lay_eval)

lemma wf_t___portpair [wf_types]: "wf_type t___portpair"
  by (simp add: t___portpair_def wf_types)

definition t_possible_net_t :: ctype where "t_possible_net_t = CStruct False [Field ''net'' CPtr]"

lemma lay_t_possible_net_t [layouts]: "lay t_possible_net_t = (8, 8)"
  by (simp add: t_possible_net_t_def layouts lay_eval)

lemma wf_t_possible_net_t [wf_types]: "wf_type t_possible_net_t"
  by (simp add: t_possible_net_t_def wf_types)

definition struct_sock_common :: ctype where
  "struct_sock_common =
    CStruct False
     [Field [] (CUnion False [Field ''skc_addrpair'' t___addrpair, Field [] (CStruct False [Field
        ''skc_daddr'' t___be32, Field ''skc_rcv_saddr'' t___be32])]),
      Field [] (CUnion False [Field ''skc_hash'' (CInt 4), Field ''skc_u16hashes'' (CArr t___u16
        2)]),
      Field [] (CUnion False [Field ''skc_portpair'' t___portpair, Field [] (CStruct False [Field
        ''skc_dport'' t___be16, Field ''skc_num'' t___u16])]),
      Field ''skc_family'' (CInt 2),
      Field ''skc_state'' (CInt 1),
      Bits ''skc_reuse'' 1 4,
      Bits ''skc_reuseport'' 1 1,
      Bits ''skc_ipv6only'' 1 1,
      Bits ''skc_net_refcnt'' 1 1,
      Bits ''skc_bypass_prot_mem'' 1 1,
      Field ''skc_bound_dev_if'' (CInt 4),
      Field [] (CUnion False [Field ''skc_bind_node'' struct_hlist_node, Field ''skc_portaddr_node''
        struct_hlist_node]),
      Field ''skc_prot'' CPtr,
      Field ''skc_net'' t_possible_net_t,
      Field ''skc_v6_daddr'' struct_in6_addr,
      Field ''skc_v6_rcv_saddr'' struct_in6_addr,
      Field ''skc_cookie'' t_atomic64_t,
      Field [] (CUnion False [Field ''skc_flags'' (CInt 8), Field ''skc_listener'' CPtr, Field
        ''skc_tw_dr'' CPtr]),
      Field ''skc_dontcopy_begin'' (CArr (CInt 4) 0),
      Field [] (CUnion False [Field ''skc_node'' struct_hlist_node, Field ''skc_nulls_node''
        struct_hlist_nulls_node]),
      Field ''skc_tx_queue_mapping'' (CInt 2),
      Field ''skc_rx_queue_mapping'' (CInt 2),
      Field [] (CUnion False [Field ''skc_incoming_cpu'' (CInt 4), Field ''skc_rcv_wnd'' t_u32,
        Field ''skc_tw_rcv_nxt'' t_u32]),
      Field ''skc_refcnt'' t_refcount_t,
      Field ''skc_dontcopy_end'' (CArr (CInt 4) 0),
      Field [] (CUnion False [Field ''skc_rxhash'' t_u32, Field ''skc_window_clamp'' t_u32, Field
        ''skc_tw_snd_nxt'' t_u32])]"

lemma lay_struct_sock_common [layouts]: "lay struct_sock_common = (136, 8)"
  by (simp add: struct_sock_common_def layouts lay_eval)

lemma wf_struct_sock_common [wf_types]: "wf_type struct_sock_common"
  by (simp add: struct_sock_common_def wf_types)

definition t_netdev_features_t :: ctype where "t_netdev_features_t = t_u64"

lemma lay_t_netdev_features_t [layouts]: "lay t_netdev_features_t = (8, 8)"
  by (simp add: t_netdev_features_t_def layouts lay_eval)

lemma wf_t_netdev_features_t [wf_types]: "wf_type t_netdev_features_t"
  by (simp add: t_netdev_features_t_def wf_types)

definition t_netns_tracker :: ctype where "t_netns_tracker = CStruct False []"

lemma lay_t_netns_tracker [layouts]: "lay t_netns_tracker = (0, 1)"
  by (simp add: t_netns_tracker_def layouts lay_eval)

lemma wf_t_netns_tracker [wf_types]: "wf_type t_netns_tracker"
  by (simp add: t_netns_tracker_def wf_types)

definition struct_qrwlock :: ctype where
  "struct_qrwlock =
    CStruct False
     [Field [] (CUnion False [Field ''cnts'' t_atomic_t, Field [] (CStruct False [Field ''wlocked''
        t_u8, Field ''__lstate'' (CArr t_u8 3)])]),
      Field ''wait_lock'' t_arch_spinlock_t]"

lemma lay_struct_qrwlock [layouts]: "lay struct_qrwlock = (8, 4)"
  by (simp add: struct_qrwlock_def layouts lay_eval)

lemma wf_struct_qrwlock [wf_types]: "wf_type struct_qrwlock"
  by (simp add: struct_qrwlock_def wf_types)

definition t_arch_rwlock_t :: ctype where "t_arch_rwlock_t = struct_qrwlock"

lemma lay_t_arch_rwlock_t [layouts]: "lay t_arch_rwlock_t = (8, 4)"
  by (simp add: t_arch_rwlock_t_def layouts lay_eval)

lemma wf_t_arch_rwlock_t [wf_types]: "wf_type t_arch_rwlock_t"
  by (simp add: t_arch_rwlock_t_def wf_types)

definition struct_rwlock :: ctype where
  "struct_rwlock =
    CStruct False
     [Field ''raw_lock'' t_arch_rwlock_t]"

lemma lay_struct_rwlock [layouts]: "lay struct_rwlock = (8, 4)"
  by (simp add: struct_rwlock_def layouts lay_eval)

lemma wf_struct_rwlock [wf_types]: "wf_type struct_rwlock"
  by (simp add: struct_rwlock_def wf_types)

definition t_rwlock_t :: ctype where "t_rwlock_t = struct_rwlock"

lemma lay_t_rwlock_t [layouts]: "lay t_rwlock_t = (8, 4)"
  by (simp add: t_rwlock_t_def layouts lay_eval)

lemma wf_t_rwlock_t [wf_types]: "wf_type t_rwlock_t"
  by (simp add: t_rwlock_t_def wf_types)

definition t_socket_lock_t :: ctype where
  "t_socket_lock_t =
    CStruct False [Field ''slock'' t_spinlock_t, Field ''owned'' (CInt 4), Field ''wq''
      t_wait_queue_head_t]"

lemma lay_t_socket_lock_t [layouts]: "lay t_socket_lock_t = (32, 8)"
  by (simp add: t_socket_lock_t_def layouts lay_eval)

lemma wf_t_socket_lock_t [wf_types]: "wf_type t_socket_lock_t"
  by (simp add: t_socket_lock_t_def wf_types)

definition struct_sock :: ctype where
  "struct_sock =
    CStruct False
     [Field ''__sk_common'' struct_sock_common,
      Field ''__cacheline_group_begin__sock_write_rx'' (CArr t___u8 0),
      Field ''sk_drops'' t_atomic_t,
      Field ''sk_peek_off'' t___s32,
      Field ''sk_error_queue'' struct_sk_buff_head,
      Field ''sk_receive_queue'' struct_sk_buff_head,
      Field ''sk_backlog'' (CStruct False [Field ''rmem_alloc'' t_atomic_t, Field ''len'' (CInt 4),
        Field ''head'' CPtr, Field ''tail'' CPtr]),
      Field ''__cacheline_group_end__sock_write_rx'' (CArr t___u8 0),
      Field ''__cacheline_group_begin__sock_read_rx'' (CArr t___u8 0),
      Field ''sk_rx_dst'' CPtr,
      Field ''sk_rx_dst_ifindex'' (CInt 4),
      Field ''sk_rx_dst_cookie'' t_u32,
      Field ''sk_ll_usec'' (CInt 4),
      Field ''sk_napi_id'' (CInt 4),
      Field ''sk_busy_poll_budget'' t_u16,
      Field ''sk_prefer_busy_poll'' t_u8,
      Field ''sk_userlocks'' t_u8,
      Field ''sk_rcvbuf'' (CInt 4),
      Field ''sk_filter'' CPtr,
      Field [] (CUnion False [Field ''sk_wq'' CPtr, Field ''sk_wq_raw'' CPtr]),
      Field ''sk_data_ready'' CPtr,
      Field ''sk_rcvtimeo'' (CInt 8),
      Field ''sk_rcvlowat'' (CInt 4),
      Field ''__cacheline_group_end__sock_read_rx'' (CArr t___u8 0),
      Field ''__cacheline_group_begin__sock_read_rxtx'' (CArr t___u8 0),
      Field ''sk_err'' (CInt 4),
      Field ''sk_socket'' CPtr,
      Field ''sk_memcg'' CPtr,
      Field ''sk_policy'' (CArr CPtr 2),
      Field ''psp_assoc'' CPtr,
      Field ''__cacheline_group_end__sock_read_rxtx'' (CArr t___u8 0),
      Field ''__cacheline_group_begin__sock_write_rxtx'' (CArr t___u8 0),
      Field ''sk_lock'' t_socket_lock_t,
      Field ''sk_reserved_mem'' t_u32,
      Field ''sk_forward_alloc'' (CInt 4),
      Field ''sk_tsflags'' t_u32,
      Field ''__cacheline_group_end__sock_write_rxtx'' (CArr t___u8 0),
      Field ''__cacheline_group_begin__sock_write_tx'' (CArr t___u8 0),
      Field ''sk_write_pending'' (CInt 4),
      Field ''sk_omem_alloc'' t_atomic_t,
      Field ''sk_err_soft'' (CInt 4),
      Field ''sk_wmem_queued'' (CInt 4),
      Field ''sk_wmem_alloc'' t_refcount_t,
      Field ''sk_tsq_flags'' (CInt 8),
      Field [] (CUnion False [Field ''sk_send_head'' CPtr, Field ''tcp_rtx_queue'' struct_rb_root]),
      Field ''sk_write_queue'' struct_sk_buff_head,
      Field ''sk_frag'' struct_page_frag,
      Field [] (CUnion False [Field ''sk_timer'' struct_timer_list, Field ''tcp_retransmit_timer''
        struct_timer_list, Field ''mptcp_retransmit_timer'' struct_timer_list]),
      Field ''sk_pacing_rate'' (CInt 8),
      Field ''sk_zckey'' t_atomic_t,
      Field ''sk_tskey'' t_atomic_t,
      Field ''sk_tx_queue_mapping_jiffies'' (CInt 8),
      Field ''__cacheline_group_end__sock_write_tx'' (CArr t___u8 0),
      Field ''__cacheline_group_begin__sock_read_tx'' (CArr t___u8 0),
      Field ''sk_dst_pending_confirm'' t_u32,
      Field ''sk_pacing_status'' t_u32,
      Field ''sk_max_pacing_rate'' (CInt 8),
      Field ''sk_sndtimeo'' (CInt 8),
      Field ''sk_priority'' t_u32,
      Field ''sk_mark'' t_u32,
      Field ''sk_uid'' t_kuid_t,
      Field ''sk_protocol'' t_u16,
      Field ''sk_type'' t_u16,
      Field ''sk_dst_cache'' CPtr,
      Field ''sk_route_caps'' t_netdev_features_t,
      Field ''sk_validate_xmit_skb'' CPtr,
      Field ''sk_gso_type'' t_u16,
      Field ''sk_gso_max_segs'' t_u16,
      Field ''sk_gso_max_size'' (CInt 4),
      Field ''sk_allocation'' t_gfp_t,
      Field ''sk_txhash'' t_u32,
      Field ''sk_sndbuf'' (CInt 4),
      Field ''sk_pacing_shift'' t_u8,
      Field ''sk_use_task_frag'' (CInt 1),
      Field ''__cacheline_group_end__sock_read_tx'' (CArr t___u8 0),
      Bits ''sk_gso_disabled'' 1 1,
      Bits ''sk_kern_sock'' 1 1,
      Bits ''sk_no_check_tx'' 1 1,
      Bits ''sk_no_check_rx'' 1 1,
      Field ''sk_shutdown'' t_u8,
      Field ''sk_lingertime'' (CInt 8),
      Field ''sk_prot_creator'' CPtr,
      Field ''sk_callback_lock'' t_rwlock_t,
      Field ''sk_ack_backlog'' t_u32,
      Field ''sk_max_ack_backlog'' t_u32,
      Field ''sk_ino'' (CInt 8),
      Field ''sk_peer_lock'' t_spinlock_t,
      Field ''sk_bind_phc'' (CInt 4),
      Field ''sk_peer_pid'' CPtr,
      Field ''sk_peer_cred'' CPtr,
      Field ''sk_stamp'' t_ktime_t,
      Field ''sk_disconnects'' (CInt 4),
      Field [] (CUnion False [Field ''sk_txrehash'' t_u8, Field ''sk_scm_recv_flags'' t_u8, Field []
        (CStruct False [Bits ''sk_scm_credentials'' 1 1, Bits ''sk_scm_security'' 1 1, Bits
        ''sk_scm_pidfd'' 1 1, Bits ''sk_scm_rights'' 1 1, Bits ''sk_scm_unused'' 1 4])]),
      Field ''sk_clockid'' t_u8,
      Bits ''sk_txtime_deadline_mode'' 1 1,
      Bits ''sk_txtime_report_errors'' 1 1,
      Bits ''sk_txtime_unused'' 1 6,
      Field ''sk_bpf_cb_flags'' t_u8,
      Field ''sk_user_data'' CPtr,
      Field ''sk_security'' CPtr,
      Field ''sk_cgrp_data'' struct_sock_cgroup_data,
      Field ''sk_state_change'' CPtr,
      Field ''sk_write_space'' CPtr,
      Field ''sk_error_report'' CPtr,
      Field ''sk_backlog_rcv'' CPtr,
      Field ''sk_destruct'' CPtr,
      Field ''sk_reuseport_cb'' CPtr,
      Field ''sk_bpf_storage'' CPtr,
      Field ''sk_drop_counters'' CPtr,
      Field [] (CUnion False [Field ''sk_rcu'' struct_callback_head, Field ''sk_freeptr''
        t_freeptr_t]),
      Field ''ns_tracker'' t_netns_tracker,
      Field ''sk_user_frags'' struct_xarray]"

lemma lay_struct_sock [layouts]: "lay struct_sock = (808, 8)"
  by (simp add: struct_sock_def layouts lay_eval)

lemma wf_struct_sock [wf_types]: "wf_type struct_sock"
  by (simp add: struct_sock_def wf_types)

definition struct_inet_sock :: ctype where
  "struct_inet_sock =
    CStruct False
     [Field ''sk'' struct_sock,
      Field ''pinet6'' CPtr,
      Field ''ipv6_fl_list'' CPtr,
      Field ''inet_flags'' (CInt 8),
      Field ''inet_saddr'' t___be32,
      Field ''uc_ttl'' t___s16,
      Field ''inet_sport'' t___be16,
      Field ''inet_opt'' CPtr,
      Field ''inet_id'' t_atomic_t,
      Field ''tos'' t___u8,
      Field ''min_ttl'' t___u8,
      Field ''mc_ttl'' t___u8,
      Field ''pmtudisc'' t___u8,
      Field ''rcv_tos'' t___u8,
      Field ''convert_csum'' t___u8,
      Field ''uc_index'' (CInt 4),
      Field ''mc_index'' (CInt 4),
      Field ''mc_addr'' t___be32,
      Field ''local_port_range'' t_u32,
      Field ''mc_list'' CPtr,
      Field ''cork'' struct_inet_cork_full]"

lemma lay_struct_inet_sock [layouts]: "lay struct_inet_sock = (1056, 8)"
  by (simp add: struct_inet_sock_def layouts lay_eval)

lemma wf_struct_inet_sock [wf_types]: "wf_type struct_inet_sock"
  by (simp add: struct_inet_sock_def wf_types)

definition struct_fastopen_queue :: ctype where
  "struct_fastopen_queue =
    CStruct False
     [Field ''rskq_rst_head'' CPtr,
      Field ''rskq_rst_tail'' CPtr,
      Field ''lock'' t_spinlock_t,
      Field ''qlen'' (CInt 4),
      Field ''max_qlen'' (CInt 4),
      Field ''ctx'' CPtr]"

lemma lay_struct_fastopen_queue [layouts]: "lay struct_fastopen_queue = (40, 8)"
  by (simp add: struct_fastopen_queue_def layouts lay_eval)

lemma wf_struct_fastopen_queue [wf_types]: "wf_type struct_fastopen_queue"
  by (simp add: struct_fastopen_queue_def wf_types)

definition struct_request_sock_queue :: ctype where
  "struct_request_sock_queue =
    CStruct False
     [Field ''rskq_lock'' t_spinlock_t,
      Field ''rskq_defer_accept'' t_u8,
      Field ''synflood_warned'' t_u8,
      Field ''qlen'' t_atomic_t,
      Field ''young'' t_atomic_t,
      Field ''rskq_accept_head'' CPtr,
      Field ''rskq_accept_tail'' CPtr,
      Field ''fastopenq'' struct_fastopen_queue]"

lemma lay_struct_request_sock_queue [layouts]: "lay struct_request_sock_queue = (72, 8)"
  by (simp add: struct_request_sock_queue_def layouts lay_eval)

lemma wf_struct_request_sock_queue [wf_types]: "wf_type struct_request_sock_queue"
  by (simp add: struct_request_sock_queue_def wf_types)

definition struct_inet_connection_sock :: ctype where
  "struct_inet_connection_sock =
    CStruct False
     [Field ''icsk_inet'' struct_inet_sock,
      Field ''icsk_accept_queue'' struct_request_sock_queue,
      Field ''icsk_bind_hash'' CPtr,
      Field ''icsk_bind2_hash'' CPtr,
      Field ''icsk_delack_timer'' struct_timer_list,
      Field [] (CUnion False [Field ''icsk_keepalive_timer'' struct_timer_list, Field
        ''mptcp_tout_timer'' struct_timer_list]),
      Field ''icsk_rto'' t___u32,
      Field ''icsk_rto_min'' t___u32,
      Field ''icsk_rto_max'' t_u32,
      Field ''icsk_delack_max'' t___u32,
      Field ''icsk_pmtu_cookie'' t___u32,
      Field ''icsk_ca_ops'' CPtr,
      Field ''icsk_af_ops'' CPtr,
      Field ''icsk_ulp_ops'' CPtr,
      Field ''icsk_ulp_data'' CPtr,
      Field ''icsk_sync_mss'' CPtr,
      Bits ''icsk_ca_state'' 1 5,
      Bits ''icsk_ca_initialized'' 1 1,
      Bits ''icsk_ca_setsockopt'' 1 1,
      Bits ''icsk_ca_dst_locked'' 1 1,
      Field ''icsk_retransmits'' t___u8,
      Field ''icsk_pending'' t___u8,
      Field ''icsk_backoff'' t___u8,
      Field ''icsk_syn_retries'' t___u8,
      Field ''icsk_probes_out'' t___u8,
      Field ''icsk_ext_hdr_len'' t___u16,
      Field ''icsk_ack'' (CStruct False [Field ''pending'' t___u8, Field ''quick'' t___u8, Field
        ''pingpong'' t___u8, Field ''retry'' t___u8, Bits ''ato'' 4 8, Bits ''lrcv_flowlabel'' 4 20,
        Bits ''dst_quick_ack'' 4 1, Bits ''unused'' 4 3, Field ''lrcvtime'' t___u32, Field
        ''last_seg_size'' t___u16, Field ''rcv_mss'' t___u16]),
      Field ''icsk_mtup'' (CStruct False [Field ''search_high'' (CInt 4), Field ''search_low'' (CInt
        4), Bits ''probe_size'' 4 31, Bits ''enabled'' 4 1, Field ''probe_timestamp'' t_u32]),
      Field ''icsk_probes_tstamp'' t_u32,
      Field ''icsk_user_timeout'' t_u32,
      Field ''icsk_ca_priv'' (CArr t_u64 13)]"

lemma lay_struct_inet_connection_sock [layouts]: "lay struct_inet_connection_sock = (1440, 8)"
  by (simp add: struct_inet_connection_sock_def layouts lay_eval)

lemma wf_struct_inet_connection_sock [wf_types]: "wf_type struct_inet_connection_sock"
  by (simp add: struct_inet_connection_sock_def wf_types)

definition struct_minmax_sample :: ctype where
  "struct_minmax_sample =
    CStruct False
     [Field ''t'' t_u32,
      Field ''v'' t_u32]"

lemma lay_struct_minmax_sample [layouts]: "lay struct_minmax_sample = (8, 4)"
  by (simp add: struct_minmax_sample_def layouts lay_eval)

lemma wf_struct_minmax_sample [wf_types]: "wf_type struct_minmax_sample"
  by (simp add: struct_minmax_sample_def wf_types)

definition struct_minmax :: ctype where
  "struct_minmax =
    CStruct False
     [Field ''s'' (CArr struct_minmax_sample 3)]"

lemma lay_struct_minmax [layouts]: "lay struct_minmax = (24, 4)"
  by (simp add: struct_minmax_def layouts lay_eval)

lemma wf_struct_minmax [wf_types]: "wf_type struct_minmax"
  by (simp add: struct_minmax_def wf_types)

definition struct_tcp_options_received :: ctype where
  "struct_tcp_options_received =
    CStruct False
     [Field ''ts_recent_stamp'' (CInt 4),
      Field ''ts_recent'' t_u32,
      Field ''rcv_tsval'' t_u32,
      Field ''rcv_tsecr'' t_u32,
      Bits ''saw_tstamp'' 2 1,
      Bits ''tstamp_ok'' 2 1,
      Bits ''dsack'' 2 1,
      Bits ''wscale_ok'' 2 1,
      Bits ''sack_ok'' 2 3,
      Bits ''smc_ok'' 2 1,
      Bits ''snd_wscale'' 2 4,
      Bits ''rcv_wscale'' 2 4,
      Bits ''accecn'' 1 6,
      Bits ''saw_unknown'' 1 1,
      Bits ''unused'' 1 1,
      Field ''num_sacks'' t_u8,
      Field ''user_mss'' t_u16,
      Field ''mss_clamp'' t_u16]"

lemma lay_struct_tcp_options_received [layouts]: "lay struct_tcp_options_received = (24, 4)"
  by (simp add: struct_tcp_options_received_def layouts lay_eval)

lemma wf_struct_tcp_options_received [wf_types]: "wf_type struct_tcp_options_received"
  by (simp add: struct_tcp_options_received_def wf_types)

definition struct_tcp_rack :: ctype where
  "struct_tcp_rack =
    CStruct False
     [Field ''mstamp'' t_u64,
      Field ''rtt_us'' t_u32,
      Field ''end_seq'' t_u32,
      Field ''last_delivered'' t_u32,
      Field ''reo_wnd_steps'' t_u8,
      Bits ''reo_wnd_persist'' 1 5,
      Bits ''dsack_seen'' 1 1,
      Bits ''advanced'' 1 1]"

lemma lay_struct_tcp_rack [layouts]: "lay struct_tcp_rack = (24, 8)"
  by (simp add: struct_tcp_rack_def layouts lay_eval)

lemma wf_struct_tcp_rack [wf_types]: "wf_type struct_tcp_rack"
  by (simp add: struct_tcp_rack_def wf_types)

definition struct_tcp_sack_block :: ctype where
  "struct_tcp_sack_block =
    CStruct False
     [Field ''start_seq'' t_u32,
      Field ''end_seq'' t_u32]"

lemma lay_struct_tcp_sack_block [layouts]: "lay struct_tcp_sack_block = (8, 4)"
  by (simp add: struct_tcp_sack_block_def layouts lay_eval)

lemma wf_struct_tcp_sack_block [wf_types]: "wf_type struct_tcp_sack_block"
  by (simp add: struct_tcp_sack_block_def wf_types)

definition struct_tcp_sock :: ctype where
  "struct_tcp_sock =
    CStruct False
     [Field ''inet_conn'' struct_inet_connection_sock,
      Field ''__cacheline_group_begin__tcp_sock_read_tx'' (CArr t___u8 0),
      Field ''max_window'' t_u32,
      Field ''rcv_ssthresh'' t_u32,
      Field ''reordering'' t_u32,
      Field ''notsent_lowat'' t_u32,
      Field ''gso_segs'' t_u16,
      Field ''retransmit_skb_hint'' CPtr,
      Field ''tcp_clean_acked'' CPtr,
      Field ''__cacheline_group_end__tcp_sock_read_tx'' (CArr t___u8 0),
      Field ''__cacheline_group_begin__tcp_sock_read_txrx'' (CArr t___u8 0),
      Field ''tsoffset'' t_u32,
      Field ''snd_wnd'' t_u32,
      Field ''mss_cache'' t_u32,
      Field ''snd_cwnd'' t_u32,
      Field ''prr_out'' t_u32,
      Field ''lost_out'' t_u32,
      Field ''sacked_out'' t_u32,
      Field ''tcp_header_len'' t_u16,
      Field ''scaling_ratio'' t_u8,
      Bits ''chrono_type'' 1 2,
      Bits ''repair'' 1 1,
      Bits ''tcp_usec_ts'' 1 1,
      Bits ''is_sack_reneg'' 1 1,
      Bits ''is_cwnd_limited'' 1 1,
      Bits ''recvmsg_inq'' 1 1,
      Field ''__cacheline_group_end__tcp_sock_read_txrx'' (CArr t___u8 0),
      Field ''__cacheline_group_begin__tcp_sock_read_rx'' (CArr t___u8 0),
      Field ''copied_seq'' t_u32,
      Field ''snd_wl1'' t_u32,
      Field ''tlp_high_seq'' t_u32,
      Field ''rttvar_us'' t_u32,
      Field ''retrans_out'' t_u32,
      Field ''advmss'' t_u16,
      Field ''urg_data'' t_u16,
      Field ''lost'' t_u32,
      Field ''snd_ssthresh'' t_u32,
      Field ''rtt_min'' struct_minmax,
      Field ''out_of_order_queue'' struct_rb_root,
      Field ''__cacheline_group_end__tcp_sock_read_rx'' (CArr t___u8 0),
      Pad 8 64,
      Pad 8 64,
      Pad 8 64,
      Field ''__cacheline_group_begin__tcp_sock_write_tx'' (CArr t___u8 0),
      Field ''segs_out'' t_u32,
      Field ''data_segs_out'' t_u32,
      Field ''bytes_sent'' t_u64,
      Field ''snd_sml'' t_u32,
      Field ''chrono_start'' t_u32,
      Field ''chrono_stat'' (CArr t_u32 3),
      Field ''write_seq'' t_u32,
      Field ''pushed_seq'' t_u32,
      Field ''lsndtime'' t_u32,
      Field ''mdev_us'' t_u32,
      Field ''rtt_seq'' t_u32,
      Field ''tcp_wstamp_ns'' t_u64,
      Field ''accecn_opt_tstamp'' t_u64,
      Field ''tsorted_sent_queue'' struct_list_head,
      Field ''highest_sack'' CPtr,
      Field ''ecn_flags'' t_u8,
      Field ''__cacheline_group_end__tcp_sock_write_tx'' (CArr t___u8 0),
      Field ''__cacheline_group_begin__tcp_sock_write_txrx'' (CArr t___u8 0),
      Bits ''nonagle'' 1 4,
      Bits ''rate_app_limited'' 1 1,
      Pad 2 3,
      Bits ''received_ce_pending'' 1 4,
      Bits ''accecn_opt_sent_w_dsack'' 1 1,
      Bits ''unused2'' 1 3,
      Bits ''accecn_minlen'' 1 2,
      Bits ''est_ecnfield'' 1 2,
      Bits ''accecn_opt_demand'' 1 2,
      Bits ''prev_ecnfield'' 1 2,
      Field ''pred_flags'' t___be32,
      Field ''tcp_clock_cache'' t_u64,
      Field ''tcp_mstamp'' t_u64,
      Field ''rcv_nxt'' t_u32,
      Field ''snd_nxt'' t_u32,
      Field ''snd_una'' t_u32,
      Field ''window_clamp'' t_u32,
      Field ''srtt_us'' t_u32,
      Field ''packets_out'' t_u32,
      Field ''snd_up'' t_u32,
      Field ''delivered'' t_u32,
      Field ''delivered_ce'' t_u32,
      Field ''received_ce'' t_u32,
      Field ''received_ecn_bytes'' (CArr t_u32 3),
      Field ''app_limited'' t_u32,
      Field ''rcv_wnd'' t_u32,
      Field ''rcv_tstamp'' t_u32,
      Field ''rx_opt'' struct_tcp_options_received,
      Field ''__cacheline_group_end__tcp_sock_write_txrx'' (CArr t___u8 0),
      Field ''__cacheline_group_begin__tcp_sock_write_rx'' (CArr t___u8 0),
      Field ''bytes_received'' t_u64,
      Field ''segs_in'' t_u32,
      Field ''data_segs_in'' t_u32,
      Field ''rcv_wup'' t_u32,
      Field ''max_packets_out'' t_u32,
      Field ''cwnd_usage_seq'' t_u32,
      Field ''rate_delivered'' t_u32,
      Field ''rate_interval_us'' t_u32,
      Field ''rcv_rtt_last_tsecr'' t_u32,
      Field ''delivered_ecn_bytes'' (CArr t_u32 3),
      Field ''pkts_acked_ewma'' t_u16,
      Field ''first_tx_mstamp'' t_u64,
      Field ''delivered_mstamp'' t_u64,
      Field ''bytes_acked'' t_u64,
      Field ''rcv_rtt_est'' (CStruct False [Field ''rtt_us'' t_u32, Field ''seq'' t_u32, Field
        ''time'' t_u64]),
      Field ''rcvq_space'' (CStruct False [Field ''space'' (CInt 4), Field ''seq'' t_u32, Field
        ''time'' t_u64]),
      Field ''__cacheline_group_end__tcp_sock_write_rx'' (CArr t___u8 0),
      Field ''dsack_dups'' t_u32,
      Field ''compressed_ack_rcv_nxt'' t_u32,
      Field ''tsq_node'' struct_list_head,
      Field ''rack'' struct_tcp_rack,
      Field ''compressed_ack'' t_u8,
      Bits ''dup_ack_counter'' 1 2,
      Bits ''tlp_retrans'' 1 1,
      Bits ''syn_ect_snt'' 1 2,
      Bits ''syn_ect_rcv'' 1 2,
      Bits ''thin_lto'' 1 1,
      Bits ''fastopen_connect'' 1 1,
      Bits ''fastopen_no_cookie'' 1 1,
      Bits ''fastopen_client_fail'' 1 2,
      Bits ''frto'' 1 1,
      Field ''repair_queue'' t_u8,
      Bits ''save_syn'' 1 2,
      Bits ''syn_data'' 1 1,
      Bits ''syn_fastopen'' 1 1,
      Bits ''syn_fastopen_exp'' 1 1,
      Bits ''syn_fastopen_ch'' 1 1,
      Bits ''syn_data_acked'' 1 1,
      Bits ''syn_fastopen_child'' 1 1,
      Field ''keepalive_probes'' t_u8,
      Bits ''accecn_fail_mode'' 1 4,
      Bits ''saw_accecn_opt'' 1 2,
      Field ''tcp_tx_delay'' t_u32,
      Field ''mdev_max_us'' t_u32,
      Field ''reord_seen'' t_u32,
      Field ''snd_cwnd_cnt'' t_u32,
      Field ''snd_cwnd_clamp'' t_u32,
      Field ''snd_cwnd_used'' t_u32,
      Field ''snd_cwnd_stamp'' t_u32,
      Field ''prior_cwnd'' t_u32,
      Field ''prr_delivered'' t_u32,
      Field ''last_oow_ack_time'' t_u32,
      Field ''pacing_timer'' struct_hrtimer,
      Field ''compressed_ack_timer'' struct_hrtimer,
      Field ''ooo_last_skb'' CPtr,
      Field ''duplicate_sack'' (CArr struct_tcp_sack_block 1),
      Field ''selective_acks'' (CArr struct_tcp_sack_block 4),
      Field ''recv_sack_cache'' (CArr struct_tcp_sack_block 4),
      Field ''prior_ssthresh'' t_u32,
      Field ''high_seq'' t_u32,
      Field ''retrans_stamp'' t_u32,
      Field ''undo_marker'' t_u32,
      Field ''undo_retrans'' (CInt 4),
      Field ''mtu_info'' t_u32,
      Field ''bytes_retrans'' t_u64,
      Field ''total_retrans'' t_u32,
      Field ''rto_stamp'' t_u32,
      Field ''total_rto'' t_u16,
      Field ''total_rto_recoveries'' t_u16,
      Field ''total_rto_time'' t_u32,
      Field ''urg_seq'' t_u32,
      Field ''keepalive_time'' (CInt 4),
      Field ''keepalive_intvl'' (CInt 4),
      Field ''linger2'' (CInt 4),
      Field ''bpf_sock_ops_cb_flags'' t_u8,
      Bits ''bpf_chg_cc_inprogress'' 1 1,
      Field ''timeout_rehash'' t_u16,
      Field ''rcv_ooopack'' t_u32,
      Field ''mtu_probe'' (CStruct False [Field ''probe_seq_start'' t_u32, Field ''probe_seq_end''
        t_u32]),
      Field ''plb_rehash'' t_u32,
      Field ''is_mptcp'' (CInt 1),
      Field ''syn_smc'' (CInt 1),
      Field ''smc_hs_congested'' CPtr,
      Field ''af_specific'' CPtr,
      Field ''md5sig_info'' CPtr,
      Field ''ao_info'' CPtr,
      Field ''fastopen_req'' CPtr,
      Field ''fastopen_rsk'' CPtr,
      Field ''saved_syn'' CPtr]"

lemma lay_struct_tcp_sock [layouts]: "lay struct_tcp_sock = (2368, 8)"
  by (simp add: struct_tcp_sock_def layouts lay_eval)

lemma wf_struct_tcp_sock [wf_types]: "wf_type struct_tcp_sock"
  by (simp add: struct_tcp_sock_def wf_types)

definition t___wsum :: ctype where "t___wsum = t___u32"

lemma lay_t___wsum [layouts]: "lay t___wsum = (4, 4)"
  by (simp add: t___wsum_def layouts lay_eval)

lemma wf_t___wsum [wf_types]: "wf_type t___wsum"
  by (simp add: t___wsum_def wf_types)

definition t_sk_buff_data_t :: ctype where "t_sk_buff_data_t = CInt 4"

lemma lay_t_sk_buff_data_t [layouts]: "lay t_sk_buff_data_t = (4, 4)"
  by (simp add: t_sk_buff_data_t_def layouts lay_eval)

lemma wf_t_sk_buff_data_t [wf_types]: "wf_type t_sk_buff_data_t"
  by (simp add: t_sk_buff_data_t_def wf_types)

definition struct_sk_buff :: ctype where
  "struct_sk_buff =
    CStruct False
     [Field [] (CUnion False [Field [] (CStruct False [Field ''next'' CPtr, Field ''prev'' CPtr,
        Field [] (CUnion False [Field ''dev'' CPtr, Field ''dev_scratch'' (CInt 8)])]), Field
        ''rbnode'' struct_rb_node, Field ''list'' struct_list_head, Field ''ll_node''
        struct_llist_node]),
      Field ''sk'' CPtr,
      Field [] (CUnion False [Field ''tstamp'' t_ktime_t, Field ''skb_mstamp_ns'' t_u64]),
      Field ''cb'' (CArr (CInt 1) 48),
      Field [] (CUnion False [Field [] (CStruct False [Field ''_skb_refdst'' (CInt 8), Field
        ''destructor'' CPtr]), Field ''tcp_tsorted_anchor'' struct_list_head, Field ''_sk_redir''
        (CInt 8)]),
      Field ''_nfct'' (CInt 8),
      Field ''len'' (CInt 4),
      Field ''data_len'' (CInt 4),
      Field ''mac_len'' t___u16,
      Field ''hdr_len'' t___u16,
      Field ''queue_mapping'' t___u16,
      Field ''__cloned_offset'' (CArr t___u8 0),
      Bits ''cloned'' 1 1,
      Bits ''nohdr'' 1 1,
      Bits ''fclone'' 1 2,
      Bits ''peeked'' 1 1,
      Bits ''head_frag'' 1 1,
      Bits ''pfmemalloc'' 1 1,
      Bits ''pp_recycle'' 1 1,
      Field ''active_extensions'' t___u8,
      Field [] (CUnion False [Field [] (CStruct False [Field ''__pkt_type_offset'' (CArr t___u8 0),
        Bits ''pkt_type'' 1 3, Bits ''ignore_df'' 1 1, Bits ''dst_pending_confirm'' 1 1, Bits
        ''ip_summed'' 1 2, Bits ''ooo_okay'' 1 1, Field ''__mono_tc_offset'' (CArr t___u8 0), Bits
        ''tstamp_type'' 1 2, Bits ''tc_at_ingress'' 1 1, Bits ''tc_skip_classify'' 1 1, Bits
        ''remcsum_offload'' 1 1, Bits ''csum_complete_sw'' 1 1, Bits ''csum_level'' 1 2, Bits
        ''inner_protocol_type'' 1 1, Bits ''l4_hash'' 1 1, Bits ''sw_hash'' 1 1, Bits
        ''wifi_acked_valid'' 1 1, Bits ''wifi_acked'' 1 1, Bits ''no_fcs'' 1 1, Bits
        ''encapsulation'' 1 1, Bits ''encap_hdr_csum'' 1 1, Bits ''csum_valid'' 1 1, Bits
        ''ndisc_nodetype'' 1 2, Bits ''ipvs_property'' 1 1, Bits ''nf_trace'' 1 1, Bits
        ''offload_fwd_mark'' 1 1, Bits ''offload_l3_fwd_mark'' 1 1, Bits ''redirected'' 1 1, Bits
        ''from_ingress'' 1 1, Bits ''nf_skip_egress'' 1 1, Bits ''decrypted'' 1 1, Bits ''slow_gro''
        1 1, Bits ''csum_not_inet'' 1 1, Bits ''unreadable'' 1 1, Field ''tc_index'' t___u16, Field
        ''alloc_cpu'' t_u16, Field [] (CUnion False [Field ''csum'' t___wsum, Field [] (CStruct
        False [Field ''csum_start'' t___u16, Field ''csum_offset'' t___u16])]), Field ''priority''
        t___u32, Field ''skb_iif'' (CInt 4), Field ''hash'' t___u32, Field [] (CUnion False [Field
        ''vlan_all'' t_u32, Field [] (CStruct False [Field ''vlan_proto'' t___be16, Field
        ''vlan_tci'' t___u16])]), Field [] (CUnion False [Field ''napi_id'' (CInt 4), Field
        ''sender_cpu'' (CInt 4)]), Field ''secmark'' t___u32, Field [] (CUnion False [Field ''mark''
        t___u32, Field ''reserved_tailroom'' t___u32]), Field [] (CUnion False [Field
        ''inner_protocol'' t___be16, Field ''inner_ipproto'' t___u8]), Field
        ''inner_transport_header'' t___u16, Field ''inner_network_header'' t___u16, Field
        ''inner_mac_header'' t___u16, Field ''protocol'' t___be16, Field ''transport_header''
        t___u16, Field ''network_header'' t___u16, Field ''mac_header'' t___u16]), Field ''headers''
        (CStruct False [Field ''__pkt_type_offset'' (CArr t___u8 0), Bits ''pkt_type'' 1 3, Bits
        ''ignore_df'' 1 1, Bits ''dst_pending_confirm'' 1 1, Bits ''ip_summed'' 1 2, Bits
        ''ooo_okay'' 1 1, Field ''__mono_tc_offset'' (CArr t___u8 0), Bits ''tstamp_type'' 1 2, Bits
        ''tc_at_ingress'' 1 1, Bits ''tc_skip_classify'' 1 1, Bits ''remcsum_offload'' 1 1, Bits
        ''csum_complete_sw'' 1 1, Bits ''csum_level'' 1 2, Bits ''inner_protocol_type'' 1 1, Bits
        ''l4_hash'' 1 1, Bits ''sw_hash'' 1 1, Bits ''wifi_acked_valid'' 1 1, Bits ''wifi_acked'' 1
        1, Bits ''no_fcs'' 1 1, Bits ''encapsulation'' 1 1, Bits ''encap_hdr_csum'' 1 1, Bits
        ''csum_valid'' 1 1, Bits ''ndisc_nodetype'' 1 2, Bits ''ipvs_property'' 1 1, Bits
        ''nf_trace'' 1 1, Bits ''offload_fwd_mark'' 1 1, Bits ''offload_l3_fwd_mark'' 1 1, Bits
        ''redirected'' 1 1, Bits ''from_ingress'' 1 1, Bits ''nf_skip_egress'' 1 1, Bits
        ''decrypted'' 1 1, Bits ''slow_gro'' 1 1, Bits ''csum_not_inet'' 1 1, Bits ''unreadable'' 1
        1, Field ''tc_index'' t___u16, Field ''alloc_cpu'' t_u16, Field [] (CUnion False [Field
        ''csum'' t___wsum, Field [] (CStruct False [Field ''csum_start'' t___u16, Field
        ''csum_offset'' t___u16])]), Field ''priority'' t___u32, Field ''skb_iif'' (CInt 4), Field
        ''hash'' t___u32, Field [] (CUnion False [Field ''vlan_all'' t_u32, Field [] (CStruct False
        [Field ''vlan_proto'' t___be16, Field ''vlan_tci'' t___u16])]), Field [] (CUnion False
        [Field ''napi_id'' (CInt 4), Field ''sender_cpu'' (CInt 4)]), Field ''secmark'' t___u32,
        Field [] (CUnion False [Field ''mark'' t___u32, Field ''reserved_tailroom'' t___u32]), Field
        [] (CUnion False [Field ''inner_protocol'' t___be16, Field ''inner_ipproto'' t___u8]), Field
        ''inner_transport_header'' t___u16, Field ''inner_network_header'' t___u16, Field
        ''inner_mac_header'' t___u16, Field ''protocol'' t___be16, Field ''transport_header''
        t___u16, Field ''network_header'' t___u16, Field ''mac_header'' t___u16])]),
      Field ''tail'' t_sk_buff_data_t,
      Field ''end'' t_sk_buff_data_t,
      Field ''head'' CPtr,
      Field ''data'' CPtr,
      Field ''truesize'' (CInt 4),
      Field ''users'' t_refcount_t,
      Field ''extensions'' CPtr]"

lemma lay_struct_sk_buff [layouts]: "lay struct_sk_buff = (232, 8)"
  by (simp add: struct_sk_buff_def layouts lay_eval)

lemma wf_struct_sk_buff [wf_types]: "wf_type struct_sk_buff"
  by (simp add: struct_sk_buff_def wf_types)

end
