(* ===== verification/SchedTypes.thy ===== *)
theory SchedTypes
  imports SocketTypes
begin

text \<open>
  Control groups, users and run queues, which a task refers to.
  The definitions follow the declarations of \<open>bpf/vmlinux.h\<close>; the lemmas compute sizes and
  alignments.
\<close>

definition struct_css_set :: ctype where
  "struct_css_set =
    CStruct False
     [Field ''subsys'' (CArr CPtr 15),
      Field ''refcount'' t_refcount_t,
      Field ''dom_cset'' CPtr,
      Field ''dfl_cgrp'' CPtr,
      Field ''nr_tasks'' (CInt 4),
      Field ''tasks'' struct_list_head,
      Field ''mg_tasks'' struct_list_head,
      Field ''dying_tasks'' struct_list_head,
      Field ''task_iters'' struct_list_head,
      Field ''e_cset_node'' (CArr struct_list_head 15),
      Field ''threaded_csets'' struct_list_head,
      Field ''threaded_csets_node'' struct_list_head,
      Field ''hlist'' struct_hlist_node,
      Field ''cgrp_links'' struct_list_head,
      Field ''mg_src_preload_node'' struct_list_head,
      Field ''mg_dst_preload_node'' struct_list_head,
      Field ''mg_node'' struct_list_head,
      Field ''mg_src_cgrp'' CPtr,
      Field ''mg_dst_cgrp'' CPtr,
      Field ''mg_dst_cset'' CPtr,
      Field ''dead'' (CInt 1),
      Field ''callback_head'' struct_callback_head]"

lemma lay_struct_css_set [layouts]: "lay struct_css_set = (616, 8)"
  by (simp add: struct_css_set_def layouts lay_eval)

lemma wf_struct_css_set [wf_types]: "wf_type struct_css_set"
  by (simp add: struct_css_set_def wf_types)

definition struct_cacheline_padding :: ctype where
  "struct_cacheline_padding =
    CStruct False
     [Field ''x'' (CArr (CInt 1) 0)]"

lemma lay_struct_cacheline_padding [layouts]: "lay struct_cacheline_padding = (0, 1)"
  by (simp add: struct_cacheline_padding_def layouts lay_eval)

lemma wf_struct_cacheline_padding [wf_types]: "wf_type struct_cacheline_padding"
  by (simp add: struct_cacheline_padding_def wf_types)

definition struct_task_cputime :: ctype where
  "struct_task_cputime =
    CStruct False
     [Field ''stime'' t_u64,
      Field ''utime'' t_u64,
      Field ''sum_exec_runtime'' (CInt 8)]"

lemma lay_struct_task_cputime [layouts]: "lay struct_task_cputime = (24, 8)"
  by (simp add: struct_task_cputime_def layouts lay_eval)

lemma wf_struct_task_cputime [wf_types]: "wf_type struct_task_cputime"
  by (simp add: struct_task_cputime_def wf_types)

definition struct_cgroup_base_stat :: ctype where
  "struct_cgroup_base_stat =
    CStruct False
     [Field ''cputime'' struct_task_cputime,
      Field ''forceidle_sum'' t_u64,
      Field ''ntime'' t_u64]"

lemma lay_struct_cgroup_base_stat [layouts]: "lay struct_cgroup_base_stat = (40, 8)"
  by (simp add: struct_cgroup_base_stat_def layouts lay_eval)

lemma wf_struct_cgroup_base_stat [wf_types]: "wf_type struct_cgroup_base_stat"
  by (simp add: struct_cgroup_base_stat_def wf_types)

definition struct_percpu_ref :: ctype where
  "struct_percpu_ref =
    CStruct False
     [Field ''percpu_count_ptr'' (CInt 8),
      Field ''data'' CPtr]"

lemma lay_struct_percpu_ref [layouts]: "lay struct_percpu_ref = (16, 8)"
  by (simp add: struct_percpu_ref_def layouts lay_eval)

lemma wf_struct_percpu_ref [wf_types]: "wf_type struct_percpu_ref"
  by (simp add: struct_percpu_ref_def wf_types)

definition struct_cgroup_bpf :: ctype where
  "struct_cgroup_bpf =
    CStruct False
     [Field ''effective'' (CArr CPtr 38),
      Field ''progs'' (CArr struct_hlist_head 38),
      Field ''flags'' (CArr t_u8 38),
      Field ''revisions'' (CArr t_u64 38),
      Field ''storages'' struct_list_head,
      Field ''inactive'' CPtr,
      Field ''refcnt'' struct_percpu_ref,
      Field ''release_work'' struct_work_struct]"

lemma lay_struct_cgroup_bpf [layouts]: "lay struct_cgroup_bpf = (1024, 8)"
  by (simp add: struct_cgroup_bpf_def layouts lay_eval)

lemma wf_struct_cgroup_bpf [wf_types]: "wf_type struct_cgroup_bpf"
  by (simp add: struct_cgroup_bpf_def wf_types)

definition struct_cgroup_file :: ctype where
  "struct_cgroup_file =
    CStruct False
     [Field ''kn'' CPtr,
      Field ''notified_at'' (CInt 8),
      Field ''notify_timer'' struct_timer_list]"

lemma lay_struct_cgroup_file [layouts]: "lay struct_cgroup_file = (56, 8)"
  by (simp add: struct_cgroup_file_def layouts lay_eval)

lemma wf_struct_cgroup_file [wf_types]: "wf_type struct_cgroup_file"
  by (simp add: struct_cgroup_file_def wf_types)

definition struct_cgroup_freezer_state :: ctype where
  "struct_cgroup_freezer_state =
    CStruct False
     [Field ''freeze'' (CInt 1),
      Field ''e_freeze'' (CInt 1),
      Field ''nr_frozen_descendants'' (CInt 4),
      Field ''nr_frozen_tasks'' (CInt 4),
      Field ''freeze_seq'' t_seqcount_spinlock_t,
      Field ''freeze_start_nsec'' t_u64,
      Field ''frozen_nsec'' t_u64]"

lemma lay_struct_cgroup_freezer_state [layouts]: "lay struct_cgroup_freezer_state = (32, 8)"
  by (simp add: struct_cgroup_freezer_state_def layouts lay_eval)

lemma wf_struct_cgroup_freezer_state [wf_types]: "wf_type struct_cgroup_freezer_state"
  by (simp add: struct_cgroup_freezer_state_def wf_types)

definition struct_rcu_work :: ctype where
  "struct_rcu_work =
    CStruct False
     [Field ''work'' struct_work_struct,
      Field ''rcu'' struct_callback_head,
      Field ''wq'' CPtr]"

lemma lay_struct_rcu_work [layouts]: "lay struct_rcu_work = (56, 8)"
  by (simp add: struct_rcu_work_def layouts lay_eval)

lemma wf_struct_rcu_work [wf_types]: "wf_type struct_rcu_work"
  by (simp add: struct_rcu_work_def wf_types)

definition struct_cgroup_subsys_state :: ctype where
  "struct_cgroup_subsys_state =
    CStruct False
     [Field ''cgroup'' CPtr,
      Field ''ss'' CPtr,
      Field ''refcnt'' struct_percpu_ref,
      Field ''rstat_cpu'' CPtr,
      Field ''sibling'' struct_list_head,
      Field ''children'' struct_list_head,
      Field ''id'' (CInt 4),
      Field ''flags'' (CInt 4),
      Field ''serial_nr'' t_u64,
      Field ''online_cnt'' t_atomic_t,
      Field ''destroy_work'' struct_work_struct,
      Field ''destroy_rwork'' struct_rcu_work,
      Field ''parent'' CPtr,
      Field ''nr_descendants'' (CInt 4),
      Field ''rstat_flush_next'' CPtr]"

lemma lay_struct_cgroup_subsys_state [layouts]: "lay struct_cgroup_subsys_state = (208, 8)"
  by (simp add: struct_cgroup_subsys_state_def layouts lay_eval)

lemma wf_struct_cgroup_subsys_state [wf_types]: "wf_type struct_cgroup_subsys_state"
  by (simp add: struct_cgroup_subsys_state_def wf_types)

definition struct_cgroup :: ctype where
  "struct_cgroup =
    CStruct False
     [Field ''self'' struct_cgroup_subsys_state,
      Field ''flags'' (CInt 8),
      Field ''level'' (CInt 4),
      Field ''max_depth'' (CInt 4),
      Field ''nr_descendants'' (CInt 4),
      Field ''nr_dying_descendants'' (CInt 4),
      Field ''max_descendants'' (CInt 4),
      Field ''nr_populated_csets'' (CInt 4),
      Field ''nr_populated_domain_children'' (CInt 4),
      Field ''nr_populated_threaded_children'' (CInt 4),
      Field ''nr_threaded_children'' (CInt 4),
      Field ''kill_seq'' (CInt 4),
      Field ''kn'' CPtr,
      Field ''procs_file'' struct_cgroup_file,
      Field ''events_file'' struct_cgroup_file,
      Field ''psi_files'' (CArr struct_cgroup_file 3),
      Field ''subtree_control'' t_u32,
      Field ''subtree_ss_mask'' t_u32,
      Field ''old_subtree_control'' t_u32,
      Field ''old_subtree_ss_mask'' t_u32,
      Field ''subsys'' (CArr CPtr 15),
      Field ''nr_dying_subsys'' (CArr (CInt 4) 15),
      Field ''root'' CPtr,
      Field ''cset_links'' struct_list_head,
      Field ''e_csets'' (CArr struct_list_head 15),
      Field ''dom_cgrp'' CPtr,
      Field ''old_dom_cgrp'' CPtr,
      Field ''rstat_base_cpu'' CPtr,
      Pad 8 64,
      Pad 8 64,
      Pad 8 64,
      Pad 8 64,
      Pad 8 64,
      Pad 8 64,
      Pad 8 64,
      Field ''_pad_'' struct_cacheline_padding,
      Field ''last_bstat'' struct_cgroup_base_stat,
      Field ''bstat'' struct_cgroup_base_stat,
      Field ''prev_cputime'' struct_prev_cputime,
      Field ''pidlists'' struct_list_head,
      Field ''pidlist_mutex'' struct_mutex,
      Field ''offline_waitq'' t_wait_queue_head_t,
      Field ''dying_populated_waitq'' t_wait_queue_head_t,
      Field ''release_agent_work'' struct_work_struct,
      Field ''psi'' CPtr,
      Field ''bpf'' struct_cgroup_bpf,
      Field ''freezer'' struct_cgroup_freezer_state,
      Field ''bpf_cgrp_storage'' CPtr,
      Field [] (CUnion False [Field [] (CStruct False [Field ''__empty_ancestors'' (CStruct False
        []), Field ''ancestors'' (CArr CPtr 0)]), Field [] (CStruct False [Field ''_root_ancestor''
        CPtr, Field [] (CStruct False [Field ''__empty__low_ancestors'' (CStruct False []), Field
        ''_low_ancestors'' (CArr CPtr 0)])])]),
      Pad 8 64,
      Pad 8 64,
      Pad 8 64,
      Pad 8 64]"

lemma lay_struct_cgroup [layouts]: "lay struct_cgroup = (2432, 8)"
  by (simp add: struct_cgroup_def layouts lay_eval)

lemma wf_struct_cgroup [wf_types]: "wf_type struct_cgroup"
  by (simp add: struct_cgroup_def wf_types)

definition struct_ratelimit_state :: ctype where
  "struct_ratelimit_state =
    CStruct False
     [Field ''lock'' t_raw_spinlock_t,
      Field ''interval'' (CInt 4),
      Field ''burst'' (CInt 4),
      Field ''rs_n_left'' t_atomic_t,
      Field ''missed'' t_atomic_t,
      Field ''flags'' (CInt 4),
      Field ''begin'' (CInt 8)]"

lemma lay_struct_ratelimit_state [layouts]: "lay struct_ratelimit_state = (32, 8)"
  by (simp add: struct_ratelimit_state_def layouts lay_eval)

lemma wf_struct_ratelimit_state [wf_types]: "wf_type struct_ratelimit_state"
  by (simp add: struct_ratelimit_state_def wf_types)

definition struct_user_struct :: ctype where
  "struct_user_struct =
    CStruct False
     [Field ''__count'' t_refcount_t,
      Field ''epoll_watches'' struct_percpu_counter,
      Field ''unix_inflight'' (CInt 8),
      Field ''pipe_bufs'' t_atomic_long_t,
      Field ''uidhash_node'' struct_hlist_node,
      Field ''uid'' t_kuid_t,
      Field ''locked_vm'' t_atomic_long_t,
      Field ''nr_watches'' t_atomic_t,
      Field ''ratelimit'' struct_ratelimit_state]"

lemma lay_struct_user_struct [layouts]: "lay struct_user_struct = (136, 8)"
  by (simp add: struct_user_struct_def layouts lay_eval)

lemma wf_struct_user_struct [wf_types]: "wf_type struct_user_struct"
  by (simp add: struct_user_struct_def wf_types)

definition struct_cfs_rq :: ctype where
  "struct_cfs_rq =
    CStruct False
     [Field ''load'' struct_load_weight,
      Field ''nr_queued'' (CInt 4),
      Field ''h_nr_queued'' (CInt 4),
      Field ''h_nr_runnable'' (CInt 4),
      Field ''h_nr_idle'' (CInt 4),
      Field ''sum_w_vruntime'' t_s64,
      Field ''sum_weight'' t_u64,
      Field ''zero_vruntime'' t_u64,
      Field ''forceidle_seq'' (CInt 4),
      Field ''zero_vruntime_fi'' t_u64,
      Field ''tasks_timeline'' struct_rb_root_cached,
      Field ''curr'' CPtr,
      Field ''next'' CPtr,
      Pad 8 64,
      Pad 8 64,
      Pad 8 64,
      Field ''avg'' struct_sched_avg,
      Field ''removed'' (CStruct False [Field ''lock'' t_raw_spinlock_t, Field ''nr'' (CInt 4),
        Field ''load_avg'' (CInt 8), Field ''util_avg'' (CInt 8), Field ''runnable_avg'' (CInt 8),
        Pad 8 64, Pad 8 64, Pad 8 64, Pad 8 64]),
      Field ''last_update_tg_load_avg'' t_u64,
      Field ''tg_load_avg_contrib'' (CInt 8),
      Field ''propagate'' (CInt 8),
      Field ''prop_runnable_sum'' (CInt 8),
      Field ''h_load'' (CInt 8),
      Field ''last_h_load_update'' t_u64,
      Field ''h_load_next'' CPtr,
      Field ''rq'' CPtr,
      Field ''on_list'' (CInt 4),
      Field ''leaf_cfs_rq_list'' struct_list_head,
      Field ''tg'' CPtr,
      Field ''idle'' (CInt 4),
      Field ''runtime_enabled'' (CInt 4),
      Field ''runtime_remaining'' t_s64,
      Field ''throttled_pelt_idle'' t_u64,
      Field ''throttled_clock'' t_u64,
      Field ''throttled_clock_pelt'' t_u64,
      Field ''throttled_clock_pelt_time'' t_u64,
      Field ''throttled_clock_self'' t_u64,
      Field ''throttled_clock_self_time'' t_u64,
      Bits ''throttled'' 1 1,
      Bits ''pelt_clock_throttled'' 1 1,
      Field ''throttle_count'' (CInt 4),
      Field ''throttled_list'' struct_list_head,
      Field ''throttled_csd_list'' struct_list_head,
      Field ''throttled_limbo_list'' struct_list_head,
      Pad 8 64,
      Pad 8 64,
      Pad 8 64,
      Pad 8 64,
      Pad 8 64]"

lemma lay_struct_cfs_rq [layouts]: "lay struct_cfs_rq = (512, 8)"
  by (simp add: struct_cfs_rq_def layouts lay_eval)

lemma wf_struct_cfs_rq [wf_types]: "wf_type struct_cfs_rq"
  by (simp add: struct_cfs_rq_def wf_types)

definition t_cpu_stop_fn_t :: ctype where "t_cpu_stop_fn_t = CPtr"

lemma lay_t_cpu_stop_fn_t [layouts]: "lay t_cpu_stop_fn_t = (8, 8)"
  by (simp add: t_cpu_stop_fn_t_def layouts lay_eval)

lemma wf_t_cpu_stop_fn_t [wf_types]: "wf_type t_cpu_stop_fn_t"
  by (simp add: t_cpu_stop_fn_t_def wf_types)

definition struct_cpu_stop_work :: ctype where
  "struct_cpu_stop_work =
    CStruct False
     [Field ''list'' struct_list_head,
      Field ''fn'' t_cpu_stop_fn_t,
      Field ''caller'' (CInt 8),
      Field ''arg'' CPtr,
      Field ''done'' CPtr]"

lemma lay_struct_cpu_stop_work [layouts]: "lay struct_cpu_stop_work = (48, 8)"
  by (simp add: struct_cpu_stop_work_def layouts lay_eval)

lemma wf_struct_cpu_stop_work [wf_types]: "wf_type struct_cpu_stop_work"
  by (simp add: struct_cpu_stop_work_def wf_types)

definition struct_dl_rq :: ctype where
  "struct_dl_rq =
    CStruct False
     [Field ''root'' struct_rb_root_cached,
      Field ''dl_nr_running'' (CInt 4),
      Field ''earliest_dl'' (CStruct False [Field ''curr'' t_u64, Field ''next'' t_u64]),
      Field ''overloaded'' (CInt 1),
      Field ''pushable_dl_tasks_root'' struct_rb_root_cached,
      Field ''running_bw'' t_u64,
      Field ''this_bw'' t_u64,
      Field ''extra_bw'' t_u64,
      Field ''max_bw'' t_u64,
      Field ''bw_ratio'' t_u64]"

lemma lay_struct_dl_rq [layouts]: "lay struct_dl_rq = (104, 8)"
  by (simp add: struct_dl_rq_def layouts lay_eval)

lemma wf_struct_dl_rq [wf_types]: "wf_type struct_dl_rq"
  by (simp add: struct_dl_rq_def wf_types)

definition struct_plist_head :: ctype where
  "struct_plist_head =
    CStruct False
     [Field ''node_list'' struct_list_head]"

lemma lay_struct_plist_head [layouts]: "lay struct_plist_head = (16, 8)"
  by (simp add: struct_plist_head_def layouts lay_eval)

lemma wf_struct_plist_head [wf_types]: "wf_type struct_plist_head"
  by (simp add: struct_plist_head_def wf_types)

definition struct_rt_prio_array :: ctype where
  "struct_rt_prio_array =
    CStruct False
     [Field ''bitmap'' (CArr (CInt 8) 2),
      Field ''queue'' (CArr struct_list_head 100)]"

lemma lay_struct_rt_prio_array [layouts]: "lay struct_rt_prio_array = (1616, 8)"
  by (simp add: struct_rt_prio_array_def layouts lay_eval)

lemma wf_struct_rt_prio_array [wf_types]: "wf_type struct_rt_prio_array"
  by (simp add: struct_rt_prio_array_def wf_types)

definition struct_rt_rq :: ctype where
  "struct_rt_rq =
    CStruct False
     [Field ''active'' struct_rt_prio_array,
      Field ''rt_nr_running'' (CInt 4),
      Field ''rr_nr_running'' (CInt 4),
      Field ''highest_prio'' (CStruct False [Field ''curr'' (CInt 4), Field ''next'' (CInt 4)]),
      Field ''overloaded'' (CInt 1),
      Field ''pushable_tasks'' struct_plist_head,
      Field ''rt_queued'' (CInt 4),
      Field ''tg'' CPtr]"

lemma lay_struct_rt_rq [layouts]: "lay struct_rt_rq = (1672, 8)"
  by (simp add: struct_rt_rq_def layouts lay_eval)

lemma wf_struct_rt_rq [wf_types]: "wf_type struct_rt_rq"
  by (simp add: struct_rt_rq_def wf_types)

definition struct_balance_callback :: ctype where
  "struct_balance_callback =
    CStruct False
     [Field ''next'' CPtr,
      Field ''func'' CPtr]"

lemma lay_struct_balance_callback [layouts]: "lay struct_balance_callback = (16, 8)"
  by (simp add: struct_balance_callback_def layouts lay_eval)

lemma wf_struct_balance_callback [wf_types]: "wf_type struct_balance_callback"
  by (simp add: struct_balance_callback_def wf_types)

definition struct_scx_dispatch_q :: ctype where
  "struct_scx_dispatch_q =
    CStruct False
     [Field ''lock'' t_raw_spinlock_t,
      Field ''first_task'' CPtr,
      Field ''list'' struct_list_head,
      Field ''priq'' struct_rb_root,
      Field ''nr'' t_u32,
      Field ''seq'' t_u32,
      Field ''id'' t_u64,
      Field ''hash_node'' struct_rhash_head,
      Field ''free_node'' struct_llist_node,
      Field ''rcu'' struct_callback_head]"

lemma lay_struct_scx_dispatch_q [layouts]: "lay struct_scx_dispatch_q = (88, 8)"
  by (simp add: struct_scx_dispatch_q_def layouts lay_eval)

lemma wf_struct_scx_dispatch_q [wf_types]: "wf_type struct_scx_dispatch_q"
  by (simp add: struct_scx_dispatch_q_def wf_types)

definition t_cpumask_var_t :: ctype where "t_cpumask_var_t = CPtr"

lemma lay_t_cpumask_var_t [layouts]: "lay t_cpumask_var_t = (8, 8)"
  by (simp add: t_cpumask_var_t_def layouts lay_eval)

lemma wf_t_cpumask_var_t [wf_types]: "wf_type t_cpumask_var_t"
  by (simp add: t_cpumask_var_t_def wf_types)

definition t_local_t :: ctype where "t_local_t = CStruct False [Field ''a'' t_atomic_long_t]"

lemma lay_t_local_t [layouts]: "lay t_local_t = (8, 8)"
  by (simp add: t_local_t_def layouts lay_eval)

lemma wf_t_local_t [wf_types]: "wf_type t_local_t"
  by (simp add: t_local_t_def wf_types)

definition struct_scx_rq :: ctype where
  "struct_scx_rq =
    CStruct False
     [Field ''local_dsq'' struct_scx_dispatch_q,
      Field ''runnable_list'' struct_list_head,
      Field ''ddsp_deferred_locals'' struct_list_head,
      Field ''ops_qseq'' (CInt 8),
      Field ''extra_enq_flags'' t_u64,
      Field ''nr_running'' t_u32,
      Field ''cpuperf_target'' t_u32,
      Field ''cpu_released'' (CInt 1),
      Field ''flags'' t_u32,
      Field ''clock'' t_u64,
      Field ''cpus_to_kick'' t_cpumask_var_t,
      Field ''cpus_to_kick_if_idle'' t_cpumask_var_t,
      Field ''cpus_to_preempt'' t_cpumask_var_t,
      Field ''cpus_to_wait'' t_cpumask_var_t,
      Field ''cpus_to_sync'' t_cpumask_var_t,
      Field ''kick_sync_pending'' (CInt 1),
      Field ''kick_sync'' (CInt 8),
      Field ''reenq_local_deferred'' t_local_t,
      Field ''deferred_bal_cb'' struct_balance_callback,
      Field ''kick_sync_bal_cb'' struct_balance_callback,
      Field ''deferred_irq_work'' struct_irq_work,
      Field ''kick_cpus_irq_work'' struct_irq_work,
      Field ''bypass_dsq'' struct_scx_dispatch_q]"

lemma lay_struct_scx_rq [layouts]: "lay struct_scx_rq = (408, 8)"
  by (simp add: struct_scx_rq_def layouts lay_eval)

lemma wf_struct_scx_rq [wf_types]: "wf_type struct_scx_rq"
  by (simp add: struct_scx_rq_def wf_types)

definition struct_uclamp_bucket :: ctype where
  "struct_uclamp_bucket =
    CStruct False
     [Bits ''value'' 8 11,
      Bits ''tasks'' 8 53]"

lemma lay_struct_uclamp_bucket [layouts]: "lay struct_uclamp_bucket = (8, 8)"
  by (simp add: struct_uclamp_bucket_def layouts lay_eval)

lemma wf_struct_uclamp_bucket [wf_types]: "wf_type struct_uclamp_bucket"
  by (simp add: struct_uclamp_bucket_def wf_types)

definition struct_uclamp_rq :: ctype where
  "struct_uclamp_rq =
    CStruct False
     [Field ''value'' (CInt 4),
      Field ''bucket'' (CArr struct_uclamp_bucket 5)]"

lemma lay_struct_uclamp_rq [layouts]: "lay struct_uclamp_rq = (48, 8)"
  by (simp add: struct_uclamp_rq_def layouts lay_eval)

lemma wf_struct_uclamp_rq [wf_types]: "wf_type struct_uclamp_rq"
  by (simp add: struct_uclamp_rq_def wf_types)

definition t_smp_call_func_t :: ctype where "t_smp_call_func_t = CPtr"

lemma lay_t_smp_call_func_t [layouts]: "lay t_smp_call_func_t = (8, 8)"
  by (simp add: t_smp_call_func_t_def layouts lay_eval)

lemma wf_t_smp_call_func_t [wf_types]: "wf_type t_smp_call_func_t"
  by (simp add: t_smp_call_func_t_def wf_types)

definition struct___call_single_data :: ctype where
  "struct___call_single_data =
    CStruct False
     [Field ''node'' struct___call_single_node,
      Field ''func'' t_smp_call_func_t,
      Field ''info'' CPtr]"

lemma lay_struct___call_single_data [layouts]: "lay struct___call_single_data = (32, 8)"
  by (simp add: struct___call_single_data_def layouts lay_eval)

lemma wf_struct___call_single_data [wf_types]: "wf_type struct___call_single_data"
  by (simp add: struct___call_single_data_def wf_types)

definition t_call_single_data_t :: ctype where "t_call_single_data_t = struct___call_single_data"

lemma lay_t_call_single_data_t [layouts]: "lay t_call_single_data_t = (32, 8)"
  by (simp add: t_call_single_data_t_def layouts lay_eval)

lemma wf_t_call_single_data_t [wf_types]: "wf_type t_call_single_data_t"
  by (simp add: t_call_single_data_t_def wf_types)

definition struct_rq :: ctype where
  "struct_rq =
    CStruct False
     [Field ''nr_running'' (CInt 4),
      Field ''nr_numa_running'' (CInt 4),
      Field ''nr_preferred_running'' (CInt 4),
      Field ''ttwu_pending'' (CInt 4),
      Field ''cpu_capacity'' (CInt 8),
      Field [] (CUnion False [Field ''donor'' CPtr, Field ''curr'' CPtr]),
      Field ''idle'' CPtr,
      Pad 8 64,
      Pad 8 64,
      Pad 8 64,
      Field ''nr_switches'' t_u64,
      Field ''__lock'' t_raw_spinlock_t,
      Field ''nohz_tick_stopped'' (CInt 4),
      Field ''nohz_flags'' t_atomic_t,
      Field ''has_blocked_load'' (CInt 4),
      Field ''last_blocked_load_update_tick'' (CInt 8),
      Field ''nohz_csd'' t_call_single_data_t,
      Field ''uclamp'' (CArr struct_uclamp_rq 2),
      Field ''uclamp_flags'' (CInt 4),
      Pad 8 64,
      Pad 8 64,
      Pad 8 64,
      Field ''cfs'' struct_cfs_rq,
      Field ''rt'' struct_rt_rq,
      Field ''dl'' struct_dl_rq,
      Field ''scx'' struct_scx_rq,
      Field ''ext_server'' struct_sched_dl_entity,
      Field ''fair_server'' struct_sched_dl_entity,
      Field ''leaf_cfs_rq_list'' struct_list_head,
      Field ''tmp_alone_branch'' CPtr,
      Field ''numa_migrate_on'' (CInt 4),
      Field ''nr_uninterruptible'' (CInt 8),
      Field ''dl_server'' CPtr,
      Field ''stop'' CPtr,
      Field ''next_class'' CPtr,
      Field ''next_balance'' (CInt 8),
      Field ''prev_mm'' CPtr,
      Pad 8 64,
      Field ''clock_task'' t_u64,
      Field ''clock_pelt'' t_u64,
      Field ''clock'' t_u64,
      Field ''lost_idle_time'' (CInt 8),
      Field ''clock_update_flags'' (CInt 4),
      Field ''clock_pelt_idle'' t_u64,
      Field ''clock_idle'' t_u64,
      Field ''last_seen_need_resched_ns'' t_u64,
      Field ''ticks_without_resched'' (CInt 4),
      Field ''membarrier_state'' (CInt 4),
      Field ''rd'' CPtr,
      Field ''sd'' CPtr,
      Field ''balance_callback'' CPtr,
      Field ''nohz_idle_balance'' (CInt 1),
      Field ''idle_balance'' (CInt 1),
      Field ''misfit_task_load'' (CInt 8),
      Field ''active_balance'' (CInt 4),
      Field ''push_cpu'' (CInt 4),
      Field ''active_balance_work'' struct_cpu_stop_work,
      Field ''cpu'' (CInt 4),
      Field ''online'' (CInt 4),
      Field ''cfs_tasks'' struct_list_head,
      Field ''avg_rt'' struct_sched_avg,
      Field ''avg_dl'' struct_sched_avg,
      Field ''avg_hw'' struct_sched_avg,
      Field ''idle_stamp'' t_u64,
      Field ''avg_idle'' t_u64,
      Field ''max_idle_balance_cost'' t_u64,
      Field ''hotplug_wait'' struct_rcuwait,
      Field ''prev_steal_time'' t_u64,
      Field ''calc_load_update'' (CInt 8),
      Field ''calc_load_active'' (CInt 8),
      Pad 8 64,
      Field ''hrtick_csd'' t_call_single_data_t,
      Field ''hrtick_timer'' struct_hrtimer,
      Field ''hrtick_time'' t_ktime_t,
      Field ''rq_sched_info'' struct_sched_info,
      Field ''rq_cpu_time'' (CInt 8),
      Field ''yld_count'' (CInt 4),
      Field ''sched_count'' (CInt 4),
      Field ''sched_goidle'' (CInt 4),
      Field ''ttwu_count'' (CInt 4),
      Field ''ttwu_local'' (CInt 4),
      Field ''idle_state'' CPtr,
      Field ''nr_pinned'' (CInt 4),
      Field ''push_busy'' (CInt 4),
      Field ''push_work'' struct_cpu_stop_work,
      Field ''core'' CPtr,
      Field ''core_pick'' CPtr,
      Field ''core_dl_server'' CPtr,
      Field ''core_enabled'' (CInt 4),
      Field ''core_sched_seq'' (CInt 4),
      Field ''core_tree'' struct_rb_root,
      Field ''core_task_seq'' (CInt 4),
      Field ''core_pick_seq'' (CInt 4),
      Field ''core_cookie'' (CInt 8),
      Field ''core_forceidle_count'' (CInt 4),
      Field ''core_forceidle_seq'' (CInt 4),
      Field ''core_forceidle_occupation'' (CInt 4),
      Field ''core_forceidle_start'' t_u64,
      Field ''scratch_mask'' t_cpumask_var_t,
      Field ''cfsb_csd'' t_call_single_data_t,
      Field ''cfsb_csd_list'' struct_list_head,
      Field ''nr_iowait'' t_atomic_t,
      Pad 8 64,
      Pad 8 64,
      Pad 8 64,
      Pad 8 64,
      Pad 8 64]"

lemma lay_struct_rq [layouts]: "lay struct_rq = (4416, 8)"
  by (simp add: struct_rq_def layouts lay_eval)

lemma wf_struct_rq [wf_types]: "wf_type struct_rq"
  by (simp add: struct_rq_def wf_types)

end
