(* ===== verification/NetTypes.thy ===== *)
theory NetTypes
  imports SchedTypes
begin

text \<open>
  Network devices and namespaces, through which a connection goes out.
  The definitions follow the declarations of \<open>bpf/vmlinux.h\<close>; the lemmas compute sizes and
  alignments.
\<close>

definition enum_netdev_ml_priv_type :: enumerators where
  "enum_netdev_ml_priv_type =
    [(''ML_PRIV_NONE'', 0), (''ML_PRIV_CAN'', 1)]"

lemma lay_enum_netdev_ml_priv_type [layouts]: "lay (c_enum enum_netdev_ml_priv_type) = (4, 4)"
  by (simp add: c_enum_def enum_netdev_ml_priv_type_def)

lemma wf_enum_netdev_ml_priv_type [wf_types]: "wf_type (c_enum enum_netdev_ml_priv_type)"
  by (simp add: c_enum_def)

definition enum_netdev_stat_type :: enumerators where
  "enum_netdev_stat_type =
    [(''NETDEV_PCPU_STAT_NONE'', 0), (''NETDEV_PCPU_STAT_LSTATS'', 1), (''NETDEV_PCPU_STAT_TSTATS'',
      2), (''NETDEV_PCPU_STAT_DSTATS'', 3)]"

lemma lay_enum_netdev_stat_type [layouts]: "lay (c_enum enum_netdev_stat_type) = (4, 4)"
  by (simp add: c_enum_def enum_netdev_stat_type_def)

lemma wf_enum_netdev_stat_type [wf_types]: "wf_type (c_enum enum_netdev_stat_type)"
  by (simp add: c_enum_def)

definition struct_bpf_xdp_entity :: ctype where
  "struct_bpf_xdp_entity =
    CStruct False
     [Field ''prog'' CPtr,
      Field ''link'' CPtr]"

lemma lay_struct_bpf_xdp_entity [layouts]: "lay struct_bpf_xdp_entity = (16, 8)"
  by (simp add: struct_bpf_xdp_entity_def layouts lay_eval)

lemma wf_struct_bpf_xdp_entity [wf_types]: "wf_type struct_bpf_xdp_entity"
  by (simp add: struct_bpf_xdp_entity_def wf_types)

definition enum_device_removable :: enumerators where
  "enum_device_removable =
    [(''DEVICE_REMOVABLE_NOT_SUPPORTED'', 0), (''DEVICE_REMOVABLE_UNKNOWN'', 1), (''DEVICE_FIXED'',
      2), (''DEVICE_REMOVABLE'', 3)]"

lemma lay_enum_device_removable [layouts]: "lay (c_enum enum_device_removable) = (4, 4)"
  by (simp add: c_enum_def enum_device_removable_def)

lemma wf_enum_device_removable [wf_types]: "wf_type (c_enum enum_device_removable)"
  by (simp add: c_enum_def)

definition struct_dev_archdata :: ctype where
  "struct_dev_archdata = CStruct False []"

lemma lay_struct_dev_archdata [layouts]: "lay struct_dev_archdata = (0, 1)"
  by (simp add: struct_dev_archdata_def layouts lay_eval)

lemma wf_struct_dev_archdata [wf_types]: "wf_type struct_dev_archdata"
  by (simp add: struct_dev_archdata_def wf_types)

definition enum_dl_dev_state :: enumerators where
  "enum_dl_dev_state =
    [(''DL_DEV_NO_DRIVER'', 0), (''DL_DEV_PROBING'', 1), (''DL_DEV_DRIVER_BOUND'', 2),
      (''DL_DEV_UNBINDING'', 3)]"

lemma lay_enum_dl_dev_state [layouts]: "lay (c_enum enum_dl_dev_state) = (4, 4)"
  by (simp add: c_enum_def enum_dl_dev_state_def)

lemma wf_enum_dl_dev_state [wf_types]: "wf_type (c_enum enum_dl_dev_state)"
  by (simp add: c_enum_def)

definition struct_dev_links_info :: ctype where
  "struct_dev_links_info =
    CStruct False
     [Field ''suppliers'' struct_list_head,
      Field ''consumers'' struct_list_head,
      Field ''defer_sync'' struct_list_head,
      Field ''status'' (c_enum enum_dl_dev_state)]"

lemma lay_struct_dev_links_info [layouts]: "lay struct_dev_links_info = (56, 8)"
  by (simp add: struct_dev_links_info_def layouts lay_eval)

lemma wf_struct_dev_links_info [wf_types]: "wf_type struct_dev_links_info"
  by (simp add: struct_dev_links_info_def wf_types)

definition struct_dev_msi_info :: ctype where
  "struct_dev_msi_info =
    CStruct False
     [Field ''domain'' CPtr,
      Field ''data'' CPtr]"

lemma lay_struct_dev_msi_info [layouts]: "lay struct_dev_msi_info = (16, 8)"
  by (simp add: struct_dev_msi_info_def layouts lay_eval)

lemma wf_struct_dev_msi_info [wf_types]: "wf_type struct_dev_msi_info"
  by (simp add: struct_dev_msi_info_def wf_types)

definition enum_rpm_request :: enumerators where
  "enum_rpm_request =
    [(''RPM_REQ_NONE'', 0), (''RPM_REQ_IDLE'', 1), (''RPM_REQ_SUSPEND'', 2),
      (''RPM_REQ_AUTOSUSPEND'', 3), (''RPM_REQ_RESUME'', 4)]"

lemma lay_enum_rpm_request [layouts]: "lay (c_enum enum_rpm_request) = (4, 4)"
  by (simp add: c_enum_def enum_rpm_request_def)

lemma wf_enum_rpm_request [wf_types]: "wf_type (c_enum enum_rpm_request)"
  by (simp add: c_enum_def)

definition enum_rpm_status :: enumerators where
  "enum_rpm_status =
    [(''RPM_INVALID'', -1), (''RPM_ACTIVE'', 0), (''RPM_RESUMING'', 1), (''RPM_SUSPENDED'', 2),
      (''RPM_SUSPENDING'', 3), (''RPM_BLOCKED'', 4)]"

lemma lay_enum_rpm_status [layouts]: "lay (c_enum enum_rpm_status) = (4, 4)"
  by (simp add: c_enum_def enum_rpm_status_def)

lemma wf_enum_rpm_status [wf_types]: "wf_type (c_enum enum_rpm_status)"
  by (simp add: c_enum_def)

definition struct_swait_queue_head :: ctype where
  "struct_swait_queue_head =
    CStruct False
     [Field ''lock'' t_raw_spinlock_t,
      Field ''task_list'' struct_list_head]"

lemma lay_struct_swait_queue_head [layouts]: "lay struct_swait_queue_head = (24, 8)"
  by (simp add: struct_swait_queue_head_def layouts lay_eval)

lemma wf_struct_swait_queue_head [wf_types]: "wf_type struct_swait_queue_head"
  by (simp add: struct_swait_queue_head_def wf_types)

definition struct_completion :: ctype where
  "struct_completion =
    CStruct False
     [Field ''done'' (CInt 4),
      Field ''wait'' struct_swait_queue_head]"

lemma lay_struct_completion [layouts]: "lay struct_completion = (32, 8)"
  by (simp add: struct_completion_def layouts lay_eval)

lemma wf_struct_completion [wf_types]: "wf_type struct_completion"
  by (simp add: struct_completion_def wf_types)

definition struct_pm_message :: ctype where
  "struct_pm_message =
    CStruct False
     [Field ''event'' (CInt 4)]"

lemma lay_struct_pm_message [layouts]: "lay struct_pm_message = (4, 4)"
  by (simp add: struct_pm_message_def layouts lay_eval)

lemma wf_struct_pm_message [wf_types]: "wf_type struct_pm_message"
  by (simp add: struct_pm_message_def wf_types)

definition t_pm_message_t :: ctype where "t_pm_message_t = struct_pm_message"

lemma lay_t_pm_message_t [layouts]: "lay t_pm_message_t = (4, 4)"
  by (simp add: t_pm_message_t_def layouts lay_eval)

lemma wf_t_pm_message_t [wf_types]: "wf_type t_pm_message_t"
  by (simp add: t_pm_message_t_def wf_types)

definition struct_dev_pm_info :: ctype where
  "struct_dev_pm_info =
    CStruct False
     [Field ''power_state'' t_pm_message_t,
      Bits ''can_wakeup'' 1 1,
      Bits ''async_suspend'' 1 1,
      Bits ''in_dpm_list'' 1 1,
      Bits ''is_prepared'' 1 1,
      Bits ''is_suspended'' 1 1,
      Bits ''is_noirq_suspended'' 1 1,
      Bits ''is_late_suspended'' 1 1,
      Bits ''no_pm'' 1 1,
      Bits ''early_init'' 1 1,
      Bits ''direct_complete'' 1 1,
      Field ''driver_flags'' t_u32,
      Field ''lock'' t_spinlock_t,
      Field ''entry'' struct_list_head,
      Field ''completion'' struct_completion,
      Field ''wakeup'' CPtr,
      Field ''work_in_progress'' (CInt 1),
      Bits ''wakeup_path'' 1 1,
      Bits ''syscore'' 1 1,
      Bits ''no_pm_callbacks'' 1 1,
      Bits ''smart_suspend'' 1 1,
      Bits ''must_resume'' 1 1,
      Bits ''may_skip_resume'' 1 1,
      Bits ''out_band_wakeup'' 1 1,
      Bits ''strict_midlayer'' 1 1,
      Field ''suspend_timer'' struct_hrtimer,
      Field ''timer_expires'' t_u64,
      Field ''work'' struct_work_struct,
      Field ''wait_queue'' t_wait_queue_head_t,
      Field ''wakeirq'' CPtr,
      Field ''usage_count'' t_atomic_t,
      Field ''child_count'' t_atomic_t,
      Bits ''disable_depth'' 4 3,
      Bits ''idle_notification'' 1 1,
      Bits ''request_pending'' 1 1,
      Bits ''deferred_resume'' 1 1,
      Bits ''needs_force_resume'' 1 1,
      Bits ''runtime_auto'' 1 1,
      Bits ''ignore_children'' 1 1,
      Bits ''no_callbacks'' 1 1,
      Bits ''irq_safe'' 1 1,
      Bits ''use_autosuspend'' 1 1,
      Bits ''timer_autosuspends'' 1 1,
      Bits ''memalloc_noio'' 1 1,
      Field ''links_count'' (CInt 4),
      Field ''request'' (c_enum enum_rpm_request),
      Field ''runtime_status'' (c_enum enum_rpm_status),
      Field ''last_status'' (c_enum enum_rpm_status),
      Field ''runtime_error'' (CInt 4),
      Field ''autosuspend_delay'' (CInt 4),
      Field ''last_busy'' t_u64,
      Field ''active_time'' t_u64,
      Field ''suspended_time'' t_u64,
      Field ''accounting_timestamp'' t_u64,
      Field ''subsys_data'' CPtr,
      Field ''set_latency_tolerance'' CPtr,
      Field ''qos'' CPtr,
      Bits ''detach_power_off'' 1 1]"

lemma lay_struct_dev_pm_info [layouts]: "lay struct_dev_pm_info = (320, 8)"
  by (simp add: struct_dev_pm_info_def layouts lay_eval)

lemma wf_struct_dev_pm_info [wf_types]: "wf_type struct_dev_pm_info"
  by (simp add: struct_dev_pm_info_def wf_types)

definition struct_kref :: ctype where
  "struct_kref =
    CStruct False
     [Field ''refcount'' t_refcount_t]"

lemma lay_struct_kref [layouts]: "lay struct_kref = (4, 4)"
  by (simp add: struct_kref_def layouts lay_eval)

lemma wf_struct_kref [wf_types]: "wf_type struct_kref"
  by (simp add: struct_kref_def wf_types)

definition struct_kobject :: ctype where
  "struct_kobject =
    CStruct False
     [Field ''name'' CPtr,
      Field ''entry'' struct_list_head,
      Field ''parent'' CPtr,
      Field ''kset'' CPtr,
      Field ''ktype'' CPtr,
      Field ''sd'' CPtr,
      Field ''kref'' struct_kref,
      Bits ''state_initialized'' 4 1,
      Bits ''state_in_sysfs'' 4 1,
      Bits ''state_add_uevent_sent'' 4 1,
      Bits ''state_remove_uevent_sent'' 4 1,
      Bits ''uevent_suppress'' 4 1]"

lemma lay_struct_kobject [layouts]: "lay struct_kobject = (64, 8)"
  by (simp add: struct_kobject_def layouts lay_eval)

lemma wf_struct_kobject [wf_types]: "wf_type struct_kobject"
  by (simp add: struct_kobject_def wf_types)

definition struct_device :: ctype where
  "struct_device =
    CStruct False
     [Field ''kobj'' struct_kobject,
      Field ''parent'' CPtr,
      Field ''p'' CPtr,
      Field ''init_name'' CPtr,
      Field ''type'' CPtr,
      Field ''bus'' CPtr,
      Field ''driver'' CPtr,
      Field ''platform_data'' CPtr,
      Field ''driver_data'' CPtr,
      Field ''driver_override'' (CStruct False [Field ''name'' CPtr, Field ''lock'' t_spinlock_t]),
      Field ''mutex'' struct_mutex,
      Field ''links'' struct_dev_links_info,
      Field ''power'' struct_dev_pm_info,
      Field ''pm_domain'' CPtr,
      Field ''em_pd'' CPtr,
      Field ''pins'' CPtr,
      Field ''msi'' struct_dev_msi_info,
      Field ''dma_ops'' CPtr,
      Field ''dma_mask'' CPtr,
      Field ''coherent_dma_mask'' t_u64,
      Field ''bus_dma_limit'' t_u64,
      Field ''dma_range_map'' CPtr,
      Field ''dma_parms'' CPtr,
      Field ''dma_pools'' struct_list_head,
      Field ''dma_mem'' CPtr,
      Field ''cma_area'' CPtr,
      Field ''dma_io_tlb_mem'' CPtr,
      Field ''dma_io_tlb_pools'' struct_list_head,
      Field ''dma_io_tlb_lock'' t_spinlock_t,
      Field ''dma_uses_io_tlb'' (CInt 1),
      Field ''archdata'' struct_dev_archdata,
      Field ''of_node'' CPtr,
      Field ''fwnode'' CPtr,
      Field ''numa_node'' (CInt 4),
      Field ''devt'' t_dev_t,
      Field ''id'' t_u32,
      Field ''devres_lock'' t_spinlock_t,
      Field ''devres_head'' struct_list_head,
      Field ''class'' CPtr,
      Field ''groups'' CPtr,
      Field ''release'' CPtr,
      Field ''iommu_group'' CPtr,
      Field ''iommu'' CPtr,
      Field ''physical_location'' CPtr,
      Field ''removable'' (c_enum enum_device_removable),
      Bits ''offline_disabled'' 1 1,
      Bits ''offline'' 1 1,
      Bits ''of_node_reused'' 1 1,
      Bits ''state_synced'' 1 1,
      Bits ''can_match'' 1 1,
      Bits ''dma_coherent'' 1 1,
      Bits ''dma_skip_sync'' 1 1,
      Bits ''dma_iommu'' 1 1]"

lemma lay_struct_device [layouts]: "lay struct_device = (808, 8)"
  by (simp add: struct_device_def layouts lay_eval)

lemma wf_struct_device [wf_types]: "wf_type struct_device"
  by (simp add: struct_device_def wf_types)

definition struct_net_device_stats :: ctype where
  "struct_net_device_stats =
    CStruct False
     [Field [] (CUnion False [Field ''rx_packets'' (CInt 8), Field ''__rx_packets''
        t_atomic_long_t]),
      Field [] (CUnion False [Field ''tx_packets'' (CInt 8), Field ''__tx_packets''
        t_atomic_long_t]),
      Field [] (CUnion False [Field ''rx_bytes'' (CInt 8), Field ''__rx_bytes'' t_atomic_long_t]),
      Field [] (CUnion False [Field ''tx_bytes'' (CInt 8), Field ''__tx_bytes'' t_atomic_long_t]),
      Field [] (CUnion False [Field ''rx_errors'' (CInt 8), Field ''__rx_errors'' t_atomic_long_t]),
      Field [] (CUnion False [Field ''tx_errors'' (CInt 8), Field ''__tx_errors'' t_atomic_long_t]),
      Field [] (CUnion False [Field ''rx_dropped'' (CInt 8), Field ''__rx_dropped''
        t_atomic_long_t]),
      Field [] (CUnion False [Field ''tx_dropped'' (CInt 8), Field ''__tx_dropped''
        t_atomic_long_t]),
      Field [] (CUnion False [Field ''multicast'' (CInt 8), Field ''__multicast'' t_atomic_long_t]),
      Field [] (CUnion False [Field ''collisions'' (CInt 8), Field ''__collisions''
        t_atomic_long_t]),
      Field [] (CUnion False [Field ''rx_length_errors'' (CInt 8), Field ''__rx_length_errors''
        t_atomic_long_t]),
      Field [] (CUnion False [Field ''rx_over_errors'' (CInt 8), Field ''__rx_over_errors''
        t_atomic_long_t]),
      Field [] (CUnion False [Field ''rx_crc_errors'' (CInt 8), Field ''__rx_crc_errors''
        t_atomic_long_t]),
      Field [] (CUnion False [Field ''rx_frame_errors'' (CInt 8), Field ''__rx_frame_errors''
        t_atomic_long_t]),
      Field [] (CUnion False [Field ''rx_fifo_errors'' (CInt 8), Field ''__rx_fifo_errors''
        t_atomic_long_t]),
      Field [] (CUnion False [Field ''rx_missed_errors'' (CInt 8), Field ''__rx_missed_errors''
        t_atomic_long_t]),
      Field [] (CUnion False [Field ''tx_aborted_errors'' (CInt 8), Field ''__tx_aborted_errors''
        t_atomic_long_t]),
      Field [] (CUnion False [Field ''tx_carrier_errors'' (CInt 8), Field ''__tx_carrier_errors''
        t_atomic_long_t]),
      Field [] (CUnion False [Field ''tx_fifo_errors'' (CInt 8), Field ''__tx_fifo_errors''
        t_atomic_long_t]),
      Field [] (CUnion False [Field ''tx_heartbeat_errors'' (CInt 8), Field
        ''__tx_heartbeat_errors'' t_atomic_long_t]),
      Field [] (CUnion False [Field ''tx_window_errors'' (CInt 8), Field ''__tx_window_errors''
        t_atomic_long_t]),
      Field [] (CUnion False [Field ''rx_compressed'' (CInt 8), Field ''__rx_compressed''
        t_atomic_long_t]),
      Field [] (CUnion False [Field ''tx_compressed'' (CInt 8), Field ''__tx_compressed''
        t_atomic_long_t])]"

lemma lay_struct_net_device_stats [layouts]: "lay struct_net_device_stats = (184, 8)"
  by (simp add: struct_net_device_stats_def layouts lay_eval)

lemma wf_struct_net_device_stats [wf_types]: "wf_type struct_net_device_stats"
  by (simp add: struct_net_device_stats_def wf_types)

definition struct_netdev_hw_addr_list :: ctype where
  "struct_netdev_hw_addr_list =
    CStruct False
     [Field ''list'' struct_list_head,
      Field ''count'' (CInt 4),
      Field ''tree'' struct_rb_root]"

lemma lay_struct_netdev_hw_addr_list [layouts]: "lay struct_netdev_hw_addr_list = (32, 8)"
  by (simp add: struct_netdev_hw_addr_list_def layouts lay_eval)

lemma wf_struct_netdev_hw_addr_list [wf_types]: "wf_type struct_netdev_hw_addr_list"
  by (simp add: struct_netdev_hw_addr_list_def wf_types)

definition struct_netdev_tc_txq :: ctype where
  "struct_netdev_tc_txq =
    CStruct False
     [Field ''count'' t_u16,
      Field ''offset'' t_u16]"

lemma lay_struct_netdev_tc_txq [layouts]: "lay struct_netdev_tc_txq = (4, 2)"
  by (simp add: struct_netdev_tc_txq_def layouts lay_eval)

lemma wf_struct_netdev_tc_txq [wf_types]: "wf_type struct_netdev_tc_txq"
  by (simp add: struct_netdev_tc_txq_def wf_types)

definition struct_ref_tracker_dir :: ctype where
  "struct_ref_tracker_dir = CStruct False []"

lemma lay_struct_ref_tracker_dir [layouts]: "lay struct_ref_tracker_dir = (0, 1)"
  by (simp add: struct_ref_tracker_dir_def layouts lay_eval)

lemma wf_struct_ref_tracker_dir [wf_types]: "wf_type struct_ref_tracker_dir"
  by (simp add: struct_ref_tracker_dir_def wf_types)

definition t_netdevice_tracker :: ctype where "t_netdevice_tracker = CStruct False []"

lemma lay_t_netdevice_tracker [layouts]: "lay t_netdevice_tracker = (0, 1)"
  by (simp add: t_netdevice_tracker_def layouts lay_eval)

lemma wf_t_netdevice_tracker [wf_types]: "wf_type t_netdevice_tracker"
  by (simp add: t_netdevice_tracker_def wf_types)

definition t_s16 :: ctype where "t_s16 = t___s16"

lemma lay_t_s16 [layouts]: "lay t_s16 = (2, 2)"
  by (simp add: t_s16_def layouts lay_eval)

lemma wf_t_s16 [wf_types]: "wf_type t_s16"
  by (simp add: t_s16_def wf_types)

definition t_xdp_features_t :: ctype where "t_xdp_features_t = t_u32"

lemma lay_t_xdp_features_t [layouts]: "lay t_xdp_features_t = (4, 4)"
  by (simp add: t_xdp_features_t_def layouts lay_eval)

lemma wf_t_xdp_features_t [wf_types]: "wf_type t_xdp_features_t"
  by (simp add: t_xdp_features_t_def wf_types)

definition struct_net_device :: ctype where
  "struct_net_device =
    CStruct False
     [Field ''__cacheline_group_begin__net_device_read_tx'' (CArr t___u8 0),
      Field [] (CUnion False [Field [] (CStruct False [Bits ''priv_flags'' 8 32, Bits ''lltx'' 8 1,
        Bits ''netmem_tx'' 8 1]), Field ''priv_flags_fast'' (CStruct False [Bits ''priv_flags'' 8
        32, Bits ''lltx'' 8 1, Bits ''netmem_tx'' 8 1])]),
      Field ''netdev_ops'' CPtr,
      Field ''header_ops'' CPtr,
      Field ''_tx'' CPtr,
      Field ''gso_partial_features'' t_netdev_features_t,
      Field ''real_num_tx_queues'' (CInt 4),
      Field ''gso_max_size'' (CInt 4),
      Field ''gso_ipv4_max_size'' (CInt 4),
      Field ''gso_max_segs'' t_u16,
      Field ''num_tc'' t_s16,
      Field ''mtu'' (CInt 4),
      Field ''needed_headroom'' (CInt 2),
      Field ''tc_to_txq'' (CArr struct_netdev_tc_txq 16),
      Field ''xps_maps'' (CArr CPtr 2),
      Field ''nf_hooks_egress'' CPtr,
      Field ''tcx_egress'' CPtr,
      Field ''__cacheline_group_end__net_device_read_tx'' (CArr t___u8 0),
      Field ''__cacheline_group_begin__net_device_read_txrx'' (CArr t___u8 0),
      Field [] (CUnion False [Field ''lstats'' CPtr, Field ''tstats'' CPtr, Field ''dstats'' CPtr]),
      Field ''state'' (CInt 8),
      Field ''flags'' (CInt 4),
      Field ''hard_header_len'' (CInt 2),
      Bits ''pcpu_stat_type'' 4 8,
      Field ''features'' t_netdev_features_t,
      Field ''ip6_ptr'' CPtr,
      Field ''__cacheline_group_end__net_device_read_txrx'' (CArr t___u8 0),
      Field ''__cacheline_group_begin__net_device_read_rx'' (CArr t___u8 0),
      Field ''xdp_prog'' CPtr,
      Field ''ptype_specific'' struct_list_head,
      Field ''ifindex'' (CInt 4),
      Field ''real_num_rx_queues'' (CInt 4),
      Field ''_rx'' CPtr,
      Field ''gro_max_size'' (CInt 4),
      Field ''gro_ipv4_max_size'' (CInt 4),
      Field ''rx_handler'' CPtr,
      Field ''rx_handler_data'' CPtr,
      Field ''nd_net'' t_possible_net_t,
      Field ''npinfo'' CPtr,
      Field ''tcx_ingress'' CPtr,
      Field ''__cacheline_group_end__net_device_read_rx'' (CArr t___u8 0),
      Field ''name'' (CArr (CInt 1) 16),
      Field ''name_node'' CPtr,
      Field ''ifalias'' CPtr,
      Field ''mem_end'' (CInt 8),
      Field ''mem_start'' (CInt 8),
      Field ''base_addr'' (CInt 8),
      Field ''dev_list'' struct_list_head,
      Field ''napi_list'' struct_list_head,
      Field ''unreg_list'' struct_list_head,
      Field ''close_list'' struct_list_head,
      Field ''ptype_all'' struct_list_head,
      Field ''adj_list'' (CStruct False [Field ''upper'' struct_list_head, Field ''lower''
        struct_list_head]),
      Field ''xdp_features'' t_xdp_features_t,
      Field ''xdp_metadata_ops'' CPtr,
      Field ''xsk_tx_metadata_ops'' CPtr,
      Field ''gflags'' (CInt 2),
      Field ''needed_tailroom'' (CInt 2),
      Field ''hw_features'' t_netdev_features_t,
      Field ''wanted_features'' t_netdev_features_t,
      Field ''vlan_features'' t_netdev_features_t,
      Field ''hw_enc_features'' t_netdev_features_t,
      Field ''mpls_features'' t_netdev_features_t,
      Field ''mangleid_features'' t_netdev_features_t,
      Field ''min_mtu'' (CInt 4),
      Field ''max_mtu'' (CInt 4),
      Field ''type'' (CInt 2),
      Field ''min_header_len'' (CInt 1),
      Field ''name_assign_type'' (CInt 1),
      Field ''group'' (CInt 4),
      Field ''stats'' struct_net_device_stats,
      Field ''core_stats'' CPtr,
      Field ''carrier_up_count'' t_atomic_t,
      Field ''carrier_down_count'' t_atomic_t,
      Field ''wireless_handlers'' CPtr,
      Field ''ethtool_ops'' CPtr,
      Field ''l3mdev_ops'' CPtr,
      Field ''ndisc_ops'' CPtr,
      Field ''xfrmdev_ops'' CPtr,
      Field ''tlsdev_ops'' CPtr,
      Field ''operstate'' (CInt 4),
      Field ''link_mode'' (CInt 1),
      Field ''if_port'' (CInt 1),
      Field ''dma'' (CInt 1),
      Field ''perm_addr'' (CArr (CInt 1) 32),
      Field ''addr_assign_type'' (CInt 1),
      Field ''addr_len'' (CInt 1),
      Field ''upper_level'' (CInt 1),
      Field ''lower_level'' (CInt 1),
      Field ''threaded'' t_u8,
      Field ''neigh_priv_len'' (CInt 2),
      Field ''dev_id'' (CInt 2),
      Field ''dev_port'' (CInt 2),
      Field ''irq'' (CInt 4),
      Field ''priv_len'' t_u32,
      Field ''addr_list_lock'' t_spinlock_t,
      Field ''uc'' struct_netdev_hw_addr_list,
      Field ''mc'' struct_netdev_hw_addr_list,
      Field ''dev_addrs'' struct_netdev_hw_addr_list,
      Field ''queues_kset'' CPtr,
      Field ''promiscuity'' (CInt 4),
      Field ''allmulti'' (CInt 4),
      Field ''uc_promisc'' (CInt 1),
      Field ''ip_ptr'' CPtr,
      Field ''fib_nh_head'' struct_hlist_head,
      Field ''vlan_info'' CPtr,
      Field ''dsa_ptr'' CPtr,
      Field ''tipc_ptr'' CPtr,
      Field ''atalk_ptr'' CPtr,
      Field ''ax25_ptr'' CPtr,
      Field ''ieee80211_ptr'' CPtr,
      Field ''ieee802154_ptr'' CPtr,
      Field ''mpls_ptr'' CPtr,
      Field ''mctp_ptr'' CPtr,
      Field ''psp_dev'' CPtr,
      Field ''dev_addr'' CPtr,
      Field ''num_rx_queues'' (CInt 4),
      Field ''xdp_zc_max_segs'' (CInt 4),
      Field ''ingress_queue'' CPtr,
      Field ''nf_hooks_ingress'' CPtr,
      Field ''broadcast'' (CArr (CInt 1) 32),
      Field ''rx_cpu_rmap'' CPtr,
      Field ''index_hlist'' struct_hlist_node,
      Field ''num_tx_queues'' (CInt 4),
      Field ''qdisc'' CPtr,
      Field ''tx_queue_len'' (CInt 4),
      Field ''tx_global_lock'' t_spinlock_t,
      Field ''xdp_bulkq'' CPtr,
      Field ''qdisc_hash'' (CArr struct_hlist_head 16),
      Field ''watchdog_timer'' struct_timer_list,
      Field ''watchdog_timeo'' (CInt 4),
      Field ''proto_down_reason'' t_u32,
      Field ''todo_list'' struct_list_head,
      Field ''pcpu_refcnt'' CPtr,
      Field ''refcnt_tracker'' struct_ref_tracker_dir,
      Field ''link_watch_list'' struct_list_head,
      Field ''reg_state'' t_u8,
      Field ''dismantle'' (CInt 1),
      Field ''moving_ns'' (CInt 1),
      Field ''rtnl_link_initializing'' (CInt 1),
      Field ''needs_free_netdev'' (CInt 1),
      Field ''priv_destructor'' CPtr,
      Field ''ml_priv'' CPtr,
      Field ''ml_priv_type'' (c_enum enum_netdev_ml_priv_type),
      Field ''garp_port'' CPtr,
      Field ''mrp_port'' CPtr,
      Field ''dm_private'' CPtr,
      Field ''dev'' struct_device,
      Field ''sysfs_groups'' (CArr CPtr 5),
      Field ''sysfs_rx_queue_group'' CPtr,
      Field ''rtnl_link_ops'' CPtr,
      Field ''stat_ops'' CPtr,
      Field ''queue_mgmt_ops'' CPtr,
      Field ''tso_max_size'' (CInt 4),
      Field ''tso_max_segs'' t_u16,
      Field ''dcbnl_ops'' CPtr,
      Field ''prio_tc_map'' (CArr t_u8 16),
      Field ''fcoe_ddp_xid'' (CInt 4),
      Field ''priomap'' CPtr,
      Field ''link_topo'' CPtr,
      Field ''phydev'' CPtr,
      Field ''sfp_bus'' CPtr,
      Field ''qdisc_tx_busylock'' CPtr,
      Field ''proto_down'' (CInt 1),
      Field ''irq_affinity_auto'' (CInt 1),
      Field ''rx_cpu_rmap_auto'' (CInt 1),
      Bits ''see_all_hwtstamp_requests'' 8 1,
      Bits ''change_proto_down'' 8 1,
      Bits ''netns_immutable'' 8 1,
      Bits ''fcoe_mtu'' 8 1,
      Field ''net_notifier_list'' struct_list_head,
      Field ''macsec_ops'' CPtr,
      Field ''udp_tunnel_nic_info'' CPtr,
      Field ''udp_tunnel_nic'' CPtr,
      Field ''cfg'' CPtr,
      Field ''cfg_pending'' CPtr,
      Field ''ethtool'' CPtr,
      Field ''xdp_state'' (CArr struct_bpf_xdp_entity 3),
      Field ''dev_addr_shadow'' (CArr t_u8 32),
      Field ''linkwatch_dev_tracker'' t_netdevice_tracker,
      Field ''watchdog_dev_tracker'' t_netdevice_tracker,
      Field ''dev_registered_tracker'' t_netdevice_tracker,
      Field ''offload_xstats_l3'' CPtr,
      Field ''devlink_port'' CPtr,
      Field ''dpll_pin'' CPtr,
      Field ''page_pools'' struct_hlist_head,
      Field ''irq_moder'' CPtr,
      Field ''max_pacing_offload_horizon'' t_u64,
      Field ''napi_config'' CPtr,
      Field ''num_napi_configs'' t_u32,
      Field ''napi_defer_hard_irqs'' t_u32,
      Field ''gro_flush_timeout'' (CInt 8),
      Field ''up'' (CInt 1),
      Field ''request_ops_lock'' (CInt 1),
      Field ''lock'' struct_mutex,
      Field ''net_shaper_hierarchy'' CPtr,
      Field ''neighbours'' (CArr struct_hlist_head 2),
      Field ''hwprov'' CPtr,
      Pad 8 64,
      Pad 8 64,
      Pad 8 64,
      Field ''priv'' (CArr t_u8 0)]"

lemma lay_struct_net_device [layouts]: "lay struct_net_device = (2752, 8)"
  by (simp add: struct_net_device_def layouts lay_eval)

lemma wf_struct_net_device [wf_types]: "wf_type struct_net_device"
  by (simp add: struct_net_device_def wf_types)

definition struct_netns_bpf :: ctype where
  "struct_netns_bpf =
    CStruct False
     [Field ''run_array'' (CArr CPtr 2),
      Field ''progs'' (CArr CPtr 2),
      Field ''links'' (CArr struct_list_head 2)]"

lemma lay_struct_netns_bpf [layouts]: "lay struct_netns_bpf = (64, 8)"
  by (simp add: struct_netns_bpf_def layouts lay_eval)

lemma wf_struct_netns_bpf [wf_types]: "wf_type struct_netns_bpf"
  by (simp add: struct_netns_bpf_def wf_types)

definition struct_netns_can :: ctype where
  "struct_netns_can =
    CStruct False
     [Field ''proc_dir'' CPtr,
      Field ''pde_stats'' CPtr,
      Field ''pde_reset_stats'' CPtr,
      Field ''pde_rcvlist_all'' CPtr,
      Field ''pde_rcvlist_fil'' CPtr,
      Field ''pde_rcvlist_inv'' CPtr,
      Field ''pde_rcvlist_sff'' CPtr,
      Field ''pde_rcvlist_eff'' CPtr,
      Field ''pde_rcvlist_err'' CPtr,
      Field ''bcmproc_dir'' CPtr,
      Field ''rx_alldev_list'' CPtr,
      Field ''rcvlists_lock'' t_spinlock_t,
      Field ''stattimer'' struct_timer_list,
      Field ''pkg_stats'' CPtr,
      Field ''rcv_lists_stats'' CPtr,
      Field ''cgw_list'' struct_hlist_head]"

lemma lay_struct_netns_can [layouts]: "lay struct_netns_can = (160, 8)"
  by (simp add: struct_netns_can_def layouts lay_eval)

lemma wf_struct_netns_can [wf_types]: "wf_type struct_netns_can"
  by (simp add: struct_netns_can_def wf_types)

definition struct_netns_core :: ctype where
  "struct_netns_core =
    CStruct False
     [Field ''sysctl_hdr'' CPtr,
      Field ''sysctl_somaxconn'' (CInt 4),
      Field ''sysctl_txq_reselection'' (CInt 4),
      Field ''sysctl_optmem_max'' (CInt 4),
      Field ''sysctl_txrehash'' t_u8,
      Field ''sysctl_tstamp_allow_data'' t_u8,
      Field ''sysctl_bypass_prot_mem'' t_u8,
      Field ''prot_inuse'' CPtr,
      Field ''rps_default_mask'' CPtr]"

lemma lay_struct_netns_core [layouts]: "lay struct_netns_core = (40, 8)"
  by (simp add: struct_netns_core_def layouts lay_eval)

lemma wf_struct_netns_core [wf_types]: "wf_type struct_netns_core"
  by (simp add: struct_netns_core_def wf_types)

definition struct_nf_generic_net :: ctype where
  "struct_nf_generic_net =
    CStruct False
     [Field ''timeout'' (CInt 4)]"

lemma lay_struct_nf_generic_net [layouts]: "lay struct_nf_generic_net = (4, 4)"
  by (simp add: struct_nf_generic_net_def layouts lay_eval)

lemma wf_struct_nf_generic_net [wf_types]: "wf_type struct_nf_generic_net"
  by (simp add: struct_nf_generic_net_def wf_types)

definition struct_nf_gre_net :: ctype where
  "struct_nf_gre_net =
    CStruct False
     [Field ''keymap_list'' struct_list_head,
      Field ''timeouts'' (CArr (CInt 4) 2)]"

lemma lay_struct_nf_gre_net [layouts]: "lay struct_nf_gre_net = (24, 8)"
  by (simp add: struct_nf_gre_net_def layouts lay_eval)

lemma wf_struct_nf_gre_net [wf_types]: "wf_type struct_nf_gre_net"
  by (simp add: struct_nf_gre_net_def wf_types)

definition struct_nf_icmp_net :: ctype where
  "struct_nf_icmp_net =
    CStruct False
     [Field ''timeout'' (CInt 4)]"

lemma lay_struct_nf_icmp_net [layouts]: "lay struct_nf_icmp_net = (4, 4)"
  by (simp add: struct_nf_icmp_net_def layouts lay_eval)

lemma wf_struct_nf_icmp_net [wf_types]: "wf_type struct_nf_icmp_net"
  by (simp add: struct_nf_icmp_net_def wf_types)

definition struct_nf_sctp_net :: ctype where
  "struct_nf_sctp_net =
    CStruct False
     [Field ''timeouts'' (CArr (CInt 4) 10)]"

lemma lay_struct_nf_sctp_net [layouts]: "lay struct_nf_sctp_net = (40, 4)"
  by (simp add: struct_nf_sctp_net_def layouts lay_eval)

lemma wf_struct_nf_sctp_net [wf_types]: "wf_type struct_nf_sctp_net"
  by (simp add: struct_nf_sctp_net_def wf_types)

definition struct_nf_tcp_net :: ctype where
  "struct_nf_tcp_net =
    CStruct False
     [Field ''timeouts'' (CArr (CInt 4) 14),
      Field ''tcp_loose'' t_u8,
      Field ''tcp_be_liberal'' t_u8,
      Field ''tcp_max_retrans'' t_u8,
      Field ''tcp_ignore_invalid_rst'' t_u8,
      Field ''offload_timeout'' (CInt 4)]"

lemma lay_struct_nf_tcp_net [layouts]: "lay struct_nf_tcp_net = (64, 4)"
  by (simp add: struct_nf_tcp_net_def layouts lay_eval)

lemma wf_struct_nf_tcp_net [wf_types]: "wf_type struct_nf_tcp_net"
  by (simp add: struct_nf_tcp_net_def wf_types)

definition struct_nf_udp_net :: ctype where
  "struct_nf_udp_net =
    CStruct False
     [Field ''timeouts'' (CArr (CInt 4) 2),
      Field ''offload_timeout'' (CInt 4)]"

lemma lay_struct_nf_udp_net [layouts]: "lay struct_nf_udp_net = (12, 4)"
  by (simp add: struct_nf_udp_net_def layouts lay_eval)

lemma wf_struct_nf_udp_net [wf_types]: "wf_type struct_nf_udp_net"
  by (simp add: struct_nf_udp_net_def wf_types)

definition struct_nf_ip_net :: ctype where
  "struct_nf_ip_net =
    CStruct False
     [Field ''generic'' struct_nf_generic_net,
      Field ''tcp'' struct_nf_tcp_net,
      Field ''udp'' struct_nf_udp_net,
      Field ''icmp'' struct_nf_icmp_net,
      Field ''icmpv6'' struct_nf_icmp_net,
      Field ''sctp'' struct_nf_sctp_net,
      Field ''gre'' struct_nf_gre_net]"

lemma lay_struct_nf_ip_net [layouts]: "lay struct_nf_ip_net = (152, 8)"
  by (simp add: struct_nf_ip_net_def layouts lay_eval)

lemma wf_struct_nf_ip_net [wf_types]: "wf_type struct_nf_ip_net"
  by (simp add: struct_nf_ip_net_def wf_types)

definition struct_netns_ct :: ctype where
  "struct_netns_ct =
    CStruct False
     [Field ''ecache_dwork_pending'' (CInt 1),
      Field ''sysctl_log_invalid'' t_u8,
      Field ''sysctl_events'' t_u8,
      Field ''sysctl_acct'' t_u8,
      Field ''sysctl_tstamp'' t_u8,
      Field ''sysctl_checksum'' t_u8,
      Field ''stat'' CPtr,
      Field ''nf_conntrack_event_cb'' CPtr,
      Field ''nf_ct_proto'' struct_nf_ip_net,
      Field ''labels_used'' t_atomic_t]"

lemma lay_struct_netns_ct [layouts]: "lay struct_netns_ct = (184, 8)"
  by (simp add: struct_netns_ct_def layouts lay_eval)

lemma wf_struct_netns_ct [wf_types]: "wf_type struct_netns_ct"
  by (simp add: struct_netns_ct_def wf_types)

definition struct_netns_ft :: ctype where
  "struct_netns_ft =
    CStruct False
     [Field ''stat'' CPtr]"

lemma lay_struct_netns_ft [layouts]: "lay struct_netns_ft = (8, 8)"
  by (simp add: struct_netns_ft_def layouts lay_eval)

lemma wf_struct_netns_ft [wf_types]: "wf_type struct_netns_ft"
  by (simp add: struct_netns_ft_def wf_types)

definition struct_netns_sysctl_lowpan :: ctype where
  "struct_netns_sysctl_lowpan =
    CStruct False
     [Field ''frags_hdr'' CPtr]"

lemma lay_struct_netns_sysctl_lowpan [layouts]: "lay struct_netns_sysctl_lowpan = (8, 8)"
  by (simp add: struct_netns_sysctl_lowpan_def layouts lay_eval)

lemma wf_struct_netns_sysctl_lowpan [wf_types]: "wf_type struct_netns_sysctl_lowpan"
  by (simp add: struct_netns_sysctl_lowpan_def wf_types)

definition struct_netns_ieee802154_lowpan :: ctype where
  "struct_netns_ieee802154_lowpan =
    CStruct False
     [Field ''sysctl'' struct_netns_sysctl_lowpan,
      Field ''fqdir'' CPtr]"

lemma lay_struct_netns_ieee802154_lowpan [layouts]: "lay struct_netns_ieee802154_lowpan = (16, 8)"
  by (simp add: struct_netns_ieee802154_lowpan_def layouts lay_eval)

lemma wf_struct_netns_ieee802154_lowpan [wf_types]: "wf_type struct_netns_ieee802154_lowpan"
  by (simp add: struct_netns_ieee802154_lowpan_def wf_types)

definition struct_delayed_work :: ctype where
  "struct_delayed_work =
    CStruct False
     [Field ''work'' struct_work_struct,
      Field ''timer'' struct_timer_list,
      Field ''wq'' CPtr,
      Field ''cpu'' (CInt 4)]"

lemma lay_struct_delayed_work [layouts]: "lay struct_delayed_work = (88, 8)"
  by (simp add: struct_delayed_work_def layouts lay_eval)

lemma wf_struct_delayed_work [wf_types]: "wf_type struct_delayed_work"
  by (simp add: struct_delayed_work_def wf_types)

definition struct_inet_timewait_death_row :: ctype where
  "struct_inet_timewait_death_row =
    CStruct False
     [Field ''tw_refcount'' t_refcount_t,
      Pad 8 64,
      Pad 8 64,
      Pad 8 64,
      Pad 8 64,
      Pad 8 64,
      Pad 8 64,
      Pad 8 64,
      Field ''hashinfo'' CPtr,
      Field ''sysctl_max_tw_buckets'' (CInt 4),
      Pad 8 64,
      Pad 8 64,
      Pad 8 64,
      Pad 8 64,
      Pad 8 64,
      Pad 8 64]"

lemma lay_struct_inet_timewait_death_row [layouts]: "lay struct_inet_timewait_death_row = (128, 8)"
  by (simp add: struct_inet_timewait_death_row_def layouts lay_eval)

lemma wf_struct_inet_timewait_death_row [wf_types]: "wf_type struct_inet_timewait_death_row"
  by (simp add: struct_inet_timewait_death_row_def wf_types)

definition struct_local_ports :: ctype where
  "struct_local_ports =
    CStruct False
     [Field ''range'' t_u32,
      Field ''warned'' (CInt 1)]"

lemma lay_struct_local_ports [layouts]: "lay struct_local_ports = (8, 4)"
  by (simp add: struct_local_ports_def layouts lay_eval)

lemma wf_struct_local_ports [wf_types]: "wf_type struct_local_ports"
  by (simp add: struct_local_ports_def wf_types)

definition struct_ping_group_range :: ctype where
  "struct_ping_group_range =
    CStruct False
     [Field ''lock'' t_seqlock_t,
      Field ''range'' (CArr t_kgid_t 2)]"

lemma lay_struct_ping_group_range [layouts]: "lay struct_ping_group_range = (16, 4)"
  by (simp add: struct_ping_group_range_def layouts lay_eval)

lemma wf_struct_ping_group_range [wf_types]: "wf_type struct_ping_group_range"
  by (simp add: struct_ping_group_range_def wf_types)

definition struct_sysctl_fib_multipath_hash_seed :: ctype where
  "struct_sysctl_fib_multipath_hash_seed =
    CStruct False
     [Field ''user_seed'' t_u32,
      Field ''mp_seed'' t_u32]"

lemma lay_struct_sysctl_fib_multipath_hash_seed [layouts]: "lay struct_sysctl_fib_multipath_hash_seed = (8, 4)"
  by (simp add: struct_sysctl_fib_multipath_hash_seed_def layouts lay_eval)

lemma wf_struct_sysctl_fib_multipath_hash_seed [wf_types]: "wf_type struct_sysctl_fib_multipath_hash_seed"
  by (simp add: struct_sysctl_fib_multipath_hash_seed_def wf_types)

definition struct_udp_tunnel_gro :: ctype where
  "struct_udp_tunnel_gro =
    CStruct False
     [Field ''sk'' CPtr,
      Field ''list'' struct_hlist_head]"

lemma lay_struct_udp_tunnel_gro [layouts]: "lay struct_udp_tunnel_gro = (16, 8)"
  by (simp add: struct_udp_tunnel_gro_def layouts lay_eval)

lemma wf_struct_udp_tunnel_gro [wf_types]: "wf_type struct_udp_tunnel_gro"
  by (simp add: struct_udp_tunnel_gro_def wf_types)

definition t_siphash_key_t :: ctype where "t_siphash_key_t = CStruct False [Field ''key'' (CArr t_u64 2)]"

lemma lay_t_siphash_key_t [layouts]: "lay t_siphash_key_t = (16, 8)"
  by (simp add: t_siphash_key_t_def layouts lay_eval)

lemma wf_t_siphash_key_t [wf_types]: "wf_type t_siphash_key_t"
  by (simp add: t_siphash_key_t_def wf_types)

definition struct_netns_ipv4 :: ctype where
  "struct_netns_ipv4 =
    CStruct False
     [Field ''__cacheline_group_begin__netns_ipv4_read_tx'' (CArr t___u8 0),
      Field ''sysctl_tcp_early_retrans'' t_u8,
      Field ''sysctl_tcp_tso_win_divisor'' t_u8,
      Field ''sysctl_tcp_tso_rtt_log'' t_u8,
      Field ''sysctl_tcp_autocorking'' t_u8,
      Field ''sysctl_tcp_min_snd_mss'' (CInt 4),
      Field ''sysctl_tcp_notsent_lowat'' (CInt 4),
      Field ''sysctl_tcp_limit_output_bytes'' (CInt 4),
      Field ''sysctl_tcp_min_rtt_wlen'' (CInt 4),
      Field ''sysctl_tcp_wmem'' (CArr (CInt 4) 3),
      Field ''sysctl_ip_fwd_use_pmtu'' t_u8,
      Field ''__cacheline_group_end__netns_ipv4_read_tx'' (CArr t___u8 0),
      Field ''__cacheline_group_begin__netns_ipv4_read_txrx'' (CArr t___u8 0),
      Field ''__cacheline_group_end__netns_ipv4_read_txrx'' (CArr t___u8 0),
      Field ''__cacheline_group_begin__netns_ipv4_read_rx'' (CArr t___u8 0),
      Field ''sysctl_tcp_moderate_rcvbuf'' t_u8,
      Field ''sysctl_ip_early_demux'' t_u8,
      Field ''sysctl_tcp_early_demux'' t_u8,
      Field ''sysctl_tcp_l3mdev_accept'' t_u8,
      Field ''sysctl_tcp_reordering'' (CInt 4),
      Field ''sysctl_tcp_rmem'' (CArr (CInt 4) 3),
      Field ''sysctl_tcp_rcvbuf_low_rtt'' (CInt 4),
      Field ''__cacheline_group_end__netns_ipv4_read_rx'' (CArr t___u8 0),
      Pad 8 0,
      Field ''__cacheline_group_begin__icmp'' (CArr t___u8 0),
      Field ''icmp_global_credit'' t_atomic_t,
      Field ''icmp_global_stamp'' t_u32,
      Field ''__cacheline_group_end__icmp'' (CArr t___u8 0),
      Pad 8 64,
      Pad 8 64,
      Pad 8 64,
      Pad 8 64,
      Pad 8 64,
      Pad 8 64,
      Pad 8 64,
      Field ''__cacheline_group_pad__icmp'' (CStruct False []),
      Field ''tcp_death_row'' struct_inet_timewait_death_row,
      Field ''udp_table'' CPtr,
      Field ''udp_tunnel_gro'' (CArr struct_udp_tunnel_gro 2),
      Field ''forw_hdr'' CPtr,
      Field ''frags_hdr'' CPtr,
      Field ''ipv4_hdr'' CPtr,
      Field ''route_hdr'' CPtr,
      Field ''xfrm4_hdr'' CPtr,
      Field ''devconf_all'' CPtr,
      Field ''devconf_dflt'' CPtr,
      Field ''ra_chain'' CPtr,
      Field ''ra_mutex'' struct_mutex,
      Field ''rules_ops'' CPtr,
      Field ''fib_main'' CPtr,
      Field ''fib_default'' CPtr,
      Field ''fib_rules_require_fldissect'' (CInt 4),
      Field ''fib_has_custom_rules'' (CInt 1),
      Field ''fib_has_custom_local_routes'' (CInt 1),
      Field ''fib_offload_disabled'' (CInt 1),
      Field ''sysctl_tcp_shrink_window'' t_u8,
      Field ''fib_num_tclassid_users'' t_atomic_t,
      Field ''fib_table_hash'' CPtr,
      Field ''fibnl'' CPtr,
      Field ''fib_info_hash'' CPtr,
      Field ''fib_info_hash_bits'' (CInt 4),
      Field ''fib_info_cnt'' (CInt 4),
      Field ''mc_autojoin_sk'' CPtr,
      Field ''peers'' CPtr,
      Field ''fqdir'' CPtr,
      Field ''sysctl_icmp_echo_ignore_all'' t_u8,
      Field ''sysctl_icmp_echo_enable_probe'' t_u8,
      Field ''sysctl_icmp_echo_ignore_broadcasts'' t_u8,
      Field ''sysctl_icmp_ignore_bogus_error_responses'' t_u8,
      Field ''sysctl_icmp_errors_use_inbound_ifaddr'' t_u8,
      Field ''sysctl_icmp_errors_extension_mask'' t_u8,
      Field ''sysctl_icmp_ratelimit'' (CInt 4),
      Field ''sysctl_icmp_ratemask'' (CInt 4),
      Field ''sysctl_icmp_msgs_per_sec'' (CInt 4),
      Field ''sysctl_icmp_msgs_burst'' (CInt 4),
      Field ''ip_rt_min_pmtu'' t_u32,
      Field ''ip_rt_mtu_expires'' (CInt 4),
      Field ''ip_rt_min_advmss'' (CInt 4),
      Field ''ip_local_ports'' struct_local_ports,
      Field ''sysctl_tcp_ecn'' t_u8,
      Field ''sysctl_tcp_ecn_option'' t_u8,
      Field ''sysctl_tcp_ecn_option_beacon'' t_u8,
      Field ''sysctl_tcp_ecn_fallback'' t_u8,
      Field ''sysctl_ip_default_ttl'' t_u8,
      Field ''sysctl_ip_no_pmtu_disc'' t_u8,
      Field ''sysctl_ip_fwd_update_priority'' t_u8,
      Field ''sysctl_ip_nonlocal_bind'' t_u8,
      Field ''sysctl_ip_autobind_reuse'' t_u8,
      Field ''sysctl_ip_dynaddr'' t_u8,
      Field ''sysctl_raw_l3mdev_accept'' t_u8,
      Field ''sysctl_udp_early_demux'' t_u8,
      Field ''sysctl_nexthop_compat_mode'' t_u8,
      Field ''sysctl_fwmark_reflect'' t_u8,
      Field ''sysctl_tcp_fwmark_accept'' t_u8,
      Field ''sysctl_tcp_mtu_probing'' t_u8,
      Field ''sysctl_tcp_mtu_probe_floor'' (CInt 4),
      Field ''sysctl_tcp_base_mss'' (CInt 4),
      Field ''sysctl_tcp_probe_threshold'' (CInt 4),
      Field ''sysctl_tcp_probe_interval'' t_u32,
      Field ''sysctl_tcp_keepalive_time'' (CInt 4),
      Field ''sysctl_tcp_keepalive_intvl'' (CInt 4),
      Field ''sysctl_tcp_keepalive_probes'' t_u8,
      Field ''sysctl_tcp_syn_retries'' t_u8,
      Field ''sysctl_tcp_synack_retries'' t_u8,
      Field ''sysctl_tcp_syncookies'' t_u8,
      Field ''sysctl_tcp_migrate_req'' t_u8,
      Field ''sysctl_tcp_comp_sack_nr'' t_u8,
      Field ''sysctl_tcp_backlog_ack_defer'' t_u8,
      Field ''sysctl_tcp_pingpong_thresh'' t_u8,
      Field ''sysctl_tcp_retries1'' t_u8,
      Field ''sysctl_tcp_retries2'' t_u8,
      Field ''sysctl_tcp_orphan_retries'' t_u8,
      Field ''sysctl_tcp_tw_reuse'' t_u8,
      Field ''sysctl_tcp_tw_reuse_delay'' (CInt 4),
      Field ''sysctl_tcp_fin_timeout'' (CInt 4),
      Field ''sysctl_tcp_sack'' t_u8,
      Field ''sysctl_tcp_window_scaling'' t_u8,
      Field ''sysctl_tcp_timestamps'' t_u8,
      Field ''sysctl_tcp_rto_min_us'' (CInt 4),
      Field ''sysctl_tcp_rto_max_ms'' (CInt 4),
      Field ''sysctl_tcp_recovery'' t_u8,
      Field ''sysctl_tcp_thin_linear_timeouts'' t_u8,
      Field ''sysctl_tcp_slow_start_after_idle'' t_u8,
      Field ''sysctl_tcp_retrans_collapse'' t_u8,
      Field ''sysctl_tcp_stdurg'' t_u8,
      Field ''sysctl_tcp_rfc1337'' t_u8,
      Field ''sysctl_tcp_abort_on_overflow'' t_u8,
      Field ''sysctl_tcp_fack'' t_u8,
      Field ''sysctl_tcp_max_reordering'' (CInt 4),
      Field ''sysctl_tcp_adv_win_scale'' (CInt 4),
      Field ''sysctl_tcp_dsack'' t_u8,
      Field ''sysctl_tcp_app_win'' t_u8,
      Field ''sysctl_tcp_frto'' t_u8,
      Field ''sysctl_tcp_nometrics_save'' t_u8,
      Field ''sysctl_tcp_no_ssthresh_metrics_save'' t_u8,
      Field ''sysctl_tcp_workaround_signed_windows'' t_u8,
      Field ''sysctl_tcp_challenge_ack_limit'' (CInt 4),
      Field ''sysctl_tcp_min_tso_segs'' t_u8,
      Field ''sysctl_tcp_reflect_tos'' t_u8,
      Field ''sysctl_tcp_invalid_ratelimit'' (CInt 4),
      Field ''sysctl_tcp_pacing_ss_ratio'' (CInt 4),
      Field ''sysctl_tcp_pacing_ca_ratio'' (CInt 4),
      Field ''sysctl_tcp_child_ehash_entries'' (CInt 4),
      Field ''sysctl_tcp_comp_sack_rtt_percent'' (CInt 4),
      Field ''sysctl_tcp_comp_sack_delay_ns'' (CInt 8),
      Field ''sysctl_tcp_comp_sack_slack_ns'' (CInt 8),
      Field ''sysctl_max_syn_backlog'' (CInt 4),
      Field ''sysctl_tcp_fastopen'' (CInt 4),
      Field ''tcp_congestion_control'' CPtr,
      Field ''tcp_fastopen_ctx'' CPtr,
      Field ''sysctl_tcp_fastopen_blackhole_timeout'' (CInt 4),
      Field ''tfo_active_disable_times'' t_atomic_t,
      Field ''tfo_active_disable_stamp'' (CInt 8),
      Field ''tcp_challenge_timestamp'' t_u32,
      Field ''tcp_challenge_count'' t_u32,
      Field ''sysctl_tcp_plb_enabled'' t_u8,
      Field ''sysctl_tcp_plb_idle_rehash_rounds'' t_u8,
      Field ''sysctl_tcp_plb_rehash_rounds'' t_u8,
      Field ''sysctl_tcp_plb_suspend_rto_sec'' t_u8,
      Field ''sysctl_tcp_plb_cong_thresh'' (CInt 4),
      Field ''sysctl_udp_wmem_min'' (CInt 4),
      Field ''sysctl_udp_rmem_min'' (CInt 4),
      Field ''sysctl_fib_notify_on_flag_change'' t_u8,
      Field ''sysctl_tcp_syn_linear_timeouts'' t_u8,
      Field ''sysctl_udp_l3mdev_accept'' t_u8,
      Field ''sysctl_igmp_llm_reports'' t_u8,
      Field ''sysctl_igmp_max_memberships'' (CInt 4),
      Field ''sysctl_igmp_max_msf'' (CInt 4),
      Field ''sysctl_igmp_qrv'' (CInt 4),
      Field ''ping_group_range'' struct_ping_group_range,
      Field ''ping_port_rover'' t_u16,
      Field ''dev_addr_genid'' t_atomic_t,
      Field ''sysctl_udp_child_hash_entries'' (CInt 4),
      Field ''sysctl_local_reserved_ports'' CPtr,
      Field ''sysctl_ip_prot_sock'' (CInt 4),
      Field ''mr_tables'' struct_list_head,
      Field ''mr_rules_ops'' CPtr,
      Field ''sysctl_fib_multipath_hash_seed'' struct_sysctl_fib_multipath_hash_seed,
      Field ''sysctl_fib_multipath_hash_fields'' t_u32,
      Field ''sysctl_fib_multipath_use_neigh'' t_u8,
      Field ''sysctl_fib_multipath_hash_policy'' t_u8,
      Field ''notifier_ops'' CPtr,
      Field ''fib_seq'' (CInt 4),
      Field ''ipmr_notifier_ops'' CPtr,
      Field ''ipmr_seq'' (CInt 4),
      Field ''rt_genid'' t_atomic_t,
      Field ''ip_id_key'' t_siphash_key_t,
      Field ''inet_addr_lst'' CPtr,
      Field ''addr_chk_work'' struct_delayed_work,
      Pad 8 64,
      Pad 8 64,
      Pad 8 64,
      Pad 8 64,
      Pad 8 64]"

lemma lay_struct_netns_ipv4 [layouts]: "lay struct_netns_ipv4 = (1024, 8)"
  by (simp add: struct_netns_ipv4_def layouts lay_eval)

lemma wf_struct_netns_ipv4 [wf_types]: "wf_type struct_netns_ipv4"
  by (simp add: struct_netns_ipv4_def wf_types)

definition struct_dst_ops :: ctype where
  "struct_dst_ops =
    CStruct False
     [Field ''family'' (CInt 2),
      Field ''gc_thresh'' (CInt 4),
      Field ''gc'' CPtr,
      Field ''check'' CPtr,
      Field ''default_advmss'' CPtr,
      Field ''mtu'' CPtr,
      Field ''cow_metrics'' CPtr,
      Field ''destroy'' CPtr,
      Field ''ifdown'' CPtr,
      Field ''negative_advice'' CPtr,
      Field ''link_failure'' CPtr,
      Field ''update_pmtu'' CPtr,
      Field ''redirect'' CPtr,
      Field ''local_out'' CPtr,
      Field ''neigh_lookup'' CPtr,
      Field ''confirm_neigh'' CPtr,
      Field ''kmem_cachep'' CPtr,
      Field ''pcpuc_entries'' struct_percpu_counter,
      Pad 8 64,
      Pad 8 64,
      Pad 8 64]"

lemma lay_struct_dst_ops [layouts]: "lay struct_dst_ops = (192, 8)"
  by (simp add: struct_dst_ops_def layouts lay_eval)

lemma wf_struct_dst_ops [wf_types]: "wf_type struct_dst_ops"
  by (simp add: struct_dst_ops_def wf_types)

definition struct_netns_sysctl_ipv6 :: ctype where
  "struct_netns_sysctl_ipv6 =
    CStruct False
     [Field ''hdr'' CPtr,
      Field ''route_hdr'' CPtr,
      Field ''icmp_hdr'' CPtr,
      Field ''frags_hdr'' CPtr,
      Field ''xfrm6_hdr'' CPtr,
      Field ''flush_delay'' (CInt 4),
      Field ''ip6_rt_max_size'' (CInt 4),
      Field ''ip6_rt_gc_min_interval'' (CInt 4),
      Field ''ip6_rt_gc_timeout'' (CInt 4),
      Field ''ip6_rt_gc_interval'' (CInt 4),
      Field ''ip6_rt_gc_elasticity'' (CInt 4),
      Field ''ip6_rt_mtu_expires'' (CInt 4),
      Field ''ip6_rt_min_advmss'' (CInt 4),
      Field ''multipath_hash_fields'' t_u32,
      Field ''multipath_hash_policy'' t_u8,
      Field ''__cacheline_group_begin__sysctl_ipv6_flowlabel'' (CArr t___u8 0),
      Field ''flowlabel_consistency'' t_u8,
      Field ''auto_flowlabels'' t_u8,
      Field ''flowlabel_state_ranges'' t_u8,
      Field ''__cacheline_group_end__sysctl_ipv6_flowlabel'' (CArr t___u8 0),
      Field ''icmpv6_echo_ignore_all'' t_u8,
      Field ''icmpv6_echo_ignore_multicast'' t_u8,
      Field ''icmpv6_echo_ignore_anycast'' t_u8,
      Field ''icmpv6_time'' (CInt 4),
      Field ''icmpv6_ratemask'' (CArr (CInt 8) 4),
      Field ''icmpv6_ratemask_ptr'' CPtr,
      Field ''anycast_src_echo_reply'' t_u8,
      Field ''bindv6only'' t_u8,
      Field ''ip_nonlocal_bind'' t_u8,
      Field ''fwmark_reflect'' t_u8,
      Field ''idgen_retries'' (CInt 4),
      Field ''idgen_delay'' (CInt 4),
      Field ''flowlabel_reflect'' (CInt 4),
      Field ''max_dst_opts_cnt'' (CInt 4),
      Field ''max_hbh_opts_cnt'' (CInt 4),
      Field ''max_dst_opts_len'' (CInt 4),
      Field ''max_hbh_opts_len'' (CInt 4),
      Field ''seg6_flowlabel'' (CInt 4),
      Field ''ioam6_id'' t_u32,
      Field ''ioam6_id_wide'' t_u64,
      Field ''skip_notify_on_dev_down'' t_u8,
      Field ''fib_notify_on_flag_change'' t_u8,
      Field ''icmpv6_error_anycast_as_unicast'' t_u8,
      Field ''icmpv6_errors_extension_mask'' t_u8]"

lemma lay_struct_netns_sysctl_ipv6 [layouts]: "lay struct_netns_sysctl_ipv6 = (184, 8)"
  by (simp add: struct_netns_sysctl_ipv6_def layouts lay_eval)

lemma wf_struct_netns_sysctl_ipv6 [wf_types]: "wf_type struct_netns_sysctl_ipv6"
  by (simp add: struct_netns_sysctl_ipv6_def wf_types)

definition struct_netns_ipv6 :: ctype where
  "struct_netns_ipv6 =
    CStruct False
     [Field ''ip6_dst_ops'' struct_dst_ops,
      Field ''sysctl'' struct_netns_sysctl_ipv6,
      Field ''devconf_all'' CPtr,
      Field ''devconf_dflt'' CPtr,
      Field ''peers'' CPtr,
      Field ''fqdir'' CPtr,
      Field ''fib6_null_entry'' CPtr,
      Field ''ip6_null_entry'' CPtr,
      Field ''rt6_stats'' CPtr,
      Field ''ip6_fib_timer'' struct_timer_list,
      Field ''fib_table_hash'' CPtr,
      Field ''fib_table_hash_lock'' t_spinlock_t,
      Field ''fib6_main_tbl'' CPtr,
      Field ''fib6_walkers'' struct_list_head,
      Field ''fib6_walker_lock'' t_rwlock_t,
      Field ''fib6_gc_lock'' t_spinlock_t,
      Field ''ip6_rt_gc_expire'' t_atomic_t,
      Field ''ip6_rt_last_gc'' (CInt 8),
      Field ''flowlabel_has_excl'' (CInt 1),
      Field ''fib6_has_custom_rules'' (CInt 1),
      Field ''fib6_rules_require_fldissect'' (CInt 4),
      Field ''fib6_routes_require_src'' (CInt 4),
      Field ''ip6_prohibit_entry'' CPtr,
      Field ''ip6_blk_hole_entry'' CPtr,
      Field ''fib6_local_tbl'' CPtr,
      Field ''fib6_rules_ops'' CPtr,
      Field ''ndisc_sk'' CPtr,
      Field ''tcp_sk'' CPtr,
      Field ''igmp_sk'' CPtr,
      Field ''mc_autojoin_sk'' CPtr,
      Field ''inet6_addr_lst'' CPtr,
      Field ''addrconf_hash_lock'' t_spinlock_t,
      Field ''addr_chk_work'' struct_delayed_work,
      Field ''mr6_tables'' struct_list_head,
      Field ''mr6_rules_ops'' CPtr,
      Field ''dev_addr_genid'' t_atomic_t,
      Field ''fib6_sernum'' t_atomic_t,
      Field ''seg6_data'' CPtr,
      Field ''notifier_ops'' CPtr,
      Field ''ip6mr_notifier_ops'' CPtr,
      Field ''ipmr_seq'' (CInt 4),
      Field ''ip6addrlbl_table'' (CStruct False [Field ''head'' struct_hlist_head, Field ''lock''
        t_spinlock_t, Field ''seq'' t_u32]),
      Field ''ioam6_data'' CPtr,
      Pad 8 64,
      Pad 8 64,
      Pad 8 64]"

lemma lay_struct_netns_ipv6 [layouts]: "lay struct_netns_ipv6 = (832, 8)"
  by (simp add: struct_netns_ipv6_def layouts lay_eval)

lemma wf_struct_netns_ipv6 [wf_types]: "wf_type struct_netns_ipv6"
  by (simp add: struct_netns_ipv6_def wf_types)

definition struct_netns_mctp :: ctype where
  "struct_netns_mctp =
    CStruct False
     [Field ''routes'' struct_list_head,
      Field ''bind_lock'' struct_mutex,
      Field ''binds'' (CArr struct_hlist_head 128),
      Field ''keys_lock'' t_spinlock_t,
      Field ''keys'' struct_hlist_head,
      Field ''default_net'' (CInt 4),
      Field ''neigh_lock'' struct_mutex,
      Field ''neighbours'' struct_list_head]"

lemma lay_struct_netns_mctp [layouts]: "lay struct_netns_mctp = (1144, 8)"
  by (simp add: struct_netns_mctp_def layouts lay_eval)

lemma wf_struct_netns_mctp [wf_types]: "wf_type struct_netns_mctp"
  by (simp add: struct_netns_mctp_def wf_types)

definition struct_netns_mib :: ctype where
  "struct_netns_mib =
    CStruct False
     [Field ''ip_statistics'' CPtr,
      Field ''ipv6_statistics'' CPtr,
      Field ''tcp_statistics'' CPtr,
      Field ''net_statistics'' CPtr,
      Field ''udp_statistics'' CPtr,
      Field ''udp_stats_in6'' CPtr,
      Field ''xfrm_statistics'' CPtr,
      Field ''tls_statistics'' CPtr,
      Field ''mptcp_statistics'' CPtr,
      Field ''udplite_statistics'' CPtr,
      Field ''udplite_stats_in6'' CPtr,
      Field ''icmp_statistics'' CPtr,
      Field ''icmpmsg_statistics'' CPtr,
      Field ''icmpv6_statistics'' CPtr,
      Field ''icmpv6msg_statistics'' CPtr,
      Field ''proc_net_devsnmp6'' CPtr]"

lemma lay_struct_netns_mib [layouts]: "lay struct_netns_mib = (128, 8)"
  by (simp add: struct_netns_mib_def layouts lay_eval)

lemma wf_struct_netns_mib [wf_types]: "wf_type struct_netns_mib"
  by (simp add: struct_netns_mib_def wf_types)

definition struct_seqcount_mutex :: ctype where
  "struct_seqcount_mutex =
    CStruct False
     [Field ''seqcount'' t_seqcount_t]"

lemma lay_struct_seqcount_mutex [layouts]: "lay struct_seqcount_mutex = (4, 4)"
  by (simp add: struct_seqcount_mutex_def layouts lay_eval)

lemma wf_struct_seqcount_mutex [wf_types]: "wf_type struct_seqcount_mutex"
  by (simp add: struct_seqcount_mutex_def wf_types)

definition t_seqcount_mutex_t :: ctype where "t_seqcount_mutex_t = struct_seqcount_mutex"

lemma lay_t_seqcount_mutex_t [layouts]: "lay t_seqcount_mutex_t = (4, 4)"
  by (simp add: t_seqcount_mutex_t_def layouts lay_eval)

lemma wf_t_seqcount_mutex_t [wf_types]: "wf_type t_seqcount_mutex_t"
  by (simp add: t_seqcount_mutex_t_def wf_types)

definition struct_netns_mpls :: ctype where
  "struct_netns_mpls =
    CStruct False
     [Field ''ip_ttl_propagate'' (CInt 4),
      Field ''default_ttl'' (CInt 4),
      Field ''platform_labels'' t_size_t,
      Field ''platform_label'' CPtr,
      Field ''platform_mutex'' struct_mutex,
      Field ''platform_label_seq'' t_seqcount_mutex_t,
      Field ''ctl'' CPtr]"

lemma lay_struct_netns_mpls [layouts]: "lay struct_netns_mpls = (72, 8)"
  by (simp add: struct_netns_mpls_def layouts lay_eval)

lemma wf_struct_netns_mpls [wf_types]: "wf_type struct_netns_mpls"
  by (simp add: struct_netns_mpls_def wf_types)

definition struct_blocking_notifier_head :: ctype where
  "struct_blocking_notifier_head =
    CStruct False
     [Field ''rwsem'' struct_rw_semaphore,
      Field ''head'' CPtr]"

lemma lay_struct_blocking_notifier_head [layouts]: "lay struct_blocking_notifier_head = (48, 8)"
  by (simp add: struct_blocking_notifier_head_def layouts lay_eval)

lemma wf_struct_blocking_notifier_head [wf_types]: "wf_type struct_blocking_notifier_head"
  by (simp add: struct_blocking_notifier_head_def wf_types)

definition struct_netns_nexthop :: ctype where
  "struct_netns_nexthop =
    CStruct False
     [Field ''rb_root'' struct_rb_root,
      Field ''devhash'' CPtr,
      Field ''seq'' (CInt 4),
      Field ''last_id_allocated'' t_u32,
      Field ''notifier_chain'' struct_blocking_notifier_head]"

lemma lay_struct_netns_nexthop [layouts]: "lay struct_netns_nexthop = (72, 8)"
  by (simp add: struct_netns_nexthop_def layouts lay_eval)

lemma wf_struct_netns_nexthop [wf_types]: "wf_type struct_netns_nexthop"
  by (simp add: struct_netns_nexthop_def wf_types)

definition struct_netns_nf :: ctype where
  "struct_netns_nf =
    CStruct False
     [Field ''proc_netfilter'' CPtr,
      Field ''nf_loggers'' (CArr CPtr 11),
      Field ''nf_log_dir_header'' CPtr,
      Field ''nf_lwtnl_dir_header'' CPtr,
      Field ''hooks_ipv4'' (CArr CPtr 5),
      Field ''hooks_ipv6'' (CArr CPtr 5),
      Field ''hooks_arp'' (CArr CPtr 3),
      Field ''hooks_bridge'' (CArr CPtr 5),
      Field ''defrag_ipv4_users'' (CInt 4),
      Field ''defrag_ipv6_users'' (CInt 4)]"

lemma lay_struct_netns_nf [layouts]: "lay struct_netns_nf = (264, 8)"
  by (simp add: struct_netns_nf_def layouts lay_eval)

lemma wf_struct_netns_nf [wf_types]: "wf_type struct_netns_nf"
  by (simp add: struct_netns_nf_def wf_types)

definition struct_netns_nftables :: ctype where
  "struct_netns_nftables =
    CStruct False
     [Field ''base_seq'' (CInt 4),
      Field ''gencursor'' t_u8]"

lemma lay_struct_netns_nftables [layouts]: "lay struct_netns_nftables = (8, 4)"
  by (simp add: struct_netns_nftables_def layouts lay_eval)

lemma wf_struct_netns_nftables [wf_types]: "wf_type struct_netns_nftables"
  by (simp add: struct_netns_nftables_def wf_types)

definition struct_netns_packet :: ctype where
  "struct_netns_packet =
    CStruct False
     [Field ''sklist_lock'' struct_mutex,
      Field ''sklist'' struct_hlist_head]"

lemma lay_struct_netns_packet [layouts]: "lay struct_netns_packet = (40, 8)"
  by (simp add: struct_netns_packet_def layouts lay_eval)

lemma wf_struct_netns_packet [wf_types]: "wf_type struct_netns_packet"
  by (simp add: struct_netns_packet_def wf_types)

definition struct_netns_sctp :: ctype where
  "struct_netns_sctp =
    CStruct False
     [Field ''sctp_statistics'' CPtr,
      Field ''proc_net_sctp'' CPtr,
      Field ''sysctl_header'' CPtr,
      Field ''ctl_sock'' CPtr,
      Field ''udp4_sock'' CPtr,
      Field ''udp6_sock'' CPtr,
      Field ''udp_port'' (CInt 4),
      Field ''encap_port'' (CInt 4),
      Field ''local_addr_list'' struct_list_head,
      Field ''addr_waitq'' struct_list_head,
      Field ''addr_wq_timer'' struct_timer_list,
      Field ''auto_asconf_splist'' struct_list_head,
      Field ''addr_wq_lock'' t_spinlock_t,
      Field ''local_addr_lock'' t_spinlock_t,
      Field ''rto_initial'' (CInt 4),
      Field ''rto_min'' (CInt 4),
      Field ''rto_max'' (CInt 4),
      Field ''rto_alpha'' (CInt 4),
      Field ''rto_beta'' (CInt 4),
      Field ''max_burst'' (CInt 4),
      Field ''cookie_preserve_enable'' (CInt 4),
      Field ''cookie_auth_enable'' (CInt 4),
      Field ''valid_cookie_life'' (CInt 4),
      Field ''sack_timeout'' (CInt 4),
      Field ''hb_interval'' (CInt 4),
      Field ''probe_interval'' (CInt 4),
      Field ''max_retrans_association'' (CInt 4),
      Field ''max_retrans_path'' (CInt 4),
      Field ''max_retrans_init'' (CInt 4),
      Field ''pf_retrans'' (CInt 4),
      Field ''ps_retrans'' (CInt 4),
      Field ''pf_enable'' (CInt 4),
      Field ''pf_expose'' (CInt 4),
      Field ''sndbuf_policy'' (CInt 4),
      Field ''rcvbuf_policy'' (CInt 4),
      Field ''default_auto_asconf'' (CInt 4),
      Field ''addip_enable'' (CInt 4),
      Field ''addip_noauth'' (CInt 4),
      Field ''prsctp_enable'' (CInt 4),
      Field ''reconf_enable'' (CInt 4),
      Field ''auth_enable'' (CInt 4),
      Field ''intl_enable'' (CInt 4),
      Field ''ecn_enable'' (CInt 4),
      Field ''scope_policy'' (CInt 4),
      Field ''rwnd_upd_shift'' (CInt 4),
      Field ''max_autoclose'' (CInt 8),
      Field ''l3mdev_accept'' (CInt 4)]"

lemma lay_struct_netns_sctp [layouts]: "lay struct_netns_sctp = (296, 8)"
  by (simp add: struct_netns_sctp_def layouts lay_eval)

lemma wf_struct_netns_sctp [wf_types]: "wf_type struct_netns_sctp"
  by (simp add: struct_netns_sctp_def wf_types)

definition struct_netns_smc :: ctype where
  "struct_netns_smc =
    CStruct False
     [Field ''smc_stats'' CPtr,
      Field ''mutex_fback_rsn'' struct_mutex,
      Field ''fback_rsn'' CPtr,
      Field ''limit_smc_hs'' (CInt 1),
      Field ''smc_hdr'' CPtr,
      Field ''hs_ctrl'' CPtr,
      Field ''sysctl_autocorking_size'' (CInt 4),
      Field ''sysctl_smcr_buf_type'' (CInt 4),
      Field ''sysctl_smcr_testlink_time'' (CInt 4),
      Field ''sysctl_wmem'' (CInt 4),
      Field ''sysctl_rmem'' (CInt 4),
      Field ''sysctl_max_links_per_lgr'' (CInt 4),
      Field ''sysctl_max_conns_per_lgr'' (CInt 4),
      Field ''sysctl_smcr_max_send_wr'' (CInt 4),
      Field ''sysctl_smcr_max_recv_wr'' (CInt 4)]"

lemma lay_struct_netns_smc [layouts]: "lay struct_netns_smc = (112, 8)"
  by (simp add: struct_netns_smc_def layouts lay_eval)

lemma wf_struct_netns_smc [wf_types]: "wf_type struct_netns_smc"
  by (simp add: struct_netns_smc_def wf_types)

definition struct_unix_table :: ctype where
  "struct_unix_table =
    CStruct False
     [Field ''locks'' CPtr,
      Field ''buckets'' CPtr]"

lemma lay_struct_unix_table [layouts]: "lay struct_unix_table = (16, 8)"
  by (simp add: struct_unix_table_def layouts lay_eval)

lemma wf_struct_unix_table [wf_types]: "wf_type struct_unix_table"
  by (simp add: struct_unix_table_def wf_types)

definition struct_netns_unix :: ctype where
  "struct_netns_unix =
    CStruct False
     [Field ''table'' struct_unix_table,
      Field ''sysctl_max_dgram_qlen'' (CInt 4),
      Field ''ctl'' CPtr]"

lemma lay_struct_netns_unix [layouts]: "lay struct_netns_unix = (32, 8)"
  by (simp add: struct_netns_unix_def layouts lay_eval)

lemma wf_struct_netns_unix [wf_types]: "wf_type struct_netns_unix"
  by (simp add: struct_netns_unix_def wf_types)

definition enum_vsock_net_mode :: enumerators where
  "enum_vsock_net_mode =
    [(''VSOCK_NET_MODE_GLOBAL'', 0), (''VSOCK_NET_MODE_LOCAL'', 1)]"

lemma lay_enum_vsock_net_mode [layouts]: "lay (c_enum enum_vsock_net_mode) = (4, 4)"
  by (simp add: c_enum_def enum_vsock_net_mode_def)

lemma wf_enum_vsock_net_mode [wf_types]: "wf_type (c_enum enum_vsock_net_mode)"
  by (simp add: c_enum_def)

definition struct_netns_vsock :: ctype where
  "struct_netns_vsock =
    CStruct False
     [Field ''sysctl_hdr'' CPtr,
      Field ''port'' t_u32,
      Field ''mode'' (c_enum enum_vsock_net_mode),
      Field ''child_ns_mode'' (c_enum enum_vsock_net_mode),
      Field ''child_ns_mode_locked'' (CInt 4)]"

lemma lay_struct_netns_vsock [layouts]: "lay struct_netns_vsock = (24, 8)"
  by (simp add: struct_netns_vsock_def layouts lay_eval)

lemma wf_struct_netns_vsock [wf_types]: "wf_type struct_netns_vsock"
  by (simp add: struct_netns_vsock_def wf_types)

definition struct_netns_xdp :: ctype where
  "struct_netns_xdp =
    CStruct False
     [Field ''lock'' struct_mutex,
      Field ''list'' struct_hlist_head]"

lemma lay_struct_netns_xdp [layouts]: "lay struct_netns_xdp = (40, 8)"
  by (simp add: struct_netns_xdp_def layouts lay_eval)

lemma wf_struct_netns_xdp [wf_types]: "wf_type struct_netns_xdp"
  by (simp add: struct_netns_xdp_def wf_types)

definition struct_xfrm_policy_hash :: ctype where
  "struct_xfrm_policy_hash =
    CStruct False
     [Field ''table'' CPtr,
      Field ''hmask'' (CInt 4),
      Field ''dbits4'' t_u8,
      Field ''sbits4'' t_u8,
      Field ''dbits6'' t_u8,
      Field ''sbits6'' t_u8]"

lemma lay_struct_xfrm_policy_hash [layouts]: "lay struct_xfrm_policy_hash = (16, 8)"
  by (simp add: struct_xfrm_policy_hash_def layouts lay_eval)

lemma wf_struct_xfrm_policy_hash [wf_types]: "wf_type struct_xfrm_policy_hash"
  by (simp add: struct_xfrm_policy_hash_def wf_types)

definition struct_xfrm_policy_hthresh :: ctype where
  "struct_xfrm_policy_hthresh =
    CStruct False
     [Field ''work'' struct_work_struct,
      Field ''lock'' t_seqlock_t,
      Field ''lbits4'' t_u8,
      Field ''rbits4'' t_u8,
      Field ''lbits6'' t_u8,
      Field ''rbits6'' t_u8]"

lemma lay_struct_xfrm_policy_hthresh [layouts]: "lay struct_xfrm_policy_hthresh = (48, 8)"
  by (simp add: struct_xfrm_policy_hthresh_def layouts lay_eval)

lemma wf_struct_xfrm_policy_hthresh [wf_types]: "wf_type struct_xfrm_policy_hthresh"
  by (simp add: struct_xfrm_policy_hthresh_def wf_types)

definition struct_netns_xfrm :: ctype where
  "struct_netns_xfrm =
    CStruct False
     [Field ''state_all'' struct_list_head,
      Field ''state_bydst'' CPtr,
      Field ''state_bysrc'' CPtr,
      Field ''state_byspi'' CPtr,
      Field ''state_byseq'' CPtr,
      Field ''state_cache_input'' CPtr,
      Field ''state_hmask'' (CInt 4),
      Field ''state_num'' (CInt 4),
      Field ''state_hash_work'' struct_work_struct,
      Field ''policy_all'' struct_list_head,
      Field ''policy_byidx'' CPtr,
      Field ''policy_idx_hmask'' (CInt 4),
      Field ''idx_generator'' (CInt 4),
      Field ''policy_bydst'' (CArr struct_xfrm_policy_hash 3),
      Field ''policy_count'' (CArr (CInt 4) 6),
      Field ''policy_hash_work'' struct_work_struct,
      Field ''policy_hthresh'' struct_xfrm_policy_hthresh,
      Field ''inexact_bins'' struct_list_head,
      Field ''nlsk'' CPtr,
      Field ''nlsk_stash'' CPtr,
      Field ''sysctl_aevent_etime'' t_u32,
      Field ''sysctl_aevent_rseqth'' t_u32,
      Field ''sysctl_larval_drop'' (CInt 4),
      Field ''sysctl_acq_expires'' t_u32,
      Field ''policy_default'' (CArr t_u8 3),
      Field ''sysctl_hdr'' CPtr,
      Pad 8 64,
      Pad 8 64,
      Pad 8 64,
      Pad 8 64,
      Pad 8 64,
      Field ''xfrm4_dst_ops'' struct_dst_ops,
      Field ''xfrm6_dst_ops'' struct_dst_ops,
      Field ''xfrm_state_lock'' t_spinlock_t,
      Field ''xfrm_state_hash_generation'' t_seqcount_spinlock_t,
      Field ''xfrm_policy_hash_generation'' t_seqcount_spinlock_t,
      Field ''xfrm_policy_lock'' t_spinlock_t,
      Field ''xfrm_cfg_mutex'' struct_mutex,
      Field ''nat_keepalive_work'' struct_delayed_work,
      Pad 8 64,
      Pad 8 64,
      Pad 8 64,
      Pad 8 64,
      Pad 8 64,
      Pad 8 64,
      Pad 8 64]"

lemma lay_struct_netns_xfrm [layouts]: "lay struct_netns_xfrm = (960, 8)"
  by (simp add: struct_netns_xfrm_def layouts lay_eval)

lemma wf_struct_netns_xfrm [wf_types]: "wf_type struct_netns_xfrm"
  by (simp add: struct_netns_xfrm_def wf_types)

definition struct_raw_notifier_head :: ctype where
  "struct_raw_notifier_head =
    CStruct False
     [Field ''head'' CPtr]"

lemma lay_struct_raw_notifier_head [layouts]: "lay struct_raw_notifier_head = (8, 8)"
  by (simp add: struct_raw_notifier_head_def layouts lay_eval)

lemma wf_struct_raw_notifier_head [wf_types]: "wf_type struct_raw_notifier_head"
  by (simp add: struct_raw_notifier_head_def wf_types)

definition struct_net :: ctype where
  "struct_net =
    CStruct False
     [Field ''passive'' t_refcount_t,
      Field ''rules_mod_lock'' t_spinlock_t,
      Field ''dev_base_seq'' (CInt 4),
      Field ''ifindex'' t_u32,
      Field ''nsid_lock'' t_spinlock_t,
      Field ''fnhe_genid'' t_atomic_t,
      Field ''list'' struct_list_head,
      Field ''exit_list'' struct_list_head,
      Field ''defer_free_list'' struct_llist_node,
      Field ''cleanup_list'' struct_llist_node,
      Field ''ptype_all'' struct_list_head,
      Field ''ptype_specific'' struct_list_head,
      Field ''key_domain'' CPtr,
      Field ''user_ns'' CPtr,
      Field ''ucounts'' CPtr,
      Field ''netns_ids'' struct_idr,
      Pad 8 64,
      Pad 8 64,
      Pad 8 64,
      Pad 8 64,
      Pad 8 64,
      Field ''ns'' struct_ns_common,
      Field ''refcnt_tracker'' struct_ref_tracker_dir,
      Field ''notrefcnt_tracker'' struct_ref_tracker_dir,
      Field ''dev_base_head'' struct_list_head,
      Field ''proc_net'' CPtr,
      Field ''proc_net_stat'' CPtr,
      Field ''sysctls'' struct_ctl_table_set,
      Field ''rtnl'' CPtr,
      Field ''genl_sock'' CPtr,
      Field ''uevent_sock'' CPtr,
      Field ''dev_name_head'' CPtr,
      Field ''dev_index_head'' CPtr,
      Field ''dev_by_index'' struct_xarray,
      Field ''netdev_chain'' struct_raw_notifier_head,
      Field ''hash_mix'' t_u32,
      Field ''is_dying'' (CInt 1),
      Field ''loopback_dev'' CPtr,
      Field ''rules_ops'' struct_list_head,
      Field ''core'' struct_netns_core,
      Field ''mib'' struct_netns_mib,
      Field ''packet'' struct_netns_packet,
      Field ''unx'' struct_netns_unix,
      Field ''nexthop'' struct_netns_nexthop,
      Pad 8 64,
      Pad 8 64,
      Pad 8 64,
      Pad 8 64,
      Field ''ipv4'' struct_netns_ipv4,
      Field ''ipv6'' struct_netns_ipv6,
      Field ''ieee802154_lowpan'' struct_netns_ieee802154_lowpan,
      Field ''sctp'' struct_netns_sctp,
      Field ''nf'' struct_netns_nf,
      Field ''ct'' struct_netns_ct,
      Field ''nft'' struct_netns_nftables,
      Field ''ft'' struct_netns_ft,
      Field ''wext_nlevents'' struct_sk_buff_head,
      Field ''gen'' CPtr,
      Field ''bpf'' struct_netns_bpf,
      Pad 8 64,
      Pad 8 64,
      Pad 8 64,
      Field ''xfrm'' struct_netns_xfrm,
      Field ''net_cookie'' t_u64,
      Field ''ipvs'' CPtr,
      Field ''mpls'' struct_netns_mpls,
      Field ''can'' struct_netns_can,
      Field ''xdp'' struct_netns_xdp,
      Field ''mctp'' struct_netns_mctp,
      Field ''crypto_nlsk'' CPtr,
      Field ''diag_nlsk'' CPtr,
      Field ''smc'' struct_netns_smc,
      Field ''vsock'' struct_netns_vsock,
      Pad 8 64,
      Pad 8 64]"

lemma lay_struct_net [layouts]: "lay struct_net = (6336, 8)"
  by (simp add: struct_net_def layouts lay_eval)

lemma wf_struct_net [wf_types]: "wf_type struct_net"
  by (simp add: struct_net_def wf_types)

end
