(* ===== verification/RingBuffers.thy ===== *)
theory RingBuffers
  imports Wire BpfTypes
begin

text \<open>
  The three ring buffers between the probes and the agent: the maps as the probes declare
  them, how many records each can hold, and that the Go structs of the agent slice a record
  exactly at the members of the C structs.
\<close>

section \<open>The maps\<close>

text \<open>The anonymous enumeration of the ring buffer's constants.\<close>

definition enum_bpf_ringbuf :: enumerators where
  "enum_bpf_ringbuf =
    [(''BPF_RINGBUF_BUSY_BIT'', 2147483648), (''BPF_RINGBUF_DISCARD_BIT'', 1073741824),
     (''BPF_RINGBUF_HDR_SZ'', 8)]"

record map_def =
  map_type :: "int option"
  max_entries :: nat

definition rb_execve :: map_def where
  "rb_execve = \<lparr>map_type = enum_value enum_bpf_map_type ''BPF_MAP_TYPE_RINGBUF'',
     max_entries = 256 * 1024\<rparr>"

definition rb_open :: map_def where
  "rb_open = \<lparr>map_type = enum_value enum_bpf_map_type ''BPF_MAP_TYPE_RINGBUF'',
     max_entries = 256 * 1024\<rparr>"

definition rb_connect :: map_def where
  "rb_connect = \<lparr>map_type = enum_value enum_bpf_map_type ''BPF_MAP_TYPE_RINGBUF'',
     max_entries = 256 * 1024\<rparr>"

lemma rb_max_entries [simp]:
  "max_entries rb_execve = 262144" "max_entries rb_open = 262144" "max_entries rb_connect = 262144"
  by (simp_all add: rb_execve_def rb_open_def rb_connect_def)

lemma map_types [simp]:
  "map_type rb_execve = Some 27" "map_type rb_open = Some 27" "map_type rb_connect = Some 27"
  by (simp_all add: rb_execve_def rb_open_def rb_connect_def enum_value_def enum_bpf_map_type_def)

lemma ring_slot_hdr: "enum_value enum_bpf_ringbuf ''BPF_RINGBUF_HDR_SZ'' = Some (int hdr) \<Longrightarrow>
    ring_slot n = round_up 8 (n + hdr)"
  by (simp add: ring_slot_def enum_value_def enum_bpf_ringbuf_def)

lemma ring_slots [simp]: "ring_slot 536 = 544" "ring_slot 280 = 288" "ring_slot 52 = 64"
  by (simp_all add: ring_slot_def round_up_def)

section \<open>A burst of events\<close>

text \<open>The probe runs for each context in turn while the agent reads nothing.\<close>

definition burst :: "(sys_enter \<Rightarrow> ring \<Rightarrow> int \<times> ring) \<Rightarrow> sys_enter list \<Rightarrow> ring \<Rightarrow> ring" where
  "burst f ctxs rb = fold (\<lambda>ctx rb. snd (f ctx rb)) ctxs rb"

lemma burst_simps [simp]:
  "burst f [] rb = rb" "burst f (c # cs) rb = burst f cs (snd (f c rb))"
  by (simp_all add: burst_def)

lemma ring_used_same: "\<forall>e \<in> set rb. length e = n \<Longrightarrow> ring_used rb = length rb * ring_slot n"
  by (induction rb) (simp_all add: ring_used_def)

lemma ring_slot_pos: "0 < ring_slot n"
  using round_up_bounds(1) [of 8 "n + 8"] by (simp add: ring_slot_def)

text \<open>How many records of \<open>n\<close> bytes fit into a ring of \<open>cap\<close> bytes.\<close>

definition ring_records :: "nat \<Rightarrow> nat \<Rightarrow> nat" where
  "ring_records cap n = (cap - 1) div ring_slot n"

lemma ring_records_iff: "cap \<le> m * ring_slot n + ring_slot n \<longleftrightarrow> ring_records cap n \<le> m"
proof -
  have "cap \<le> m * ring_slot n + ring_slot n \<longleftrightarrow> cap - 1 < Suc m * ring_slot n"
    using ring_slot_pos [of n] by auto
  also have "\<dots> \<longleftrightarrow> ring_records cap n < Suc m"
    using ring_slot_pos [of n] by (simp add: div_less_iff_less_mult ring_records_def)
  finally show ?thesis by (simp only: less_Suc_eq_le)
qed

text \<open>
  What a probe promises of its ring: each run submits at most one record of \<open>n\<close> bytes, and
  none when there is no room for it.
\<close>

locale ring_probe =
  fixes f :: "sys_enter \<Rightarrow> ring \<Rightarrow> int \<times> ring" and n cap :: nat
  assumes at_most_one: "f ctx rb = (0, rb) \<or> (\<exists>e. length e = n \<and> f ctx rb = (0, rb @ [e]))"
    and full: "cap \<le> ring_used rb + ring_slot n \<Longrightarrow> f ctx rb = (0, rb)"
begin

lemma full_records:
  "\<forall>e \<in> set rb. length e = n \<Longrightarrow> ring_records cap n \<le> length rb \<Longrightarrow> f ctx rb = (0, rb)"
  by (rule full) (simp add: ring_used_same [of rb n] ring_records_iff)

lemma bounded_step:
  assumes "\<forall>e \<in> set rb. length e = n" and "length rb \<le> ring_records cap n"
  shows "(\<forall>e \<in> set (snd (f ctx rb)). length e = n) \<and> length (snd (f ctx rb)) \<le> ring_records cap n"
proof (cases "length rb = ring_records cap n")
  case True
  then show ?thesis using assms full_records [of rb ctx] by simp
next
  case False
  then show ?thesis using assms at_most_one [of ctx rb] by auto
qed

lemma burst_bounded:
  "\<forall>e \<in> set rb. length e = n \<Longrightarrow> length rb \<le> ring_records cap n \<Longrightarrow> length (burst f ctxs rb) \<le> ring_records cap n"
proof (induction ctxs arbitrary: rb)
  case (Cons ctx ctxs)
  then show ?case using bounded_step [OF Cons.prems] by simp
qed simp

end

text \<open>
  A probe that submits a record on every run that finds room; \<open>rel\<close> relates the context to
  the record.
\<close>

locale eager_probe = ring_probe +
  fixes rel :: "sys_enter \<Rightarrow> byte list \<Rightarrow> bool"
  assumes submits: "ring_used rb + ring_slot n < cap \<Longrightarrow>
      \<exists>e. rel ctx e \<and> length e = n \<and> f ctx rb = (0, rb @ [e])"
begin

lemma burst_exact:
  assumes "list_all2 rel cs rb" and "\<forall>e \<in> set rb. length e = n" and "length rb \<le> ring_records cap n"
  shows "list_all2 rel (take (ring_records cap n) (cs @ ctxs)) (burst f ctxs rb)"
  using assms
proof (induction ctxs arbitrary: cs rb)
  case Nil
  then show ?case by (simp add: list_all2_lengthD)
next
  case (Cons ctx ctxs)
  have len: "length cs = length rb" using Cons.prems(1) by (rule list_all2_lengthD)
  have used: "ring_used rb = length rb * ring_slot n" by (rule ring_used_same [OF Cons.prems(2)])
  show ?case
  proof (cases "length rb = ring_records cap n")
    case True
    then have "f ctx rb = (0, rb)" using full_records [OF Cons.prems(2)] by simp
    then show ?thesis using Cons.IH [OF Cons.prems] True len by simp
  next
    case False
    then have "ring_used rb + ring_slot n < cap"
      using ring_records_iff [of cap "length rb" n] Cons.prems(3) by (simp add: used flip: not_le)
    then obtain e where e: "rel ctx e" "length e = n" "f ctx rb = (0, rb @ [e])"
      using submits by blast
    then show ?thesis
      using Cons.IH [of "cs @ [ctx]" "rb @ [e]"] Cons.prems False
      by (simp add: list_all2_appendI)
  qed
qed

lemmas burst_from_empty = burst_exact [of "[]" "[]", simplified]

end

lemma execve_eager: "bpf_runtime h \<Longrightarrow> ring_bounded h cap \<Longrightarrow>
    eager_probe (handle_execve h) 536 cap (\<lambda>ctx e. e = exec_record h ctx)"
proof unfold_locales
  fix ctx rb
  assume h: "bpf_runtime h" and b: "ring_bounded h cap"
  note sub = bpf_runtime.handle_execve_record [OF h] and len = bpf_runtime.length_exec_record [OF h]
  show "handle_execve h ctx rb = (0, rb) \<or> (\<exists>e. length e = 536 \<and> handle_execve h ctx rb = (0, rb @ [e]))"
    using sub [of rb _ ctx] len [of ctx] handle_execve_full [of h rb ctx]
    by (cases "h_reserve h rb (sizeof struct_event)") auto
  show "handle_execve h ctx rb = (0, rb)" if "cap \<le> ring_used rb + ring_slot 536"
    using handle_execve_full [of h rb ctx] b that by (simp add: ring_bounded_def)
  show "\<exists>e. e = exec_record h ctx \<and> length e = 536 \<and> handle_execve h ctx rb = (0, rb @ [e])"
    if "ring_used rb + ring_slot 536 < cap"
    using sub [of rb _ ctx] len [of ctx] b that
    by (cases "h_reserve h rb (sizeof struct_event)") (auto simp: ring_bounded_def)
qed

lemma openat_eager: "bpf_runtime h \<Longrightarrow> ring_bounded h cap \<Longrightarrow>
    eager_probe (handle_openat h) 280 cap (\<lambda>ctx e. \<exists>e0. e = open_record h ctx e0)"
proof unfold_locales
  fix ctx rb
  assume h: "bpf_runtime h" and b: "ring_bounded h cap"
  note sub = bpf_runtime.handle_openat_record [OF h]
    and len = bpf_runtime.length_open_record [OF h bpf_runtime.reserve_length [OF h]]
  show "handle_openat h ctx rb = (0, rb) \<or> (\<exists>e. length e = 280 \<and> handle_openat h ctx rb = (0, rb @ [e]))"
    using sub [of rb _ ctx] len [of rb _ ctx] handle_openat_full [of h rb ctx]
    by (cases "h_reserve h rb (sizeof struct_open_event)") auto
  show "handle_openat h ctx rb = (0, rb)" if "cap \<le> ring_used rb + ring_slot 280"
    using handle_openat_full [of h rb ctx] b that by (simp add: ring_bounded_def)
  show "\<exists>e. (\<exists>e0. e = open_record h ctx e0) \<and> length e = 280 \<and> handle_openat h ctx rb = (0, rb @ [e])"
    if "ring_used rb + ring_slot 280 < cap"
    using sub [of rb _ ctx] len [of rb _ ctx] b that
    by (cases "h_reserve h rb (sizeof struct_open_event)") (auto simp: ring_bounded_def)
qed

text \<open>\<open>handle_connect\<close> may submit nothing, but what it submits has the size of the struct.\<close>

context bpf_runtime
begin

lemma handle_connect_cases:
  "handle_connect h ctx rb = (0, rb) \<or> (\<exists>e. length e = 52 \<and> handle_connect h ctx rb = (0, rb @ [e]))"
proof (cases "h_reserve h rb (sizeof struct_connect_event)")
  case None
  then show ?thesis using handle_connect_full by simp
next
  case (Some e0)
  have len0: "length e0 = 52" using reserve_length [OF Some] by simp
  let ?pid = "le_put 4 (ucast (drop_bit 32 (h_get_current_pid_tgid h)) :: u32)"
  let ?uid = "le_put 4 (ucast (h_get_current_uid_gid h AND 0xFFFFFFFF) :: u32)"
  note obj = connect_object(1) [where pid = ?pid and uid = ?uid, OF len0 length_le_put length_le_put]
  show ?thesis
    using Some obj
    by (auto simp: handle_connect_def Let_def ringbuf_submit_def set_field_def [of _ "''is_ipv6''"]
        set_field_def [of _ "''dst_addr''"] set_field_def [of _ "''dst_port''"]
        set_field_def [of _ "''ipv6_addr''"] get_field_def offsets helper_lengths)
qed

end

lemma connect_probe: "bpf_runtime h \<Longrightarrow> ring_bounded h cap \<Longrightarrow> ring_probe (handle_connect h) 52 cap"
  by unfold_locales
    (simp add: bpf_runtime.handle_connect_cases, simp add: handle_connect_full ring_bounded_def)

text \<open>The three probes over an explicit memory keep the promises.\<close>

interpretation xr: eager_probe "handle_execve (mem_helpers c)" 536 "rt_capacity c"
    "\<lambda>ctx e. e = exec_record (mem_helpers c) ctx" for c
  by (rule execve_eager [OF mh.bpf_runtime_axioms ring_bounded_mem_helpers])

interpretation opr: eager_probe "handle_openat (mem_helpers c)" 280 "rt_capacity c"
    "\<lambda>ctx e. \<exists>e0. e = open_record (mem_helpers c) ctx e0" for c
  by (rule openat_eager [OF mh.bpf_runtime_axioms ring_bounded_mem_helpers])

interpretation cr: ring_probe "handle_connect (mem_helpers c)" 52 "rt_capacity c" for c
  by (rule connect_probe [OF mh.bpf_runtime_axioms ring_bounded_mem_helpers])

lemma ring_capacities [simp]:
  "ring_records 262144 536 = 481" "ring_records 262144 280 = 910" "ring_records 262144 52 = 4095"
  by (simp_all add: ring_records_def)

lemma list_all2_map: "list_all2 (\<lambda>x y. y = g x) xs ys \<longleftrightarrow> ys = map g xs"
  by (induction xs arbitrary: ys) (auto simp: list_all2_Cons1)

section \<open>Properties\<close>

text \<open>
  C30: A burst of events is cut at the capacity of the ring: while the agent reads nothing,
  the execve ring keeps exactly the first 481 events, the openat ring the first 910, the
  connect ring at most 4095, and every later event is lost without a trace.
\<close>

theorem burst_cut:
  assumes "bpf_runtime h" and "ring_bounded h (max_entries rb_execve)"
    and "ring_bounded h (max_entries rb_open)" and "ring_bounded h (max_entries rb_connect)"
  shows "burst (handle_execve h) ctxs [] = map (exec_record h) (take 481 ctxs) \<and>
    length (burst (handle_openat h) ctxs []) = min (length ctxs) 910 \<and>
    length (burst (handle_connect h) ctxs []) \<le> 4095"
proof (intro conjI)
  show "burst (handle_execve h) ctxs [] = map (exec_record h) (take 481 ctxs)"
    using eager_probe.burst_from_empty [OF execve_eager [OF assms(1,2)], of ctxs]
    by (simp add: list_all2_map)
  show "length (burst (handle_openat h) ctxs []) = min (length ctxs) 910"
    using list_all2_lengthD [OF eager_probe.burst_from_empty [OF openat_eager [OF assms(1,3)], of ctxs]]
    by simp
  show "length (burst (handle_connect h) ctxs []) \<le> 4095"
    using ring_probe.burst_bounded [OF connect_probe [OF assms(1,4)], of "[]" ctxs] by simp
qed

text \<open>Five hundred times the same program.\<close>

theorem burst_cut_witness:
  "length (burst (handle_execve demo_exec) (replicate 500 (syscall_ctx 0x1000 0x2000)) []) = 481
   \<and> length (burst (handle_openat demo_exec) (replicate 1000 (syscall_ctx 0 0x1000)) []) = 910"
proof -
  have r: "ring_bounded demo_exec 262144"
    using ring_bounded_mem_helpers [of "demo_runtime s" for s] by (simp add: demo_exec_def demo_runtime_def)
  then show ?thesis
    using burst_cut [OF demo_exec_facts(1), of "replicate 500 (syscall_ctx 0x1000 0x2000)"]
      burst_cut [OF demo_exec_facts(1), of "replicate 1000 (syscall_ctx 0 0x1000)"]
    by simp
qed

text \<open>
  C29: The Go structs of the agent and the C structs of the probes are the same layout:
  \<open>binary.Read\<close>, which knows no padding, puts into every field of \<open>execEvent\<close>,
  \<open>openEvent\<close> and \<open>connectEvent\<close> the bytes of the C member of the same meaning, and it
  accepts every record of the size the probe reserves.
\<close>

theorem layouts_agree:
  assumes "length x = sizeof struct_event" and "length y = sizeof struct_open_event"
    and "length z = sizeof struct_connect_event"
  shows "read_execEvent x = Some \<lparr>xPid = le_get (get_field struct_event ''pid'' x),
      xUid = le_get (get_field struct_event ''uid'' x), xComm = get_field struct_event ''comm'' x,
      xFilename = get_field struct_event ''filename'' x,
      xArgs = map (\<lambda>i. load (offsetof struct_event ''args'' + i * ARG_SLOT_LEN) ARG_SLOT_LEN x)
        [0..<NUM_ARG_SLOTS]\<rparr> \<and>
    read_openEvent y = Some \<lparr>oPid = le_get (get_field struct_open_event ''pid'' y),
      oUid = le_get (get_field struct_open_event ''uid'' y),
      oComm = get_field struct_open_event ''comm'' y,
      oFilename = get_field struct_open_event ''filename'' y\<rparr> \<and>
    read_connectEvent z = Some \<lparr>cPid = le_get (get_field struct_connect_event ''pid'' z),
      cUid = le_get (get_field struct_connect_event ''uid'' z),
      cComm = get_field struct_connect_event ''comm'' z,
      cIsIPv6 = le_get (get_field struct_connect_event ''is_ipv6'' z),
      cIPv6Addr = get_field struct_connect_event ''ipv6_addr'' z,
      cDstAddr = le_get (get_field struct_connect_event ''dst_addr'' z),
      cDstPort = le_get (get_field struct_connect_event ''dst_port'' z)\<rparr>"
  using assms
  by (intro conjI)
    (simp_all add: read_execEvent_def read_openEvent_def read_connectEvent_def binary_read_def
      get_field_def offsets exec_macros load_def upt_rec)

theorem layouts_agree_witness:
  "cDstPort (the (read_connectEvent (replicate 48 0 @ [0x90, 0x1F, 0, 0]))) = 8080"
  using layouts_agree [of "replicate 536 0" "replicate 280 0" "replicate 48 0 @ [0x90, 0x1F, 0, 0]"]
  by (simp add: get_field_def offsets load_def)

end
