(* ===== verification/KernelObjects.thy ===== *)
theory KernelObjects
  imports NetTypes RingBuffers Pipeline
begin

text \<open>
  The kernel objects around the three probes, gathered from the layout theories: every
  member of each lies inside its object, and the name of a task passes the probes whole.
\<close>

definition kernel_objects :: "ctype list" where
  "kernel_objects =
    [struct_task_struct, struct_signal_struct, struct_sighand_struct, struct_cred, struct_pid,
     struct_pid_namespace, struct_user_namespace, struct_nsproxy, struct_files_struct,
     struct_fs_struct, struct_mm_struct, struct_vm_area_struct, struct_linux_binprm,
     struct_file, struct_inode, struct_super_block, struct_dentry, struct_page,
     struct_bpf_ringbuf_map, struct_bpf_map, struct_bpf_prog, struct_bpf_prog_aux,
     struct_trace_event_call, struct_pt_regs, struct_socket, struct_tcp_sock, struct_sk_buff,
     struct_css_set, struct_cgroup, struct_user_struct, struct_rq, struct_net_device,
     struct_net]"

lemma kernel_objects_wf: "list_all wf_type kernel_objects"
  by (simp add: kernel_objects_def wf_types)

text \<open>So each has a size that is a multiple of its alignment, and no member reaches past its end.\<close>

lemma kernel_members_in_bounds:
  assumes "t \<in> set kernel_objects" and "field_at t nm = Some (off, ft)"
  shows "alignof t dvd sizeof t \<and> off + sizeof ft \<le> sizeof t"
proof -
  have "wf_type t" using assms(1) kernel_objects_wf by (auto simp: list_all_iff)
  then show ?thesis using sizeof_align [of t] field_in_bounds [OF _ assms(2)] by simp
qed

lemma task_comm_at: "field_at struct_task_struct ''comm'' = Some (2416, CArr (CInt 1) 16)"
  by (simp add: struct_task_struct_def layouts lay_eval)

lemma task_comm_size: "field_size struct_task_struct ''comm'' = 16"
  by (simp add: field_size_def task_comm_at sizeof_def)

section \<open>Properties\<close>

text \<open>
  C38: The agent sees the whole name of a task, through each of the three probes: what the
  \<open>comm\<close> member of \<open>task_struct\<close> can hold fits the \<open>comm\<close> member of the record, so the event
  read from a submitted record carries the name uncut.
\<close>

theorem task_name_whole:
  assumes "p \<in> set probes" and "(progName p, rb, sec, prog) \<in> set programs" and "bpf_runtime h"
    and "\<And>b. h_get_current_comm h b = str_into name (replicate (length b) 0)"
    and "length name < field_size struct_task_struct ''comm''" and "0 \<notin> set name"
    and "snd (prog h x ring) = ring @ [e]"
  shows "\<exists>v. read_event (eventLabel p) e = Some v \<and> vComm v = string_of_bytes name"
proof -
  have "faithful (eventLabel p) h e"
    using program_of_probe [OF assms(1-3), of x ring] assms(7) by auto
  moreover have "comm_string h = string_of_bytes name"
    using assms(4-6) by (simp add: task_comm_size comm_string_def cstr_until_nul until_nul_str_into)
  ultimately show ?thesis by (auto simp: faithful_def read_event_def)
qed

theorem task_name_whole_witness:
  "\<exists>v. read_event ''EXEC'' (exec_record (mem_helpers (demo_runtime [])) (syscall_ctx 0 0)) = Some v
     \<and> vComm v = string_of_bytes (bytes_of_string ''curl'')"
proof -
  let ?h = "mem_helpers (demo_runtime [])"
    and ?p = "\<lparr>progName = ''handle_execve'', mapName = ''rb'', tpCategory = ''syscalls'',
      tpName = ''sys_enter_execve'', eventLabel = ''EXEC''\<rparr>"
  have "h_reserve ?h [] (sizeof struct_event) = Some (replicate 536 0xAA)" by simp
  then have r: "snd (handle_execve ?h (syscall_ctx 0 0) []) = [] @ [exec_record ?h (syscall_ctx 0 0)]"
    using bpf_runtime.handle_execve_record [OF mh.bpf_runtime_axioms, of "demo_runtime []" "[]"] by simp
  have "\<exists>v. read_event (eventLabel ?p) (exec_record ?h (syscall_ctx 0 0)) = Some v
      \<and> vComm v = string_of_bytes (bytes_of_string ''curl'')"
  proof (rule task_name_whole [where p = ?p and prog = handle_execve and h = ?h and ring = "[]",
        OF _ _ mh.bpf_runtime_axioms _ _ _ r])
    show "?p \<in> set probes" by (simp add: probes_def)
    show "(progName ?p, ''rb'', ''tp/syscalls/sys_enter_execve'', handle_execve) \<in> set programs"
      by (simp add: programs_def)
  qed (simp_all add: mem_helpers_def demo_runtime_def task_comm_size bytes_of_string_def byte_of_char_def)
  then show ?thesis by simp
qed

end
