(* ===== verification/Spec2Isabelle.thy ===== *)
theory Spec2Isabelle
  imports Pipeline Trail Progress Provenance ActionWindow KernelObjects
begin

text \<open>
  WatchBPF: three eBPF probes report \<open>execve\<close>, \<open>openat\<close> and \<open>connect\<close> through ring buffers to
  an agent.  The agent learns an allowlist of events, or filters by it: an event that is not
  on the list is put to a language model, and the score of the answer decides, under a
  policy, whether the process is stopped or killed and its peer blocked.  Every decision goes
  into a hash-chained audit log.

  \<^bold>\<open>The theories and the code they model\<close>

  \<^item> \<open>Prelude\<close>, \<open>Layout\<close>: byte memory with \<open>load\<close> and \<open>store\<close>, little-endian integers, and C
    types with the sizes, alignments and offsets of the LP64 ABI of the BPF target.
  \<^item> \<open>KernelTypes\<close>, \<open>TaskTypes\<close>, \<open>FileTypes\<close>, \<open>BpfTypes\<close>, \<open>SocketTypes\<close>, \<open>SchedTypes\<close>,
    \<open>NetTypes\<close>: declarations of \<open>bpf/vmlinux.h\<close>, one constant each (\<open>struct_X\<close>, \<open>union_X\<close>,
    \<open>enum_X\<close>, \<open>t_X\<close> for a typedef), members in the order of the header; a pointer is eight bytes,
    whatever it points to, so a theory holds the objects named in its head and all they
    hold by value.  Each has a lemma that computes its size and alignment.
  \<^item> \<open>Bpf\<close>: the tracepoint context, the ring buffer, and the kernel's helpers as the parameter
    \<open>bpf_helpers\<close>; the locale \<open>bpf_runtime\<close> has their documented behaviour, interpreted on
    \<open>mem_helpers\<close>, helpers over an explicit user memory.
  \<^item> \<open>Execve\<close>, \<open>Openat\<close>, \<open>Connect\<close>: the three probes \<open>bpf/*.bpf.c\<close>, statement by statement;
    the submitted record is computed byte for byte.  \<open>RingBuffers\<close>: their maps and capacity.
  \<^item> \<open>GoStrings\<close>, \<open>GoUtf8\<close>, \<open>GoJson\<close>, \<open>GoMarshal\<close>, \<open>GoFmt\<close>, \<open>GoTime\<close>, \<open>GoOs\<close>, \<open>Sha256\<close>: what the
    agent uses of Go's standard library: \<open>strconv\<close> and \<open>strings\<close>, UTF-8 repair,
    \<open>encoding/json\<close> both ways, \<open>%q\<close>, RFC 3339 times, files with their errors, and SHA-256.
  \<^item> \<open>Events\<close>: the event structs and the decoding in \<open>readLoop\<close> of \<open>cmd/watchbpf-agent/main.go\<close>.
    \<open>Wire\<close>: probe and decoder together.
  \<^item> \<open>Baseline\<close>: \<open>internal/baseline\<close>, the allowlist with its normalisation and its file.
  \<^item> \<open>Policy\<close>: \<open>internal/policy\<close>, \<open>Evaluate\<close> and the sliding window of \<open>allowAction\<close>, there a
    filter on a list; \<open>ActionWindow\<close> has the loop of the code, over the array it shares with
    the slice it builds, and shows that it computes that filter.
  \<^item> \<open>Enforce\<close>: \<open>internal/enforce\<close>; system calls are recorded as a list of effects.
  \<^item> \<open>AuditLog\<close>: \<open>internal/audit\<close>, \<open>Log\<close>, \<open>loadLastHash\<close> and \<open>VerifyChain\<close>.
  \<^item> \<open>Llm\<close>: \<open>internal/llm\<close> and the prompt of \<open>internal/embedded\<close>; the network is a function.
  \<^item> \<open>Config\<close>, \<open>Metrics\<close>: \<open>internal/config\<close>, \<open>internal/metrics\<close>.  \<open>Report\<close>: what \<open>main.go\<close>
    prints about events, one \<open>report\<close> for each print statement, and the text of those on the
    standard output.
  \<^item> \<open>Agent\<close>: \<open>main.go\<close>: the start, \<open>readLoop\<close>, \<open>handleEvent\<close> with its limiter and
    \<open>processLLM\<close> in stages.  The globals are the records \<open>Setup\<close> and \<open>Agent\<close>, whose fields
    \<open>effects\<close> and \<open>printed\<close> record what was done and reported; what the outside returns in a
    step is the record \<open>Outside\<close>.
  \<^item> \<open>Escalation\<close>, \<open>Response\<close>: what \<open>handleEvent\<close> and \<open>processLLM\<close> do, exactly.
  \<^item> \<open>Concurrent\<close>: readers, the goroutines of escalated events (\<open>job_step\<close>) and the saver as a
    step relation \<open>step\<close>, in which a reader handles an event in one step.  \<open>Interleaving\<close>: the
    readers operation by operation (\<open>fine_step\<close>; a mutex makes one operation on shared state one
    step), and why the coarser steps are enough.  \<open>Schedule\<close>: the same steps as a function,
    for statements about what happened before: \<open>perform\<close> does what one action of a list
    says, \<open>run_schedule\<close> all of them.  It is no code of the repository.
  \<^item> \<open>Provenance\<close>: each effect along a schedule traced back to the event that arrived and
    the answer about it, and the signals counted against the events.
  \<^item> \<open>Progress\<close>: the goroutines come to an end.  \<open>Accounting\<close>: the counters in every reachable
    state.  \<open>Trail\<close>: the audit log along every schedule.
  \<^item> \<open>Shutdown\<close>: the signal channel, the saver, the closers and the wait for the readers.
    \<open>Startup\<close>: the flags and the configuration put together with the running agent.  \<open>start\<close> is
    \<open>main\<close> up to the loop over the probes, \<open>attach_all\<close> that loop; it starts each reader before
    the next probe is attached.  The runs begin with all three readers, none at an event: a
    reader that is not started yet is one that has not taken anything, so the runs during
    the loop are among them, and so are the ones a failing probe cuts off.
  \<^item> \<open>Pipeline\<close>: all of it.  \<open>machine_step\<close> runs a probe on a system call, lets a reader take the
    oldest record of its ring buffer, lets the running agent perform any other action, or
    takes a step towards the end of \<open>main\<close>.  It projects to \<open>fine_step\<close> and to the events of
    \<open>Shutdown\<close>, and \<open>fine_step\<close> to \<open>step\<close>, by three instances of the locale \<open>simulation\<close>.
  \<^item> \<open>KernelObjects\<close>: facts about all kernel objects together, and the name of a task on its
    way from \<open>task_struct\<close> to the agent.

  \<^bold>\<open>What the lemmas show\<close>

  The path of an event: what a probe submits is what the system call was given (\<open>Wire\<close>), the
  layouts on both sides agree and unread rings drop the latest events (\<open>RingBuffers\<close>); which
  events are escalated, and that what was learned under a key in UTF-8 never is (\<open>Escalation\<close>); that an accepted
  answer is in bounds and the asked form is read exactly (\<open>Llm\<close>); when the agent may act
  (\<open>Policy\<close>) and what it then does and reports (\<open>Response\<close>), over all interleavings
  and for which event and which answer (\<open>Interleaving\<close>, \<open>Provenance\<close>); that the metrics account for every event (\<open>Accounting\<close>) and the
  goroutines end (\<open>Progress\<close>); that nothing is done without a system call of the process it is done to
  and no submitted record is lost on its way to the agent (\<open>Pipeline\<close>); that the audit file
  and the metrics agree at any moment, and the file verifies (\<open>Trail\<close>); that no reader is cut
  off in an event when \<open>main\<close> returns, while the goroutines are, and that the whole can come
  to rest (\<open>Pipeline\<close>).  The two limiters share the locale \<open>limiter\<close>, interpreted on
  \<open>allowAction\<close> in both its forms, on \<open>Evaluate\<close> and on \<open>escalate\<close>; the locale \<open>allowlist\<close> is the contract of the store,
  \<open>verifiable_log\<close> that of the audit log, \<open>ring_probe\<close> and \<open>eager_probe\<close> that of a probe and its
  ring.  \<open>AuditLog\<close> shows that every log the agent writes verifies, what a tampered one must
  exhibit, and the changes that go unnoticed.

  \<^bold>\<open>Bounds and fuel\<close>

  A job takes at most five steps (\<open>steps_left\<close>), a reader at most five per event
  (\<open>stages_left\<close>).  Machine integers of the probes and events are
  words of their width; Go's \<open>int\<close> is \<open>int\<close>, and the JSON decoder checks its range.  Times are
  nanoseconds.  The only fuel is that of
  the JSON parser, \<open>2 * n + 1\<close> for \<open>n\<close> tokens; \<open>parse_enough\<close> shows that more changes nothing.
  Nesting beyond the 10000 levels of Go's decoder is an error in the model as well.

  \<^bold>\<open>Not modelled\<close>

  The kernel's helpers and its ring buffer, the loading and attaching of the probes, the YAML
  decoder, HTTP and the \<open>nft\<close> command are parameters, each with what the code relies on.
  Which runes \<open>%q\<close> prints is a parameter as well.  Left out: the banner and the lines printed
  at the start and the end, the time stamps and texts of package \<open>log\<close>, the parsing of flags,
  the HTTP server of the metrics, the licence sections of the probes, attributes of
  \<open>vmlinux.h\<close> that only steer relocation, and its declarations that no object around the
  probes holds; deployment files.  SHA-256 is computed; that collisions are hard to find is
  not assumed, a theorem that needs it names the collision.
\<close>

end
